(* ===== verification/Json.thy ===== *)
theory Json
  imports Prelude
begin

section \<open>JSON values\<close>

text \<open>
  \<open>encoding/json\<close> values as the code handles them: \<open>map[string]any\<close> is \<^term>\<open>JObj\<close> with its members
  in text order (for a decoded document) or iteration order, \<open>[]any\<close> is \<^term>\<open>JArr\<close>. A JSON document
  is represented by the value it denotes, and a byte string that is not JSON by the absence of a
  value, so \<open>json.Unmarshal\<close> of \<open>raw\<close> is a case distinction on a value of type \<open>json option\<close>.
  The numbers the operator writes are integers.
\<close>

datatype json =
    JNull
  | JBool bool
  | JNum int
  | JStr string
  | JArr "json list"
  | JObj "(string \<times> json) list"

type_synonym jobj = "(string, json) gomap"

text \<open>The type assertions \<open>v.(map[string]any)\<close>, \<open>v.(string)\<close>, \<open>v.([]any)\<close>.\<close>

fun as_obj :: "json \<Rightarrow> jobj option" where
  "as_obj (JObj m) = Some m"
| "as_obj _ = None"

fun as_str :: "json \<Rightarrow> string option" where
  "as_str (JStr s) = Some s"
| "as_str _ = None"

fun as_arr :: "json \<Rightarrow> json list option" where
  "as_arr (JArr xs) = Some xs"
| "as_arr _ = None"

lemma as_obj_Some [simp]: "as_obj v = Some m \<longleftrightarrow> v = JObj m"
  by (cases v) auto

lemma as_str_Some [simp]: "as_str v = Some s \<longleftrightarrow> v = JStr s"
  by (cases v) auto

lemma as_arr_Some [simp]: "as_arr v = Some xs \<longleftrightarrow> v = JArr xs"
  by (cases v) auto

text \<open>\<open>m[k].(map[string]any)\<close>: the nested object at a key, if there is one.\<close>

definition obj_at :: "jobj \<Rightarrow> string \<Rightarrow> jobj option" where
  "obj_at m k = Option.bind (map_of m k) as_obj"

fun lookup_path :: "json \<Rightarrow> string list \<Rightarrow> json option" where
  "lookup_path v [] = Some v"
| "lookup_path v (k # ks) =
     (case v of JObj m \<Rightarrow> (case map_of m k of Some w \<Rightarrow> lookup_path w ks | None \<Rightarrow> None) | _ \<Rightarrow> None)"

lemma obj_at_Some: "obj_at m k = Some m' \<longleftrightarrow> map_of m k = Some (JObj m')"
  by (auto simp: obj_at_def Option.bind_eq_Some_conv)

lemma obj_at_update [simp]: "obj_at (AList.update k (JObj m') m) k = Some m'"
  "k \<noteq> k' \<Longrightarrow> obj_at (AList.update k v m) k' = obj_at m k'"
  by (simp_all add: obj_at_def)

end
