(* ===== verification/Api_Types.thy ===== *)
theory Api_Types
  imports Json
begin

section \<open>The Claw resource (\<open>src/api/v1alpha1/claw_types.go\<close>)\<close>

text \<open>
  The custom resource the operator reconciles. A Go pointer is an \<open>option\<close>, a
  \<open>runtime.RawExtension\<close> the JSON document it holds (\<^term>\<open>None\<close> for bytes that are not JSON), and one without bytes is an
  absent one, as the code treats it; the
  string-typed enumerations stay strings, since the code compares them as such and handles values
  outside the enumeration. Extra network policy rules are passed through by
  the operator untouched and are JSON values here.
\<close>

abbreviation (input) CredentialTypeAPIKey :: string where "CredentialTypeAPIKey \<equiv> ''apiKey''"
abbreviation (input) CredentialTypeBearer :: string where "CredentialTypeBearer \<equiv> ''bearer''"
abbreviation (input) CredentialTypeBasic :: string where "CredentialTypeBasic \<equiv> ''basic''"
abbreviation (input) CredentialTypeGCP :: string where "CredentialTypeGCP \<equiv> ''gcp''"
abbreviation (input) CredentialTypePathToken :: string where "CredentialTypePathToken \<equiv> ''pathToken''"
abbreviation (input) CredentialTypeOAuth2 :: string where "CredentialTypeOAuth2 \<equiv> ''oauth2''"
abbreviation (input) CredentialTypeNone :: string where "CredentialTypeNone \<equiv> ''none''"
abbreviation (input) CredentialTypeKubernetes :: string where "CredentialTypeKubernetes \<equiv> ''kubernetes''"

record SecretRefEntry =
  sr_Name :: string
  sr_Key :: string
  sr_Role :: string

record APIKeyConfig =
  apk_Header :: string
  apk_ValuePrefix :: string

record BasicAuthConfig =
  bac_Username :: string

record GCPConfig =
  gcp_Project :: string
  gcp_Location :: string

record PathTokenConfig =
  ptc_Prefix :: string

record OAuth2Config =
  oac_ClientID :: string
  oac_TokenURL :: string
  oac_Scopes :: "string list"

record CredentialSpec =
  cs_Name :: string
  cs_Type :: string
  cs_SecretRef :: "SecretRefEntry list"
  cs_Domain :: string
  cs_DefaultHeaders :: "(string, string) gomap"
  cs_APIKey :: "APIKeyConfig option"
  cs_Basic :: "BasicAuthConfig option"
  cs_GCP :: "GCPConfig option"
  cs_PathToken :: "PathTokenConfig option"
  cs_OAuth2 :: "OAuth2Config option"
  cs_Provider :: string
  cs_Channel :: string
  cs_ChannelConfig :: "json option option"
  cs_AllowedPaths :: "string list"

definition empty_CredentialSpec :: CredentialSpec where
  "empty_CredentialSpec = \<lparr>cs_Name = [], cs_Type = [], cs_SecretRef = [], cs_Domain = [],
     cs_DefaultHeaders = [], cs_APIKey = None, cs_Basic = None, cs_GCP = None, cs_PathToken = None,
     cs_OAuth2 = None, cs_Provider = [], cs_Channel = [], cs_ChannelConfig = None, cs_AllowedPaths = []\<rparr>"

record McpEnvFromSecret =
  ef_Name :: string
  ef_SecretRef :: SecretRefEntry

record McpServerSpec =
  mcp_Command :: string
  mcp_Args :: "string list"
  mcp_URL :: string
  mcp_Transport :: string
  mcp_Env :: "(string, string) gomap"
  mcp_EnvFrom :: "McpEnvFromSecret list"
  mcp_CredentialRef :: string

definition empty_McpServerSpec :: McpServerSpec where
  "empty_McpServerSpec = \<lparr>mcp_Command = [], mcp_Args = [], mcp_URL = [], mcp_Transport = [],
     mcp_Env = [], mcp_EnvFrom = [], mcp_CredentialRef = []\<rparr>"

record WebSearchSpec =
  ws_Provider :: string
  ws_SecretRef :: "SecretRefEntry option"
  ws_Config :: "json option option"

record WebFetchSpec =
  wf_Enabled :: bool

record GitHubRepoAccessSpec =
  gh_SecretRef :: SecretRefEntry
  gh_EnableAPIProxy :: "bool option"
  gh_EnableGitHTTPS :: "bool option"
  gh_ExposeEnv :: bool
  gh_EnvNames :: "string list"
  gh_AllowedRepositories :: "string list"

record RepoAccessSpec =
  ra_GitHub :: "GitHubRepoAccessSpec option"

record DreamingSpec =
  dr_Enabled :: "bool option"
  dr_Frequency :: string
  dr_Model :: string

record WikiSpec =
  wk_Enabled :: "bool option"
  wk_Mode :: string

record MemorySpec =
  mem_Dreaming :: "DreamingSpec option"
  mem_Wiki :: "WikiSpec option"

record AuthSpec =
  au_Mode :: string
  au_PasswordSecretRef :: "SecretRefEntry option"
  au_DisableDevicePairing :: "bool option"

record ConfigSpec =
  cfs_Raw :: "json option option"
  cfs_MergeMode :: string
  cfs_Management :: string

record MigrationSpec =
  mig_DoctorFix :: bool

record WorkspaceSpec =
  wsp_SkipBootstrap :: bool
  wsp_Files :: "(string, string) gomap"

record AgentFilesConfigMapRef =
  afc_Name :: string
  afc_Key :: string

record GitSecretRef =
  gsr_Name :: string

record AgentFilesGitSource =
  afg_URL :: string
  afg_Ref :: string
  afg_Path :: string
  afg_SecretRef :: "GitSecretRef option"

record AgentFilesSpec =
  af_ApplyPolicy :: string
  af_ConfigMapRef :: "AgentFilesConfigMapRef option"
  af_Git :: "AgentFilesGitSource option"
  af_ReadOnly :: "string list"

record PersonaRef =
  per_Name :: string

record RestrictionsSpec =
  rs_PersonaRef :: "PersonaRef option"
  rs_PluginInstallation :: "bool option"

record ServiceMonitorSpec =
  smon_Enabled :: "bool option"
  smon_Interval :: string

record MetricsSpec =
  me_Enabled :: bool
  me_Port :: "int option"
  me_ServiceMonitor :: "ServiceMonitorSpec option"

record TracesSpec =
  tr_Enabled :: bool
  tr_Endpoint :: string
  tr_SamplingRatio :: string

record LogsSpec =
  lg_Enabled :: bool
  lg_Endpoint :: string

record NetworkSpec =
  net_InClusterBypass :: "bool option"
  net_AdditionalEgress :: "json list"
  net_BuiltinPassthroughs :: "string list option"

record CustomModelEntry =
  cm_Name :: string
  cm_Alias :: string

record CustomProviderSpec =
  cp_Name :: string
  cp_BaseUrl :: string
  cp_API :: string
  cp_CredentialRef :: string
  cp_Models :: "CustomModelEntry list"

text \<open>A \<open>LocalObjectReference\<close> holds one name and is that name here.\<close>

record SkillImageSpec =
  si_Name :: string
  si_Image :: string
  si_PullPolicy :: string
  si_ImagePullSecrets :: "string list"

record SkillConfigMapRef =
  scm_Name :: string

record SkillsSpec =
  sk_Content :: "(string, string) gomap"
  sk_Images :: "SkillImageSpec list"
  sk_ConfigMaps :: "SkillConfigMapRef list"

text \<open>A \<open>resource.Quantity\<close> is the canonical text its \<open>String\<close> method prints.\<close>

record GatewayResourcesSpec =
  gr_Requests :: "(string, string) gomap"
  gr_Limits :: "(string, string) gomap"

record ClawSpec =
  sp_Image :: string
  sp_Config :: "ConfigSpec option"
  sp_Migration :: "MigrationSpec option"
  sp_Auth :: "AuthSpec option"
  sp_Credentials :: "CredentialSpec list"
  sp_CustomProviders :: "CustomProviderSpec list"
  sp_McpServers :: "(string, McpServerSpec) gomap"
  sp_WebSearch :: "WebSearchSpec option"
  sp_WebFetch :: "WebFetchSpec option"
  sp_Resources :: "GatewayResourcesSpec option"
  sp_RepoAccess :: "RepoAccessSpec option"
  sp_Metrics :: "MetricsSpec option"
  sp_Traces :: "TracesSpec option"
  sp_Logs :: "LogsSpec option"
  sp_Network :: "NetworkSpec option"
  sp_Plugins :: "string list"
  sp_Memory :: "MemorySpec option"
  sp_Workspace :: "WorkspaceSpec option"
  sp_AgentFiles :: "AgentFilesSpec option"
  sp_Skills :: "SkillsSpec option"
  sp_Restrictions :: "RestrictionsSpec option"
  sp_Idle :: bool
  sp_Version :: string
  sp_ServiceAccountName :: string

text \<open>\<open>metav1.Condition\<close>; times are seconds.\<close>

record Condition =
  co_Type :: string
  co_Status :: string
  co_ObservedGeneration :: int
  co_LastTransitionTime :: int
  co_Reason :: string
  co_Message :: string

record MigrationStatus =
  mst_DoctorFixImage :: string
  mst_DoctorFixJob :: string

record ClawStatus =
  st_Image :: string
  st_GatewayTokenSecretRef :: string
  st_Conditions :: "Condition list"
  st_URL :: string
  st_GatewayURL :: string
  st_LastDeployedVersion :: string
  st_Migration :: "MigrationStatus option"

text \<open>Of the object metadata the operator reads the name, the namespace, the generation and the annotations.\<close>

record Claw =
  cl_Name :: string
  cl_Namespace :: string
  cl_Generation :: int
  cl_Annotations :: "(string, string) gomap"
  cl_Spec :: ClawSpec
  cl_Status :: ClawStatus

definition empty_ClawSpec :: ClawSpec where
  "empty_ClawSpec = \<lparr>sp_Image = [], sp_Config = None, sp_Migration = None, sp_Auth = None, sp_Credentials = [],
     sp_CustomProviders = [], sp_McpServers = [], sp_WebSearch = None, sp_WebFetch = None, sp_Resources = None,
     sp_RepoAccess = None, sp_Metrics = None, sp_Traces = None, sp_Logs = None, sp_Network = None, sp_Plugins = [],
     sp_Memory = None, sp_Workspace = None, sp_AgentFiles = None, sp_Skills = None, sp_Restrictions = None,
     sp_Idle = False, sp_Version = [], sp_ServiceAccountName = []\<rparr>"

definition empty_ClawStatus :: ClawStatus where
  "empty_ClawStatus = \<lparr>st_Image = [], st_GatewayTokenSecretRef = [], st_Conditions = [], st_URL = [],
     st_GatewayURL = [], st_LastDeployedVersion = [], st_Migration = None\<rparr>"

text \<open>
  Secrets as the operator's reader returns them: a Secret that does not exist, a failed read, or the
  Secret's data.
\<close>

datatype secret_read = SecretNotFound | SecretReadError | SecretData "(string, string) gomap"

type_synonym secret_reader = "string \<Rightarrow> secret_read"

end
