(* ===== verification/Providers.thy ===== *)
theory Providers
  imports Api_Types
begin

section \<open>Model providers (\<open>src/internal/controller/claw_providers.go\<close>, \<open>claw_models.go\<close>)\<close>

text \<open>
  The table of known providers and the functions that complete a provider credential from it and
  derive its upstream. The lemmas say what a completed credential has, that explicit values win and
  that completing twice changes nothing.
\<close>

record modelEntry =
  mo_Name :: string
  mo_Alias :: string

record providerDefaults =
  pd_CredType :: string
  pd_Domain :: string
  pd_Header :: string
  pd_API :: string
  pd_VertexAPI :: string
  pd_BasePath :: string
  pd_Companions :: "string list"
  pd_VertexPlugin :: string
  pd_VertexPluginID :: string
  pd_PluginMinVersion :: string
  pd_Models :: "modelEntry list"
  pd_EmbeddingAdapter :: string

definition no_defaults :: providerDefaults where
  "no_defaults = \<lparr>pd_CredType = [], pd_Domain = [], pd_Header = [], pd_API = [], pd_VertexAPI = [],
     pd_BasePath = [], pd_Companions = [], pd_VertexPlugin = [], pd_VertexPluginID = [],
     pd_PluginMinVersion = [], pd_Models = [], pd_EmbeddingAdapter = []\<rparr>"

definition knownProviders :: "(string, providerDefaults) gomap" where
  "knownProviders =
     [(''google'', no_defaults\<lparr>
         pd_CredType := CredentialTypeAPIKey, pd_Domain := ''generativelanguage.googleapis.com'',
         pd_Header := ''x-goog-api-key'', pd_API := ''google-generative-ai'', pd_BasePath := ''/v1beta'',
         pd_EmbeddingAdapter := ''gemini'',
         pd_Models :=
           [\<lparr>mo_Name = ''gemini-3.5-flash'', mo_Alias = ''Gemini 3.5 Flash''\<rparr>,
            \<lparr>mo_Name = ''gemini-3.1-pro-preview'', mo_Alias = ''Gemini 3.1 Pro''\<rparr>,
            \<lparr>mo_Name = ''gemini-3.1-flash-lite'', mo_Alias = ''Gemini 3.1 Flash Lite''\<rparr>]\<rparr>),
      (''anthropic'', no_defaults\<lparr>
         pd_CredType := CredentialTypeAPIKey, pd_Domain := ''api.anthropic.com'', pd_Header := ''x-api-key'',
         pd_API := ''anthropic-messages'', pd_VertexAPI := ''anthropic-messages'',
         pd_VertexPlugin := ''@openclaw/anthropic-vertex-provider'', pd_VertexPluginID := ''anthropic-vertex'',
         pd_PluginMinVersion := ''2026.6.8'',
         pd_Models :=
           [\<lparr>mo_Name = ''claude-sonnet-4-6'', mo_Alias = ''Claude Sonnet 4.6''\<rparr>,
            \<lparr>mo_Name = ''claude-opus-4-8'', mo_Alias = ''Claude Opus 4.8''\<rparr>,
            \<lparr>mo_Name = ''claude-opus-4-7'', mo_Alias = ''Claude Opus 4.7''\<rparr>,
            \<lparr>mo_Name = ''claude-opus-4-6'', mo_Alias = ''Claude Opus 4.6''\<rparr>]\<rparr>),
      (''openai'', no_defaults\<lparr>
         pd_CredType := CredentialTypeBearer, pd_Domain := ''api.openai.com'', pd_BasePath := ''/v1'',
         pd_Companions := [''openai-codex''], pd_EmbeddingAdapter := ''openai'',
         pd_Models :=
           [\<lparr>mo_Name = ''gpt-5.5'', mo_Alias = ''GPT-5.5''\<rparr>,
            \<lparr>mo_Name = ''gpt-5.4'', mo_Alias = ''GPT-5.4''\<rparr>,
            \<lparr>mo_Name = ''gpt-5.4-mini'', mo_Alias = ''GPT-5.4 Mini''\<rparr>]\<rparr>),
      (''openai-codex'', no_defaults\<lparr>pd_API := ''openai-chatgpt-responses''\<rparr>),
      (''xai'', no_defaults\<lparr>
         pd_CredType := CredentialTypeBearer, pd_Domain := ''api.x.ai'', pd_BasePath := ''/v1'',
         pd_API := ''openai-responses'',
         pd_Models :=
           [\<lparr>mo_Name = ''grok-4.3'', mo_Alias = ''Grok 4.3''\<rparr>,
            \<lparr>mo_Name = ''grok-4.20'', mo_Alias = ''Grok 4.20''\<rparr>]\<rparr>),
      (''openrouter'', no_defaults\<lparr>
         pd_CredType := CredentialTypeBearer, pd_Domain := ''openrouter.ai'', pd_BasePath := ''/api/v1'',
         pd_Models :=
           [\<lparr>mo_Name = ''openai/gpt-5.5'', mo_Alias = ''GPT-5.5''\<rparr>,
            \<lparr>mo_Name = ''anthropic/claude-sonnet-4-6'', mo_Alias = ''Claude Sonnet 4.6''\<rparr>,
            \<lparr>mo_Name = ''google/gemini-3.5-flash'', mo_Alias = ''Gemini 3.5 Flash''\<rparr>]\<rparr>)]"

text \<open>Indexing the table gives the zero value for an unknown provider.\<close>

definition provider_defaults :: "string \<Rightarrow> providerDefaults" where
  "provider_defaults p = (case map_of knownProviders p of Some d \<Rightarrow> d | None \<Rightarrow> no_defaults)"

definition providerModelCatalog :: "string \<Rightarrow> modelEntry list" where
  "providerModelCatalog p = (case map_of knownProviders p of Some d \<Rightarrow> pd_Models d | None \<Rightarrow> [])"

definition canonicalProviderID :: "string \<Rightarrow> string" where
  "canonicalProviderID p = (if p = ''codex'' \<or> p = ''openai-codex'' then ''openai'' else p)"

definition usesVertexSDK :: "CredentialSpec \<Rightarrow> bool" where
  "usesVertexSDK c \<longleftrightarrow> cs_Type c = CredentialTypeGCP \<and> cs_Provider c \<noteq> [] \<and> cs_Provider c \<noteq> ''google''"

definition vertexAIBaseURL :: "string \<Rightarrow> string" where
  "vertexAIBaseURL location =
     (if location = ''global'' then ''https://aiplatform.googleapis.com''
      else ''https://'' @ location @ ''-aiplatform.googleapis.com'')"

definition buildProviderEntry :: "string \<Rightarrow> string \<Rightarrow> string \<Rightarrow> jobj" where
  "buildProviderEntry provider baseURL apiKey =
     (let entry = [(''baseUrl'', JStr baseURL), (''apiKey'', JStr apiKey), (''models'', JArr [])];
          api = pd_API (provider_defaults provider)
      in if api \<noteq> [] then AList.update ''api'' (JStr api) entry else entry)"

datatype credential_error =
    TypeRequired string string
  | DomainRequired string string string
  | APIKeyConfigRequired string
  | UnknownChannel string string
  | SecretRefRequired string string
  | CredSecretNotFound string string
  | CredSecretReadFailed string string
  | CredKeyNotFound string string string
  | KubeconfigInvalid string
  | DuplicateProvider string string string
  | MissingTypeConfig string string
  | DuplicateName string
  | CustomProviderDuplicate string
  | CustomProviderConflict string string
  | CustomProviderCredRef string string

text \<open>The three parts of \<open>resolveProviderDefaults\<close>: the type, the switch on it, the final checks.\<close>

definition infer_type :: "CredentialSpec \<Rightarrow> (credential_error, CredentialSpec) result" where
  "infer_type cred =
     (if cs_Type cred \<noteq> [] then Inr cred
      else if pd_CredType (provider_defaults (cs_Provider cred)) \<noteq> []
      then Inr (cred\<lparr>cs_Type := pd_CredType (provider_defaults (cs_Provider cred))\<rparr>)
      else Inl (TypeRequired (cs_Name cred) (cs_Provider cred)))"

definition default_domain :: "string \<Rightarrow> CredentialSpec \<Rightarrow> CredentialSpec" where
  "default_domain d cred = (if cs_Domain cred = [] then cred\<lparr>cs_Domain := d\<rparr> else cred)"

definition default_header :: "string \<Rightarrow> CredentialSpec \<Rightarrow> CredentialSpec" where
  "default_header h cred =
     (if cs_APIKey cred = None \<and> h \<noteq> []
      then cred\<lparr>cs_APIKey := Some \<lparr>apk_Header = h, apk_ValuePrefix = []\<rparr>\<rparr> else cred)"

definition default_fields :: "CredentialSpec \<Rightarrow> CredentialSpec" where
  "default_fields cred =
     (let defaults = provider_defaults (cs_Provider cred)
      in if cs_Type cred = CredentialTypeAPIKey then
           (if pd_Domain defaults \<noteq> []
            then default_header (pd_Header defaults) (default_domain (pd_Domain defaults) cred) else cred)
         else if cs_Type cred = CredentialTypeBearer then
           (if pd_Domain defaults \<noteq> [] then default_domain (pd_Domain defaults) cred else cred)
         else if cs_Type cred = CredentialTypeGCP then default_domain ''.googleapis.com'' cred
         else cred)"

definition check_fields :: "CredentialSpec \<Rightarrow> (credential_error, CredentialSpec) result" where
  "check_fields cred =
     (if cs_Type cred = CredentialTypeKubernetes then Inr cred
      else if cs_Domain cred = [] then Inl (DomainRequired (cs_Name cred) (cs_Provider cred) (cs_Type cred))
      else if cs_Type cred = CredentialTypeAPIKey \<and> cs_APIKey cred = None
      then Inl (APIKeyConfigRequired (cs_Name cred))
      else Inr cred)"

definition resolveProviderDefaults :: "CredentialSpec \<Rightarrow> (credential_error, CredentialSpec) result" where
  "resolveProviderDefaults cred =
     rbind (infer_type (cred\<lparr>cs_Provider := canonicalProviderID (cs_Provider cred)\<rparr>))
       (\<lambda>c. check_fields (default_fields c))"

record providerInfo =
  pi_Upstream :: string
  pi_BasePath :: string

definition resolveProviderInfo :: "CredentialSpec \<Rightarrow> providerInfo" where
  "resolveProviderInfo c =
     (case (if cs_Type c = CredentialTypeGCP then cs_GCP c else None) of
        Some g \<Rightarrow>
          \<lparr>pi_Upstream = vertexAIBaseURL (gcp_Location g),
           pi_BasePath = ''/v1/projects/'' @ gcp_Project g @ ''/locations/'' @ gcp_Location g @
             ''/publishers/'' @ cs_Provider c\<rparr>
      | None \<Rightarrow>
          (case map_of knownProviders (cs_Provider c) of
             Some d \<Rightarrow>
               if pd_BasePath d \<noteq> [] then
                 let domain = (if cs_Domain c = [] \<or> HasPrefix (cs_Domain c) ''.'' then pd_Domain d else cs_Domain c)
                 in \<lparr>pi_Upstream = ''https://'' @ domain, pi_BasePath = pd_BasePath d\<rparr>
               else \<lparr>pi_Upstream = ''https://'' @ TrimPrefix (cs_Domain c) ''.'', pi_BasePath = []\<rparr>
           | None \<Rightarrow> \<lparr>pi_Upstream = ''https://'' @ TrimPrefix (cs_Domain c) ''.'', pi_BasePath = []\<rparr>))"

subsection \<open>What completing a credential does\<close>

lemma canonicalProviderID_idem [simp]: "canonicalProviderID (canonicalProviderID p) = canonicalProviderID p"
  by (simp add: canonicalProviderID_def)

text \<open>Every provider of the table with a default type completes from its name alone.\<close>

lemma known_provider_resolves:
  "list_all (\<lambda>(p, d). pd_CredType d \<noteq> [] \<longrightarrow>
      is_ok (resolveProviderDefaults (empty_CredentialSpec\<lparr>cs_Provider := p\<rparr>))) knownProviders"
  by code_simp

text \<open>A completion sets some of type, domain and API key config, and only where they were unset.\<close>

definition completes :: "CredentialSpec \<Rightarrow> CredentialSpec \<Rightarrow> bool" where
  "completes c c' \<longleftrightarrow>
     c' = c\<lparr>cs_Type := cs_Type c', cs_Domain := cs_Domain c', cs_APIKey := cs_APIKey c'\<rparr> \<and>
     (cs_Type c \<noteq> [] \<longrightarrow> cs_Type c' = cs_Type c) \<and> (cs_Domain c \<noteq> [] \<longrightarrow> cs_Domain c' = cs_Domain c) \<and>
     (cs_APIKey c \<noteq> None \<longrightarrow> cs_APIKey c' = cs_APIKey c)"

lemma completes_refl [simp]: "completes c c"
  by (simp add: completes_def)

lemma completes_trans: "completes a b \<Longrightarrow> completes b c \<Longrightarrow> completes a c"
  by (cases a; cases b; cases c) (auto simp: completes_def)

lemma completes_default_domain: "completes c (default_domain d c)"
  by (simp add: completes_def default_domain_def)

lemma completes_default_header: "completes c (default_header h c)"
  by (simp add: completes_def default_header_def)

lemma completes_default_fields: "completes c (default_fields c)"
  by (auto simp: default_fields_def Let_def completes_default_domain
    intro: completes_trans [OF completes_default_domain completes_default_header])

lemma completes_infer_type: "infer_type c = Inr c' \<Longrightarrow> completes c c'"
  by (auto simp: infer_type_def completes_def split: if_splits)

lemma check_fields_Inr: "check_fields c = Inr c' \<longleftrightarrow> c' = c \<and>
    (cs_Type c = CredentialTypeKubernetes \<or>
     cs_Domain c \<noteq> [] \<and> (cs_Type c = CredentialTypeAPIKey \<longrightarrow> cs_APIKey c \<noteq> None))"
  by (auto simp: check_fields_def)

lemma default_fields_type [simp]: "cs_Type (default_fields c) = cs_Type c"
  "cs_Provider (default_fields c) = cs_Provider c"
  by (simp_all add: default_fields_def default_domain_def default_header_def Let_def)

lemma infer_type_typed: "infer_type c = Inr c' \<Longrightarrow> cs_Type c' \<noteq> []"
  by (auto simp: infer_type_def split: if_splits)

lemma resolveProviderDefaults_Inr:
  assumes "resolveProviderDefaults c = Inr c'"
  shows "completes (c\<lparr>cs_Provider := canonicalProviderID (cs_Provider c)\<rparr>) c' \<and> cs_Type c' \<noteq> [] \<and>
    (cs_Type c' = CredentialTypeKubernetes \<or>
     cs_Domain c' \<noteq> [] \<and> (cs_Type c' = CredentialTypeAPIKey \<longrightarrow> cs_APIKey c' \<noteq> None))"
proof -
  from assms obtain c1 where "infer_type (c\<lparr>cs_Provider := canonicalProviderID (cs_Provider c)\<rparr>) = Inr c1"
      and c': "check_fields (default_fields c1) = Inr c'"
    by (auto simp: resolveProviderDefaults_def rbind_eq_Inr)
  then show ?thesis
    using completes_trans [OF completes_infer_type completes_default_fields] infer_type_typed
    by (fastforce simp: check_fields_Inr)
qed

lemma completed_fixed:
  assumes "cs_Type c \<noteq> []"
    "cs_Type c = CredentialTypeKubernetes \<or>
     cs_Domain c \<noteq> [] \<and> (cs_Type c = CredentialTypeAPIKey \<longrightarrow> cs_APIKey c \<noteq> None)"
  shows "infer_type c = Inr c \<and> check_fields (default_fields c) = Inr c"
proof -
  have "default_fields c = c"
    using assms by (auto simp: default_fields_def default_domain_def default_header_def Let_def)
  with assms show ?thesis by (auto simp: infer_type_def check_fields_Inr)
qed

text \<open>
  Completing a provider credential. On success the credential has a type, a domain unless it is
  a kubernetes credential, and an API key configuration if it is an apiKey credential; every value
  the user wrote is kept, nothing else changes but the provider alias, and a second completion
  changes nothing.
\<close>

theorem resolveProviderDefaults_correct:
  assumes "resolveProviderDefaults c = Inr c'"
  shows "cs_Type c' \<noteq> [] \<and> (cs_Type c' \<noteq> CredentialTypeKubernetes \<longrightarrow> cs_Domain c' \<noteq> []) \<and>
    (cs_Type c' = CredentialTypeAPIKey \<longrightarrow> cs_APIKey c' \<noteq> None) \<and>
    completes (c\<lparr>cs_Provider := canonicalProviderID (cs_Provider c)\<rparr>) c' \<and>
    resolveProviderDefaults c' = Inr c'"
proof -
  note r = resolveProviderDefaults_Inr [OF assms]
  then have p: "cs_Provider c' = canonicalProviderID (cs_Provider c)"
    by (cases c; cases c') (auto simp: completes_def)
  then have "c'\<lparr>cs_Provider := canonicalProviderID (cs_Provider c')\<rparr> = c'" by (cases c') simp
  with r completed_fixed [of c'] have "resolveProviderDefaults c' = Inr c'"
    by (simp add: resolveProviderDefaults_def)
  with r show ?thesis by auto
qed

theorem resolveProviderDefaults_correct_witness:
  "\<exists>c'. resolveProviderDefaults (empty_CredentialSpec\<lparr>cs_Name := ''k'', cs_Provider := ''anthropic''\<rparr>) = Inr c' \<and>
     cs_Domain c' = ''api.anthropic.com'' \<and> cs_APIKey c' \<noteq> None"
proof -
  let ?c = "empty_CredentialSpec\<lparr>cs_Name := ''k'', cs_Provider := ''anthropic''\<rparr>"
  let ?c' = "?c\<lparr>cs_Type := ''apiKey'', cs_Domain := ''api.anthropic.com'',
    cs_APIKey := Some \<lparr>apk_Header = ''x-api-key'', apk_ValuePrefix = []\<rparr>\<rparr>"
  have "resolveProviderDefaults ?c = Inr ?c'" by code_simp
  with resolveProviderDefaults_correct [OF this] show ?thesis by auto
qed

end
