(* ===== verification/Json_Config.thy ===== *)
theory Json_Config
  imports Api_Types
begin

section \<open>Editing configuration trees (\<open>src/internal/controller/claw_config.go\<close>)\<close>

text \<open>
  The helpers every config injection goes through: the two deep merges, nested map creation, nested
  assignment, string lists, and the always-win infrastructure keys. Maps are mutable and shared in
  the source: \<open>ensureNestedMap\<close> returns the child map itself, so writing through the result changes
  the parent. \<open>in_nested\<close> is that idiom: create the child if it is missing and edit it in place.

  The locale \<open>deep_merge\<close> states what a deep merge promises at one key; its lemmas lift this to
  whole paths. \<open>deepMerge\<close> and \<open>deepMergeMap\<close> interpret it.
\<close>

named_theorems config_simps \<open>lookup after a config edit\<close>

fun deepMerge :: "jobj \<Rightarrow> jobj \<Rightarrow> jobj" where
  "deepMerge result [] = result"
| "deepMerge result ((k, v) # override) =
     deepMerge
       (AList.update k
          (case map_of result k of
             Some baseVal \<Rightarrow>
               (case baseVal of
                  JObj baseMap \<Rightarrow> (case v of JObj overMap \<Rightarrow> JObj (deepMerge baseMap overMap) | _ \<Rightarrow> v)
                | _ \<Rightarrow> v)
           | None \<Rightarrow> v) result)
       override"

text \<open>\<open>src/internal/controller/claw_channels.go\<close> has a second one, which looks at the new value first.\<close>

fun deepMergeMap :: "jobj \<Rightarrow> jobj \<Rightarrow> jobj" where
  "deepMergeMap result [] = result"
| "deepMergeMap result ((k, v) # src) =
     deepMergeMap
       (AList.update k
          (case v of
             JObj srcMap \<Rightarrow>
               (case map_of result k of
                  Some (JObj dstMap) \<Rightarrow> JObj (deepMergeMap dstMap srcMap)
                | _ \<Rightarrow> v)
           | _ \<Rightarrow> v) result)
       src"

definition nested_or_empty :: "jobj \<Rightarrow> string \<Rightarrow> jobj" where
  "nested_or_empty parent key = (case obj_at parent key of Some child \<Rightarrow> child | None \<Rightarrow> [])"

definition ensureNestedMap :: "jobj \<Rightarrow> string \<Rightarrow> jobj \<times> jobj" where
  "ensureNestedMap parent key =
     (case obj_at parent key of
        Some child \<Rightarrow> (child, parent)
      | None \<Rightarrow> ([], AList.update key (JObj []) parent))"

definition in_nested :: "string \<Rightarrow> (jobj \<Rightarrow> jobj) \<Rightarrow> jobj \<Rightarrow> jobj" where
  "in_nested key edit parent =
     (case ensureNestedMap parent key of
        (child, parent') \<Rightarrow> AList.update key (JObj (edit child)) parent')"

fun setNestedValue :: "jobj \<Rightarrow> json \<Rightarrow> string list \<Rightarrow> jobj" where
  "setNestedValue m val [] = m"
| "setNestedValue m val [k] = AList.update k val m"
| "setNestedValue m val (k # k' # ks) = in_nested k (\<lambda>child. setNestedValue child val (k' # ks)) m"

definition appendIfMissing :: "string list \<Rightarrow> string \<Rightarrow> string list" where
  "appendIfMissing slice val = (if val \<in> set slice then slice else slice @ [val])"

text \<open>A missing key reads as nil, which is no object and no list.\<close>

fun getStringSlice_at :: "json option \<Rightarrow> string list \<Rightarrow> string list" where
  "getStringSlice_at (Some (JArr arr)) [] = List.map_filter as_str arr"
| "getStringSlice_at _ [] = []"
| "getStringSlice_at (Some (JObj m)) (k # ks) = getStringSlice_at (map_of m k) ks"
| "getStringSlice_at _ (k # ks) = []"

definition getStringSlice :: "jobj \<Rightarrow> string list \<Rightarrow> string list" where
  "getStringSlice m keys = getStringSlice_at (Some (JObj m)) keys"

definition stringsToAny :: "string list \<Rightarrow> json list" where
  "stringsToAny ss = map JStr ss"

datatype config_error =
    RawConfigInvalid
  | ChannelConfigInvalid string
  | ChannelKeyProtected string string
  | ConfigUnknownChannel string string
  | DuplicateChannel string string string
  | ConfigMissingCredential string string
  | SearchConfigInvalid
  | DuplicateProviderKey string
  | CustomProviderKeyConflict string
  | NilGCPConfig string

definition parseUserRawConfig :: "Claw \<Rightarrow> (config_error, jobj) result" where
  "parseUserRawConfig instance =
     (case sp_Config (cl_Spec instance) of
        None \<Rightarrow> Inr []
      | Some c \<Rightarrow>
          (case cfs_Raw c of
             None \<Rightarrow> Inr []
           | Some None \<Rightarrow> Inl RawConfigInvalid
           | Some (Some JNull) \<Rightarrow> Inr []
           | Some (Some (JObj m)) \<Rightarrow> Inr m
           | Some (Some _) \<Rightarrow> Inl RawConfigInvalid))"

abbreviation configKeyGateway :: string where "configKeyGateway \<equiv> ''gateway''"
abbreviation configKeyControlUI :: string where "configKeyControlUI \<equiv> ''controlUi''"

definition gatewayPort :: int where
  "gatewayPort = 18789"

definition enforceInfrastructureKeys :: "jobj \<Rightarrow> jobj" where
  "enforceInfrastructureKeys config =
     in_nested configKeyGateway (\<lambda>gateway.
       in_nested configKeyControlUI (AList.update ''enabled'' (JBool True))
         (AList.update ''port'' (JNum gatewayPort)
           (AList.update ''bind'' (JStr ''lan'') (AList.update ''mode'' (JStr ''local'') gateway)))) config"

definition disableUpdateCheck :: "jobj \<Rightarrow> jobj" where
  "disableUpdateCheck config = setNestedValue config (JBool False) [''update'', ''checkOnStart'']"

definition enforceTrustedProxies :: "jobj \<Rightarrow> jobj" where
  "enforceTrustedProxies config =
     (let existing = getStringSlice config [configKeyGateway, ''trustedProxies''];
          existing = appendIfMissing existing ''10.0.0.0/8'';
          existing = appendIfMissing existing ''172.16.0.0/12''
      in in_nested configKeyGateway (AList.update ''trustedProxies'' (JArr (stringsToAny existing))) config)"

definition skipDefaultPersonality :: "jobj \<Rightarrow> jobj" where
  "skipDefaultPersonality config =
     setNestedValue config (JArr [JStr ''SOUL.md'', JStr ''IDENTITY.md''])
       [''agents'', ''defaults'', ''skipOptionalBootstrapFiles'']"

subsection \<open>Nested edits\<close>

lemma map_of_in_nested [config_simps]:
  "map_of (in_nested k f m) = (map_of m)(k \<mapsto> JObj (f (nested_or_empty m k)))"
  by (auto simp: in_nested_def ensureNestedMap_def nested_or_empty_def split: option.split)

lemma nested_or_empty_in_nested [config_simps]:
  "nested_or_empty (in_nested k f m) j = (if j = k then f (nested_or_empty m k) else nested_or_empty m j)"
  by (simp add: nested_or_empty_def obj_at_def map_of_in_nested)

lemma nested_or_empty_update [config_simps]:
  "nested_or_empty (AList.update k v m) j =
     (if j = k then (case v of JObj c \<Rightarrow> c | _ \<Rightarrow> []) else nested_or_empty m j)"
  by (auto simp: nested_or_empty_def obj_at_def split: json.split)

text \<open>A nested assignment is read back at its path, and paths that branch off elsewhere are untouched.\<close>

lemma lookup_path_set: "ks \<noteq> [] \<Longrightarrow> lookup_path (JObj (setNestedValue m v ks)) ks = Some v"
  by (induction m v ks rule: setNestedValue.induct) (simp_all add: map_of_in_nested)

lemma lookup_path_set_other:
  assumes "\<not> prefix ks js" "\<not> prefix js ks" "lookup_path (JObj m) js = Some w"
  shows "lookup_path (JObj (setNestedValue m v ks)) js = Some w"
  using assms
proof (induction m v ks arbitrary: js rule: setNestedValue.induct)
  case (2 m val k)
  then show ?case by (cases js) (auto split: if_splits)
next
  case (3 m val k k' ks)
  obtain j js' where js: "js = j # js'" using 3 by (cases js) auto
  show ?case
  proof (cases "j = k")
    case True
    with 3 js obtain c where "map_of m k = Some c" "lookup_path c js' = Some w" by (auto split: option.splits)
    moreover from this 3 js True have "js' \<noteq> []" by auto
    ultimately have "nested_or_empty m k = (case c of JObj d \<Rightarrow> d | _ \<Rightarrow> [])"
        "lookup_path (JObj (nested_or_empty m k)) js' = Some w"
      by (cases js'; auto simp: nested_or_empty_def obj_at_def split: json.splits)+
    with 3 js True show ?thesis by (simp add: map_of_in_nested)
  next
    case False
    with 3 js show ?thesis by (simp add: map_of_in_nested)
  qed
qed auto

subsection \<open>Deep merging\<close>

fun wf_json :: "json \<Rightarrow> bool" where
  "wf_json (JObj m) \<longleftrightarrow> distinct (map fst m) \<and> list_all (\<lambda>(k, v). wf_json v) m"
| "wf_json (JArr xs) \<longleftrightarrow> list_all wf_json xs"
| "wf_json _ \<longleftrightarrow> True"

lemma wf_json_member: "wf_json (JObj m) \<Longrightarrow> map_of m k = Some v \<Longrightarrow> wf_json v"
  by (auto simp: list_all_iff dest!: map_of_SomeD)

text \<open>What merging leaves at a key, from what the two maps have there.\<close>

fun merged_value :: "(jobj \<Rightarrow> jobj \<Rightarrow> jobj) \<Rightarrow> json option \<Rightarrow> json option \<Rightarrow> json option" where
  "merged_value f b None = b"
| "merged_value f (Some (JObj bm)) (Some (JObj om)) = Some (JObj (f bm om))"
| "merged_value f b (Some v) = Some v"

locale deep_merge =
  fixes merge :: "jobj \<Rightarrow> jobj \<Rightarrow> jobj"
  assumes lookup_merge:
    "distinct (map fst ov) \<Longrightarrow> map_of (merge base ov) k = merged_value merge (map_of base k) (map_of ov k)"
begin

lemma override_wins:
  assumes "wf_json (JObj ov)" "lookup_path (JObj ov) ks = Some v" "as_obj v = None"
  shows "lookup_path (JObj (merge base ov)) ks = Some v"
  using assms
proof (induction ks arbitrary: base ov)
  case (Cons k ks)
  from Cons.prems obtain w where w: "map_of ov k = Some w" "lookup_path w ks = Some v"
    by (auto split: option.splits)
  have m: "map_of (merge base ov) k = merged_value merge (map_of base k) (Some w)"
    using Cons.prems(1) w by (simp add: lookup_merge)
  show ?case
  proof (cases "\<exists>bm om. map_of base k = Some (JObj bm) \<and> w = JObj om")
    case True
    then obtain bm om where b: "map_of base k = Some (JObj bm)" "w = JObj om" by blast
    moreover have "wf_json (JObj om)" using wf_json_member [OF Cons.prems(1) w(1)] b by simp
    ultimately show ?thesis using Cons.IH [of om bm] w m Cons.prems(3) by simp
  next
    case False
    then have "merged_value merge (map_of base k) (Some w) = Some w"
      by (cases "(merge, map_of base k, Some w)" rule: merged_value.cases) auto
    with m w show ?thesis by simp
  qed
qed auto

lemma base_kept:
  assumes "wf_json (JObj ov)" "lookup_path (JObj base) ks = Some v"
    "\<And>js. prefix js ks \<Longrightarrow> js \<noteq> [] \<Longrightarrow> lookup_path (JObj ov) js \<in> {None} \<union> Some ` range JObj"
    "lookup_path (JObj ov) ks = None"
  shows "lookup_path (JObj (merge base ov)) ks = Some v"
  using assms
proof (induction ks arbitrary: base ov)
  case (Cons k ks)
  from Cons.prems obtain w where w: "map_of base k = Some w" "lookup_path w ks = Some v"
    by (auto split: option.splits)
  have m: "map_of (merge base ov) k = merged_value merge (Some w) (map_of ov k)"
    using Cons.prems(1) w by (simp add: lookup_merge)
  show ?case
  proof (cases "map_of ov k")
    case None
    with m w show ?thesis by simp
  next
    case (Some u)
    with Cons.prems(3) [of "[k]"] obtain om where om: "u = JObj om" by auto
    with Some Cons.prems(4) have "ks \<noteq> []" by auto
    with w obtain bm where bm: "w = JObj bm" by (cases ks; cases w) auto
    have "lookup_path (JObj (merge bm om)) ks = Some v"
    proof (rule Cons.IH)
      show "wf_json (JObj om)" using wf_json_member [OF Cons.prems(1) Some] om by simp
      show "lookup_path (JObj om) js \<in> {None} \<union> Some ` range JObj" if "prefix js ks" "js \<noteq> []" for js
        using Cons.prems(3) [of "k # js"] that Some om by simp
    qed (use w bm Some om Cons.prems(4) in auto)
    with m Some om bm show ?thesis by simp
  qed
qed auto

end

lemma deepMerge_lookup:
  "distinct (map fst ov) \<Longrightarrow> map_of (deepMerge base ov) k = merged_value deepMerge (map_of base k) (map_of ov k)"
proof (induction ov arbitrary: base)
  case (Cons e ov)
  obtain j v where e: "e = (j, v)" by (cases e)
  with Cons.prems have j: "map_of ov j = None" by (simp add: map_of_eq_None_iff)
  show ?case
  proof (cases "k = j")
    case True
    with Cons e j show ?thesis
      by (cases "(deepMerge, map_of base j, Some v)" rule: merged_value.cases) (auto split: option.splits json.splits)
  next
    case False
    with Cons e show ?thesis by simp
  qed
qed simp

lemma deepMergeMap_eq_deepMerge: "deepMergeMap dst src = deepMerge dst src"
proof (induction dst src rule: deepMergeMap.induct)
  case (2 result k v src)
  then show ?case by (auto split: json.splits option.splits)
qed simp

interpretation user_merge: deep_merge deepMerge
  by unfold_locales (rule deepMerge_lookup)

interpretation channel_merge: deep_merge deepMergeMap
proof -
  have "deepMergeMap = deepMerge" by (intro ext) (rule deepMergeMap_eq_deepMerge)
  then show "deep_merge deepMergeMap" by (simp only: user_merge.deep_merge_axioms)
qed

end
