(* ===== verification/GoStd.thy ===== *)
theory GoStd
  imports Prelude
begin

section \<open>The standard library functions the code calls\<close>

text \<open>
  \<open>path.Clean\<close>, \<open>net.SplitHostPort\<close>, \<open>textproto.CanonicalMIMEHeaderKey\<close>, \<open>strconv.Atoi\<close> and the
  standard base64 encoding, each as the Go standard library defines it, with the facts about them
  that the components use: a cleaned rooted path has no empty, dot or dot-dot element, cleaning is
  idempotent, a header key is canonicalised once and for all, base64 decoding inverts encoding.
\<close>

subsection \<open>path.Clean\<close>

text \<open>
  \<open>path.Clean\<close> drops empty and dot elements, lets a dot-dot element cancel the element before it,
  and keeps leading dot-dot elements of a relative path only. The accumulator is the output read
  backwards; its last element can be backtracked over unless it is itself dot-dot.
\<close>

fun clean_comps :: "bool \<Rightarrow> string list \<Rightarrow> string list \<Rightarrow> string list" where
  "clean_comps rooted acc [] = rev acc"
| "clean_comps rooted acc (c # cs) =
     (if c = [] \<or> c = ''.'' then clean_comps rooted acc cs
      else if c = ''..'' then
        (case acc of
           [] \<Rightarrow> clean_comps rooted (if rooted then [] else [''..'']) cs
         | a # as \<Rightarrow>
             if a = ''..'' then clean_comps rooted (''..'' # acc) cs
             else clean_comps rooted as cs)
      else clean_comps rooted (c # acc) cs)"

definition rooted_path :: "string \<Rightarrow> bool" where
  "rooted_path p \<longleftrightarrow> (case p of [] \<Rightarrow> False | c # _ \<Rightarrow> c = CHR ''/'')"

definition path_comps :: "string \<Rightarrow> string list" where
  "path_comps p = clean_comps (rooted_path p) [] (SplitByte (CHR ''/'') p)"

definition Clean :: "string \<Rightarrow> string" where
  "Clean p =
     (if rooted_path p then CHR ''/'' # Join ''/'' (path_comps p)
      else if path_comps p = [] then ''.''
      else Join ''/'' (path_comps p))"

definition real_elem :: "string \<Rightarrow> bool" where
  "real_elem c \<longleftrightarrow> c \<noteq> [] \<and> c \<noteq> ''.'' \<and> c \<noteq> ''..'' \<and> CHR ''/'' \<notin> set c"

lemma real_elemD:
  assumes "real_elem c" shows "c \<noteq> []" "c \<noteq> ''..''" "CHR ''/'' \<notin> set c"
  using assms by (simp_all add: real_elem_def)

lemma list_all_real_elemD:
  assumes "list_all real_elem cs" "c \<in> set cs"
  shows "c \<noteq> []" "c \<noteq> ''..''" "CHR ''/'' \<notin> set c"
  using assms real_elemD by (auto simp: list_all_iff)

lemma list_all_real_no_sep: "list_all real_elem cs \<Longrightarrow> \<forall>c \<in> set cs. CHR ''/'' \<notin> set c"
  using list_all_real_elemD(3) by blast

lemma rooted_path_Cons [simp]:
  "rooted_path [] = False" "rooted_path (c # p) = (c = CHR ''/'')"
  by (simp_all add: rooted_path_def)

lemma clean_comps_real:
  "list_all real_elem cs \<Longrightarrow> clean_comps r acc cs = rev acc @ cs"
  by (induction cs arbitrary: acc) (auto simp: real_elem_def)

lemma clean_comps_rooted:
  assumes "list_all real_elem acc" and "\<forall>c \<in> set cs. CHR ''/'' \<notin> set c"
  shows "list_all real_elem (clean_comps True acc cs)"
  using assms
proof (induction cs arbitrary: acc)
  case (Cons c cs)
  then show ?case by (cases acc) (auto simp: real_elem_def)
qed (simp add: list_all_iff)

lemma path_comps_rooted: "rooted_path p \<Longrightarrow> list_all real_elem (path_comps p)"
  unfolding path_comps_def by (simp add: clean_comps_rooted SplitByte_no_sep)

text \<open>A relative path cleans to dot-dot elements followed by real ones.\<close>

definition updots :: "string list \<Rightarrow> bool" where
  "updots cs \<longleftrightarrow> (\<exists>n ds. cs = replicate n ''..'' @ ds \<and> list_all real_elem ds)"

lemma updots_snoc_real: "updots cs \<Longrightarrow> real_elem c \<Longrightarrow> updots (cs @ [c])"
  unfolding updots_def
proof (elim exE conjE)
  fix n ds
  assume "cs = replicate n ''..'' @ ds" "list_all real_elem ds" "real_elem c"
  then show "\<exists>n ds. cs @ [c] = replicate n ''..'' @ ds \<and> list_all real_elem ds"
    by (intro exI [of _ n] exI [of _ "ds @ [c]"]) simp
qed

lemma updots_elem: "updots cs \<Longrightarrow> c \<in> set cs \<Longrightarrow> c \<noteq> [] \<and> CHR ''/'' \<notin> set c"
  unfolding updots_def
proof (elim exE conjE)
  fix n ds
  assume "c \<in> set cs" "cs = replicate n ''..'' @ ds" and ds: "list_all real_elem ds"
  then consider "c = ''..''" | "c \<in> set ds" by (auto split: if_splits)
  then show "c \<noteq> [] \<and> CHR ''/'' \<notin> set c"
    by cases (simp_all add: list_all_real_elemD [OF ds])
qed

lemma updots_snoc_up:
  assumes "updots (cs @ [''..''])" shows "updots (cs @ [''..'', ''..''])"
proof -
  from assms obtain n ds where eq: "cs @ [''..''] = replicate n ''..'' @ ds"
    and ds: "list_all real_elem ds" by (auto simp: updots_def)
  have "ds = []"
  proof (rule ccontr)
    assume "ds \<noteq> []"
    with eq have "last ds = ''..''" by (metis last_appendR last_snoc)
    with ds \<open>ds \<noteq> []\<close> show False using list_all_real_elemD(2) [OF ds last_in_set] by simp
  qed
  with eq have "cs @ [''..''] = replicate n ''..''" by simp
  then have "cs @ [''..'', ''..''] = replicate (Suc n) ''..''"
    by (metis append.assoc append_Cons append_Nil replicate_Suc replicate_append_same)
  then show ?thesis unfolding updots_def by (intro exI [of _ "Suc n"] exI [of _ "[]"]) simp
qed

lemma updots_butlast: "updots (cs @ [c]) \<Longrightarrow> c \<noteq> ''..'' \<Longrightarrow> updots cs"
proof -
  assume u: "updots (cs @ [c])" and c: "c \<noteq> ''..''"
  from u obtain n ds where eq: "cs @ [c] = replicate n ''..'' @ ds"
    and ds: "list_all real_elem ds" by (auto simp: updots_def)
  have "ds \<noteq> []"
  proof
    assume "ds = []"
    with eq have "c \<in> set (replicate n ''..'')" by (metis append_Nil2 in_set_conv_decomp)
    with c show False by (simp split: if_splits)
  qed
  then obtain es where es: "ds = es @ [c]" using eq by (metis append_butlast_last_id last_appendR last_snoc)
  with eq have "cs = replicate n ''..'' @ es" by simp
  with ds es show "updots cs" unfolding updots_def by auto
qed

lemma clean_comps_updots:
  assumes "updots (rev acc)" and "\<forall>c \<in> set cs. CHR ''/'' \<notin> set c"
  shows "updots (clean_comps False acc cs)"
  using assms
proof (induction cs arbitrary: acc)
  case (Cons c cs)
  consider "c = [] \<or> c = ''.''" | "c = ''..''" | "real_elem c"
    using Cons.prems(2) by (auto simp: real_elem_def)
  then show ?case
  proof cases
    case 2
    show ?thesis
    proof (cases acc)
      case Nil
      have "updots [''..'']" unfolding updots_def by (intro exI [of _ 1] exI [of _ "[]"]) simp
      with Nil Cons 2 show ?thesis by simp
    next
      case (Cons a as)
      with Cons.prems(1) have "a = ''..'' \<Longrightarrow> updots (rev (''..'' # acc))"
        using updots_snoc_up [of "rev as"] by simp
      moreover from Cons Cons.prems(1) have "a \<noteq> ''..'' \<Longrightarrow> updots (rev as)"
        using updots_butlast [of "rev as" a] by simp
      ultimately show ?thesis using Cons 2 Cons.IH Cons.prems(2) by auto
    qed
  next
    case 3
    with Cons.prems(1) have "updots (rev (c # acc))" by (simp add: updots_snoc_real)
    with Cons 3 show ?thesis by (auto simp: real_elem_def)
  qed (use Cons in auto)
qed simp

lemma clean_comps_ups: "clean_comps False (replicate m ''..'') (replicate n ''..'' @ ds) =
    clean_comps False (replicate (m + n) ''..'') ds"
proof (induction n arbitrary: m)
  case (Suc n)
  have "clean_comps False (replicate m ''..'') (replicate (Suc n) ''..'' @ ds) =
      clean_comps False (replicate (Suc m) ''..'') (replicate n ''..'' @ ds)"
    by (cases m) simp_all
  also have "\<dots> = clean_comps False (replicate (Suc m + n) ''..'') ds" by (rule Suc.IH)
  finally show ?case by simp
qed simp

lemma clean_comps_updots_id: "updots cs \<Longrightarrow> clean_comps False [] cs = cs"
  using clean_comps_ups [of 0] by (auto simp: updots_def clean_comps_real)

lemma path_comps_relative: "\<not> rooted_path p \<Longrightarrow> updots (path_comps p)"
  unfolding path_comps_def
  using clean_comps_updots [of "[]"] by (simp add: updots_def SplitByte_no_sep)

lemma real_elem_no_sep: "real_elem c \<Longrightarrow> CHR ''/'' \<notin> set c"
  by (simp add: real_elem_def)

lemma SplitByte_Join_comps:
  "cs \<noteq> [] \<Longrightarrow> \<forall>c \<in> set cs. CHR ''/'' \<notin> set c \<Longrightarrow> SplitByte (CHR ''/'') (Join ''/'' cs) = cs"
  by (rule SplitByte_Join)

lemma path_comps_Clean_rooted:
  assumes "rooted_path p" shows "path_comps (Clean p) = path_comps p"
proof -
  let ?cs = "path_comps p"
  from assms have real: "list_all real_elem ?cs" by (rule path_comps_rooted)
  have "SplitByte (CHR ''/'') (Clean p) = [] # (if ?cs = [] then [[]] else ?cs)"
    using assms SplitByte_Join_comps [OF _ list_all_real_no_sep [OF real]] by (simp add: Clean_def)
  moreover have "rooted_path (Clean p)" using assms by (simp add: Clean_def)
  ultimately have "path_comps (Clean p) = clean_comps True [] ([] # (if ?cs = [] then [[]] else ?cs))"
    by (simp add: path_comps_def [of "Clean p"])
  then show ?thesis using real by (simp add: clean_comps_real)
qed

lemma rooted_path_Clean [simp]: "rooted_path (Clean p) = rooted_path p"
proof (cases "rooted_path p")
  case False
  then have u: "updots (path_comps p)" by (rule path_comps_relative)
  show ?thesis
  proof (cases "path_comps p")
    case (Cons c cs)
    with u have "c \<noteq> [] \<and> CHR ''/'' \<notin> set c" using updots_elem by simp
    then show ?thesis using False Cons by (cases c; cases cs) (auto simp: Clean_def)
  qed (simp add: Clean_def False)
qed (simp add: Clean_def)


theorem Clean_idem: "Clean (Clean p) = Clean p"
proof (cases "rooted_path p")
  case True
  then show ?thesis using path_comps_Clean_rooted [of p] by (simp add: Clean_def [of "Clean p"])
      (simp add: Clean_def)
next
  case False
  then have u: "updots (path_comps p)" by (rule path_comps_relative)
  show ?thesis
  proof (cases "path_comps p = []")
    case True
    with False have "Clean p = ''.''" by (simp add: Clean_def)
    then show ?thesis by (simp add: Clean_def path_comps_def)
  next
    case ne: False
    have "SplitByte (CHR ''/'') (Join ''/'' (path_comps p)) = path_comps p"
      using ne u by (intro SplitByte_Join_comps) (auto dest: updots_elem)
    with False ne u have "path_comps (Clean p) = path_comps p"
      using rooted_path_Clean [of p]
      by (simp add: path_comps_def [of "Clean p"] clean_comps_updots_id) (simp add: Clean_def clean_comps_updots_id)
    with False ne show ?thesis by (simp add: Clean_def [of "Clean p"]) (simp add: Clean_def)
  qed
qed

text \<open>On rooted paths, cleaned strings and element lists carry the same information.\<close>

lemma Join_comps_inject:
  assumes "list_all real_elem cs" and "list_all real_elem ds"
  shows "Join ''/'' cs = Join ''/'' ds \<longleftrightarrow> cs = ds"
proof
  assume eq: "Join ''/'' cs = Join ''/'' ds"
  have ne: "Join ''/'' es \<noteq> []" if "list_all real_elem es" "es \<noteq> []" for es
    using that by (cases es; cases "tl es") (auto simp: real_elem_def)
  show "cs = ds"
  proof (cases "cs = [] \<or> ds = []")
    case True
    with eq ne [OF assms(1)] ne [OF assms(2)] show ?thesis by (cases "cs = []") auto
  next
    case False
    then have "SplitByte (CHR ''/'') (Join ''/'' cs) = cs" "SplitByte (CHR ''/'') (Join ''/'' ds) = ds"
      using SplitByte_Join_comps list_all_real_no_sep assms by blast+
    with eq show ?thesis by metis
  qed
qed simp

lemma Clean_eq_iff:
  "rooted_path p \<Longrightarrow> rooted_path q \<Longrightarrow> Clean p = Clean q \<longleftrightarrow> path_comps p = path_comps q"
  by (simp add: Clean_def Join_comps_inject path_comps_rooted)

lemma Join_prefix_iff:
  assumes "list_all real_elem cs" "list_all real_elem ds" "cs \<noteq> []"
  shows "prefix (Join ''/'' cs @ ''/'') (Join ''/'' ds) \<longleftrightarrow> strict_prefix cs ds"
proof
  assume "prefix (Join ''/'' cs @ ''/'') (Join ''/'' ds)"
  then obtain t where t: "Join ''/'' ds = Join ''/'' cs @ CHR ''/'' # t" by (auto simp: prefix_def)
  then have "ds \<noteq> []" by auto
  with assms have "ds = SplitByte (CHR ''/'') (Join ''/'' ds)"
    using SplitByte_Join_comps list_all_real_no_sep by metis
  also have "\<dots> = SplitByte (CHR ''/'') (Join ''/'' cs) @ SplitByte (CHR ''/'') t"
    by (simp add: t SplitByte_append_sep)
  also have "SplitByte (CHR ''/'') (Join ''/'' cs) = cs"
    using assms SplitByte_Join_comps list_all_real_no_sep by blast
  finally show "strict_prefix cs ds" using SplitByte_not_Nil [of "CHR ''/''" t]
    by (auto simp: strict_prefix_def)
next
  assume "strict_prefix cs ds"
  then obtain es where "ds = cs @ es" "es \<noteq> []" by (auto elim: strict_prefixE')
  with assms(3) show "prefix (Join ''/'' cs @ ''/'') (Join ''/'' ds)"
    by (simp add: Join_append)
qed

lemma Clean_prefix_iff:
  assumes "rooted_path p" "rooted_path e" "path_comps e \<noteq> []"
  shows "prefix (Clean e @ ''/'') (Clean p) \<longleftrightarrow> strict_prefix (path_comps e) (path_comps p)"
  using assms by (simp add: Clean_def Join_prefix_iff path_comps_rooted)


subsection \<open>net.SplitHostPort\<close>

text \<open>
  The port starts after the last colon; a bracketed host ends at the first closing bracket, which
  must be right before that colon; an unbracketed host has no other colon; no further brackets may
  follow. \<^const>\<open>None\<close> stands for the error return.
\<close>

definition SplitHostPort :: "string \<Rightarrow> (string \<times> string) option" where
  "SplitHostPort hp =
     (case LastIndexByte hp (CHR '':'') of
        None \<Rightarrow> None
      | Some i \<Rightarrow>
          if hd hp = CHR ''['' then
            (case IndexByte hp (CHR '']'') of
               None \<Rightarrow> None
             | Some e \<Rightarrow>
                 if Suc e = i \<and> CHR ''['' \<notin> set (drop 1 hp) \<and> CHR '']'' \<notin> set (drop (Suc e) hp)
                 then Some (take (e - 1) (drop 1 hp), drop (Suc i) hp) else None)
          else if CHR '':'' \<in> set (take i hp) \<or> CHR ''['' \<in> set hp \<or> CHR '']'' \<in> set hp then None
          else Some (take i hp, drop (Suc i) hp))"

lemma SplitHostPort_no_colon: "CHR '':'' \<notin> set hp \<Longrightarrow> SplitHostPort hp = None"
  by (simp add: SplitHostPort_def LastIndexByte_None [THEN iffD2])

lemma SplitHostPort_plain:
  assumes "{CHR '':'', CHR ''['', CHR '']''} \<inter> (set h \<union> set p) = {}"
  shows "SplitHostPort (h @ CHR '':'' # p) = Some (h, p)"
proof -
  have "LastIndexByte (h @ CHR '':'' # p) (CHR '':'') = Some (length h)"
    using assms by (intro LastIndexByte_append) auto
  moreover have "hd (h @ CHR '':'' # p) \<noteq> CHR ''[''" using assms by (cases h) auto
  ultimately show ?thesis using assms by (simp add: SplitHostPort_def)
qed

text \<open>A successful split has a colon right before the port, and a port without colons.\<close>

lemma SplitHostPort_SomeD:
  assumes "SplitHostPort hp = Some (h, p)"
  shows "suffix (CHR '':'' # p) hp" "CHR '':'' \<notin> set p"
proof -
  from assms obtain i where i: "LastIndexByte hp (CHR '':'') = Some i" and p: "p = drop (Suc i) hp"
    by (auto simp: SplitHostPort_def split: option.splits if_splits)
  from i have "i < length hp" "hp ! i = CHR '':''" "CHR '':'' \<notin> set (drop (Suc i) hp)"
    by (simp_all add: LastIndexByte_Some)
  then show "suffix (CHR '':'' # p) hp" "CHR '':'' \<notin> set p"
    by (simp_all add: p Cons_nth_drop_Suc suffix_drop flip: \<open>hp ! i = CHR '':''\<close>)
qed

subsection \<open>textproto.CanonicalMIMEHeaderKey\<close>

definition is_lower_byte :: "char \<Rightarrow> bool" where
  "is_lower_byte c \<longleftrightarrow> 97 \<le> byte_of c \<and> byte_of c \<le> 122"

definition is_upper_byte :: "char \<Rightarrow> bool" where
  "is_upper_byte c \<longleftrightarrow> 65 \<le> byte_of c \<and> byte_of c \<le> 90"

definition is_digit_byte :: "char \<Rightarrow> bool" where
  "is_digit_byte c \<longleftrightarrow> 48 \<le> byte_of c \<and> byte_of c \<le> 57"

text \<open>The bytes of a header field name (an RFC 7230 token).\<close>

definition validHeaderFieldByte :: "char \<Rightarrow> bool" where
  "validHeaderFieldByte c \<longleftrightarrow>
     is_lower_byte c \<or> is_upper_byte c \<or> is_digit_byte c \<or>
     byte_of c \<in> {33, 35, 36, 37, 38, 39, 42, 43, 45, 46, 94, 95, 96, 124, 126}"

fun canon_from :: "bool \<Rightarrow> string \<Rightarrow> string" where
  "canon_from up [] = []"
| "canon_from up (c # cs) =
     (let d = (if up then upper_char c else lower_char c)
      in d # canon_from (d = CHR ''-'') cs)"

definition CanonicalHeaderKey :: "string \<Rightarrow> string" where
  "CanonicalHeaderKey s = (if list_all validHeaderFieldByte s then canon_from True s else s)"

lemma byte_of_upper_char:
  "byte_of (upper_char c) = (if 97 \<le> byte_of c \<and> byte_of c \<le> 122 then byte_of c - 32 else byte_of c)"
  by (auto simp: upper_char_def byte_of_char_of)

lemma upper_char_idem [simp]: "upper_char (upper_char c) = upper_char c"
  by (simp flip: byte_of_inject add: byte_of_upper_char) arith

lemma lower_upper_char [simp]: "lower_char (upper_char c) = lower_char c"
  by (simp flip: byte_of_inject add: byte_of_upper_char byte_of_lower_char) arith

lemma canon_from_idem: "canon_from up (canon_from up s) = canon_from up s"
proof (induction s arbitrary: up)
  case (Cons c s)
  then show ?case by (cases up) (simp_all add: Let_def)
qed simp

lemma valid_upper_lower [simp]:
  "validHeaderFieldByte (upper_char c) = validHeaderFieldByte c"
  "validHeaderFieldByte (lower_char c) = validHeaderFieldByte c"
proof -
  show "validHeaderFieldByte (upper_char c) = validHeaderFieldByte c"
  proof (cases "is_lower_byte c")
    case True
    then have "is_upper_byte (upper_char c)"
      by (auto simp: is_lower_byte_def is_upper_byte_def byte_of_upper_char)
    with True show ?thesis by (simp add: validHeaderFieldByte_def)
  next
    case False
    then have "upper_char c = c" unfolding is_lower_byte_def upper_char_def by (rule if_not_P)
    then show ?thesis by simp
  qed
  show "validHeaderFieldByte (lower_char c) = validHeaderFieldByte c"
  proof (cases "is_upper_byte c")
    case True
    then have "is_lower_byte (lower_char c)"
      by (auto simp: is_lower_byte_def is_upper_byte_def byte_of_lower_char)
    with True show ?thesis by (simp add: validHeaderFieldByte_def)
  next
    case False
    then have "lower_char c = c" unfolding is_upper_byte_def lower_char_def by (rule if_not_P)
    then show ?thesis by simp
  qed
qed

lemma list_all_valid_canon_from [simp]:
  "list_all validHeaderFieldByte (canon_from up s) = list_all validHeaderFieldByte s"
proof (induction s arbitrary: up)
  case (Cons c s)
  then show ?case by (cases up) (simp_all add: Let_def)
qed simp

lemma list_all_valid_ToLower:
  "list_all validHeaderFieldByte (ToLower s) = list_all validHeaderFieldByte s"
  by (induction s) (simp_all add: ToLower_def)

lemma CanonicalHeaderKey_idem [simp]:
  "CanonicalHeaderKey (CanonicalHeaderKey s) = CanonicalHeaderKey s"
  by (simp add: CanonicalHeaderKey_def canon_from_idem)

lemma ToLower_canon_from: "ToLower (canon_from up s) = ToLower s"
proof (induction s arbitrary: up)
  case (Cons c s)
  then show ?case by (cases up) (simp_all add: Let_def ToLower_Cons)
qed simp

text \<open>Canonical form forgets case and nothing else.\<close>

lemma ToLower_CanonicalHeaderKey [simp]: "ToLower (CanonicalHeaderKey s) = ToLower s"
  by (simp add: CanonicalHeaderKey_def ToLower_canon_from)

lemma dash_case: "upper_char c = CHR ''-'' \<longleftrightarrow> c = CHR ''-''" "lower_char c = CHR ''-'' \<longleftrightarrow> c = CHR ''-''"
  by (auto simp flip: byte_of_inject simp add: byte_of_upper_char byte_of_lower_char)
    (auto simp: byte_of_def)

lemma upper_of_lower: "upper_char (lower_char c) = upper_char c"
  by (simp flip: byte_of_inject add: byte_of_upper_char byte_of_lower_char)

lemma canon_from_cong_lower: "ToLower s = ToLower t \<Longrightarrow> canon_from up s = canon_from up t"
proof (induction s arbitrary: t up)
  case (Cons c s)
  then obtain d t' where t: "t = d # t'" "lower_char c = lower_char d" "ToLower s = ToLower t'"
    by (cases t) (auto simp: ToLower_def)
  then have "upper_char c = upper_char d" by (metis upper_of_lower)
  with t Cons.IH [of t'] show ?case by (simp add: Let_def)
qed (metis ToLower_Nil)

lemma CanonicalHeaderKey_eq_lower:
  assumes "list_all validHeaderFieldByte s" "EqualFold s t"
  shows "CanonicalHeaderKey s = CanonicalHeaderKey t"
proof -
  have "list_all validHeaderFieldByte t"
    using assms list_all_valid_ToLower unfolding EqualFold_def by metis
  moreover have "canon_from True s = canon_from True t"
    using assms(2) canon_from_cong_lower unfolding EqualFold_def by blast
  ultimately show ?thesis using assms(1) by (simp add: CanonicalHeaderKey_def)
qed

subsection \<open>strconv.Atoi and decimal output\<close>

definition digit_value :: "char \<Rightarrow> int" where
  "digit_value c = int (byte_of c) - 48"

definition decimal_value :: "string \<Rightarrow> int" where
  "decimal_value ds = foldl (\<lambda>n c. n * 10 + digit_value c) 0 ds"

text \<open>An optional sign, at least one digit, nothing else, and a value that fits a 64-bit \<open>int\<close>.\<close>

definition Atoi :: "string \<Rightarrow> int option" where
  "Atoi s =
     (let neg = (s \<noteq> [] \<and> hd s = CHR ''-'');
          signed = (s \<noteq> [] \<and> (hd s = CHR ''-'' \<or> hd s = CHR ''+''));
          ds = (if signed then tl s else s);
          v = (if neg then - decimal_value ds else decimal_value ds)
      in if ds \<noteq> [] \<and> list_all is_digit_byte ds \<and> - (2 ^ 63) \<le> v \<and> v < 2 ^ 63
         then Some v else None)"

fun nat_digits :: "nat \<Rightarrow> string" where
  "nat_digits n = (if n < 10 then [char_of (48 + n)] else nat_digits (n div 10) @ [char_of (48 + n mod 10)])"

declare nat_digits.simps [simp del]

definition Itoa :: "int \<Rightarrow> string" where
  "Itoa i = (if i < 0 then CHR ''-'' # nat_digits (nat (- i)) else nat_digits (nat i))"

lemma digit_char:
  assumes "n < 10"
  shows "is_digit_byte (char_of (48 + n))" "digit_value (char_of (48 + n)) = int n"
  using assms by (simp_all add: is_digit_byte_def digit_value_def byte_of_char_of)

lemma nat_digits_digits: "list_all is_digit_byte (nat_digits n)"
proof (induction n rule: nat_digits.induct)
  case (1 n)
  then show ?case by (subst nat_digits.simps) (simp add: digit_char)
qed

lemma nat_digits_value: "decimal_value (nat_digits n) = int n"
proof (induction n rule: nat_digits.induct)
  case (1 n)
  then show ?case
    using div_mult_mod_eq [of "int n" 10]
    by (subst nat_digits.simps) (simp add: decimal_value_def digit_char zdiv_int zmod_int)
qed

lemma nat_digits_not_Nil [simp]: "nat_digits n \<noteq> []"
  by (subst nat_digits.simps) simp

lemma nat_digits_inject [simp]: "nat_digits m = nat_digits n \<longleftrightarrow> m = n"
  by (metis nat_digits_value of_nat_eq_iff)

lemma digit_not_sign: "is_digit_byte c \<Longrightarrow> c \<noteq> CHR ''-'' \<and> c \<noteq> CHR ''+''"
  by (auto simp: is_digit_byte_def byte_of_def)

lemma hd_nat_digits: "is_digit_byte (hd (nat_digits n))"
  using nat_digits_digits [of n] by (cases "nat_digits n") simp_all

theorem Atoi_Itoa: "- (2 ^ 63) \<le> i \<Longrightarrow> i < 2 ^ 63 \<Longrightarrow> Atoi (Itoa i) = Some i"
  using hd_nat_digits [of "nat i"] digit_not_sign
  by (auto simp: Atoi_def Itoa_def Let_def nat_digits_value nat_digits_digits)

lemma Itoa_inject [simp]: "Itoa i = Itoa j \<longleftrightarrow> i = j"
proof
  assume eq: "Itoa i = Itoa j"
  have "hd (nat_digits n) \<noteq> CHR ''-''" for n using hd_nat_digits digit_not_sign by blast
  then have "i < 0 \<longleftrightarrow> j < 0" using eq unfolding Itoa_def by (metis list.sel(1))
  with eq show "i = j" by (auto simp: Itoa_def split: if_splits)
qed simp

end
