(* ===== verification/GoUrl.thy ===== *)
theory GoUrl
  imports GoStd
begin

section \<open>URLs and IP addresses (\<open>net/url\<close>, \<open>net\<close>)\<close>

text \<open>
  \<open>url.Parse\<close> with the parts of the result the code reads (scheme and host), the methods \<open>Hostname\<close>
  and \<open>Port\<close>, and the recognisers behind \<open>net.ParseIP\<close>. A parse error is \<^const>\<open>None\<close>. The parser
  follows the standard library of the Go release named in \<open>src/go.mod\<close>: a bracketed host must be an
  IPv6 literal and must start the host.
\<close>

definition is_hex_byte :: "char \<Rightarrow> bool" where
  "is_hex_byte c \<longleftrightarrow> is_digit_byte c \<or> (97 \<le> byte_of c \<and> byte_of c \<le> 102) \<or> (65 \<le> byte_of c \<and> byte_of c \<le> 70)"

definition unhex :: "char \<Rightarrow> nat" where
  "unhex c =
     (if is_digit_byte c then byte_of c - 48
      else if 97 \<le> byte_of c then byte_of c - 87 else byte_of c - 55)"

definition is_alnum_byte :: "char \<Rightarrow> bool" where
  "is_alnum_byte c \<longleftrightarrow> is_lower_byte c \<or> is_upper_byte c \<or> is_digit_byte c"

subsection \<open>IP addresses\<close>

definition ipv4_field :: "string \<Rightarrow> bool" where
  "ipv4_field f \<longleftrightarrow> f \<noteq> [] \<and> length f \<le> 3 \<and> list_all is_digit_byte f \<and> decimal_value f \<le> 255 \<and>
     (length f > 1 \<longrightarrow> hd f \<noteq> CHR ''0'')"

definition is_ipv4 :: "string \<Rightarrow> bool" where
  "is_ipv4 s \<longleftrightarrow> (let fs = SplitByte (CHR ''.'') s in length fs = 4 \<and> list_all ipv4_field fs)"

text \<open>
  The colon-separated fields of an IPv6 address, after any leading double colon: \<open>i\<close> bytes have been
  read, \<open>el\<close> says whether an ellipsis was seen. \<open>fuel\<close> bounds the number of fields; eight suffice,
  since each field accounts for two bytes of sixteen.
\<close>

fun ipv6_fields :: "nat \<Rightarrow> nat \<Rightarrow> bool \<Rightarrow> string \<Rightarrow> bool" where
  "ipv6_fields 0 i el s = False"
| "ipv6_fields (Suc fuel) i el s =
     (let g = takeWhile is_hex_byte s; rest = dropWhile is_hex_byte s
      in if g = [] \<or> length g > 4 then False
         else case rest of
           [] \<Rightarrow> (if el then i + 2 < 16 else i + 2 = 16)
         | c # cs \<Rightarrow>
             if c = CHR ''.'' then
               (el \<or> i = 12) \<and> i + 4 \<le> 16 \<and> is_ipv4 s \<and> (if el then i + 4 < 16 else i + 4 = 16)
             else if c \<noteq> CHR '':'' \<or> cs = [] \<or> i + 2 \<ge> 16 then False
             else if hd cs = CHR '':'' then
               \<not> el \<and> (if tl cs = [] then True else ipv6_fields fuel (i + 2) True (tl cs))
             else ipv6_fields fuel (i + 2) el cs)"

definition is_ipv6 :: "string \<Rightarrow> bool" where
  "is_ipv6 s \<longleftrightarrow>
     (if HasPrefix s ''::'' then drop 2 s = [] \<or> ipv6_fields 8 0 True (drop 2 s)
      else ipv6_fields 8 0 False s)"

text \<open>\<open>net.ParseIP(s) != nil\<close>: an IPv4 or IPv6 address, without a zone.\<close>

definition ParseIP :: "string \<Rightarrow> bool" where
  "ParseIP s \<longleftrightarrow> is_ipv4 s \<or> is_ipv6 s"

text \<open>\<open>netip.ParseAddr\<close> of the text between brackets: an IPv6 address with an optional zone.\<close>

definition ipv6_literal :: "string \<Rightarrow> bool" where
  "ipv6_literal s \<longleftrightarrow>
     (case IndexByte s (CHR ''%'') of
        None \<Rightarrow> is_ipv6 s
      | Some i \<Rightarrow> is_ipv6 (take i s) \<and> drop (Suc i) s \<noteq> [])"

subsection \<open>Escapes\<close>

fun escapes_ok :: "string \<Rightarrow> bool" where
  "escapes_ok [] = True"
| "escapes_ok (c # cs) =
     (if c = CHR ''%''
      then (case cs of a # b # rest \<Rightarrow> is_hex_byte a \<and> is_hex_byte b \<and> escapes_ok rest | _ \<Rightarrow> False)
      else escapes_ok cs)"

definition host_byte_ok :: "char \<Rightarrow> bool" where
  "host_byte_ok c \<longleftrightarrow> byte_of c \<ge> 128 \<or> is_alnum_byte c \<or>
     c \<in> set ''!$&()*+,;=:[]<>-_.~'' \<or> byte_of c = 39 \<or> byte_of c = 34"

fun unescape_host :: "bool \<Rightarrow> string \<Rightarrow> string option" where
  "unescape_host zone [] = Some []"
| "unescape_host zone (c # cs) =
     (if c = CHR ''%'' then
        (case cs of
           a # b # rest \<Rightarrow>
             (let v = char_of (16 * unhex a + unhex b) :: char
              in if is_hex_byte a \<and> is_hex_byte b \<and>
                    (if zone then [a, b] = ''25'' \<or> v = CHR '' '' \<or> (byte_of v < 128 \<longrightarrow> host_byte_ok v)
                     else unhex a \<ge> 8 \<or> [a, b] = ''25'')
                 then map_option (Cons v) (unescape_host zone rest) else None)
         | _ \<Rightarrow> None)
      else if host_byte_ok c then map_option (Cons c) (unescape_host zone cs) else None)"

subsection \<open>url.Parse\<close>

record Url =
  u_Scheme :: string
  u_Host :: string

definition validOptionalPort :: "string \<Rightarrow> bool" where
  "validOptionalPort p \<longleftrightarrow>
     (case p of [] \<Rightarrow> True | c # ds \<Rightarrow> c = CHR '':'' \<and> list_all is_digit_byte ds)"

fun find_sub :: "string \<Rightarrow> string \<Rightarrow> nat option" where
  "find_sub p [] = (if p = [] then Some 0 else None)"
| "find_sub p (c # cs) = (if prefix p (c # cs) then Some 0 else map_option Suc (find_sub p cs))"

definition parse_bracket_host :: "string \<Rightarrow> string option" where
  "parse_bracket_host host =
     (case LastIndexByte host (CHR '']'') of
        None \<Rightarrow> None
      | Some e \<Rightarrow>
          let colonPort = drop (Suc e) host; inner = take (e - 1) (drop 1 host);
              name = (case find_sub ''%25'' inner of
                        Some z \<Rightarrow> (case (unescape_host False (take z inner), unescape_host True (drop z inner)) of
                                     (Some a, Some b) \<Rightarrow> Some (a @ b) | _ \<Rightarrow> None)
                      | None \<Rightarrow> unescape_host False inner)
          in if \<not> validOptionalPort colonPort then None
             else case name of
               Some n \<Rightarrow> if ipv6_literal n then Some (''['' @ n @ '']'' @ colonPort) else None
             | None \<Rightarrow> None)"

definition parse_url_host :: "string \<Rightarrow> string option" where
  "parse_url_host host =
     (if HasPrefix host ''['' then parse_bracket_host host
      else if CHR ''['' \<in> set host then None
      else case LastIndexByte host (CHR '':'') of
             Some i \<Rightarrow> if validOptionalPort (drop i host) then unescape_host False host else None
           | None \<Rightarrow> unescape_host False host)"

definition validUserinfo :: "string \<Rightarrow> bool" where
  "validUserinfo s \<longleftrightarrow>
     list_all (\<lambda>c. is_alnum_byte c \<or> c \<in> set ''-._:~!$&()*+,;=%@'' \<or> byte_of c = 39) s \<and> escapes_ok s"

definition parse_authority :: "string \<Rightarrow> string option" where
  "parse_authority a =
     (case LastIndexByte a (CHR ''@'') of
        None \<Rightarrow> parse_url_host a
      | Some i \<Rightarrow> (if validUserinfo (take i a) then parse_url_host (drop (Suc i) a) else None))"

text \<open>\<open>getScheme\<close>: the text before the first colon if it is a scheme; a leading colon is an error.\<close>

definition scheme_byte :: "char \<Rightarrow> bool" where
  "scheme_byte c \<longleftrightarrow> is_alnum_byte c \<or> c \<in> set ''+-.''"

definition getScheme :: "string \<Rightarrow> (string \<times> string) option" where
  "getScheme s =
     (let w = takeWhile scheme_byte s; rest = dropWhile scheme_byte s
      in if s = [] then Some ([], s)
         else if hd s = CHR '':'' then None
         else if \<not> (is_lower_byte (hd s) \<or> is_upper_byte (hd s)) then Some ([], s)
         else if rest \<noteq> [] \<and> hd rest = CHR '':'' then Some (w, tl rest)
         else Some ([], s))"

definition cut_before :: "char \<Rightarrow> string \<Rightarrow> string" where
  "cut_before c s = takeWhile (\<lambda>x. x \<noteq> c) s"

definition UrlParse :: "string \<Rightarrow> Url option" where
  "UrlParse raw =
     (let u = cut_before (CHR ''#'') raw; frag = drop (Suc (length u)) raw
      in if list_ex (\<lambda>c. byte_of c < 32 \<or> byte_of c = 127) u \<or> \<not> escapes_ok frag then None
         else case getScheme u of
           None \<Rightarrow> None
         | Some (sch, rest0) \<Rightarrow>
             let scheme = ToLower sch; rest = cut_before (CHR ''?'') rest0
             in if \<not> HasPrefix rest ''/'' then
                  (if scheme \<noteq> [] then Some \<lparr>u_Scheme = scheme, u_Host = []\<rparr>
                   else if CHR '':'' \<in> set (cut_before (CHR ''/'') rest) \<or> \<not> escapes_ok rest then None
                   else Some \<lparr>u_Scheme = [], u_Host = []\<rparr>)
                else if HasPrefix rest ''//'' \<and> (scheme \<noteq> [] \<or> \<not> HasPrefix rest ''///'') then
                  (let authority = cut_before (CHR ''/'') (drop 2 rest);
                       path = drop (length authority) (drop 2 rest)
                   in case parse_authority authority of
                        Some h \<Rightarrow> if escapes_ok path then Some \<lparr>u_Scheme = scheme, u_Host = h\<rparr> else None
                      | None \<Rightarrow> None)
                else if escapes_ok rest then Some \<lparr>u_Scheme = scheme, u_Host = []\<rparr> else None)"

text \<open>\<open>URL.Hostname\<close> and \<open>URL.Port\<close>, both by \<open>splitHostPort\<close>.\<close>

definition url_splitHostPort :: "string \<Rightarrow> string \<times> string" where
  "url_splitHostPort hp =
     (let hpq = (case LastIndexByte hp (CHR '':'') of
                   Some i \<Rightarrow> if validOptionalPort (drop i hp) then (take i hp, drop (Suc i) hp) else (hp, [])
                 | None \<Rightarrow> (hp, []));
          host = fst hpq
      in (if HasPrefix host ''['' \<and> HasSuffix host '']'' then take (length host - 2) (drop 1 host) else host,
          snd hpq))"

definition Hostname :: "Url \<Rightarrow> string" where
  "Hostname u = fst (url_splitHostPort (u_Host u))"

definition Port :: "Url \<Rightarrow> string" where
  "Port u = snd (url_splitHostPort (u_Host u))"

text \<open>Samples of the standard library's documented behaviour.\<close>

lemma UrlParse_sample:
  "UrlParse ''https://API.example.com:6443/v1?x=1'' = Some \<lparr>u_Scheme = ''https'', u_Host = ''API.example.com:6443''\<rparr>"
  by code_simp

lemma UrlParse_sample_ipv6:
  "map_option (\<lambda>u. (Hostname u, Port u)) (UrlParse ''https://[fe80::1]:6443'') = Some (''fe80::1'', ''6443'')"
  by code_simp

lemma UrlParse_sample_bad_port: "UrlParse ''https://host:port/'' = None"
  by code_simp

lemma ParseIP_samples: "ParseIP ''10.0.0.1''" "\<not> ParseIP ''10.0.0.256''" "ParseIP ''::1''" "\<not> ParseIP ''a.b''"
  by code_simp+

text \<open>The port of a parsed URL is a string of decimal digits.\<close>

lemma Port_digits: "list_all is_digit_byte (Port u)"
proof (cases "LastIndexByte (u_Host u) (CHR '':'')")
  case (Some i)
  then have "i < length (u_Host u)" by (simp add: LastIndexByte_Some)
  then have "drop i (u_Host u) = u_Host u ! i # drop (Suc i) (u_Host u)" by (simp add: Cons_nth_drop_Suc)
  with Some show ?thesis by (simp add: Port_def url_splitHostPort_def Let_def validOptionalPort_def)
qed (simp add: Port_def url_splitHostPort_def Let_def)

end
