(* ===== verification/Credentials.thy ===== *)
theory Credentials
  imports Channels GoUrl
begin

section \<open>Credential resolution (\<open>src/internal/controller/claw_credentials.go\<close>, \<open>claw_repo_access.go\<close>)\<close>

text \<open>
  Validation of a Claw's credentials against the Secrets they name, kubeconfig validation and
  sanitisation, the credentials repository access implies, and the gateway token Secret. Secrets are
  read through a parameter, and so are the two functions of client-go that parse and print a
  kubeconfig.
\<close>

subsection \<open>Kubeconfigs\<close>

record api_authinfo =
  aa_ClientCertificate :: string
  aa_ClientCertificateData :: string
  aa_Exec :: bool
  aa_AuthProvider :: bool
  aa_TokenFile :: string
  aa_Username :: string
  aa_Password :: string
  aa_Token :: string

record api_cluster =
  ac_Server :: string
  ac_CertificateAuthority :: string
  ac_CertificateAuthorityData :: string
  ac_InsecureSkipTLSVerify :: bool

record api_context =
  ax_Cluster :: string
  ax_AuthInfo :: string
  ax_Namespace :: string

record api_config =
  acfg_Clusters :: "(string, api_cluster) gomap"
  acfg_AuthInfos :: "(string, api_authinfo) gomap"
  acfg_Contexts :: "(string, api_context) gomap"
  acfg_CurrentContext :: string

record kubeconfigCluster =
  kcl_Name :: string
  kcl_Server :: string
  kcl_Hostname :: string
  kcl_Port :: string
  kcl_CAData :: string

record kubeconfigContext =
  kct_Name :: string
  kct_Cluster :: string
  kct_Namespace :: string
  kct_Current :: bool

record kubeconfigData =
  kd_Clusters :: "kubeconfigCluster list"
  kd_Contexts :: "kubeconfigContext list"
  kd_RawBytes :: string

datatype kube_error =
    KubeParse | UserClientCert string | UserExec string | UserAuthProvider string | UserTokenFile string
  | UserBasic string | UserNoToken string | ClusterNoServer string | ClusterCAFile string
  | ClusterBadURL string string | ConflictingTokens string string | EmptyProxyCA

definition parseServerURL :: "string \<Rightarrow> (string \<times> string) option" where
  "parseServerURL server =
     (case UrlParse server of
        None \<Rightarrow> None
      | Some u \<Rightarrow>
          if Hostname u = [] then None
          else Some (Hostname u, if Port u = [] then ''443'' else Port u))"

definition check_user :: "string \<times> api_authinfo \<Rightarrow> (kube_error, unit) result" where
  "check_user ua =
     (let userName = fst ua; authInfo = snd ua
      in if aa_ClientCertificateData authInfo \<noteq> [] \<or> aa_ClientCertificate authInfo \<noteq> []
         then Inl (UserClientCert userName)
         else if aa_Exec authInfo then Inl (UserExec userName)
         else if aa_AuthProvider authInfo then Inl (UserAuthProvider userName)
         else if aa_TokenFile authInfo \<noteq> [] then Inl (UserTokenFile userName)
         else if aa_Username authInfo \<noteq> [] \<or> aa_Password authInfo \<noteq> [] then Inl (UserBasic userName)
         else if aa_Token authInfo = [] then Inl (UserNoToken userName)
         else Inr ())"

definition parse_cluster :: "string \<times> api_cluster \<Rightarrow> (kube_error, kubeconfigCluster) result" where
  "parse_cluster nc =
     (let clusterName = fst nc; cluster = snd nc
      in if ac_Server cluster = [] then Inl (ClusterNoServer clusterName)
         else if ac_CertificateAuthority cluster \<noteq> [] then Inl (ClusterCAFile clusterName)
         else case parseServerURL (ac_Server cluster) of
           None \<Rightarrow> Inl (ClusterBadURL clusterName (ac_Server cluster))
         | Some (hostname, port) \<Rightarrow>
             Inr \<lparr>kcl_Name = clusterName, kcl_Server = ac_Server cluster, kcl_Hostname = hostname,
                  kcl_Port = port, kcl_CAData = ac_CertificateAuthorityData cluster\<rparr>)"

text \<open>One iteration of the one-token-per-server check: \<open>serverTokens\<close> maps host:port to a token.\<close>

definition server_token :: "api_config \<Rightarrow> api_context \<Rightarrow> (string \<times> string) option" where
  "server_token cfg ctxInfo =
     (case map_of (acfg_Clusters cfg) (ax_Cluster ctxInfo) of
        None \<Rightarrow> None
      | Some cluster \<Rightarrow>
     (case map_of (acfg_AuthInfos cfg) (ax_AuthInfo ctxInfo) of
        None \<Rightarrow> None
      | Some authInfo \<Rightarrow>
     (case parseServerURL (ac_Server cluster) of
        None \<Rightarrow> None
      | Some (hostname, port) \<Rightarrow> Some (hostname @ '':'' @ port, aa_Token authInfo))))"

definition check_context ::
  "api_config \<Rightarrow> string \<times> api_context \<Rightarrow> (string, string) gomap \<Rightarrow> (kube_error, (string, string) gomap) result" where
  "check_context cfg nx serverTokens =
     (case server_token cfg (snd nx) of
        None \<Rightarrow> Inr serverTokens
      | Some (key, token) \<Rightarrow>
          (case map_of serverTokens key of
             Some existing \<Rightarrow>
               if existing \<noteq> token then Inl (ConflictingTokens (fst nx) key)
               else Inr (AList.update key token serverTokens)
           | None \<Rightarrow> Inr (AList.update key token serverTokens)))"

definition parseAndValidateKubeconfig ::
  "(string \<Rightarrow> api_config option) \<Rightarrow> string \<Rightarrow> (kube_error, kubeconfigData) result" where
  "parseAndValidateKubeconfig load data =
     (case load data of
        None \<Rightarrow> Inl KubeParse
      | Some cfg \<Rightarrow>
          rbind (rmap check_user (acfg_AuthInfos cfg)) (\<lambda>_.
          rbind (rmap parse_cluster (acfg_Clusters cfg)) (\<lambda>clusters.
          rbind (rfold (check_context cfg) (acfg_Contexts cfg) []) (\<lambda>_.
            Inr \<lparr>kd_Clusters = clusters,
                 kd_Contexts = map (\<lambda>(ctxName, ctxInfo).
                   \<lparr>kct_Name = ctxName, kct_Cluster = ax_Cluster ctxInfo, kct_Namespace = ax_Namespace ctxInfo,
                    kct_Current = (ctxName = acfg_CurrentContext cfg)\<rparr>) (acfg_Contexts cfg),
                 kd_RawBytes = data\<rparr>))))"

definition sanitize_authinfo :: "api_authinfo \<Rightarrow> api_authinfo" where
  "sanitize_authinfo a =
     (let a1 = (if aa_Token a \<noteq> [] then a\<lparr>aa_Token := ''proxy-managed-token''\<rparr> else a)
      in if aa_TokenFile a1 \<noteq> [] then a1\<lparr>aa_TokenFile := [], aa_Token := ''proxy-managed-token''\<rparr> else a1)"

definition sanitize_cluster :: "string \<Rightarrow> api_cluster \<Rightarrow> api_cluster" where
  "sanitize_cluster ca c = c\<lparr>ac_CertificateAuthorityData := ca, ac_InsecureSkipTLSVerify := False\<rparr>"

text \<open>The sanitised configuration is handed to client-go's printer.\<close>

definition sanitizeKubeconfig ::
  "(string \<Rightarrow> api_config option) \<Rightarrow> string \<Rightarrow> string \<Rightarrow> (kube_error, api_config) result" where
  "sanitizeKubeconfig load rawBytes proxyCACert =
     (if proxyCACert = [] then Inl EmptyProxyCA
      else case load rawBytes of
        None \<Rightarrow> Inl KubeParse
      | Some cfg \<Rightarrow>
          Inr (cfg\<lparr>acfg_AuthInfos := map (apsnd sanitize_authinfo) (acfg_AuthInfos cfg),
                   acfg_Clusters := map (apsnd (sanitize_cluster proxyCACert)) (acfg_Clusters cfg)\<rparr>))"

subsection \<open>Repository access\<close>

definition repoAccessEnabled :: "bool option \<Rightarrow> bool" where
  "repoAccessEnabled flag = (case flag of None \<Rightarrow> True | Some b \<Rightarrow> b)"

definition githubRepoAccess :: "Claw \<Rightarrow> GitHubRepoAccessSpec option" where
  "githubRepoAccess instance =
     (case sp_RepoAccess (cl_Spec instance) of None \<Rightarrow> None | Some ra \<Rightarrow> ra_GitHub ra)"

definition hasCredentialName :: "CredentialSpec list \<Rightarrow> string \<Rightarrow> bool" where
  "hasCredentialName creds name = list_ex (\<lambda>c. cs_Name c = name) creds"

definition hasCredentialDomain :: "CredentialSpec list \<Rightarrow> string \<Rightarrow> bool" where
  "hasCredentialDomain creds domain = list_ex (\<lambda>c. EqualFold (cs_Domain c) domain) creds"

text \<open>\<open>strings.TrimSpace\<close> and \<open>strings.Trim(s, "/")\<close> on ASCII text.\<close>

definition is_space :: "char \<Rightarrow> bool" where
  "is_space c \<longleftrightarrow> byte_of c = 32 \<or> (9 \<le> byte_of c \<and> byte_of c \<le> 13)"

definition trim_by :: "(char \<Rightarrow> bool) \<Rightarrow> string \<Rightarrow> string" where
  "trim_by P s = rev (dropWhile P (rev (dropWhile P s)))"

definition TrimSpace :: "string \<Rightarrow> string" where
  "TrimSpace s = trim_by is_space s"

definition repo_paths :: "string \<Rightarrow> string list" where
  "repo_paths repo0 =
     (let repo = trim_by (\<lambda>c. c = CHR ''/'') (TrimSpace repo0)
      in if repo = [] then [] else [''/'' @ repo @ ''/'', ''/'' @ repo @ ''.git/''])"

definition githubAllowedPaths :: "string list \<Rightarrow> string list" where
  "githubAllowedPaths repositories = dedup_by id [] (concat (map repo_paths repositories))"

definition githubRepoAccessCredentials :: "Claw \<Rightarrow> CredentialSpec list" where
  "githubRepoAccessCredentials instance =
     (case githubRepoAccess instance of
        None \<Rightarrow> []
      | Some gh \<Rightarrow>
          let creds = sp_Credentials (cl_Spec instance) in
          (if repoAccessEnabled (gh_EnableAPIProxy gh) \<and> \<not> hasCredentialName creds ''github-api'' \<and>
              \<not> hasCredentialDomain creds ''api.github.com''
           then [empty_CredentialSpec\<lparr>cs_Name := ''github-api'', cs_Type := CredentialTypeBearer,
                   cs_SecretRef := [gh_SecretRef gh], cs_Domain := ''api.github.com''\<rparr>] else []) @
          (if repoAccessEnabled (gh_EnableGitHTTPS gh) \<and> \<not> hasCredentialName creds ''github-git'' \<and>
              \<not> hasCredentialDomain creds ''github.com''
           then [empty_CredentialSpec\<lparr>cs_Name := ''github-git'', cs_Type := CredentialTypeBasic,
                   cs_SecretRef := [gh_SecretRef gh], cs_Domain := ''github.com'',
                   cs_Basic := Some \<lparr>bac_Username = ''x-access-token''\<rparr>,
                   cs_AllowedPaths := githubAllowedPaths (gh_AllowedRepositories gh)\<rparr>] else []))"

definition githubRepoAccessEnvFrom :: "Claw \<Rightarrow> McpEnvFromSecret list" where
  "githubRepoAccessEnvFrom instance =
     (case githubRepoAccess instance of
        None \<Rightarrow> []
      | Some gh \<Rightarrow>
          if \<not> gh_ExposeEnv gh then []
          else
            let envNames = (if gh_EnvNames gh = [] then [''GH_TOKEN'', ''GITHUB_TOKEN''] else gh_EnvNames gh);
                names = dedup_by id [] (filter (\<lambda>n. n \<noteq> []) (map TrimSpace envNames))
            in map (\<lambda>n. \<lparr>ef_Name = n, ef_SecretRef = gh_SecretRef gh\<rparr>) names)"

subsection \<open>Resolution\<close>

record resolvedCredential =
  rc_Spec :: CredentialSpec
  rc_KubeConfig :: "kubeconfigData option"

definition validateCredentialTypeConfig :: "CredentialSpec \<Rightarrow> credential_error option" where
  "validateCredentialTypeConfig cred =
     (if (cs_Type cred = CredentialTypeAPIKey \<and> cs_APIKey cred = None) \<or>
         (cs_Type cred = CredentialTypeBasic \<and> cs_Basic cred = None) \<or>
         (cs_Type cred = CredentialTypeGCP \<and> cs_GCP cred = None) \<or>
         (cs_Type cred = CredentialTypePathToken \<and> cs_PathToken cred = None) \<or>
         (cs_Type cred = CredentialTypeOAuth2 \<and> cs_OAuth2 cred = None)
      then Some (MissingTypeConfig (cs_Name cred) (cs_Type cred)) else None)"

text \<open>The loop over the secret references: every error is collected, the last kubeconfig is kept.\<close>

fun check_refs ::
  "secret_reader \<Rightarrow> (string \<Rightarrow> api_config option) \<Rightarrow> CredentialSpec \<Rightarrow> SecretRefEntry list \<Rightarrow>
     kubeconfigData option \<Rightarrow> credential_error list \<times> kubeconfigData option" where
  "check_refs get load cred [] kc = ([], kc)"
| "check_refs get load cred (ref # refs) kc =
     (case get (sr_Name ref) of
        SecretNotFound \<Rightarrow>
          apfst (Cons (CredSecretNotFound (cs_Name cred) (sr_Name ref))) (check_refs get load cred refs kc)
      | SecretReadError \<Rightarrow>
          apfst (Cons (CredSecretReadFailed (cs_Name cred) (sr_Name ref))) (check_refs get load cred refs kc)
      | SecretData data \<Rightarrow>
          (case map_of data (sr_Key ref) of
             None \<Rightarrow>
               apfst (Cons (CredKeyNotFound (cs_Name cred) (sr_Key ref) (sr_Name ref)))
                 (check_refs get load cred refs kc)
           | Some v \<Rightarrow>
               if cs_Type cred = CredentialTypeKubernetes then
                 (case parseAndValidateKubeconfig load v of
                    Inl e \<Rightarrow> apfst (Cons (KubeconfigInvalid (cs_Name cred))) (check_refs get load cred refs kc)
                  | Inr kd \<Rightarrow> check_refs get load cred refs (Some kd))
               else check_refs get load cred refs kc))"

definition provider_errors :: "CredentialSpec \<Rightarrow> (string, string) gomap \<Rightarrow> credential_error list \<times> (string, string) gomap" where
  "provider_errors cred seen =
     (if cs_Provider cred = [] then ([], seen)
      else case map_of seen (cs_Provider cred) of
        Some existing \<Rightarrow> ([DuplicateProvider (cs_Name cred) (cs_Provider cred) existing], seen)
      | None \<Rightarrow> ([], AList.update (cs_Provider cred) (cs_Name cred) seen))"

definition opt_list :: "'a option \<Rightarrow> 'a list" where
  "opt_list x = (case x of None \<Rightarrow> [] | Some a \<Rightarrow> [a])"

text \<open>One iteration of the main loop: errors, resolved credentials, providers seen.\<close>

definition resolve_one ::
  "secret_reader \<Rightarrow> (string \<Rightarrow> api_config option) \<Rightarrow> CredentialSpec \<Rightarrow>
     credential_error list \<times> resolvedCredential list \<times> (string, string) gomap \<Rightarrow>
     credential_error list \<times> resolvedCredential list \<times> (string, string) gomap" where
  "resolve_one get load cred st =
     (case st of (errs, resolved, seen) \<Rightarrow>
        let finish = (\<lambda>kc. case provider_errors cred seen of (perrs, seen') \<Rightarrow>
              (errs @ perrs @ opt_list (validateCredentialTypeConfig cred),
               resolved @ [\<lparr>rc_Spec = cred, rc_KubeConfig = kc\<rparr>], seen'))
        in if cs_Type cred = CredentialTypeNone then finish None
           else if cs_SecretRef cred = [] then (errs @ [SecretRefRequired (cs_Name cred) (cs_Type cred)], resolved, seen)
           else case check_refs get load cred (cs_SecretRef cred) None of
             (rerrs, kc) \<Rightarrow> if rerrs \<noteq> [] then (errs @ rerrs, resolved, seen) else finish kc)"

fun duplicate_names :: "string list \<Rightarrow> CredentialSpec list \<Rightarrow> credential_error list" where
  "duplicate_names seen [] = []"
| "duplicate_names seen (c # cs) =
     (if cs_Name c \<in> set seen then [DuplicateName (cs_Name c)] else []) @ duplicate_names (cs_Name c # seen) cs"

fun custom_provider_errors ::
  "string list \<Rightarrow> (string, string) gomap \<Rightarrow> string list \<Rightarrow> CustomProviderSpec list \<Rightarrow> credential_error list" where
  "custom_provider_errors credNames seenProviders seen [] = []"
| "custom_provider_errors credNames seenProviders seen (cp # cps) =
     (if cp_Name cp \<in> set seen then [CustomProviderDuplicate (cp_Name cp)] else []) @
     (case map_of seenProviders (cp_Name cp) of
        Some existing \<Rightarrow> [CustomProviderConflict (cp_Name cp) existing] | None \<Rightarrow> []) @
     (if cp_CredentialRef cp \<notin> set credNames then [CustomProviderCredRef (cp_Name cp) (cp_CredentialRef cp)] else []) @
     custom_provider_errors credNames seenProviders (cp_Name cp # seen) cps"

definition resolveCredentials ::
  "secret_reader \<Rightarrow> (string \<Rightarrow> api_config option) \<Rightarrow> Claw \<Rightarrow>
     (credential_error list, resolvedCredential list) result" where
  "resolveCredentials get load instance =
     (let creds = sp_Credentials (cl_Spec instance);
          ghCreds = githubRepoAccessCredentials instance
      in case fold (resolve_one get load) creds ([], [], []) of
           (errs, resolved, seenProviders) \<Rightarrow>
             let errs2 = duplicate_names [] creds;
                 resolved2 = resolved @ map (\<lambda>c. \<lparr>rc_Spec = c, rc_KubeConfig = None\<rparr>) ghCreds;
                 errs3 = custom_provider_errors (map cs_Name (creds @ ghCreds)) seenProviders []
                   (sp_CustomProviders (cl_Spec instance));
                 all = errs @ errs2 @ errs3
             in if length all > 0 then Inl all else Inr resolved2)"

definition hasKubernetesCredentials :: "resolvedCredential list \<Rightarrow> bool" where
  "hasKubernetesCredentials creds = list_ex (\<lambda>rc. cs_Type (rc_Spec rc) = CredentialTypeKubernetes) creds"

subsection \<open>The gateway token\<close>

definition hex_digit :: "nat \<Rightarrow> char" where
  "hex_digit n = (if n < 10 then char_of (48 + n) else char_of (87 + n))"

definition hex_encode :: "string \<Rightarrow> string" where
  "hex_encode bs = concat (map (\<lambda>b. [hex_digit (byte_of b div 16), hex_digit (byte_of b mod 16)]) bs)"

text \<open>\<open>randomBytes\<close> is what \<open>crypto/rand\<close> delivered, \<^const>\<open>None\<close> when it failed.\<close>

definition generateGatewayToken :: "string option \<Rightarrow> string option" where
  "generateGatewayToken randomBytes = map_option hex_encode randomBytes"

datatype gateway_secret_error = TokenGeneration | SecretCheck

text \<open>The data of the Secret that is applied.\<close>

definition doCreateGatewaySecret :: "string \<Rightarrow> (string, string) gomap" where
  "doCreateGatewaySecret token = [(''token'', token)]"

definition applyGatewaySecret ::
  "secret_read \<Rightarrow> string option \<Rightarrow> (gateway_secret_error, (string, string) gomap) result" where
  "applyGatewaySecret existing randomBytes =
     (let fresh = (case generateGatewayToken randomBytes of
                     None \<Rightarrow> Inl TokenGeneration
                   | Some token \<Rightarrow> Inr (doCreateGatewaySecret token))
      in case existing of
           SecretData data \<Rightarrow>
             (case map_of data ''token'' of
                Some t \<Rightarrow> if t \<noteq> [] then Inr (doCreateGatewaySecret t) else fresh
              | None \<Rightarrow> fresh)
         | SecretNotFound \<Rightarrow> fresh
         | SecretReadError \<Rightarrow> Inl SecretCheck)"

subsection \<open>Kubeconfig validation\<close>

definition token_only :: "api_authinfo \<Rightarrow> bool" where
  "token_only a \<longleftrightarrow> aa_ClientCertificate a = [] \<and> aa_ClientCertificateData a = [] \<and> \<not> aa_Exec a \<and>
     \<not> aa_AuthProvider a \<and> aa_TokenFile a = [] \<and> aa_Username a = [] \<and> aa_Password a = []"

lemma check_user_ok: "is_ok (check_user (u, a)) \<longleftrightarrow> token_only a \<and> aa_Token a \<noteq> []"
  by (auto simp: check_user_def token_only_def Let_def)

lemma parse_cluster_Inr:
  "parse_cluster (n, c) = Inr k \<Longrightarrow>
     kcl_Name k = n \<and> kcl_Server k = ac_Server c \<and> kcl_CAData k = ac_CertificateAuthorityData c \<and>
     parseServerURL (ac_Server c) = Some (kcl_Hostname k, kcl_Port k) \<and> ac_CertificateAuthority c = []"
  by (auto simp: parse_cluster_def Let_def split: if_splits option.splits)

lemma parseServerURL_Some: "parseServerURL s = Some (h, p) \<Longrightarrow> h \<noteq> [] \<and> p \<noteq> []"
  by (auto simp: parseServerURL_def split: option.splits if_splits)

text \<open>After the context loop the map agrees with every context's server and token.\<close>

lemma check_contexts:
  assumes "rfold (check_context cfg) cs st = Inr st'"
  shows "(\<forall>k t. map_of st k = Some t \<longrightarrow> map_of st' k = Some t) \<and>
    (\<forall>c \<in> set cs. \<forall>k t. server_token cfg (snd c) = Some (k, t) \<longrightarrow> map_of st' k = Some t)"
  using assms
proof (induction cs arbitrary: st)
  case (Cons c cs)
  from Cons.prems obtain st1 where st1: "check_context cfg c st = Inr st1"
      and rest: "rfold (check_context cfg) cs st1 = Inr st'"
    by (auto simp: rbind_eq_Inr)
  have "(\<forall>k t. map_of st k = Some t \<longrightarrow> map_of st1 k = Some t) \<and>
      (\<forall>k t. server_token cfg (snd c) = Some (k, t) \<longrightarrow> map_of st1 k = Some t)"
    using st1 by (auto simp: check_context_def split: option.splits prod.splits if_splits)
  with Cons.IH [OF rest] show ?case by auto
qed simp

lemma parse_kubeconfig_Inr:
  assumes "parseAndValidateKubeconfig load data = Inr kd"
  obtains cfg where "load data = Some cfg" "kd_RawBytes kd = data"
    "\<forall>(u, a) \<in> set (acfg_AuthInfos cfg). token_only a \<and> aa_Token a \<noteq> []"
    "list_all2 (\<lambda>c k. parse_cluster c = Inr k) (acfg_Clusters cfg) (kd_Clusters kd)"
    "\<exists>m. \<forall>c \<in> set (acfg_Contexts cfg). \<forall>k t. server_token cfg (snd c) = Some (k, t) \<longrightarrow> map_of m k = Some t"
proof -
  from assms obtain cfg us where l: "load data = Some cfg" and u: "rmap check_user (acfg_AuthInfos cfg) = Inr us"
      and c: "rmap parse_cluster (acfg_Clusters cfg) = Inr (kd_Clusters kd)" and r: "kd_RawBytes kd = data"
      and x: "is_ok (rfold (check_context cfg) (acfg_Contexts cfg) [])"
    by (auto simp: parseAndValidateKubeconfig_def rbind_eq_Inr split: option.splits)
  have "is_ok (rmap check_user (acfg_AuthInfos cfg))" using u by simp
  then have "\<forall>(u, a) \<in> set (acfg_AuthInfos cfg). token_only a \<and> aa_Token a \<noteq> []"
    using check_user_ok by (auto simp: rmap_is_ok)
  moreover from x obtain m where "rfold (check_context cfg) (acfg_Contexts cfg) [] = Inr m" by (auto simp: is_ok_iff)
  note check_contexts [OF this]
  ultimately show ?thesis using that l r c [unfolded rmap_Inr_list_all2] by blast
qed

text \<open>
  (C21) A validated kubeconfig. When validation accepts the bytes, every user authenticates with an
  inline token and nothing else, every cluster kept for routing has a host and a port, and no server
  is reached with two different tokens through its contexts.
\<close>

theorem validated_kubeconfig:
  assumes "parseAndValidateKubeconfig load data = Inr kd"
  shows "\<exists>cfg. load data = Some cfg \<and>
    (\<forall>(u, a) \<in> set (acfg_AuthInfos cfg). token_only a \<and> aa_Token a \<noteq> []) \<and>
    (\<forall>k \<in> set (kd_Clusters kd). kcl_Hostname k \<noteq> [] \<and> kcl_Port k \<noteq> []) \<and>
    map kcl_Name (kd_Clusters kd) = map fst (acfg_Clusters cfg) \<and>
    (\<forall>c \<in> set (acfg_Contexts cfg). \<forall>d \<in> set (acfg_Contexts cfg). \<forall>k t u.
       server_token cfg (snd c) = Some (k, t) \<longrightarrow> server_token cfg (snd d) = Some (k, u) \<longrightarrow> t = u)"
proof -
  from assms obtain cfg where cfg: "load data = Some cfg"
    "\<forall>(u, a) \<in> set (acfg_AuthInfos cfg). token_only a \<and> aa_Token a \<noteq> []"
    and cl: "list_all2 (\<lambda>c k. parse_cluster c = Inr k) (acfg_Clusters cfg) (kd_Clusters kd)"
    and m: "\<exists>m. \<forall>c \<in> set (acfg_Contexts cfg). \<forall>k t. server_token cfg (snd c) = Some (k, t) \<longrightarrow> map_of m k = Some t"
    by (rule parse_kubeconfig_Inr)
  have names: "map kcl_Name (kd_Clusters kd) = map fst (acfg_Clusters cfg)"
    using cl by (induction rule: list_all2_induct) (auto dest: parse_cluster_Inr)
  have "\<forall>k \<in> set (kd_Clusters kd). kcl_Hostname k \<noteq> [] \<and> kcl_Port k \<noteq> []"
    using cl by (induction rule: list_all2_induct) (auto dest: parse_cluster_Inr parseServerURL_Some)
  moreover have "\<forall>c \<in> set (acfg_Contexts cfg). \<forall>d \<in> set (acfg_Contexts cfg). \<forall>k t u.
       server_token cfg (snd c) = Some (k, t) \<longrightarrow> server_token cfg (snd d) = Some (k, u) \<longrightarrow> t = u"
    using m by (metis option.inject)
  ultimately show ?thesis using cfg names by (intro exI [of _ cfg] conjI)
qed

definition sample_kubeconfig :: api_config where
  "sample_kubeconfig =
     \<lparr>acfg_Clusters = [(''c'', \<lparr>ac_Server = ''https://Kube.example.com:6443'', ac_CertificateAuthority = [],
        ac_CertificateAuthorityData = ''ca'', ac_InsecureSkipTLSVerify = True\<rparr>)],
      acfg_AuthInfos = [(''u'', \<lparr>aa_ClientCertificate = [], aa_ClientCertificateData = [], aa_Exec = False,
        aa_AuthProvider = False, aa_TokenFile = [], aa_Username = [], aa_Password = [], aa_Token = ''tok''\<rparr>)],
      acfg_Contexts = [(''x'', \<lparr>ax_Cluster = ''c'', ax_AuthInfo = ''u'', ax_Namespace = []\<rparr>)],
      acfg_CurrentContext = ''x''\<rparr>"

definition sample_load :: "string \<Rightarrow> api_config option" where
  "sample_load data = (if data = ''kc'' then Some sample_kubeconfig else None)"

lemma sample_kubeconfig_ok: "\<exists>kd. parseAndValidateKubeconfig sample_load ''kc'' = Inr kd"
proof -
  have "is_ok (parseAndValidateKubeconfig sample_load ''kc'')" by code_simp
  then show ?thesis by (simp add: is_ok_iff)
qed

theorem validated_kubeconfig_witness:
  "\<exists>cfg kd. parseAndValidateKubeconfig sample_load ''kc'' = Inr kd \<and> sample_load ''kc'' = Some cfg \<and>
     map kcl_Name (kd_Clusters kd) = map fst (acfg_Clusters cfg)"
  using sample_kubeconfig_ok validated_kubeconfig [of sample_load "''kc''"] by blast



subsection \<open>The gateway token Secret\<close>

lemma length_hex_encode: "length (hex_encode bs) = 2 * length bs"
  by (induction bs) (simp_all add: hex_encode_def)

lemma hex_digit_inject: "m < 16 \<Longrightarrow> n < 16 \<Longrightarrow> hex_digit m = hex_digit n \<longleftrightarrow> m = n"
  by (auto simp: hex_digit_def byte_of_char_of simp flip: byte_of_inject split: if_splits)

lemma hex_encode_inject: "hex_encode bs = hex_encode cs \<longleftrightarrow> bs = cs"
proof (induction bs arbitrary: cs)
  case Nil
  then show ?case by (cases cs) (simp_all add: hex_encode_def)
next
  case (Cons b bs)
  have byte: "byte_of b div 16 = byte_of c div 16 \<and> byte_of b mod 16 = byte_of c mod 16 \<longleftrightarrow> b = c" for c
    by (metis byte_of_inject div_mult_mod_eq)
  have "byte_of x div 16 < 16" for x using byte_of_less [of x] by linarith
  then show ?case
    using Cons.IH byte by (cases cs) (auto simp: hex_encode_def hex_digit_inject)
qed

text \<open>
  (C23) The gateway token is stable. Whenever the token Secret already has a non-empty token, the
  applied Secret has that same token; otherwise a fresh one is generated, two hex digits per random
  byte and different for different random bytes; and reconciling again over what was applied applies
  the same Secret, whatever random bytes are drawn.
\<close>

theorem gateway_token_stable:
  assumes "applyGatewaySecret existing rnd = Inr secret" and "\<forall>bs. rnd = Some bs \<longrightarrow> bs \<noteq> []"
  shows "applyGatewaySecret (SecretData secret) rnd' = Inr secret \<and>
    (\<forall>data t. existing = SecretData data \<longrightarrow> map_of data ''token'' = Some t \<longrightarrow> t \<noteq> [] \<longrightarrow> map_of secret ''token'' = Some t) \<and>
    ((\<forall>data t. existing = SecretData data \<longrightarrow> map_of data ''token'' = Some t \<longrightarrow> t = []) \<longrightarrow>
       (\<exists>bs. rnd = Some bs \<and> map_of secret ''token'' = Some (hex_encode bs) \<and>
          length (hex_encode bs) = 2 * length bs \<and> (\<forall>cs. hex_encode cs = hex_encode bs \<longrightarrow> cs = bs)))"
proof -
  have ne: "hex_encode bs \<noteq> []" if "rnd = Some bs" for bs
    using assms(2) that length_hex_encode [of bs] by auto
  show ?thesis
    using assms(1) ne
    by (auto simp: applyGatewaySecret_def doCreateGatewaySecret_def generateGatewayToken_def Let_def
      length_hex_encode hex_encode_inject split: secret_read.splits option.splits if_splits)
qed

theorem gateway_token_stable_witness:
  "applyGatewaySecret (SecretData [(''token'', ''6162'')]) None = Inr [(''token'', ''6162'')]"
proof -
  have "applyGatewaySecret SecretNotFound (Some ''ab'') = Inr [(''token'', ''6162'')]" by code_simp
  from gateway_token_stable [OF this, of None] show ?thesis by blast
qed

subsection \<open>What resolution guarantees\<close>

definition secret_available :: "secret_reader \<Rightarrow> SecretRefEntry \<Rightarrow> bool" where
  "secret_available get ref \<longleftrightarrow> (\<exists>data v. get (sr_Name ref) = SecretData data \<and> map_of data (sr_Key ref) = Some v)"

text \<open>What one resolved credential of the Claw's own list satisfies.\<close>

definition credential_ok :: "secret_reader \<Rightarrow> (string \<Rightarrow> api_config option) \<Rightarrow> resolvedCredential \<Rightarrow> bool" where
  "credential_ok get load rc \<longleftrightarrow>
     (let cred = rc_Spec rc in
      validateCredentialTypeConfig cred = None \<and>
      (cs_Type cred \<noteq> CredentialTypeNone \<longrightarrow>
         cs_SecretRef cred \<noteq> [] \<and> (\<forall>ref \<in> set (cs_SecretRef cred). secret_available get ref)) \<and>
      (case rc_KubeConfig rc of
         None \<Rightarrow> cs_Type cred \<noteq> CredentialTypeKubernetes
       | Some kd \<Rightarrow> cs_Type cred = CredentialTypeKubernetes \<and>
           (\<exists>data. parseAndValidateKubeconfig load data = Inr kd)))"

lemma check_refs_ok:
  assumes "check_refs get load cred refs kc = ([], kc')"
  shows "(\<forall>ref \<in> set refs. secret_available get ref) \<and>
    (if cs_Type cred = CredentialTypeKubernetes \<and> refs \<noteq> []
     then \<exists>kd data. kc' = Some kd \<and> parseAndValidateKubeconfig load data = Inr kd else kc' = kc)"
  using assms
proof (induction refs arbitrary: kc)
  case (Cons ref refs)
  from Cons.prems obtain data v where ref: "get (sr_Name ref) = SecretData data" "map_of data (sr_Key ref) = Some v"
    by (cases "get (sr_Name ref)")
      (auto split: option.splits if_splits sum.splits simp: apfst_def map_prod_def split_beta)
  show ?case
  proof (cases "cs_Type cred = CredentialTypeKubernetes")
    case True
    with Cons.prems ref obtain kd where kd: "parseAndValidateKubeconfig load v = Inr kd"
        "check_refs get load cred refs (Some kd) = ([], kc')"
      by (auto split: sum.splits simp: apfst_def map_prod_def split_beta)
    with Cons.IH [OF kd(2)] True ref show ?thesis
      by (cases "refs = []") (auto simp: secret_available_def)
  next
    case False
    with Cons.prems ref have "check_refs get load cred refs kc = ([], kc')" by simp
    from Cons.IH [OF this] False ref show ?thesis by (auto simp: secret_available_def)
  qed
qed simp

lemma provider_errors_ok:
  assumes "provider_errors cred seen = ([], seen')"
  shows "(cs_Provider cred \<noteq> [] \<longrightarrow> map_of seen (cs_Provider cred) = None) \<and>
    dom (map_of seen') = dom (map_of seen) \<union> ({cs_Provider cred} - {[]})"
  using assms by (auto simp: provider_errors_def split: if_splits option.splits)

lemma resolve_one_ok:
  assumes "resolve_one get load cred (errs, resolved, seen) = ([], resolved', seen')"
  shows "errs = [] \<and> (\<exists>kc. resolved' = resolved @ [\<lparr>rc_Spec = cred, rc_KubeConfig = kc\<rparr>] \<and>
      credential_ok get load \<lparr>rc_Spec = cred, rc_KubeConfig = kc\<rparr>) \<and>
    (cs_Provider cred \<noteq> [] \<longrightarrow> map_of seen (cs_Provider cred) = None) \<and>
    dom (map_of seen') = dom (map_of seen) \<union> ({cs_Provider cred} - {[]})"
proof (cases "cs_Type cred = CredentialTypeNone")
  case True
  obtain perrs s1 where p: "provider_errors cred seen = (perrs, s1)" by fastforce
  with assms True have e: "errs = []" "perrs = []" "opt_list (validateCredentialTypeConfig cred) = []"
      "resolved' = resolved @ [\<lparr>rc_Spec = cred, rc_KubeConfig = None\<rparr>]" "seen' = s1"
    by (auto simp: resolve_one_def)
  then have "validateCredentialTypeConfig cred = None" by (auto simp: opt_list_def split: option.splits)
  with True e p provider_errors_ok show ?thesis by (auto simp: credential_ok_def)
next
  case False
  obtain rerrs kc where r: "check_refs get load cred (cs_SecretRef cred) None = (rerrs, kc)" by fastforce
  obtain perrs s1 where p: "provider_errors cred seen = (perrs, s1)" by fastforce
  from assms False r p have ne: "cs_SecretRef cred \<noteq> []" and e: "rerrs = []" "errs = []" "perrs = []"
      "opt_list (validateCredentialTypeConfig cred) = []"
      "resolved' = resolved @ [\<lparr>rc_Spec = cred, rc_KubeConfig = kc\<rparr>]" "seen' = s1"
    by (auto simp: resolve_one_def Let_def split: if_splits)
  then have v: "validateCredentialTypeConfig cred = None" by (auto simp: opt_list_def split: option.splits)
  have "credential_ok get load \<lparr>rc_Spec = cred, rc_KubeConfig = kc\<rparr>"
    using check_refs_ok [OF r [unfolded e(1)]] ne v
    by (auto simp: credential_ok_def split: if_splits option.splits)
  with e p provider_errors_ok show ?thesis by auto
qed

lemma resolve_all_ok:
  assumes "fold (resolve_one get load) creds (errs, resolved, seen) = ([], resolved', seen')"
  shows "errs = [] \<and> (\<exists>new. resolved' = resolved @ new \<and> map rc_Spec new = creds \<and> list_all (credential_ok get load) new) \<and>
    distinct (filter (\<lambda>p. p \<noteq> []) (map cs_Provider creds)) \<and>
    (\<forall>c \<in> set creds. cs_Provider c \<noteq> [] \<longrightarrow> map_of seen (cs_Provider c) = None) \<and>
    dom (map_of seen') = dom (map_of seen) \<union> (cs_Provider ` set creds - {[]})"
  using assms
proof (induction creds arbitrary: errs resolved seen)
  case (Cons c creds)
  obtain e1 r1 s1 where one: "resolve_one get load c (errs, resolved, seen) = (e1, r1, s1)"
    by (cases "resolve_one get load c (errs, resolved, seen)") auto
  with Cons.prems have rest: "fold (resolve_one get load) creds (e1, r1, s1) = ([], resolved', seen')" by simp
  note ih = Cons.IH [OF rest]
  then have "e1 = []" by blast
  note o = resolve_one_ok [OF one [unfolded this]]
  then obtain kc where kc: "r1 = resolved @ [\<lparr>rc_Spec = c, rc_KubeConfig = kc\<rparr>]"
      "credential_ok get load \<lparr>rc_Spec = c, rc_KubeConfig = kc\<rparr>" by blast
  from ih obtain new where new: "resolved' = r1 @ new" "map rc_Spec new = creds" "list_all (credential_ok get load) new"
    by blast
  have "\<exists>n. resolved' = resolved @ n \<and> map rc_Spec n = c # creds \<and> list_all (credential_ok get load) n"
    using kc new by (intro exI [of _ "\<lparr>rc_Spec = c, rc_KubeConfig = kc\<rparr> # new"]) simp
  moreover have d1: "dom (map_of s1) = dom (map_of seen) \<union> ({cs_Provider c} - {[]})" using o by blast
  have no: "cs_Provider d \<notin> dom (map_of s1)" if "d \<in> set creds" "cs_Provider d \<noteq> []" for d
    using ih that by (simp add: domIff)
  have "cs_Provider c \<notin> cs_Provider ` set creds" if "cs_Provider c \<noteq> []"
    using no d1 that by (metis DiffI UnCI imageE insertI1 singletonD)
  moreover have "\<forall>d \<in> set creds. cs_Provider d \<noteq> [] \<longrightarrow> map_of seen (cs_Provider d) = None"
    using no d1 by (simp add: domIff)
  moreover have "errs = []" "cs_Provider c \<noteq> [] \<longrightarrow> map_of seen (cs_Provider c) = None" using o by blast+
  moreover have "distinct (filter (\<lambda>p. p \<noteq> []) (map cs_Provider creds))" using ih by blast
  moreover have "dom (map_of seen') = dom (map_of seen) \<union> (cs_Provider ` set (c # creds) - {[]})"
    using ih o by (simp only: list.set image_insert) blast
  ultimately show ?case by (simp only: list.map filter.simps distinct.simps set_filter set_map) auto
qed simp

lemma duplicate_names_Nil:
  "duplicate_names seen cs = [] \<longleftrightarrow> distinct (map cs_Name cs) \<and> cs_Name ` set cs \<inter> set seen = {}"
  by (induction seen cs rule: duplicate_names.induct) auto

lemma custom_provider_errors_Nil:
  "custom_provider_errors names seenP seen cps = [] \<longleftrightarrow>
     distinct (map cp_Name cps) \<and> cp_Name ` set cps \<inter> set seen = {} \<and>
     (\<forall>cp \<in> set cps. map_of seenP (cp_Name cp) = None \<and> cp_CredentialRef cp \<in> set names)"
  by (induction names seenP seen cps rule: custom_provider_errors.induct) (auto split: option.splits)

lemma resolved_prefix:
  assumes "resolveCredentials get load instance = Inr rs"
  shows "map rc_Spec rs = sp_Credentials (cl_Spec instance) @ githubRepoAccessCredentials instance \<and>
    list_all (credential_ok get load) (take (length (sp_Credentials (cl_Spec instance))) rs)"
proof -
  let ?creds = "sp_Credentials (cl_Spec instance)" and ?gh = "githubRepoAccessCredentials instance"
  obtain errs resolved seen where f: "fold (resolve_one get load) ?creds ([], [], []) = (errs, resolved, seen)"
    by (cases "fold (resolve_one get load) ?creds ([], [], [])") auto
  with assms have e: "errs = []" and rs: "rs = resolved @ map (\<lambda>c. \<lparr>rc_Spec = c, rc_KubeConfig = None\<rparr>) ?gh"
    by (auto simp: resolveCredentials_def Let_def split: if_splits)
  note r = resolve_all_ok [OF f [unfolded e]]
  then have spec: "map rc_Spec resolved = ?creds" and ok: "list_all (credential_ok get load) resolved" by auto
  then have "length resolved = length ?creds" by (metis length_map)
  with rs spec ok show ?thesis by (simp add: comp_def)
qed


definition sample_claw :: Claw where
  "sample_claw = \<lparr>cl_Name = ''c1'', cl_Namespace = ''ns'', cl_Generation = 1, cl_Annotations = [],
     cl_Spec = empty_ClawSpec\<lparr>
       sp_Credentials := [empty_CredentialSpec\<lparr>cs_Name := ''openai'', cs_Type := CredentialTypeBearer,
         cs_Provider := ''openai'', cs_Domain := ''api.openai.com'',
         cs_SecretRef := [\<lparr>sr_Name = ''s'', sr_Key = ''k'', sr_Role = []\<rparr>]\<rparr>,
         empty_CredentialSpec\<lparr>cs_Name := ''kube'', cs_Type := CredentialTypeKubernetes,
         cs_SecretRef := [\<lparr>sr_Name = ''s'', sr_Key = ''kc'', sr_Role = []\<rparr>]\<rparr>],
       sp_RepoAccess := Some \<lparr>ra_GitHub = Some \<lparr>gh_SecretRef = \<lparr>sr_Name = ''s'', sr_Key = ''k'', sr_Role = []\<rparr>,
         gh_EnableAPIProxy = None, gh_EnableGitHTTPS = None, gh_ExposeEnv = True, gh_EnvNames = [],
         gh_AllowedRepositories = [''org/repo'']\<rparr>\<rparr>\<rparr>,
     cl_Status = empty_ClawStatus\<rparr>"

definition sample_reader :: secret_reader where
  "sample_reader n = (if n = ''s'' then SecretData [(''k'', ''v''), (''kc'', ''kc'')] else SecretNotFound)"

lemma sample_resolved: "\<exists>rs. resolveCredentials sample_reader sample_load sample_claw = Inr rs"
proof -
  have "is_ok (resolveCredentials sample_reader sample_load sample_claw)" by code_simp
  then show ?thesis by (simp add: is_ok_iff)
qed


subsection \<open>Repository restrictions\<close>

text \<open>
  The allowed paths for GitHub are exactly the directory of each named repository and of its
  \<open>.git\<close> form, each once. A list of repositories that consists of blanks or slashes only gives no
  path at all, which the proxy reads as no restriction.
\<close>

theorem githubAllowedPaths_exact:
  "set (githubAllowedPaths repos) =
     {p. \<exists>r \<in> set repos. \<exists>n. n = trim_by (\<lambda>c. c = CHR ''/'') (TrimSpace r) \<and> n \<noteq> [] \<and>
        (p = ''/'' @ n @ ''/'' \<or> p = ''/'' @ n @ ''.git/'')} \<and>
   distinct (githubAllowedPaths repos) \<and>
   (githubAllowedPaths repos = [] \<longleftrightarrow> (\<forall>r \<in> set repos. trim_by (\<lambda>c. c = CHR ''/'') (TrimSpace r) = []))"
proof -
  have "set (githubAllowedPaths repos) = (\<Union>r \<in> set repos. set (repo_paths r))"
    using keys_dedup_by [of id "[]" "concat (map repo_paths repos)"] by (simp add: githubAllowedPaths_def)
  moreover have "set (repo_paths r) = {p. \<exists>n. n = trim_by (\<lambda>c. c = CHR ''/'') (TrimSpace r) \<and> n \<noteq> [] \<and>
        (p = ''/'' @ n @ ''/'' \<or> p = ''/'' @ n @ ''.git/'')}" for r
    by (auto simp: repo_paths_def Let_def)
  ultimately have s: "set (githubAllowedPaths repos) =
     {p. \<exists>r \<in> set repos. \<exists>n. n = trim_by (\<lambda>c. c = CHR ''/'') (TrimSpace r) \<and> n \<noteq> [] \<and>
        (p = ''/'' @ n @ ''/'' \<or> p = ''/'' @ n @ ''.git/'')}" by auto
  moreover have "distinct (githubAllowedPaths repos)"
    using distinct_dedup_by [of id] by (simp add: githubAllowedPaths_def)
  moreover have "githubAllowedPaths repos = [] \<longleftrightarrow> set (githubAllowedPaths repos) = {}" by simp
  ultimately show ?thesis by auto
qed

theorem githubAllowedPaths_exact_witness:
  "githubAllowedPaths ['' '', ''/''] = []"
proof -
  have "trim_by (\<lambda>c. c = CHR ''/'') (TrimSpace '' '') = []" "trim_by (\<lambda>c. c = CHR ''/'') (TrimSpace ''/'') = []"
    by code_simp+
  then show ?thesis using githubAllowedPaths_exact [of "['' '', ''/'']"] by simp
qed

end
