(* ===== verification/GoBase64.thy ===== *)
theory GoBase64
  imports GoStd
begin

section \<open>Base64\<close>

text \<open>
  \<open>encoding/base64\<close> as both programs use it: the operator encodes certificates into the route
  table, the proxy decodes them and encodes basic credentials.
\<close>

text \<open>Standard base64 with padding (\<open>base64.StdEncoding\<close>).\<close>

definition b64_char :: "nat \<Rightarrow> char" where
  "b64_char n =
     (if n < 26 then char_of (65 + n)
      else if n < 52 then char_of (71 + n)
      else if n < 62 then char_of (n - 4)
      else if n = 62 then CHR ''+'' else CHR ''/'')"

fun b64_encode :: "string \<Rightarrow> string" where
  "b64_encode [] = []"
| "b64_encode [a] =
     (let n = byte_of a * 16
      in [b64_char (n div 64), b64_char (n mod 64), CHR ''='', CHR ''=''])"
| "b64_encode [a, b] =
     (let n = (byte_of a * 256 + byte_of b) * 4
      in [b64_char (n div 4096), b64_char (n div 64 mod 64), b64_char (n mod 64), CHR ''=''])"
| "b64_encode (a # b # c # rest) =
     (let n = byte_of a * 65536 + byte_of b * 256 + byte_of c
      in b64_char (n div 262144) # b64_char (n div 4096 mod 64) # b64_char (n div 64 mod 64) #
         b64_char (n mod 64) # b64_encode rest)"

text \<open>\<open>base64.StdEncoding.DecodeString\<close>: line breaks are skipped, padding is mandatory.\<close>

definition b64_value :: "char \<Rightarrow> nat option" where
  "b64_value c =
     (let n = byte_of c
      in if 65 \<le> n \<and> n \<le> 90 then Some (n - 65)
         else if 97 \<le> n \<and> n \<le> 122 then Some (n - 71)
         else if 48 \<le> n \<and> n \<le> 57 then Some (n + 4)
         else if n = 43 then Some 62
         else if n = 47 then Some 63
         else None)"

fun b64_quads :: "string \<Rightarrow> string option" where
  "b64_quads [] = Some []"
| "b64_quads (p # q # r # s # rest) =
     (case (b64_value p, b64_value q) of
        (Some i, Some j) \<Rightarrow>
          (case b64_value r of
             None \<Rightarrow>
               if r = CHR ''='' \<and> s = CHR ''='' \<and> rest = []
               then Some [char_of ((i * 64 + j) div 16)] else None
           | Some k \<Rightarrow>
               (case b64_value s of
                  None \<Rightarrow>
                    if s = CHR ''='' \<and> rest = []
                    then (let n = ((i * 64 + j) * 64 + k) div 4
                          in Some [char_of (n div 256), char_of (n mod 256)]) else None
                | Some l \<Rightarrow>
                    (let n = ((i * 64 + j) * 64 + k) * 64 + l
                     in map_option (\<lambda>t. char_of (n div 65536) # char_of (n div 256 mod 256) # char_of (n mod 256) # t)
                          (b64_quads rest))))
      | _ \<Rightarrow> None)"
| "b64_quads _ = None"

definition b64_decode :: "string \<Rightarrow> string option" where
  "b64_decode s = b64_quads (filter (\<lambda>c. byte_of c \<noteq> 10 \<and> byte_of c \<noteq> 13) s)"

subsection \<open>Decoding what was encoded\<close>

lemma byte_of_b64_char:
  "n < 64 \<Longrightarrow> byte_of (b64_char n) =
     (if n < 26 then 65 + n else if n < 52 then 71 + n else if n < 62 then n - 4 else if n = 62 then 43 else 47)"
  by (simp add: b64_char_def byte_of_char_of byte_of_def [of "CHR ''+''"] byte_of_def [of "CHR ''/''"])

lemma b64_value_char [simp]: "n < 64 \<Longrightarrow> b64_value (b64_char n) = Some n"
  by (simp add: b64_value_def Let_def byte_of_b64_char) arith

lemma b64_char_printable: "n < 64 \<Longrightarrow> 43 \<le> byte_of (b64_char n)"
  by (simp add: byte_of_b64_char) arith

lemma b64_encode_printable: "c \<in> set (b64_encode s) \<Longrightarrow> 43 \<le> byte_of c"
proof (induction s rule: b64_encode.induct)
  case (2 a)
  then show ?case
    by (auto simp: Let_def byte_of_def [of "CHR ''=''"] intro!: b64_char_printable)
      (use byte_of_less [of a] in linarith)
next
  case (3 a b)
  then show ?case
    by (auto simp: Let_def byte_of_def [of "CHR ''=''"] intro!: b64_char_printable)
      (use byte_of_less [of a] byte_of_less [of b] in linarith)
next
  case (4 a b c rest)
  have "byte_of a * 65536 + byte_of b * 256 + byte_of c < 16777216"
    using byte_of_less [of a] byte_of_less [of b] byte_of_less [of c] by linarith
  then have "(byte_of a * 65536 + byte_of b * 256 + byte_of c) div 262144 < 64"
    by (simp add: less_mult_imp_div_less)
  with 4 show ?case by (auto simp: Let_def intro!: b64_char_printable)
qed simp

lemma char_of_byte_of [simp]: "char_of (byte_of c) = c"
  by (simp add: byte_of_def)

lemma b64_value_pad [simp]: "b64_value (CHR ''='') = None"
  by code_simp

lemma radix64:
  fixes n :: nat
  shows "(n div 4096 * 64 + n div 64 mod 64) * 64 + n mod 64 = n"
    and "((n div 262144 * 64 + n div 4096 mod 64) * 64 + n div 64 mod 64) * 64 + n mod 64 = n"
proof -
  have "n div 4096 = n div 64 div 64" "n div 262144 = n div 64 div 64 div 64"
    by (simp_all flip: div_mult2_eq)
  then show "(n div 4096 * 64 + n div 64 mod 64) * 64 + n mod 64 = n"
    and "((n div 262144 * 64 + n div 4096 mod 64) * 64 + n div 64 mod 64) * 64 + n mod 64 = n"
    by (simp_all only: div_mult_mod_eq)
qed

lemma radix256:
  fixes a b c :: nat
  assumes "b < 256" "c < 256"
  shows "(a * 65536 + b * 256 + c) div 65536 = a"
    and "(a * 65536 + b * 256 + c) div 256 mod 256 = b"
    and "(a * 65536 + b * 256 + c) mod 256 = c"
proof -
  have n: "a * 65536 + b * 256 + c = (a * 256 + b) * 256 + c" by simp
  have d: "(a * 65536 + b * 256 + c) div 256 = a * 256 + b" unfolding n using assms by simp
  then show "(a * 65536 + b * 256 + c) div 256 mod 256 = b" using assms by simp
  have "(a * 65536 + b * 256 + c) div 65536 = (a * 65536 + b * 256 + c) div 256 div 256"
    by (simp flip: div_mult2_eq)
  then show "(a * 65536 + b * 256 + c) div 65536 = a" using d assms by simp
  show "(a * 65536 + b * 256 + c) mod 256 = c" unfolding n mod_mult_self3 using assms by simp
qed

lemma b64_quads_two:
  assumes "n < 64 * 4096"
  shows "b64_quads [b64_char (n div 4096), b64_char (n div 64 mod 64), b64_char (n mod 64), CHR ''='']
    = Some [char_of (n div 4 div 256), char_of (n div 4 mod 256)]"
proof -
  from assms have "n div 4096 < 64" by (rule less_mult_imp_div_less)
  then show ?thesis using radix64 [of n] by (simp add: Let_def)
qed

lemma b64_quads_three:
  assumes "n < 64 * 262144"
  shows "b64_quads (b64_char (n div 262144) # b64_char (n div 4096 mod 64) # b64_char (n div 64 mod 64) #
      b64_char (n mod 64) # t)
    = map_option (\<lambda>u. char_of (n div 65536) # char_of (n div 256 mod 256) # char_of (n mod 256) # u) (b64_quads t)"
proof -
  from assms have "n div 262144 < 64" by (rule less_mult_imp_div_less)
  then show ?thesis using radix64(2) [of n] by (simp add: Let_def)
qed

lemma b64_quads_encode: "b64_quads (b64_encode s) = Some s"
proof (induction s rule: b64_encode.induct)
  case (2 a)
  have "byte_of a * 16 div 64 < 64" using byte_of_less [of a] by linarith
  moreover have "(byte_of a * 16 div 64 * 64 + byte_of a * 16 mod 64) div 16 = byte_of a" by presburger
  ultimately show ?case by (simp only: b64_encode.simps Let_def b64_quads.simps) simp
next
  case (3 a b)
  let ?n = "(byte_of a * 256 + byte_of b) * 4"
  have "byte_of a * 256 + byte_of b \<le> 65535" using byte_of_less [of a] byte_of_less [of b] by linarith
  then have "?n \<le> 65535 * 4" by (rule mult_le_mono1)
  then have "?n < 64 * 4096" by (rule le_less_trans) simp
  then have "b64_quads (b64_encode [a, b]) = Some [char_of (?n div 4 div 256), char_of (?n div 4 mod 256)]"
    unfolding b64_encode.simps Let_def by (rule b64_quads_two)
  then show ?case using byte_of_less [of b] by simp
next
  case (4 a b c rest)
  let ?n = "byte_of a * 65536 + byte_of b * 256 + byte_of c"
  have "?n < 64 * 262144"
    using byte_of_less [of a] byte_of_less [of b] byte_of_less [of c] by linarith
  then have "b64_quads (b64_encode (a # b # c # rest)) =
      map_option (\<lambda>u. char_of (?n div 65536) # char_of (?n div 256 mod 256) # char_of (?n mod 256) # u)
        (b64_quads (b64_encode rest))"
    unfolding b64_encode.simps Let_def by (rule b64_quads_three)
  then show ?case using 4 radix256 [of "byte_of b" "byte_of c" "byte_of a"] by simp
qed simp

lemma b64_decode_encode: "b64_decode (b64_encode s) = Some s"
proof -
  have "filter (\<lambda>c. byte_of c \<noteq> 10 \<and> byte_of c \<noteq> 13) (b64_encode s) = b64_encode s"
    by (rule filter_True) (fastforce dest: b64_encode_printable)
  then show ?thesis by (simp add: b64_decode_def b64_quads_encode)
qed

end
