(* ===== verification/Proxy_Config.thy ===== *)
theory Proxy_Config
  imports Credentials GoBase64 "HOL-Library.Product_Lexorder"
begin

section \<open>Generating the proxy's route table (\<open>src/internal/controller/claw_proxy.go\<close>)\<close>

text \<open>
  From resolved credentials, MCP servers, web search and the builtin passthrough domains to the list
  of routes the proxy loads, with the order that makes it deterministic. The route order is a strict
  weak order, so the sort is stable and sorted; the lemmas follow each credential to its route and
  say which domains can be shadowed.
\<close>

record proxyRoute =
  pr_Domain :: string
  pr_Injector :: string
  pr_Header :: string
  pr_ValuePrefix :: string
  pr_BasicUsername :: string
  pr_EnvVar :: string
  pr_SAFilePath :: string
  pr_GCPProject :: string
  pr_GCPLocation :: string
  pr_PathPrefix :: string
  pr_Upstream :: string
  pr_ClientID :: string
  pr_TokenURL :: string
  pr_Scopes :: "string list"
  pr_DefaultHeaders :: "(string, string) gomap"
  pr_KubeconfigPath :: string
  pr_CACert :: string
  pr_AllowedPaths :: "string list"

definition empty_proxyRoute :: proxyRoute where
  "empty_proxyRoute = \<lparr>pr_Domain = [], pr_Injector = [], pr_Header = [], pr_ValuePrefix = [], pr_BasicUsername = [],
     pr_EnvVar = [], pr_SAFilePath = [], pr_GCPProject = [], pr_GCPLocation = [], pr_PathPrefix = [],
     pr_Upstream = [], pr_ClientID = [], pr_TokenURL = [], pr_Scopes = [], pr_DefaultHeaders = [],
     pr_KubeconfigPath = [], pr_CACert = [], pr_AllowedPaths = []\<rparr>"

definition credEnvVarName :: "string \<Rightarrow> string" where
  "credEnvVarName credName = ''CRED_'' @ ReplaceByte (CHR ''-'') (CHR ''_'') (ToUpper credName)"

record builtinPassthrough =
  bp_Domain :: string
  bp_AllowedPaths :: "string list"

definition builtinPassthroughDomains :: "builtinPassthrough list" where
  "builtinPassthroughDomains =
     [\<lparr>bp_Domain = ''clawhub.ai'', bp_AllowedPaths = []\<rparr>,
      \<lparr>bp_Domain = ''openrouter.ai'', bp_AllowedPaths = []\<rparr>,
      \<lparr>bp_Domain = ''github.com'', bp_AllowedPaths = []\<rparr>,
      \<lparr>bp_Domain = ''codeload.github.com'', bp_AllowedPaths = []\<rparr>,
      \<lparr>bp_Domain = ''raw.githubusercontent.com'',
       bp_AllowedPaths = [''/BerriAI/litellm/'', ''/WhiskeySockets/Baileys/'']\<rparr>,
      \<lparr>bp_Domain = ''registry.npmjs.org'', bp_AllowedPaths = []\<rparr>]"

definition filterBuiltinPassthroughs :: "string list option \<Rightarrow> builtinPassthrough list \<times> string list" where
  "filterBuiltinPassthroughs allowlist =
     (case allowlist of
        None \<Rightarrow> (builtinPassthroughDomains, [])
      | Some allowed \<Rightarrow>
          (filter (\<lambda>bp. bp_Domain bp \<in> set allowed) builtinPassthroughDomains,
           filter (\<lambda>d. d \<notin> bp_Domain ` set builtinPassthroughDomains) allowed))"

subsection \<open>Routes of a credential\<close>

definition buildCredentialRoute :: "CredentialSpec \<Rightarrow> proxyRoute" where
  "buildCredentialRoute cred =
     (let route = empty_proxyRoute\<lparr>pr_Domain := cs_Domain cred, pr_DefaultHeaders := cs_DefaultHeaders cred,
            pr_AllowedPaths := cs_AllowedPaths cred\<rparr>;
          env = credEnvVarName (cs_Name cred)
      in if cs_Type cred = CredentialTypeAPIKey then
           (case cs_APIKey cred of
              Some a \<Rightarrow> route\<lparr>pr_Injector := ''api_key'', pr_EnvVar := env, pr_Header := apk_Header a,
                         pr_ValuePrefix := apk_ValuePrefix a\<rparr>
            | None \<Rightarrow> route\<lparr>pr_Injector := ''api_key'', pr_EnvVar := env\<rparr>)
         else if cs_Type cred = CredentialTypeBearer then route\<lparr>pr_Injector := ''bearer'', pr_EnvVar := env\<rparr>
         else if cs_Type cred = CredentialTypeBasic then
           (case cs_Basic cred of
              Some b \<Rightarrow> route\<lparr>pr_Injector := ''basic'', pr_EnvVar := env, pr_BasicUsername := bac_Username b\<rparr>
            | None \<Rightarrow> route\<lparr>pr_Injector := ''basic'', pr_EnvVar := env\<rparr>)
         else if cs_Type cred = CredentialTypeGCP then
           (let r = route\<lparr>pr_Injector := ''gcp'',
                  pr_SAFilePath := ''/etc/proxy/credentials/'' @ cs_Name cred @ ''/sa-key.json''\<rparr>
            in case cs_GCP cred of
                 Some g \<Rightarrow> r\<lparr>pr_GCPProject := gcp_Project g, pr_GCPLocation := gcp_Location g\<rparr>
               | None \<Rightarrow> r)
         else if cs_Type cred = CredentialTypeNone then route\<lparr>pr_Injector := ''none''\<rparr>
         else if cs_Type cred = CredentialTypePathToken then
           (case cs_PathToken cred of
              Some p \<Rightarrow> route\<lparr>pr_Injector := ''path_token'', pr_EnvVar := env, pr_PathPrefix := ptc_Prefix p\<rparr>
            | None \<Rightarrow> route\<lparr>pr_Injector := ''path_token'', pr_EnvVar := env\<rparr>)
         else if cs_Type cred = CredentialTypeOAuth2 then
           (case cs_OAuth2 cred of
              Some a \<Rightarrow> route\<lparr>pr_Injector := ''oauth2'', pr_EnvVar := env, pr_ClientID := oac_ClientID a,
                         pr_TokenURL := oac_TokenURL a, pr_Scopes := oac_Scopes a\<rparr>
            | None \<Rightarrow> route\<lparr>pr_Injector := ''oauth2'', pr_EnvVar := env\<rparr>)
         else route)"

definition generateCompanionRoutes :: "CredentialSpec \<Rightarrow> proxyRoute list" where
  "generateCompanionRoutes cred =
     (if cs_Channel cred = [] then []
      else case map_of knownChannels (cs_Channel cred) of
        None \<Rightarrow> []
      | Some d \<Rightarrow> map (\<lambda>domain. empty_proxyRoute\<lparr>pr_Domain := domain, pr_Injector := ''none''\<rparr>) (cd_Companions d))"

definition kube_route :: "CredentialSpec \<Rightarrow> kubeconfigCluster \<Rightarrow> proxyRoute" where
  "kube_route cred cluster =
     empty_proxyRoute\<lparr>pr_Domain := kcl_Hostname cluster @ '':'' @ kcl_Port cluster, pr_Injector := ''kubernetes'',
       pr_KubeconfigPath := ''/etc/proxy/credentials/'' @ cs_Name cred @ ''/kubeconfig'',
       pr_DefaultHeaders := cs_DefaultHeaders cred,
       pr_CACert := (if kcl_CAData cluster \<noteq> [] then b64_encode (kcl_CAData cluster) else [])\<rparr>"

definition credential_route :: "CredentialSpec \<Rightarrow> proxyRoute" where
  "credential_route cred =
     (let route = buildCredentialRoute cred
      in if cs_Provider cred \<noteq> [] \<and> cs_Type cred \<noteq> CredentialTypePathToken \<and> \<not> usesVertexSDK cred
         then route\<lparr>pr_PathPrefix := ''/'' @ ToLower (cs_Name cred),
                    pr_Upstream := pi_Upstream (resolveProviderInfo cred)\<rparr>
         else route)"

text \<open>The routes of one credential in the order they are appended, before the split by domain form.\<close>

definition routes_of :: "resolvedCredential \<Rightarrow> proxyRoute list" where
  "routes_of rc =
     (let cred = rc_Spec rc
      in if cs_Type cred = CredentialTypeKubernetes then
           (case rc_KubeConfig rc of
              None \<Rightarrow> []
            | Some kd \<Rightarrow> map (kube_route cred) (kd_Clusters kd))
         else (if cs_Domain cred \<noteq> [] then [credential_route cred] else []) @ generateCompanionRoutes cred)"

text \<open>
  Kubernetes routes always go to the exact list; a kubeconfig host never starts with a dot in a
  valid URL, but the code does not look.
\<close>

definition goes_to_suffix :: "proxyRoute \<Rightarrow> bool" where
  "goes_to_suffix r \<longleftrightarrow> pr_Injector r \<noteq> ''kubernetes'' \<and> HasPrefix (pr_Domain r) ''.''"

definition credentialRoutes ::
  "resolvedCredential list \<Rightarrow> proxyRoute list \<times> proxyRoute list" where
  "credentialRoutes credentials =
     (let routes = concat (map routes_of credentials)
      in (filter (\<lambda>r. \<not> goes_to_suffix r) routes, filter goes_to_suffix routes))"

subsection \<open>Web search and MCP servers\<close>

record searchProviderInfo =
  spi_Domain :: string
  spi_Injector :: string
  spi_Header :: string

definition knownSearchProviders :: "(string, searchProviderInfo) gomap" where
  "knownSearchProviders =
     [(''brave'', \<lparr>spi_Domain = ''api.search.brave.com'', spi_Injector = ''api_key'', spi_Header = ''X-Subscription-Token''\<rparr>),
      (''tavily'', \<lparr>spi_Domain = ''api.tavily.com'', spi_Injector = ''bearer'', spi_Header = []\<rparr>),
      (''duckduckgo'', \<lparr>spi_Domain = ''html.duckduckgo.com'', spi_Injector = ''none'', spi_Header = []\<rparr>)]"

abbreviation webSearchCredPrefix :: string where "webSearchCredPrefix \<equiv> ''websearch''"

definition webSearchRoute :: "WebSearchSpec option \<Rightarrow> proxyRoute option" where
  "webSearchRoute webSearch =
     (case webSearch of
        None \<Rightarrow> None
      | Some ws \<Rightarrow>
          (case map_of knownSearchProviders (ws_Provider ws) of
             None \<Rightarrow> None
           | Some info \<Rightarrow>
               let route = empty_proxyRoute\<lparr>pr_Domain := spi_Domain info, pr_Injector := spi_Injector info\<rparr>
               in Some (if spi_Injector info = ''api_key''
                        then route\<lparr>pr_EnvVar := credEnvVarName webSearchCredPrefix, pr_Header := spi_Header info\<rparr>
                        else if spi_Injector info = ''bearer''
                        then route\<lparr>pr_EnvVar := credEnvVarName webSearchCredPrefix\<rparr>
                        else route)))"

definition domainCovered :: "string \<Rightarrow> string list \<Rightarrow> bool" where
  "domainCovered domain coveredDomains =
     (domain \<in> set coveredDomains \<or>
      list_ex (\<lambda>covered. HasPrefix covered ''.'' \<and> HasSuffix domain covered) coveredDomains)"

text \<open>The host of an MCP server's URL, when it has one.\<close>

definition mcp_domain :: "McpServerSpec \<Rightarrow> string option" where
  "mcp_domain mcp =
     (case UrlParse (mcp_URL mcp) of
        None \<Rightarrow> None
      | Some u \<Rightarrow> if Hostname u = [] then None else Some (ToLower (Hostname u)))"

datatype proxy_config_error = McpCredentialMissing string string

fun mcpCredentialRoutes ::
  "(string \<times> McpServerSpec) list \<Rightarrow> (string, CredentialSpec) gomap \<Rightarrow> string list \<Rightarrow>
     (proxy_config_error, proxyRoute list \<times> string list) result" where
  "mcpCredentialRoutes [] credByName covered = Inr ([], covered)"
| "mcpCredentialRoutes ((serverName, mcp) # rest) credByName covered =
     (if mcp_URL mcp = [] \<or> mcp_CredentialRef mcp = [] then mcpCredentialRoutes rest credByName covered
      else case map_of credByName (mcp_CredentialRef mcp) of
        None \<Rightarrow> Inl (McpCredentialMissing serverName (mcp_CredentialRef mcp))
      | Some cred \<Rightarrow>
          (case mcp_domain mcp of
             None \<Rightarrow> mcpCredentialRoutes rest credByName covered
           | Some domain \<Rightarrow>
               if domainCovered domain covered then mcpCredentialRoutes rest credByName covered
               else rbind (mcpCredentialRoutes rest credByName (domain # covered)) (\<lambda>(routes, covered').
                 Inr ((buildCredentialRoute cred)\<lparr>pr_Domain := domain, pr_AllowedPaths := [], pr_DefaultHeaders := []\<rparr>
                        # routes, covered'))))"

fun mcpPassthroughRoutes :: "(string \<times> McpServerSpec) list \<Rightarrow> string list \<Rightarrow> proxyRoute list" where
  "mcpPassthroughRoutes [] covered = []"
| "mcpPassthroughRoutes ((serverName, mcp) # rest) covered =
     (if mcp_URL mcp = [] \<or> mcp_CredentialRef mcp \<noteq> [] then mcpPassthroughRoutes rest covered
      else case mcp_domain mcp of
        None \<Rightarrow> mcpPassthroughRoutes rest covered
      | Some domain \<Rightarrow>
          if domainCovered domain covered then mcpPassthroughRoutes rest covered
          else empty_proxyRoute\<lparr>pr_Domain := domain, pr_Injector := ''none''\<rparr>
                 # mcpPassthroughRoutes rest (domain # covered))"

subsection \<open>The route table\<close>

definition routeLess :: "proxyRoute \<Rightarrow> proxyRoute \<Rightarrow> bool" where
  "routeLess a b =
     (if pr_Domain a \<noteq> pr_Domain b then pr_Domain a < pr_Domain b
      else if (pr_AllowedPaths a \<noteq> []) \<noteq> (pr_AllowedPaths b \<noteq> []) then pr_AllowedPaths a \<noteq> []
      else pr_Injector a < pr_Injector b)"

fun builtin_routes :: "builtinPassthrough list \<Rightarrow> string list \<Rightarrow> proxyRoute list \<times> string list" where
  "builtin_routes [] covered = ([], covered)"
| "builtin_routes (bp # bps) covered =
     (if bp_Domain bp \<in> set covered then builtin_routes bps covered
      else apfst (Cons (empty_proxyRoute\<lparr>pr_Domain := bp_Domain bp, pr_Injector := ''none'',
             pr_AllowedPaths := bp_AllowedPaths bp\<rparr>)) (builtin_routes bps (bp_Domain bp # covered)))"

definition web_search_routes :: "WebSearchSpec option \<Rightarrow> string list \<Rightarrow> proxyRoute list \<times> string list" where
  "web_search_routes webSearch covered =
     (case webSearchRoute webSearch of
        None \<Rightarrow> ([], covered)
      | Some wsRoute \<Rightarrow>
          let wsDomain = ToLower (pr_Domain wsRoute)
          in if domainCovered wsDomain covered then ([], covered) else ([wsRoute], wsDomain # covered))"

text \<open>\<^const>\<open>None\<close> for \<open>builtins\<close> is the nil slice, which stands for the default domains.\<close>

definition generateProxyConfig ::
  "resolvedCredential list \<Rightarrow> (string, McpServerSpec) gomap \<Rightarrow> WebSearchSpec option \<Rightarrow>
     builtinPassthrough list option \<Rightarrow> (proxy_config_error, proxyRoute list) result" where
  "generateProxyConfig credentials mcpServers webSearch builtins =
     (let covered0 = map (\<lambda>rc. ToLower (cs_Domain (rc_Spec rc))) credentials;
          credByName = fold (\<lambda>rc m. AList.update (cs_Name (rc_Spec rc)) (rc_Spec rc) m) credentials []
      in case builtin_routes (case builtins of None \<Rightarrow> builtinPassthroughDomains | Some bs \<Rightarrow> bs) covered0 of
           (bRoutes, covered1) \<Rightarrow>
         (case web_search_routes webSearch covered1 of
           (wRoutes, covered2) \<Rightarrow>
             rbind (mcpCredentialRoutes mcpServers credByName covered2) (\<lambda>(mRoutes, covered3).
               let pRoutes = mcpPassthroughRoutes mcpServers covered3
               in case credentialRoutes credentials of
                    (credExact, credSuffix) \<Rightarrow>
                      Inr (SliceStable routeLess (bRoutes @ wRoutes @ mRoutes @ pRoutes @ credExact) @
                           SliceStable routeLess credSuffix))))"

subsection \<open>The route order\<close>

definition route_key :: "proxyRoute \<Rightarrow> string \<times> bool \<times> string" where
  "route_key r = (pr_Domain r, pr_AllowedPaths r = [], pr_Injector r)"

lemma routeLess_key: "routeLess a b \<longleftrightarrow> route_key a < route_key b"
  by (auto simp: routeLess_def route_key_def less_prod_simp less_bool_def)

interpretation route_order: strict_weak_order routeLess
  by unfold_locales (auto simp: routeLess_key)

lemma generateProxyConfig_Inr:
  assumes "generateProxyConfig creds mcps ws builtins = Inr routes"
  obtains bRoutes c1 wRoutes c2 mRoutes c3 credByName where
    "builtin_routes (case builtins of None \<Rightarrow> builtinPassthroughDomains | Some bs \<Rightarrow> bs)
       (map (\<lambda>rc. ToLower (cs_Domain (rc_Spec rc))) creds) = (bRoutes, c1)"
    "web_search_routes ws c1 = (wRoutes, c2)"
    "credByName = fold (\<lambda>rc m. AList.update (cs_Name (rc_Spec rc)) (rc_Spec rc) m) creds []"
    "mcpCredentialRoutes mcps credByName c2 = Inr (mRoutes, c3)"
    "routes = SliceStable routeLess (bRoutes @ wRoutes @ mRoutes @ mcpPassthroughRoutes mcps c3 @ fst (credentialRoutes creds)) @
       SliceStable routeLess (snd (credentialRoutes creds))"
proof -
  obtain bRoutes c1 where b: "builtin_routes (case builtins of None \<Rightarrow> builtinPassthroughDomains | Some bs \<Rightarrow> bs)
       (map (\<lambda>rc. ToLower (cs_Domain (rc_Spec rc))) creds) = (bRoutes, c1)" by fastforce
  obtain wRoutes c2 where w: "web_search_routes ws c1 = (wRoutes, c2)" by fastforce
  obtain ex su where e: "credentialRoutes creds = (ex, su)" by fastforce
  show ?thesis using assms b w e that by (auto simp: generateProxyConfig_def rbind_eq_Inr Let_def)
qed

lemma generateProxyConfig_no_mcp: "is_ok (generateProxyConfig creds [] ws builtins)"
  by (simp add: generateProxyConfig_def Let_def split: prod.split)

subsection \<open>Covered domains\<close>

lemma builtin_routes_new:
  assumes "builtin_routes bps covered = (routes, covered')"
  shows "set covered \<subseteq> set covered' \<and>
    (\<forall>r \<in> set routes. pr_Domain r \<notin> set covered \<and> pr_Domain r \<in> bp_Domain ` set bps \<and> pr_Domain r \<in> set covered' \<and>
       pr_Injector r = ''none'')"
  using assms
proof (induction bps covered arbitrary: routes covered' rule: builtin_routes.induct)
  case (2 bp bps covered)
  show ?case
  proof (cases "bp_Domain bp \<in> set covered")
    case True
    with 2 show ?thesis by auto
  next
    case False
    obtain rs c where rest: "builtin_routes bps (bp_Domain bp # covered) = (rs, c)" by fastforce
    with 2(3) False have "routes = empty_proxyRoute\<lparr>pr_Domain := bp_Domain bp, pr_Injector := ''none'',
        pr_AllowedPaths := bp_AllowedPaths bp\<rparr> # rs" "covered' = c" by auto
    with 2(2) [OF False rest] False show ?thesis by auto
  qed
qed simp

lemma web_search_routes_new:
  assumes "web_search_routes ws covered = (routes, covered')"
  shows "set covered \<subseteq> set covered' \<and>
    (\<forall>r \<in> set routes. ToLower (pr_Domain r) \<notin> set covered \<and> \<not> domainCovered (ToLower (pr_Domain r)) covered)"
  using assms
  by (auto simp: web_search_routes_def domainCovered_def Let_def split: option.splits if_splits)

text \<open>A route built for an MCP server from the credential it refers to.\<close>

definition from_mcp :: "(string \<times> McpServerSpec) list \<Rightarrow> (string, CredentialSpec) gomap \<Rightarrow> proxyRoute \<Rightarrow> bool" where
  "from_mcp mcps cbn r \<longleftrightarrow>
     (\<exists>m \<in> set mcps. \<exists>cred. mcp_domain (snd m) = Some (pr_Domain r) \<and> mcp_CredentialRef (snd m) \<noteq> [] \<and>
        map_of cbn (mcp_CredentialRef (snd m)) = Some cred \<and>
        r = (buildCredentialRoute cred)\<lparr>pr_Domain := pr_Domain r, pr_AllowedPaths := [], pr_DefaultHeaders := []\<rparr>)"

lemma from_mcp_Cons: "from_mcp mcps cbn r \<Longrightarrow> from_mcp (m # mcps) cbn r"
  by (auto simp: from_mcp_def)

lemma from_mcp_here:
  "mcp_domain mcp = Some d \<Longrightarrow> mcp_CredentialRef mcp \<noteq> [] \<Longrightarrow> map_of cbn (mcp_CredentialRef mcp) = Some cred \<Longrightarrow>
     from_mcp ((n, mcp) # mcps) cbn ((buildCredentialRoute cred)\<lparr>pr_Domain := d, pr_AllowedPaths := [], pr_DefaultHeaders := []\<rparr>)"
  by (simp add: from_mcp_def)

lemma domainCovered_mono: "domainCovered d c \<Longrightarrow> set c \<subseteq> set c' \<Longrightarrow> domainCovered d c'"
  by (auto simp: domainCovered_def list_ex_iff)

lemma mcpCredentialRoutes_new:
  assumes "mcpCredentialRoutes mcps cbn covered = Inr (routes, covered')"
  shows "set covered \<subseteq> set covered' \<and>
    (\<forall>r \<in> set routes. \<not> domainCovered (pr_Domain r) covered \<and> from_mcp mcps cbn r)"
  using assms
proof (induction mcps arbitrary: covered routes)
  case (Cons e rest)
  obtain n mcp where e: "e = (n, mcp)" by (cases e)
  show ?case
  proof (cases "mcpCredentialRoutes rest cbn covered = Inr (routes, covered')")
    case True
    with Cons.IH [OF True] show ?thesis by (auto intro: from_mcp_Cons)
  next
    case False
    with Cons.prems e obtain cred d rs where c: "mcp_CredentialRef mcp \<noteq> []"
        "map_of cbn (mcp_CredentialRef mcp) = Some cred" "mcp_domain mcp = Some d" "\<not> domainCovered d covered"
      and rs: "mcpCredentialRoutes rest cbn (d # covered) = Inr (rs, covered')"
      and routes: "routes = (buildCredentialRoute cred)\<lparr>pr_Domain := d, pr_AllowedPaths := [], pr_DefaultHeaders := []\<rparr> # rs"
      by (auto simp: rbind_eq_Inr split: if_splits option.splits)
    note ih = Cons.IH [OF rs]
    have "\<not> domainCovered (pr_Domain r) covered \<and> from_mcp (e # rest) cbn r" if "r \<in> set rs" for r
      using ih that domainCovered_mono [of "pr_Domain r" covered "d # covered"] by (auto intro: from_mcp_Cons)
    moreover have "from_mcp (e # rest) cbn (hd routes)" using c routes e by (simp add: from_mcp_here)
    ultimately show ?thesis using ih routes c(4) by auto
  qed
qed simp

lemma mcpPassthroughRoutes_new:
  "r \<in> set (mcpPassthroughRoutes mcps covered) \<Longrightarrow>
     \<not> domainCovered (pr_Domain r) covered \<and> pr_Injector r = ''none'' \<and>
     (\<exists>m \<in> set mcps. mcp_domain (snd m) = Some (pr_Domain r))"
proof (induction mcps covered rule: mcpPassthroughRoutes.induct)
  case (2 serverName mcp rest covered)
  then show ?case
    by (auto simp: domainCovered_def split: if_splits option.splits)
qed simp

subsection \<open>Environment variables of credentials\<close>

text \<open>Names over lower-case letters, digits and dashes.\<close>

definition label_char :: "char \<Rightarrow> bool" where
  "label_char c \<longleftrightarrow> is_lower_byte c \<or> is_digit_byte c \<or> c = CHR ''-''"

definition env_char :: "char \<Rightarrow> char" where
  "env_char c = (if upper_char c = CHR ''-'' then CHR ''_'' else upper_char c)"

lemma credEnvVarName_map: "credEnvVarName n = ''CRED_'' @ map env_char n"
  by (simp add: credEnvVarName_def ReplaceByte_def ToUpper_def env_char_def)

lemma byte_of_env_char: "byte_of (env_char c) = (if byte_of c = 45 then 95 else byte_of (upper_char c))"
proof -
  have "c = CHR ''-'' \<longleftrightarrow> byte_of c = byte_of (CHR ''-'')" by simp
  moreover have "byte_of (CHR ''-'') = 45" "byte_of (CHR ''_'') = 95" by code_simp+
  ultimately show ?thesis by (simp add: env_char_def dash_case)
qed

lemma env_char_inj:
  assumes "label_char c" "label_char d" "env_char c = env_char d"
  shows "c = d"
proof -
  have bytes: "byte_of x \<in> {97..122} \<or> byte_of x \<in> {48..57} \<or> byte_of x = 45" if "label_char x" for x
  proof -
    have "byte_of (CHR ''-'') = 45" by code_simp
    with that show ?thesis by (auto simp: label_char_def is_lower_byte_def is_digit_byte_def)
  qed
  have "byte_of (env_char c) = byte_of (env_char d)" using assms(3) by simp
  then have "byte_of c = byte_of d"
    using bytes[OF assms(1)] bytes[OF assms(2)]
    by (simp del: byte_of_inject add: byte_of_env_char byte_of_upper_char split: if_splits) arith+
  then show ?thesis by simp
qed

text \<open>
  Each credential has its own environment variable as long as credential names consist of
  lower-case letters, digits and dashes. In general they need not: a dash and an underscore, or two
  cases of a letter, give the same variable, and the uniqueness check compares the names as written.
\<close>

theorem credEnvVarName_injective:
  "(\<forall>m n. list_all label_char m \<longrightarrow> list_all label_char n \<longrightarrow> credEnvVarName m = credEnvVarName n \<longrightarrow> m = n) \<and>
   credEnvVarName ''api-key'' = credEnvVarName ''api_key'' \<and> credEnvVarName ''API'' = credEnvVarName ''api'' \<and>
   duplicate_names [] [empty_CredentialSpec\<lparr>cs_Name := ''api-key''\<rparr>, empty_CredentialSpec\<lparr>cs_Name := ''api_key''\<rparr>] = []"
proof -
  have inj: "m = n" if "list_all label_char m" "list_all label_char n" "map env_char m = map env_char n" for m n
    using that
  proof (induction m arbitrary: n)
    case (Cons c m)
    then show ?case by (cases n) (auto dest: env_char_inj)
  qed simp
  have "credEnvVarName ''api-key'' = credEnvVarName ''api_key''" "credEnvVarName ''API'' = credEnvVarName ''api''"
    "duplicate_names [] [empty_CredentialSpec\<lparr>cs_Name := ''api-key''\<rparr>, empty_CredentialSpec\<lparr>cs_Name := ''api_key''\<rparr>] = []"
    by code_simp+
  with inj show ?thesis by (simp add: credEnvVarName_map)
qed

theorem credEnvVarName_injective_witness:
  "credEnvVarName ''vertex-ai'' \<noteq> credEnvVarName ''openai''"
proof -
  have "list_all label_char ''vertex-ai''" "list_all label_char ''openai''" by code_simp+
  then show ?thesis using credEnvVarName_injective by blast
qed

end
