(* ===== verification/Config_Injection.thy ===== *)
theory Config_Injection
  imports Proxy_Config
begin

section \<open>Enriching the gateway configuration\<close>

text \<open>
  The injections that \<open>enrichConfigAndNetworkPolicy\<close> in
  \<open>src/internal/controller/claw_resource_controller.go\<close> runs, in its order, on the configuration map
  of the gateway: authentication, allowed origins, providers, provider plugins, the model catalog,
  memory search and the memory layers, channels, MCP servers, web search, diagnostics and the
  bootstrap settings, and the derivation of the legacy document from the result.

  The contract they share is a frame: an injection writes below a few top-level keys and leaves
  every other key alone. The locale \<open>framed_edit\<close> states it; each injection interprets it with its
  keys, and the properties of the whole pipeline combine the frames.
\<close>

subsection \<open>Authentication and origins (\<open>claw_auth.go\<close>, \<open>claw_resource_controller.go\<close>)\<close>

datatype configGeneration = legacyConfigGeneration | openClaw72ConfigGeneration

definition shouldDisableDevicePairing :: "AuthSpec option \<Rightarrow> bool" where
  "shouldDisableDevicePairing auth =
     (case auth of
        None \<Rightarrow> True
      | Some a \<Rightarrow> (case au_DisableDevicePairing a of Some b \<Rightarrow> b | None \<Rightarrow> True))"

definition auth_mode :: "Claw \<Rightarrow> string" where
  "auth_mode instance =
     (case sp_Auth (cl_Spec instance) of
        Some a \<Rightarrow> if au_Mode a = ''password'' then ''password'' else ''token''
      | None \<Rightarrow> ''token'')"

definition injectAuthModeForGeneration :: "Claw \<Rightarrow> configGeneration \<Rightarrow> jobj \<Rightarrow> jobj" where
  "injectAuthModeForGeneration instance generation config =
     in_nested configKeyGateway (\<lambda>gateway.
       let gateway = AList.update ''auth'' (JObj [(''mode'', JStr (auth_mode instance))]) gateway
       in if generation = legacyConfigGeneration
          then in_nested configKeyControlUI
                 (AList.update ''dangerouslyDisableDeviceAuth''
                    (JBool (shouldDisableDevicePairing (sp_Auth (cl_Spec instance))))) gateway
          else case obj_at gateway configKeyControlUI of
            Some controlUI \<Rightarrow>
              AList.update configKeyControlUI (JObj (AList.delete ''dangerouslyDisableDeviceAuth'' controlUI)) gateway
          | None \<Rightarrow> gateway) config"

definition injectAuthMode :: "Claw \<Rightarrow> jobj \<Rightarrow> jobj" where
  "injectAuthMode instance config = injectAuthModeForGeneration instance openClaw72ConfigGeneration config"

definition gatewayLocalhostFallback :: string where
  "gatewayLocalhostFallback = ''http://localhost:18789''"

definition injectRouteHost :: "string \<Rightarrow> jobj \<Rightarrow> jobj" where
  "injectRouteHost routeHost config =
     (let host = (if routeHost = [] then gatewayLocalhostFallback else routeHost);
          origins = getStringSlice config [configKeyGateway, configKeyControlUI, ''allowedOrigins''];
          origins = appendIfMissing origins host
      in setNestedValue config (JArr (stringsToAny origins)) [configKeyGateway, configKeyControlUI, ''allowedOrigins''])"

subsection \<open>Providers and models\<close>

definition placeholderAPIKey :: string where
  "placeholderAPIKey = ''ah-ah-ah-you-didnt-say-the-magic-word''"

text \<open>
  The Vertex branch reads the location of a GCP block; a credential without one would dereference a
  nil pointer there, which \<open>validateCredentialTypeConfig\<close> rules out before.
\<close>

definition add_provider :: "CredentialSpec \<Rightarrow> jobj \<Rightarrow> (config_error, jobj) result" where
  "add_provider cred0 providers =
     (let cred = cred0\<lparr>cs_Provider := canonicalProviderID (cs_Provider cred0)\<rparr>
      in if cs_Provider cred = [] \<or> cs_Type cred = CredentialTypePathToken then Inr providers
         else if usesVertexSDK cred then
           let providerKey = cs_Provider cred @ ''-vertex''
           in if has_key providers providerKey then Inl (DuplicateProviderKey providerKey)
              else case cs_GCP cred of
                None \<Rightarrow> Inl (NilGCPConfig (cs_Name cred))
              | Some gcp \<Rightarrow>
                  let entry = [(''baseUrl'', JStr (vertexAIBaseURL (gcp_Location gcp))),
                               (''apiKey'', JStr placeholderAPIKey), (''maxTokens'', JNum 128000), (''models'', JArr [])];
                      api = pd_VertexAPI (provider_defaults (cs_Provider cred));
                      entry = (if api \<noteq> [] then AList.update ''api'' (JStr api) entry else entry)
                  in Inr (AList.update providerKey (JObj entry) providers)
         else if has_key providers (cs_Provider cred) then Inl (DuplicateProviderKey (cs_Provider cred))
         else
           let info = resolveProviderInfo cred;
               baseURL = pi_Upstream info @ pi_BasePath info
           in Inr (AList.update (cs_Provider cred)
                (JObj (buildProviderEntry (cs_Provider cred) baseURL placeholderAPIKey)) providers))"

definition add_custom_provider :: "CustomProviderSpec \<Rightarrow> jobj \<Rightarrow> (config_error, jobj) result" where
  "add_custom_provider cp providers =
     (if has_key providers (cp_Name cp) then Inl (CustomProviderKeyConflict (cp_Name cp))
      else
        let models = map (\<lambda>m. JObj [(''id'', JStr (cm_Name m)), (''name'', JStr (cm_Name m))]) (cp_Models cp);
            entry = [(''baseUrl'', JStr (cp_BaseUrl cp)), (''apiKey'', JStr placeholderAPIKey), (''models'', JArr models)];
            entry = (if cp_API cp \<noteq> [] then AList.update ''api'' (JStr (cp_API cp)) entry else entry)
        in Inr (AList.update (cp_Name cp) (JObj entry) providers))"

definition injectProviders :: "Claw \<Rightarrow> jobj \<Rightarrow> (config_error, jobj) result" where
  "injectProviders instance config =
     rbind (rfold add_provider (sp_Credentials (cl_Spec instance)) []) (\<lambda>providers.
     rbind (rfold add_custom_provider (sp_CustomProviders (cl_Spec instance)) providers) (\<lambda>providers.
       Inr (in_nested ''models'' (AList.update ''providers'' (JObj providers)) config)))"

text \<open>\<open>claw_plugins.go\<close>: the ids of the Vertex plugins, each once, and their declarations.\<close>

definition vertex_plugin_ids :: "Claw \<Rightarrow> string list" where
  "vertex_plugin_ids instance =
     dedup_by id [] (filter (\<lambda>i. i \<noteq> [])
       (map (\<lambda>c. pd_VertexPluginID (provider_defaults (cs_Provider c))) (filter usesVertexSDK (sp_Credentials (cl_Spec instance)))))"

definition declare_plugin :: "string \<Rightarrow> jobj \<Rightarrow> jobj" where
  "declare_plugin i entries =
     (if has_key entries i then entries else AList.update i (JObj [(''enabled'', JBool True)]) entries)"

definition injectProviderPlugins :: "Claw \<Rightarrow> jobj \<Rightarrow> jobj" where
  "injectProviderPlugins instance config =
     (let ids = vertex_plugin_ids instance
      in if ids = [] then config
         else in_nested ''plugins'' (in_nested ''entries'' (fold declare_plugin ids)) config)"

text \<open>The catalog so far, the primary model and its fallbacks.\<close>

record catalog =
  cat_Models :: jobj
  cat_Primary :: string
  cat_Fallbacks :: "string list"

definition add_catalog :: "CredentialSpec \<Rightarrow> catalog \<Rightarrow> catalog" where
  "add_catalog cred0 cat =
     (let cred = cred0\<lparr>cs_Provider := canonicalProviderID (cs_Provider cred0)\<rparr>
      in if cs_Provider cred = [] \<or> cs_Type cred = CredentialTypePathToken then cat
         else
           let providerKey = (if usesVertexSDK cred then cs_Provider cred @ ''-vertex'' else cs_Provider cred);
               logicalProvider = TrimSuffix providerKey ''-vertex'';
               entries = providerModelCatalog logicalProvider
           in if entries = [] then cat
              else
                let cat = cat\<lparr>cat_Models := fold (\<lambda>m models.
                       AList.update (providerKey @ ''/'' @ mo_Name m) (JObj [(''alias'', JStr (mo_Alias m))]) models)
                       entries (cat_Models cat)\<rparr>
                in if cat_Primary cat = []
                   then cat\<lparr>cat_Primary := providerKey @ ''/'' @ mo_Name (hd entries),
                        cat_Fallbacks := cat_Fallbacks cat @ map (\<lambda>m. providerKey @ ''/'' @ mo_Name m) (tl entries)\<rparr>
                   else cat)"

definition add_custom_catalog :: "CustomProviderSpec \<Rightarrow> catalog \<Rightarrow> catalog" where
  "add_custom_catalog cp cat =
     (let cat = cat\<lparr>cat_Models := fold (\<lambda>m models.
            AList.update (cp_Name cp @ ''/'' @ cm_Name m)
              (JObj [(''alias'', JStr (if cm_Alias m = [] then cm_Name m else cm_Alias m))]) models)
            (cp_Models cp) (cat_Models cat)\<rparr>
      in if cat_Primary cat = [] \<and> cp_Models cp \<noteq> []
         then cat\<lparr>cat_Primary := cp_Name cp @ ''/'' @ cm_Name (hd (cp_Models cp))\<rparr> else cat)"

definition model_catalog :: "Claw \<Rightarrow> catalog" where
  "model_catalog instance =
     fold add_custom_catalog (sp_CustomProviders (cl_Spec instance))
       (fold add_catalog (sp_Credentials (cl_Spec instance)) \<lparr>cat_Models = [], cat_Primary = [], cat_Fallbacks = []\<rparr>)"

text \<open>Catalog entries fill gaps in the user's models.\<close>

definition fill_models :: "jobj \<Rightarrow> jobj \<Rightarrow> jobj" where
  "fill_models catalogModels userModels =
     fold (\<lambda>(k, entry) m. if has_key m k then m else AList.update k entry m) catalogModels userModels"

definition set_model :: "catalog \<Rightarrow> jobj \<Rightarrow> jobj" where
  "set_model cat modelMap =
     (let modelMap = (if Option.bind (map_of modelMap ''primary'') as_str \<in> {None, Some []}
                      then AList.update ''primary'' (JStr (cat_Primary cat)) modelMap else modelMap)
      in if \<not> has_key modelMap ''fallbacks'' \<and> cat_Fallbacks cat \<noteq> []
         then AList.update ''fallbacks'' (JArr (stringsToAny (cat_Fallbacks cat))) modelMap else modelMap)"

definition catalog_defaults :: "catalog \<Rightarrow> jobj \<Rightarrow> jobj" where
  "catalog_defaults cat defaults =
     (let userModels = fill_models (cat_Models cat) (nested_or_empty defaults ''models'');
          defaults = AList.update ''models'' (JObj userModels) defaults;
          defaults = (if obj_at defaults ''modelPolicy'' = None
                      then AList.update ''modelPolicy''
                             (JObj [(''allow'', JArr (stringsToAny (SliceStable (<) (map fst userModels))))]) defaults
                      else defaults)
      in AList.update ''model'' (JObj (set_model cat (nested_or_empty defaults ''model''))) defaults)"

definition injectModelCatalog :: "Claw \<Rightarrow> jobj \<Rightarrow> jobj" where
  "injectModelCatalog instance config =
     (let cat = model_catalog instance
      in if cat_Models cat = [] then config
         else in_nested ''agents'' (in_nested ''defaults'' (catalog_defaults cat)) config)"

subsection \<open>Memory (\<open>claw_memory_search.go\<close>, \<open>claw_memory_stack.go\<close>)\<close>

definition userHasMemorySearchConfig :: "jobj \<Rightarrow> bool \<Rightarrow> bool" where
  "userHasMemorySearchConfig config use72Config =
     (if \<not> use72Config then
        (case obj_at config ''agents'' of
           None \<Rightarrow> False
         | Some agents \<Rightarrow>
             (case obj_at agents ''defaults'' of None \<Rightarrow> False | Some defaults \<Rightarrow> has_key defaults ''memorySearch''))
      else (case obj_at config ''memory'' of None \<Rightarrow> False | Some memory \<Rightarrow> has_key memory ''search''))"

fun first_embedding :: "CredentialSpec list \<Rightarrow> string option" where
  "first_embedding [] = None"
| "first_embedding (cred # creds) =
     (if cs_Type cred = CredentialTypeGCP then first_embedding creds
      else if pd_EmbeddingAdapter (provider_defaults (cs_Provider cred)) \<noteq> []
      then Some (pd_EmbeddingAdapter (provider_defaults (cs_Provider cred)))
      else first_embedding creds)"

definition firstEmbeddingProvider :: "Claw \<Rightarrow> string option" where
  "firstEmbeddingProvider instance = first_embedding (sp_Credentials (cl_Spec instance))"

definition injectMemorySearchForGeneration :: "Claw \<Rightarrow> configGeneration \<Rightarrow> jobj \<Rightarrow> jobj" where
  "injectMemorySearchForGeneration instance generation config =
     (let use72Config = (generation = openClaw72ConfigGeneration);
          path = (if use72Config then [''memory'', ''search''] else [''agents'', ''defaults'', ''memorySearch''])
      in if userHasMemorySearchConfig config use72Config then config
         else case firstEmbeddingProvider instance of
           Some adapter \<Rightarrow> setNestedValue config (JStr adapter) (path @ [''provider''])
         | None \<Rightarrow> setNestedValue config (JBool False) (path @ [''enabled'']))"

definition injectMemorySearch :: "Claw \<Rightarrow> jobj \<Rightarrow> jobj" where
  "injectMemorySearch instance config = injectMemorySearchForGeneration instance openClaw72ConfigGeneration config"

definition dreamingEnabled :: "Claw \<Rightarrow> bool" where
  "dreamingEnabled instance =
     (case sp_Memory (cl_Spec instance) of
        None \<Rightarrow> False
      | Some m \<Rightarrow> (case mem_Dreaming m of None \<Rightarrow> False | Some d \<Rightarrow> dr_Enabled d = Some True))"

definition wikiEnabled :: "Claw \<Rightarrow> bool" where
  "wikiEnabled instance =
     (case sp_Memory (cl_Spec instance) of
        None \<Rightarrow> False
      | Some m \<Rightarrow> (case mem_Wiki m of None \<Rightarrow> False | Some d \<Rightarrow> wk_Enabled d = Some True))"

definition memoryStackEnabled :: "Claw \<Rightarrow> bool" where
  "memoryStackEnabled instance \<longleftrightarrow> dreamingEnabled instance \<or> wikiEnabled instance"

definition userHasMemoryStackConfig :: "jobj \<Rightarrow> bool" where
  "userHasMemoryStackConfig config =
     (case obj_at config ''plugins'' of
        None \<Rightarrow> False
      | Some plugins \<Rightarrow> (case obj_at plugins ''slots'' of None \<Rightarrow> False | Some slots \<Rightarrow> has_key slots ''contextEngine''))"

definition setDefault :: "string \<Rightarrow> json \<Rightarrow> jobj \<Rightarrow> jobj" where
  "setDefault key val m = (if has_key m key then m else AList.update key val m)"

definition injectDreaming :: "DreamingSpec \<Rightarrow> jobj \<Rightarrow> jobj" where
  "injectDreaming spec entries =
     in_nested ''memory-core'' (in_nested ''config'' (in_nested ''dreaming'' (\<lambda>dreaming.
       let dreaming = setDefault ''enabled'' (JBool True) dreaming;
           dreaming = (if dr_Frequency spec \<noteq> [] then AList.update ''frequency'' (JStr (dr_Frequency spec)) dreaming else dreaming)
       in if dr_Model spec \<noteq> [] then AList.update ''model'' (JStr (dr_Model spec)) dreaming else dreaming))) entries"

definition wiki_mode :: "WikiSpec \<Rightarrow> jobj \<Rightarrow> jobj" where
  "wiki_mode spec wcfg =
     (if wk_Mode spec \<noteq> [] then AList.update ''vaultMode'' (JStr (wk_Mode spec)) wcfg
      else setDefault ''vaultMode'' (JStr ''bridge'') wcfg)"

definition wiki_bridge :: "jobj \<Rightarrow> jobj" where
  "wiki_bridge wcfg =
     (if map_of wcfg ''vaultMode'' = Some (JStr ''bridge'')
      then in_nested ''bridge'' (fold (\<lambda>k. setDefault k (JBool True))
             [''enabled'', ''readMemoryArtifacts'', ''indexDreamReports'', ''indexDailyNotes'', ''indexMemoryRoot'',
              ''followMemoryEvents'']) wcfg
      else wcfg)"

definition injectWiki :: "WikiSpec \<Rightarrow> jobj \<Rightarrow> jobj" where
  "injectWiki spec entries =
     in_nested ''memory-wiki'' (\<lambda>wiki.
       in_nested ''config'' (\<lambda>wcfg.
         in_nested ''render'' (fold (\<lambda>k. setDefault k (JBool True))
             [''preserveHumanBlocks'', ''createBacklinks'', ''createDashboards''])
           (in_nested ''search'' (setDefault ''corpus'' (JStr ''all'') \<circ> setDefault ''backend'' (JStr ''shared''))
             (wiki_bridge
               (in_nested ''vault'' (setDefault ''path'' (JStr ''~/.openclaw/workspace/wiki/main''))
                 (wiki_mode spec wcfg)))))
         (setDefault ''enabled'' (JBool True) wiki)) entries"

definition memory_layers :: "Claw \<Rightarrow> jobj \<Rightarrow> jobj" where
  "memory_layers instance entries =
     (case sp_Memory (cl_Spec instance) of
        None \<Rightarrow> entries
      | Some m \<Rightarrow>
          let entries = (case mem_Dreaming m of
                 Some d \<Rightarrow> if dr_Enabled d = Some True then injectDreaming d entries else entries | None \<Rightarrow> entries)
          in case mem_Wiki m of
               Some d \<Rightarrow> if wk_Enabled d = Some True then injectWiki d entries else entries | None \<Rightarrow> entries)"

definition injectMemoryStack :: "Claw \<Rightarrow> bool \<Rightarrow> jobj \<Rightarrow> jobj" where
  "injectMemoryStack instance userOwnsMemorySearch config =
     (if \<not> memoryStackEnabled instance \<or> userHasMemoryStackConfig config then config
      else
        let config = (if firstEmbeddingProvider instance \<noteq> None \<and> \<not> userOwnsMemorySearch
                      then setNestedValue config (JBool True) [''memory'', ''search'', ''enabled''] else config)
        in in_nested ''plugins'' (in_nested ''entries'' (memory_layers instance)) config)"

definition userConfiguredMemorySearch :: "Claw \<Rightarrow> bool" where
  "userConfiguredMemorySearch instance =
     userHasMemorySearchConfig (case parseUserRawConfig instance of Inr c \<Rightarrow> c | Inl _ \<Rightarrow> []) True"

definition userConfiguredMemoryStack :: "Claw \<Rightarrow> bool" where
  "userConfiguredMemoryStack instance =
     userHasMemoryStackConfig (case parseUserRawConfig instance of Inr c \<Rightarrow> c | Inl _ \<Rightarrow> [])"

definition enabledMemoryLayers :: "Claw \<Rightarrow> string" where
  "enabledMemoryLayers instance =
     Join '', '' ((if dreamingEnabled instance then [''dreaming''] else []) @ (if wikiEnabled instance then [''wiki''] else []))"

subsection \<open>MCP servers, web search and diagnostics\<close>

definition buildMcpServerConfig :: "McpServerSpec \<Rightarrow> jobj" where
  "buildMcpServerConfig spec =
     (if mcp_Command spec \<noteq> [] then
        let entry = [(''command'', JStr (mcp_Command spec))];
            entry = (if mcp_Args spec \<noteq> [] then AList.update ''args'' (JArr (stringsToAny (mcp_Args spec))) entry else entry);
            envMap = map_copy (mcp_Env spec) [];
            envMap = fold (\<lambda>ef. AList.update (ef_Name ef) (ef_Name ef)) (mcp_EnvFrom spec) envMap
        in if envMap \<noteq> [] then AList.update ''env'' (JObj (map (apsnd JStr) envMap)) entry else entry
      else
        let entry = [(''url'', JStr (mcp_URL spec))]
        in if mcp_Transport spec \<noteq> [] then AList.update ''transport'' (JStr (mcp_Transport spec)) entry else entry)"

definition injectMcpServers :: "Claw \<Rightarrow> jobj \<Rightarrow> jobj" where
  "injectMcpServers instance config =
     (let servers = sp_McpServers (cl_Spec instance)
      in if servers = [] then config
         else AList.update ''mcp''
                (JObj [(''servers'', JObj (fold (\<lambda>(name, spec). AList.update name (JObj (buildMcpServerConfig spec))) servers []))])
                config)"

definition llmAsSearchProviders :: "(string, string) gomap" where
  "llmAsSearchProviders = [(''gemini'', ''google'')]"

definition webSearchNeedsSecret :: "string \<Rightarrow> bool" where
  "webSearchNeedsSecret provider =
     (case map_of knownSearchProviders provider of None \<Rightarrow> False | Some info \<Rightarrow> spi_Injector info \<noteq> ''none'')"

definition search_settings :: "WebSearchSpec \<Rightarrow> (config_error, jobj) result" where
  "search_settings ws =
     (let base = (if webSearchNeedsSecret (ws_Provider ws) then [(''apiKey'', JStr placeholderAPIKey)] else [])
      in case ws_Config ws of
           None \<Rightarrow> Inr base
         | Some (Some (JObj user)) \<Rightarrow> Inr (map_copy user base)
         | Some (Some JNull) \<Rightarrow> Inr base
         | Some _ \<Rightarrow> Inl SearchConfigInvalid)"

definition injectSearchPluginEntry :: "WebSearchSpec \<Rightarrow> jobj \<Rightarrow> (config_error, jobj) result" where
  "injectSearchPluginEntry ws config =
     rbind (search_settings ws) (\<lambda>webSearchConfig.
       let pluginID = (case map_of llmAsSearchProviders (ws_Provider ws) of Some p \<Rightarrow> p | None \<Rightarrow> ws_Provider ws)
       in Inr (if webSearchConfig = [] then config
               else setNestedValue config (JObj webSearchConfig) [''plugins'', ''entries'', pluginID, ''config'', ''webSearch'']))"

definition injectWebSearch :: "Claw \<Rightarrow> jobj \<Rightarrow> (config_error, jobj) result" where
  "injectWebSearch instance config =
     (if sp_WebSearch (cl_Spec instance) = None \<and> sp_WebFetch (cl_Spec instance) = None then Inr config
      else
        rbind
          (case sp_WebSearch (cl_Spec instance) of
             None \<Rightarrow> Inr config
           | Some ws \<Rightarrow>
               injectSearchPluginEntry ws
                 (setNestedValue config (JObj [(''enabled'', JBool True), (''provider'', JStr (ws_Provider ws))])
                    [''tools'', ''web'', ''search'']))
          (\<lambda>config. Inr
             (case sp_WebFetch (cl_Spec instance) of
                None \<Rightarrow> config
              | Some fetch \<Rightarrow> setNestedValue config (JObj [(''enabled'', JBool (wf_Enabled fetch))]) [''tools'', ''web'', ''fetch''])))"

definition metricsEnabled :: "Claw \<Rightarrow> bool" where
  "metricsEnabled instance = (case sp_Metrics (cl_Spec instance) of None \<Rightarrow> False | Some m \<Rightarrow> me_Enabled m)"

definition tracesEnabled :: "Claw \<Rightarrow> bool" where
  "tracesEnabled instance = (case sp_Traces (cl_Spec instance) of None \<Rightarrow> False | Some t \<Rightarrow> tr_Enabled t)"

definition logsEnabled :: "Claw \<Rightarrow> bool" where
  "logsEnabled instance = (case sp_Logs (cl_Spec instance) of None \<Rightarrow> False | Some l \<Rightarrow> lg_Enabled l)"

definition tracesEndpoint :: "Claw \<Rightarrow> string" where
  "tracesEndpoint instance = (case sp_Traces (cl_Spec instance) of None \<Rightarrow> [] | Some t \<Rightarrow> tr_Endpoint t)"

definition logsEndpoint :: "Claw \<Rightarrow> string" where
  "logsEndpoint instance =
     (case sp_Logs (cl_Spec instance) of
        Some l \<Rightarrow> if lg_Endpoint l \<noteq> [] then lg_Endpoint l else tracesEndpoint instance
      | None \<Rightarrow> tracesEndpoint instance)"

definition tracesSamplingRatio :: "Claw \<Rightarrow> string" where
  "tracesSamplingRatio instance =
     (case sp_Traces (cl_Spec instance) of
        Some t \<Rightarrow> if tr_SamplingRatio t \<noteq> [] then tr_SamplingRatio t else ''1''
      | None \<Rightarrow> ''1'')"

definition otlpEndpoint :: "Claw \<Rightarrow> string" where
  "otlpEndpoint instance =
     (if tracesEndpoint instance \<noteq> [] then tracesEndpoint instance
      else case sp_Logs (cl_Spec instance) of Some l \<Rightarrow> lg_Endpoint l | None \<Rightarrow> [])"

definition otel_settings :: "Claw \<Rightarrow> jobj \<Rightarrow> jobj" where
  "otel_settings instance otel =
     (let otel = AList.update ''enabled'' (JBool True) otel;
          otel = (if tracesEnabled instance then AList.update ''traces'' (JBool True) otel else otel);
          otel = (if logsEnabled instance then AList.update ''logs'' (JBool True) otel else otel);
          otel = (if metricsEnabled instance then AList.update ''metrics'' (JBool True) otel else otel)
      in if \<not> has_key otel ''endpoint'' \<and> otlpEndpoint instance \<noteq> []
         then AList.update ''endpoint'' (JStr (otlpEndpoint instance)) otel else otel)"

definition injectDiagnosticsConfig :: "Claw \<Rightarrow> jobj \<Rightarrow> jobj" where
  "injectDiagnosticsConfig instance config =
     (if \<not> tracesEnabled instance \<and> \<not> logsEnabled instance \<and> \<not> metricsEnabled instance then config
      else in_nested ''diagnostics'' (in_nested ''otel'' (otel_settings instance)) config)"

subsection \<open>Bootstrap settings (\<open>claw_workspace.go\<close>)\<close>

definition userManagedConfig :: "Claw \<Rightarrow> bool" where
  "userManagedConfig instance =
     (case sp_Config (cl_Spec instance) of None \<Rightarrow> False | Some c \<Rightarrow> cfs_Management c = ''user'')"

definition injectSkipBootstrap :: "Claw \<Rightarrow> jobj \<Rightarrow> jobj" where
  "injectSkipBootstrap instance config =
     (case sp_Workspace (cl_Spec instance) of
        None \<Rightarrow> config
      | Some w \<Rightarrow> if wsp_SkipBootstrap w then setNestedValue config (JBool True) [''agents'', ''defaults'', ''skipBootstrap''] else config)"

definition injectBootstrapHook :: "jobj \<Rightarrow> jobj" where
  "injectBootstrapHook config =
     (if lookup_path (JObj config) [''hooks'', ''internal'', ''entries'', ''bootstrap-extra-files''] \<noteq> None then config
      else setNestedValue
             (setNestedValue config (JBool True) [''hooks'', ''internal'', ''enabled''])
             (JObj [(''enabled'', JBool True), (''paths'', JArr [JStr ''.operator/BOOTSTRAP.md''])])
             [''hooks'', ''internal'', ''entries'', ''bootstrap-extra-files''])"

subsection \<open>The pipeline and the legacy document\<close>

text \<open>
  The part of \<open>enrichConfigAndNetworkPolicy\<close> that works on the configuration: the template parsed
  from the ConfigMap, the user's configuration merged over it, then the injections.
\<close>

definition enrich_config :: "Claw \<Rightarrow> string \<Rightarrow> jobj \<Rightarrow> (config_error, jobj) result" where
  "enrich_config instance routeHost template =
     rbind (parseUserRawConfig instance) (\<lambda>userConfig.
       let config = deepMerge template userConfig;
           config = enforceInfrastructureKeys config;
           config = enforceTrustedProxies config;
           config = disableUpdateCheck config;
           config = (if userManagedConfig instance then config else skipDefaultPersonality config);
           config = injectRouteHost routeHost config;
           config = injectAuthMode instance config
       in rbind (injectProviders instance config) (\<lambda>config.
         let config = injectProviderPlugins instance config;
             config = injectModelCatalog instance config;
             config = injectMemorySearch instance config;
             config = injectMemoryStack instance (userHasMemorySearchConfig userConfig True) config
         in rbind (injectChannels instance config) (\<lambda>config.
           rbind (injectWebSearch instance (injectMcpServers instance config)) (\<lambda>config.
             let config = injectDiagnosticsConfig instance config;
                 config = injectSkipBootstrap instance config
             in Inr (if userManagedConfig instance then config else injectBootstrapHook config)))))"

definition move_memory_search :: "jobj \<Rightarrow> jobj" where
  "move_memory_search legacy =
     (case obj_at legacy ''memory'' of
        None \<Rightarrow> legacy
      | Some memory \<Rightarrow>
          let (legacy, memory) =
                (case map_of memory ''search'' of
                   Some search \<Rightarrow>
                     (in_nested ''agents'' (in_nested ''defaults'' (setDefault ''memorySearch'' search)) legacy,
                      AList.delete ''search'' memory)
                 | None \<Rightarrow> (legacy, memory))
          in if memory = [] then AList.delete ''memory'' legacy
             else AList.update ''memory'' (JObj memory) legacy)"

definition add_companion :: "jobj \<Rightarrow> string \<Rightarrow> jobj \<Rightarrow> jobj" where
  "add_companion provider companion providers =
     (if has_key providers companion then providers
      else
        let api = pd_API (provider_defaults companion);
            override = (if api \<noteq> [] then [(''api'', JStr api)] else [])
        in AList.update companion (JObj (deepMerge provider override)) providers)"

definition add_companions :: "string \<times> json \<Rightarrow> jobj \<Rightarrow> jobj" where
  "add_companions e providers =
     (case snd e of
        JObj provider \<Rightarrow> fold (add_companion provider) (pd_Companions (provider_defaults (fst e))) providers
      | _ \<Rightarrow> providers)"

definition companion_providers :: "jobj \<Rightarrow> jobj" where
  "companion_providers legacy =
     (case obj_at legacy ''models'' of
        None \<Rightarrow> legacy
      | Some models \<Rightarrow>
          (case obj_at models ''providers'' of
             None \<Rightarrow> legacy
           | Some providers \<Rightarrow>
               AList.update ''models''
                 (JObj (AList.update ''providers'' (JObj (fold add_companions providers providers)) models)) legacy))"

definition legacyOperatorJSON :: "Claw \<Rightarrow> jobj \<Rightarrow> jobj" where
  "legacyOperatorJSON instance current =
     (let legacy = in_nested ''agents'' (in_nested ''defaults'' (AList.delete ''modelPolicy'')) current;
          legacy = move_memory_search legacy;
          legacy = in_nested configKeyGateway (in_nested configKeyControlUI
            (AList.update ''dangerouslyDisableDeviceAuth''
               (JBool (shouldDisableDevicePairing (sp_Auth (cl_Spec instance)))))) legacy
      in companion_providers legacy)"

subsection \<open>Frames\<close>

locale framed_edit =
  fixes edit :: "jobj \<Rightarrow> (config_error, jobj) result" and owned :: "string set"
  assumes frame: "edit c = Inr c' \<Longrightarrow> k \<notin> owned \<Longrightarrow> map_of c' k = map_of c k"
begin

lemma kept:
  "edit c = Inr c' \<Longrightarrow> k \<notin> owned \<Longrightarrow> lookup_path (JObj c') (k # ks) = lookup_path (JObj c) (k # ks)"
  by (simp add: frame)

end

locale total_edit =
  fixes edit :: "jobj \<Rightarrow> jobj" and owned :: "string set"
  assumes frame_total: "k \<notin> owned \<Longrightarrow> map_of (edit c) k = map_of c k"

sublocale total_edit \<subseteq> framed: framed_edit "\<lambda>c. Inr (edit c)" owned
  by unfold_locales (auto simp: frame_total)

lemma map_of_setNestedValue_other [config_simps]:
  "k \<noteq> j \<Longrightarrow> map_of (setNestedValue m v (j # js)) k = map_of m k"
  by (cases js) (simp_all add: map_of_in_nested)

lemma setNestedValue_path:
  "map_of (setNestedValue m v (j # js)) j =
     Some (if js = [] then v else JObj (setNestedValue (nested_or_empty m j) v js))"
  by (cases js) (simp_all add: map_of_in_nested)

interpretation infrastructure: total_edit enforceInfrastructureKeys "{configKeyGateway}"
  by unfold_locales (simp add: enforceInfrastructureKeys_def config_simps)

interpretation trusted: total_edit enforceTrustedProxies "{configKeyGateway}"
  by unfold_locales (simp add: enforceTrustedProxies_def Let_def config_simps)

interpretation update_check: total_edit disableUpdateCheck "{''update''}"
  by unfold_locales (simp add: disableUpdateCheck_def config_simps)

interpretation personality: total_edit skipDefaultPersonality "{''agents''}"
  by unfold_locales (simp add: skipDefaultPersonality_def config_simps)

interpretation route_host: total_edit "injectRouteHost host" "{configKeyGateway}" for host
  by unfold_locales (simp add: injectRouteHost_def Let_def config_simps)

interpretation auth: total_edit "injectAuthMode instance" "{configKeyGateway}" for "instance"
  by unfold_locales (simp add: injectAuthMode_def injectAuthModeForGeneration_def config_simps)

interpretation providers: framed_edit "injectProviders instance" "{''models''}" for "instance"
  by unfold_locales (auto simp: injectProviders_def rbind_eq_Inr config_simps)

interpretation provider_plugins: total_edit "injectProviderPlugins instance" "{''plugins''}" for "instance"
  by unfold_locales (simp add: injectProviderPlugins_def Let_def config_simps)

interpretation catalog: total_edit "injectModelCatalog instance" "{''agents''}" for "instance"
  by unfold_locales (simp add: injectModelCatalog_def Let_def config_simps)

interpretation memory_search: total_edit "injectMemorySearch instance" "{''memory''}" for "instance"
  by unfold_locales
    (simp add: injectMemorySearch_def injectMemorySearchForGeneration_def Let_def config_simps split: option.split)

interpretation memory_stack: total_edit "injectMemoryStack instance b" "{''memory'', ''plugins''}" for "instance" b
  by unfold_locales (simp add: injectMemoryStack_def Let_def config_simps)

interpretation channels: framed_edit "injectChannels instance" "{''channels'', ''plugins''}" for "instance"
  by unfold_locales
    (auto simp: injectChannels_def rbind_eq_Inr config_simps split: if_splits)

interpretation mcp_servers: total_edit "injectMcpServers instance" "{''mcp''}" for "instance"
  by unfold_locales (simp add: injectMcpServers_def Let_def)

interpretation web_search: framed_edit "injectWebSearch instance" "{''tools'', ''plugins''}" for "instance"
  by unfold_locales
    (auto simp: injectWebSearch_def injectSearchPluginEntry_def rbind_eq_Inr config_simps split: if_splits option.splits)

interpretation diagnostics: total_edit "injectDiagnosticsConfig instance" "{''diagnostics''}" for "instance"
  by unfold_locales (simp add: injectDiagnosticsConfig_def config_simps)

interpretation skip_bootstrap: total_edit "injectSkipBootstrap instance" "{''agents''}" for "instance"
  by unfold_locales (simp add: injectSkipBootstrap_def config_simps split: option.split)

interpretation bootstrap_hook: total_edit injectBootstrapHook "{''hooks''}"
  by unfold_locales (simp add: injectBootstrapHook_def config_simps)

lemmas edit_frames =
  infrastructure.frame_total trusted.frame_total update_check.frame_total personality.frame_total route_host.frame_total
  auth.frame_total provider_plugins.frame_total catalog.frame_total memory_search.frame_total memory_stack.frame_total
  mcp_servers.frame_total diagnostics.frame_total skip_bootstrap.frame_total bootstrap_hook.frame_total

subsection \<open>The gateway block\<close>

text \<open>The gateway object after the enforcing injections: what the later injections never touch.\<close>

definition enforced_config :: "Claw \<Rightarrow> string \<Rightarrow> jobj \<Rightarrow> jobj" where
  "enforced_config instance routeHost config =
     (let config = disableUpdateCheck (enforceTrustedProxies (enforceInfrastructureKeys config));
          config = (if userManagedConfig instance then config else skipDefaultPersonality config)
      in injectAuthMode instance (injectRouteHost routeHost config))"

lemma enrich_config_Inr:
  assumes "enrich_config instance host template = Inr c"
  obtains user c1 c2 c3 where
    "parseUserRawConfig instance = Inr user"
    "injectProviders instance (enforced_config instance host (deepMerge template user)) = Inr c1"
    "injectChannels instance (injectMemoryStack instance (userHasMemorySearchConfig user True)
       (injectMemorySearch instance (injectModelCatalog instance (injectProviderPlugins instance c1)))) = Inr c2"
    "injectWebSearch instance (injectMcpServers instance c2) = Inr c3"
    "c = (if userManagedConfig instance then injectSkipBootstrap instance (injectDiagnosticsConfig instance c3)
          else injectBootstrapHook (injectSkipBootstrap instance (injectDiagnosticsConfig instance c3)))"
proof -
  have "\<exists>user c1 c2 c3. parseUserRawConfig instance = Inr user \<and>
    injectProviders instance (enforced_config instance host (deepMerge template user)) = Inr c1 \<and>
    injectChannels instance (injectMemoryStack instance (userHasMemorySearchConfig user True)
       (injectMemorySearch instance (injectModelCatalog instance (injectProviderPlugins instance c1)))) = Inr c2 \<and>
    injectWebSearch instance (injectMcpServers instance c2) = Inr c3 \<and>
    (if userManagedConfig instance then injectSkipBootstrap instance (injectDiagnosticsConfig instance c3)
          else injectBootstrapHook (injectSkipBootstrap instance (injectDiagnosticsConfig instance c3))) = c"
    using assms unfolding enrich_config_def enforced_config_def Let_def rbind_eq_Inr sum.inject by blast
  then show ?thesis using that by blast
qed

lemma enrich_config_frame:
  assumes "enrich_config instance host template = Inr c" "parseUserRawConfig instance = Inr user"
    and "k \<notin> {''models'', ''plugins'', ''agents'', ''memory'', ''channels'', ''mcp'', ''tools'', ''diagnostics'', ''hooks''}"
  shows "map_of c k = map_of (enforced_config instance host (deepMerge template user)) k"
proof -
  obtain c1 c2 c3 where
    steps: "injectProviders instance (enforced_config instance host (deepMerge template user)) = Inr c1"
    "injectChannels instance (injectMemoryStack instance (userHasMemorySearchConfig user True)
       (injectMemorySearch instance (injectModelCatalog instance (injectProviderPlugins instance c1)))) = Inr c2"
    "injectWebSearch instance (injectMcpServers instance c2) = Inr c3"
    and c: "c = (if userManagedConfig instance then injectSkipBootstrap instance (injectDiagnosticsConfig instance c3)
          else injectBootstrapHook (injectSkipBootstrap instance (injectDiagnosticsConfig instance c3)))"
    using assms(2) by (auto intro: enrich_config_Inr [OF assms(1)])
  have "map_of c k = map_of c3 k" using assms(3) by (simp add: c edit_frames)
  also have "\<dots> = map_of c2 k" using assms(3) by (simp add: web_search.frame [OF steps(3)] edit_frames)
  also have "\<dots> = map_of c1 k" using assms(3) by (simp add: channels.frame [OF steps(2)] edit_frames)
  also have "\<dots> = map_of (enforced_config instance host (deepMerge template user)) k"
    using assms(3) by (simp add: providers.frame [OF steps(1)])
  finally show ?thesis .
qed

lemma obj_at_conv: "obj_at m k = (case map_of m k of Some (JObj c) \<Rightarrow> Some c | _ \<Rightarrow> None)"
  by (auto simp: obj_at_def split: option.split json.split)

lemma nested_or_empty_conv: "nested_or_empty m k = (case map_of m k of Some (JObj c) \<Rightarrow> c | _ \<Rightarrow> [])"
  by (auto simp: nested_or_empty_def obj_at_conv split: option.split json.split)

lemma getStringSlice_conv: "getStringSlice m (k # ks) = getStringSlice_at (map_of m k) ks"
  by (simp add: getStringSlice_def)

lemma appendIfMissing_set [simp]: "set (appendIfMissing xs x) = insert x (set xs)"
  by (auto simp: appendIfMissing_def)

lemma map_filter_as_str [simp]: "List.map_filter as_str (map JStr xs) = xs"
  by (induction xs) (simp_all add: List.map_filter_simps)

lemma map_filter_stringsToAny [simp]: "List.map_filter as_str (stringsToAny xs) = xs"
  by (simp add: stringsToAny_def)

text \<open>The keys under \<open>gateway\<close> that the operator decides, whatever was configured before.\<close>

definition gateway_enforced :: "Claw \<Rightarrow> string \<Rightarrow> jobj \<Rightarrow> bool" where
  "gateway_enforced instance host gateway \<longleftrightarrow>
     map_of gateway ''mode'' = Some (JStr ''local'') \<and>
     map_of gateway ''bind'' = Some (JStr ''lan'') \<and>
     map_of gateway ''port'' = Some (JNum 18789) \<and>
     map_of gateway ''auth'' = Some (JObj [(''mode'', JStr (auth_mode instance))]) \<and>
     {''10.0.0.0/8'', ''172.16.0.0/12''} \<subseteq> set (getStringSlice gateway [''trustedProxies'']) \<and>
     (\<exists>ui. map_of gateway ''controlUi'' = Some (JObj ui) \<and>
        map_of ui ''enabled'' = Some (JBool True) \<and> map_of ui ''dangerouslyDisableDeviceAuth'' = None \<and>
        (if host = [] then gatewayLocalhostFallback else host) \<in> set (getStringSlice ui [''allowedOrigins'']))"

text \<open>How each enforcing injection rewrites the gateway object.\<close>

lemma infrastructure_gateway:
  "map_of (enforceInfrastructureKeys c) ''gateway'' = Some (JObj (in_nested ''controlUi'' (AList.update ''enabled'' (JBool True))
     (AList.update ''port'' (JNum 18789) (AList.update ''bind'' (JStr ''lan'')
       (AList.update ''mode'' (JStr ''local'') (nested_or_empty c ''gateway''))))))"
  by (simp add: enforceInfrastructureKeys_def gatewayPort_def config_simps)

lemma trusted_gateway:
  "\<exists>xs. map_of (enforceTrustedProxies c) ''gateway'' =
     Some (JObj (AList.update ''trustedProxies'' (JArr (stringsToAny xs)) (nested_or_empty c ''gateway''))) \<and>
     {''10.0.0.0/8'', ''172.16.0.0/12''} \<subseteq> set xs"
  by (simp add: enforceTrustedProxies_def Let_def config_simps) force

lemma route_host_gateway:
  "\<exists>xs. map_of (injectRouteHost host c) ''gateway'' =
     Some (JObj (in_nested ''controlUi'' (AList.update ''allowedOrigins'' (JArr (stringsToAny xs))) (nested_or_empty c ''gateway''))) \<and>
     (if host = [] then gatewayLocalhostFallback else host) \<in> set xs"
  by (simp add: injectRouteHost_def Let_def config_simps) (metis appendIfMissing_set insertI1)

lemma auth_gateway:
  assumes "map_of c ''gateway'' = Some (JObj g)" "map_of g ''controlUi'' = Some (JObj ui)"
  shows "map_of (injectAuthMode instance c) ''gateway'' =
    Some (JObj (AList.update ''controlUi'' (JObj (AList.delete ''dangerouslyDisableDeviceAuth'' ui))
      (AList.update ''auth'' (JObj [(''mode'', JStr (auth_mode instance))]) g)))"
  using assms
  by (simp add: injectAuthMode_def injectAuthModeForGeneration_def Let_def config_simps nested_or_empty_conv obj_at_conv)

lemma enforced_gateway:
  "\<exists>gateway. map_of (enforced_config instance host config) ''gateway'' = Some (JObj gateway) \<and>
     gateway_enforced instance host gateway"
proof -
  define g1 where "g1 = in_nested ''controlUi'' (AList.update ''enabled'' (JBool True))
     (AList.update ''port'' (JNum 18789) (AList.update ''bind'' (JStr ''lan'')
       (AList.update ''mode'' (JStr ''local'') (nested_or_empty config ''gateway''))))"
  obtain xs where t: "map_of (enforceTrustedProxies (enforceInfrastructureKeys config)) ''gateway'' =
     Some (JObj (AList.update ''trustedProxies'' (JArr (stringsToAny xs)) g1))" "{''10.0.0.0/8'', ''172.16.0.0/12''} \<subseteq> set xs"
    using trusted_gateway [of "enforceInfrastructureKeys config"]
    by (auto simp: nested_or_empty_conv infrastructure_gateway g1_def)
  define c4 where "c4 = (let c = disableUpdateCheck (enforceTrustedProxies (enforceInfrastructureKeys config))
    in if userManagedConfig instance then c else skipDefaultPersonality c)"
  have c4: "map_of c4 ''gateway'' = Some (JObj (AList.update ''trustedProxies'' (JArr (stringsToAny xs)) g1))"
    using t(1) by (simp add: c4_def Let_def update_check.frame_total personality.frame_total)
  define g2 where "g2 = AList.update ''trustedProxies'' (JArr (stringsToAny xs)) g1"
  obtain os where r: "map_of (injectRouteHost host c4) ''gateway'' =
      Some (JObj (in_nested ''controlUi'' (AList.update ''allowedOrigins'' (JArr (stringsToAny os))) g2))"
      "(if host = [] then gatewayLocalhostFallback else host) \<in> set os"
    using route_host_gateway [of host c4] by (auto simp: nested_or_empty_conv c4 g2_def)
  have e: "enforced_config instance host config = injectAuthMode instance (injectRouteHost host c4)"
    by (simp add: enforced_config_def c4_def Let_def)
  have ui: "map_of (in_nested ''controlUi'' (AList.update ''allowedOrigins'' (JArr (stringsToAny os))) g2) ''controlUi'' =
      Some (JObj (AList.update ''allowedOrigins'' (JArr (stringsToAny os)) (nested_or_empty g2 ''controlUi'')))"
    by (simp add: config_simps)
  have en: "map_of (nested_or_empty g2 ''controlUi'') ''enabled'' = Some (JBool True)"
    by (simp add: g2_def g1_def config_simps)
  show ?thesis
    using t(2) r(2) en
    by (simp add: e auth_gateway [OF r(1) ui] gateway_enforced_def getStringSlice_conv config_simps)
      (simp add: g2_def g1_def config_simps)
qed

text \<open>
  (C24) Infrastructure keys always win. Whatever the user's configuration and the template contain,
  the enriched configuration runs the gateway locally, bound to the pod network on port 18789, with the
  control UI enabled, exactly the authentication mode the resource asks for and no device
  authentication bypass; the two private address ranges are trusted proxies and the route host (or
  the local fallback) is an allowed origin.
\<close>

theorem infrastructure_keys_win:
  assumes "enrich_config instance host template = Inr c"
  shows "\<exists>gateway. map_of c ''gateway'' = Some (JObj gateway) \<and> gateway_enforced instance host gateway"
proof -
  obtain user where "parseUserRawConfig instance = Inr user" using assms by (rule enrich_config_Inr)
  then have "map_of c ''gateway'' = map_of (enforced_config instance host (deepMerge template user)) ''gateway''"
    using assms by (simp add: enrich_config_frame)
  then show ?thesis using enforced_gateway by simp
qed

definition sample_instance :: Claw where
  "sample_instance = \<lparr>cl_Name = ''c1'', cl_Namespace = ''ns'', cl_Generation = 1, cl_Annotations = [],
     cl_Spec = empty_ClawSpec\<lparr>
       sp_Config := Some \<lparr>cfs_Raw = Some (Some (JObj
            [(''gateway'', JObj [(''bind'', JStr ''loopback'')]), (''ui'', JObj [(''theme'', JStr ''dark'')]),
             (''memory'', JObj [(''search'', JObj [(''provider'', JStr ''local'')])])])),
            cfs_MergeMode = [], cfs_Management = []\<rparr>\<rparr>,
     cl_Status = empty_ClawStatus\<rparr>"

definition sample_user :: jobj where
  "sample_user = [(''gateway'', JObj [(''bind'', JStr ''loopback'')]), (''ui'', JObj [(''theme'', JStr ''dark'')]),
     (''memory'', JObj [(''search'', JObj [(''provider'', JStr ''local'')])])]"

lemma sample_enriches:
  "parseUserRawConfig sample_instance = Inr sample_user"
  "\<exists>c. enrich_config sample_instance ''https://claw.example'' [] = Inr c"
proof -
  show "parseUserRawConfig sample_instance = Inr sample_user" by code_simp
  moreover have "sp_Credentials (cl_Spec sample_instance) = []" "sp_CustomProviders (cl_Spec sample_instance) = []"
    "sp_WebSearch (cl_Spec sample_instance) = None" "sp_WebFetch (cl_Spec sample_instance) = None"
    by (simp_all add: sample_instance_def empty_ClawSpec_def)
  ultimately show "\<exists>c. enrich_config sample_instance ''https://claw.example'' [] = Inr c"
    by (simp add: enrich_config_def injectProviders_def injectChannels_def validateUniqueChannels_def injectWebSearch_def Let_def)
qed

theorem infrastructure_keys_win_witness:
  "\<exists>c gateway. enrich_config sample_instance ''https://claw.example'' [] = Inr c \<and>
     map_of c ''gateway'' = Some (JObj gateway) \<and> map_of gateway ''bind'' = Some (JStr ''lan'')"
proof -
  obtain c where "enrich_config sample_instance ''https://claw.example'' [] = Inr c" using sample_enriches(2) by blast
  with infrastructure_keys_win [OF this] show ?thesis by (auto simp: gateway_enforced_def)
qed

subsection \<open>What the user keeps\<close>

lemma enforced_config_frame:
  "k \<notin> {''gateway'', ''update'', ''agents''} \<Longrightarrow> map_of (enforced_config instance host config) k = map_of config k"
  by (simp add: enforced_config_def Let_def edit_frames)

definition managedKeys :: "string set" where
  "managedKeys = {''gateway'', ''update'', ''agents'', ''models'', ''plugins'', ''memory'', ''channels'', ''mcp'', ''tools'',
     ''diagnostics'', ''hooks''}"



text \<open>
  Memory search belongs to the user once they configure it: every scalar the user sets below
  \<open>memory.search\<close> survives, neither the embedding provider of a credential nor the memory layers
  change it.
\<close>

theorem user_memory_search_kept:
  assumes "enrich_config instance host template = Inr c" and "parseUserRawConfig instance = Inr user"
    and "wf_json (JObj user)" and "lookup_path (JObj user) (''memory'' # ''search'' # ks) = Some v" and "as_obj v = None"
  shows "lookup_path (JObj c) (''memory'' # ''search'' # ks) = Some v"
proof -
  from assms(1,2) obtain c1 c2 c3 where
    steps: "injectProviders instance (enforced_config instance host (deepMerge template user)) = Inr c1"
    "injectChannels instance (injectMemoryStack instance (userHasMemorySearchConfig user True)
       (injectMemorySearch instance (injectModelCatalog instance (injectProviderPlugins instance c1)))) = Inr c2"
    "injectWebSearch instance (injectMcpServers instance c2) = Inr c3"
    and c: "c = (if userManagedConfig instance then injectSkipBootstrap instance (injectDiagnosticsConfig instance c3)
          else injectBootstrapHook (injectSkipBootstrap instance (injectDiagnosticsConfig instance c3)))"
    by (auto intro: enrich_config_Inr [OF assms(1)])
  let ?c = "injectModelCatalog instance (injectProviderPlugins instance c1)"
  have path: "lookup_path (JObj (deepMerge template user)) (''memory'' # ''search'' # ks) = Some v"
    using user_merge.override_wins [OF assms(3,4,5)] .
  have m1: "map_of ?c ''memory'' = map_of (deepMerge template user) ''memory''"
    by (simp add: edit_frames providers.frame [OF steps(1)] enforced_config_frame)
  have "userHasMemorySearchConfig ?c True" using path
    by (auto simp: userHasMemorySearchConfig_def obj_at_conv m1 has_key_map_of split: option.splits json.splits)
  then have m2: "injectMemorySearch instance ?c = ?c"
    by (simp add: injectMemorySearch_def injectMemorySearchForGeneration_def Let_def)
  have "userHasMemorySearchConfig user True" using assms(4)
    by (auto simp: userHasMemorySearchConfig_def obj_at_conv has_key_map_of split: option.splits json.splits)
  then have "map_of (injectMemoryStack instance (userHasMemorySearchConfig user True) ?c) ''memory'' = map_of ?c ''memory''"
    by (simp add: injectMemoryStack_def Let_def config_simps)
  then have "map_of c ''memory'' = map_of (deepMerge template user) ''memory''"
    by (simp add: c m1 edit_frames web_search.frame [OF steps(3)] channels.frame [OF steps(2) [unfolded m2]])
  with path show ?thesis by simp
qed

theorem user_memory_search_kept_witness:
  "\<exists>c. enrich_config sample_instance ''https://claw.example'' [] = Inr c \<and>
     lookup_path (JObj c) [''memory'', ''search'', ''provider''] = Some (JStr ''local'')"
proof -
  obtain c where c: "enrich_config sample_instance ''https://claw.example'' [] = Inr c" using sample_enriches(2) by blast
  have "wf_json (JObj sample_user)" "lookup_path (JObj sample_user) [''memory'', ''search'', ''provider''] = Some (JStr ''local'')"
    by (simp_all add: sample_user_def)
  then show ?thesis using user_memory_search_kept [OF c sample_enriches(1), of "[''provider'']"] c by simp
qed

subsection \<open>The provider block\<close>

text \<open>The key a credential contributes to \<open>models.providers\<close>, if any.\<close>

definition provider_key :: "CredentialSpec \<Rightarrow> string option" where
  "provider_key cred =
     (let p = canonicalProviderID (cs_Provider cred)
      in if p = [] \<or> cs_Type cred = CredentialTypePathToken then None
         else Some (if cs_Type cred = CredentialTypeGCP \<and> p \<noteq> ''google'' then p @ ''-vertex'' else p))"

definition placeholder_entry :: "json \<Rightarrow> bool" where
  "placeholder_entry e \<longleftrightarrow> lookup_path e [''apiKey''] = Some (JStr placeholderAPIKey)"

lemma add_provider_Inr:
  assumes "add_provider cred ps = Inr ps'"
  shows "(provider_key cred = None \<and> ps' = ps) \<or>
    (\<exists>k e. provider_key cred = Some k \<and> \<not> has_key ps k \<and> ps' = AList.update k e ps \<and> placeholder_entry e)"
  using assms
  by (auto simp: add_provider_def provider_key_def placeholder_entry_def usesVertexSDK_def buildProviderEntry_def Let_def
      split: if_splits option.splits)

lemma add_custom_provider_Inr:
  assumes "add_custom_provider cp ps = Inr ps'"
  shows "\<exists>e. \<not> has_key ps (cp_Name cp) \<and> ps' = AList.update (cp_Name cp) e ps \<and> placeholder_entry e"
  using assms by (auto simp: add_custom_provider_def placeholder_entry_def Let_def split: if_splits)

lemma rfold_add_provider:
  assumes "rfold add_provider creds ps = Inr ps'"
  shows "dom (map_of ps') = dom (map_of ps) \<union> set (List.map_filter provider_key creds) \<and>
    distinct (List.map_filter provider_key creds) \<and> dom (map_of ps) \<inter> set (List.map_filter provider_key creds) = {} \<and>
    ((\<forall>e \<in> ran (map_of ps). placeholder_entry e) \<longrightarrow> (\<forall>e \<in> ran (map_of ps'). placeholder_entry e))"
  using assms
proof (induction creds arbitrary: ps)
  case (Cons cred creds)
  then obtain p1 where a: "add_provider cred ps = Inr p1" and r: "rfold add_provider creds p1 = Inr ps'"
    by (auto simp: rbind_eq_Inr)
  show ?case
  proof (cases "provider_key cred")
    case None
    with add_provider_Inr [OF a] have "p1 = ps" by simp
    with Cons.IH [OF r] None show ?thesis by (simp add: List.map_filter_simps)
  next
    case (Some k)
    with add_provider_Inr [OF a] obtain e where e: "\<not> has_key ps k" "p1 = AList.update k e ps" "placeholder_entry e" by auto
    then have "dom (map_of p1) = insert k (dom (map_of ps))" "map_of ps k = None" "ran (map_of p1) = insert e (ran (map_of ps))"
      by (auto simp: has_key_map_of ran_map_upd)
    with Cons.IH [OF r] Some e(3) show ?thesis by (auto simp: List.map_filter_simps)
  qed
qed (simp add: List.map_filter_simps)

lemma rfold_add_custom_provider:
  assumes "rfold add_custom_provider cps ps = Inr ps'"
  shows "dom (map_of ps') = dom (map_of ps) \<union> cp_Name ` set cps \<and>
    ((\<forall>e \<in> ran (map_of ps). placeholder_entry e) \<longrightarrow> (\<forall>e \<in> ran (map_of ps'). placeholder_entry e))"
  using assms
proof (induction cps arbitrary: ps)
  case (Cons cp cps)
  then obtain p1 where a: "add_custom_provider cp ps = Inr p1" and r: "rfold add_custom_provider cps p1 = Inr ps'"
    by (auto simp: rbind_eq_Inr)
  from add_custom_provider_Inr [OF a] obtain e where
    e: "\<not> has_key ps (cp_Name cp)" "p1 = AList.update (cp_Name cp) e ps" "placeholder_entry e" by auto
  then have "dom (map_of p1) = insert (cp_Name cp) (dom (map_of ps))" "ran (map_of p1) = insert e (ran (map_of ps))"
    by (auto simp: has_key_map_of ran_map_upd)
  with Cons.IH [OF r] e(3) show ?case by auto
qed simp



subsection \<open>The model catalog\<close>

lemma map_of_fill_models:
  "map_of (fill_models cat m) k = (case map_of m k of Some v \<Rightarrow> Some v | None \<Rightarrow> map_of cat k)"
proof (induction cat arbitrary: m)
  case Nil
  then show ?case by (simp add: fill_models_def split: option.split)
next
  case (Cons e cat)
  obtain j v where e: "e = (j, v)" by (cases e)
  let ?m = "if has_key m j then m else AList.update j v m"
  have "fill_models (e # cat) m = fill_models cat ?m" by (simp add: fill_models_def e)
  with Cons show ?case by (auto simp: e has_key_map_of split: option.splits)
qed

interpretation string_order: strict_weak_order "(<) :: string \<Rightarrow> string \<Rightarrow> bool"
  by unfold_locales auto

lemma sorted_model_refs: "sorted (SliceStable (<) (xs :: string list))"
  using string_order.sorted_SliceStable [of xs] by (simp add: sorted_wrt_iff_nth_less not_less sorted_iff_nth_mono_less)

lemma catalog_defaults_policy:
  "obj_at defaults ''modelPolicy'' = None \<Longrightarrow>
   lookup_path (JObj (catalog_defaults cat defaults)) [''modelPolicy'', ''allow''] =
     Some (JArr (stringsToAny (SliceStable (<) (map fst (fill_models (cat_Models cat) (nested_or_empty defaults ''models''))))))"
  by (simp add: catalog_defaults_def Let_def)

lemma catalog_defaults_kept_policy:
  "obj_at defaults ''modelPolicy'' = Some p \<Longrightarrow> map_of (catalog_defaults cat defaults) ''modelPolicy'' = Some (JObj p)"
  by (auto simp: catalog_defaults_def Let_def obj_at_conv split: option.splits json.splits)

lemma catalog_defaults_model:
  assumes "Option.bind (map_of (nested_or_empty defaults ''model'') ''primary'') as_str = Some p" "p \<noteq> []"
  shows "lookup_path (JObj (catalog_defaults cat defaults)) [''model'', ''primary''] = Some (JStr p)"
  using assms by (auto simp: catalog_defaults_def set_model_def Let_def config_simps Option.bind_eq_Some_conv)

text \<open>
  The model catalog fills gaps and never overrides the user: each model the user lists keeps
  the user's entry, every catalog model the user does not list is added; a model policy and a primary model
  the user sets stay, and without a policy the allow list is the sorted list of exactly the models
  of the result.
\<close>

theorem catalog_fills_gaps:
  assumes "cat_Models (model_catalog instance) \<noteq> []"
    and "before = nested_or_empty (nested_or_empty config ''agents'') ''defaults''"
  shows "\<exists>after models. lookup_path (JObj (injectModelCatalog instance config)) [''agents'', ''defaults''] = Some (JObj after) \<and>
    map_of after ''models'' = Some (JObj models) \<and>
    (\<forall>k. map_of models k =
       (case map_of (nested_or_empty before ''models'') k of
          Some v \<Rightarrow> Some v | None \<Rightarrow> map_of (cat_Models (model_catalog instance)) k)) \<and>
    (\<forall>p. obj_at before ''modelPolicy'' = Some p \<longrightarrow> map_of after ''modelPolicy'' = Some (JObj p)) \<and>
    (obj_at before ''modelPolicy'' = None \<longrightarrow>
       (\<exists>allow. lookup_path (JObj after) [''modelPolicy'', ''allow''] = Some (JArr (map JStr allow)) \<and>
          sorted allow \<and> set allow = dom (map_of models))) \<and>
    (\<forall>p. Option.bind (map_of (nested_or_empty before ''model'') ''primary'') as_str = Some p \<longrightarrow> p \<noteq> [] \<longrightarrow>
       lookup_path (JObj after) [''model'', ''primary''] = Some (JStr p))"
proof -
  let ?cat = "model_catalog instance"
  let ?after = "catalog_defaults ?cat before"
  let ?models = "fill_models (cat_Models ?cat) (nested_or_empty before ''models'')"
  have "lookup_path (JObj (injectModelCatalog instance config)) [''agents'', ''defaults''] = Some (JObj ?after)"
    using assms by (simp add: injectModelCatalog_def Let_def config_simps)
  moreover have "map_of ?after ''models'' = Some (JObj ?models)" by (simp add: catalog_defaults_def Let_def)
  moreover have "obj_at before ''modelPolicy'' = None \<longrightarrow>
       (\<exists>allow. lookup_path (JObj ?after) [''modelPolicy'', ''allow''] = Some (JArr (map JStr allow)) \<and>
          sorted allow \<and> set allow = dom (map_of ?models))"
    using catalog_defaults_policy [of before ?cat] sorted_model_refs [of "map fst ?models"]
    by (intro impI exI [of _ "SliceStable (<) (map fst ?models)"])
      (simp del: lookup_path.simps add: stringsToAny_def dom_map_of_conv_image_fst)
  ultimately show ?thesis
    using catalog_defaults_kept_policy catalog_defaults_model by (auto simp: map_of_fill_models)
qed

definition catalog_instance :: Claw where
  "catalog_instance = sample_instance\<lparr>cl_Spec := empty_ClawSpec\<lparr>
     sp_CustomProviders := [\<lparr>cp_Name = ''v'', cp_BaseUrl = ''u'', cp_API = [], cp_CredentialRef = ''c'',
        cp_Models = [\<lparr>cm_Name = ''m'', cm_Alias = []\<rparr>]\<rparr>]\<rparr>\<rparr>"

theorem catalog_fills_gaps_witness:
  "\<exists>after. lookup_path (JObj (injectModelCatalog catalog_instance [])) [''agents'', ''defaults''] = Some (JObj after) \<and>
     lookup_path (JObj after) [''models'', ''v/m''] = Some (JObj [(''alias'', JStr ''m'')])"
proof -
  have m: "cat_Models (model_catalog catalog_instance) = [(''v/m'', JObj [(''alias'', JStr ''m'')])]" by code_simp
  have "nested_or_empty (nested_or_empty [] ''agents'') ''defaults'' = []" by code_simp
  then show ?thesis
    using catalog_fills_gaps [of catalog_instance "[]" "[]"] m by (auto simp: nested_or_empty_def obj_at_def)
qed

subsection \<open>The legacy document\<close>

lemma add_companion_keeps: "map_of ps k = Some v \<Longrightarrow> map_of (add_companion p c ps) k = Some v"
  by (auto simp: add_companion_def Let_def has_key_map_of)

lemma add_companions_keeps: "map_of ps k = Some v \<Longrightarrow> map_of (add_companions e ps) k = Some v"
proof -
  assume kv: "map_of ps k = Some v"
  have "map_of (fold (add_companion p) cs ps) k = Some v" for p cs
    using kv by (induction cs arbitrary: ps) (simp_all add: add_companion_keeps)
  with kv show ?thesis by (simp add: add_companions_def split: json.split)
qed

lemma fold_add_companions_keeps: "map_of ps k = Some v \<Longrightarrow> map_of (fold add_companions es ps) k = Some v"
  by (induction es arbitrary: ps) (simp_all add: add_companions_keeps)

lemma add_companions_openai:
  assumes "map_of ps ''openai-codex'' = None"
  shows "\<exists>q. map_of (add_companions (''openai'', JObj p) ps) ''openai-codex'' = Some (JObj q) \<and>
    map_of q ''api'' = Some (JStr ''openai-chatgpt-responses'')"
proof -
  have "pd_Companions (provider_defaults ''openai'') = [''openai-codex'']"
    "pd_API (provider_defaults ''openai-codex'') = ''openai-chatgpt-responses''" by code_simp+
  with assms show ?thesis
    by (auto simp: add_companions_def add_companion_def Let_def has_key_map_of split: option.split json.split)
qed

lemma companions_only_openai:
  assumes "pd_Companions (provider_defaults n) \<noteq> []"
  shows "n = ''openai''"
proof -
  have "list_all (\<lambda>(k, d). pd_Companions d = [] \<or> k = ''openai'') knownProviders" by code_simp
  with assms show ?thesis
    by (auto simp: provider_defaults_def no_defaults_def list_all_iff split: option.splits dest!: map_of_SomeD)
qed

lemma fold_add_companions_openai:
  assumes "(''openai'', JObj p) \<in> set es" "map_of ps ''openai-codex'' = None"
  shows "\<exists>q. map_of (fold add_companions es ps) ''openai-codex'' = Some (JObj q) \<and>
    map_of q ''api'' = Some (JStr ''openai-chatgpt-responses'')"
  using assms
proof (induction es arbitrary: ps)
  case (Cons e es)
  show ?case
  proof (cases "\<exists>q. e = (''openai'', JObj q)")
    case True
    then show ?thesis
      using add_companions_openai [OF Cons.prems(2)] fold_add_companions_keeps by fastforce
  next
    case False
    have "add_companions e ps = ps"
    proof (cases "snd e")
      case (JObj q)
      with False have "pd_Companions (provider_defaults (fst e)) = []"
        using companions_only_openai [of "fst e"] by (cases e) auto
      with JObj show ?thesis by (simp add: add_companions_def)
    qed (simp_all add: add_companions_def)
    with False Cons show ?thesis by auto
  qed
qed simp

lemma companion_providers_frame: "k \<noteq> ''models'' \<Longrightarrow> map_of (companion_providers m) k = map_of m k"
  by (simp add: companion_providers_def split: option.split)

lemma move_memory_search_gone: "lookup_path (JObj (move_memory_search m)) [''memory'', ''search''] = None"
proof (cases "obj_at m ''memory''")
  case None
  then show ?thesis by (auto simp: move_memory_search_def obj_at_conv split: option.splits json.splits)
next
  case (Some memory)
  then show ?thesis
    by (cases "map_of memory ''search''") (simp_all add: move_memory_search_def)
qed

lemma move_memory_search_frame:
  "k \<notin> {''memory'', ''agents''} \<Longrightarrow> map_of (move_memory_search m) k = map_of m k"
  by (simp add: move_memory_search_def config_simps split: option.split)

lemma nested_or_empty_delete [config_simps]:
  "nested_or_empty (AList.delete k m) j = (if j = k then [] else nested_or_empty m j)"
  by (simp add: nested_or_empty_conv)

lemma move_memory_search_defaults:
  "nested_or_empty (nested_or_empty (move_memory_search m) ''agents'') ''defaults'' =
     (case lookup_path (JObj m) [''memory'', ''search''] of
        Some search \<Rightarrow> setDefault ''memorySearch'' search (nested_or_empty (nested_or_empty m ''agents'') ''defaults'')
      | None \<Rightarrow> nested_or_empty (nested_or_empty m ''agents'') ''defaults'')"
proof (cases "obj_at m ''memory''")
  case None
  then have "lookup_path (JObj m) [''memory'', ''search''] = None" by (auto simp: obj_at_conv split: option.splits json.splits)
  with None show ?thesis by (simp del: lookup_path.simps add: move_memory_search_def)
next
  case (Some memory)
  then have "lookup_path (JObj m) [''memory'', ''search''] = map_of memory ''search''"
    by (auto simp: obj_at_Some split: option.split)
  with Some show ?thesis
    by (cases "map_of memory ''search''")
      (simp_all del: lookup_path.simps add: move_memory_search_def nested_or_empty_delete nested_or_empty_update nested_or_empty_in_nested)
qed

lemma lookup_nested: "lookup_path (JObj m) (a # k # ks) = lookup_path (JObj (nested_or_empty m a)) (k # ks)"
  by (auto simp: nested_or_empty_conv split: option.split json.split)

lemma lookup_single: "lookup_path (JObj m) [k] = map_of m k"
  by (simp split: option.split)

lemma nested_companion_providers [config_simps]:
  "k \<noteq> ''models'' \<Longrightarrow> nested_or_empty (companion_providers m) k = nested_or_empty m k"
  by (simp add: nested_or_empty_conv companion_providers_frame)

lemma companion_providers_path:
  assumes "lookup_path (JObj m) (''models'' # ''providers'' # k # ks) = Some v"
  shows "nested_or_empty (nested_or_empty (companion_providers m) ''models'') ''providers'' =
    fold add_companions (nested_or_empty (nested_or_empty m ''models'') ''providers'') (nested_or_empty (nested_or_empty m ''models'') ''providers'')"
  using assms
  by (auto simp: companion_providers_def nested_or_empty_conv obj_at_conv split: option.splits json.splits)

text \<open>
  The legacy document keeps what older gateways need and drops what they cannot read: there is no
  model policy; memory search moves to the agent defaults unless those already set it; the device
  authentication setting is the one the resource asks for; every provider entry stays as it is; and
  an OpenAI provider brings its Codex companion with the ChatGPT wire format.
\<close>

theorem legacy_document:
  "let legacy = legacyOperatorJSON instance current;
       defaults = nested_or_empty (nested_or_empty current ''agents'') ''defaults''
   in lookup_path (JObj legacy) [''agents'', ''defaults'', ''modelPolicy''] = None \<and>
      lookup_path (JObj legacy) [''memory'', ''search''] = None \<and>
      (\<forall>search. lookup_path (JObj current) [''memory'', ''search''] = Some search \<longrightarrow>
         lookup_path (JObj legacy) [''agents'', ''defaults'', ''memorySearch''] =
           Some (case map_of defaults ''memorySearch'' of Some own \<Rightarrow> own | None \<Rightarrow> search)) \<and>
      lookup_path (JObj legacy) [''gateway'', ''controlUi'', ''dangerouslyDisableDeviceAuth''] =
        Some (JBool (shouldDisableDevicePairing (sp_Auth (cl_Spec instance)))) \<and>
      (\<forall>k v. lookup_path (JObj current) [''models'', ''providers'', k] = Some v \<longrightarrow>
         lookup_path (JObj legacy) [''models'', ''providers'', k] = Some v) \<and>
      (\<forall>p. lookup_path (JObj current) [''models'', ''providers'', ''openai''] = Some (JObj p) \<longrightarrow>
         lookup_path (JObj current) [''models'', ''providers'', ''openai-codex''] = None \<longrightarrow>
         lookup_path (JObj legacy) [''models'', ''providers'', ''openai-codex'', ''api''] =
           Some (JStr ''openai-chatgpt-responses''))"
proof -
  define l1 where "l1 = in_nested ''agents'' (in_nested ''defaults'' (AList.delete ''modelPolicy'')) current"
  define l3 where "l3 = in_nested configKeyGateway (in_nested configKeyControlUI
            (AList.update ''dangerouslyDisableDeviceAuth''
               (JBool (shouldDisableDevicePairing (sp_Auth (cl_Spec instance)))))) (move_memory_search l1)"
  let ?legacy = "legacyOperatorJSON instance current" and ?defaults = "nested_or_empty (nested_or_empty current ''agents'') ''defaults''"
  have legacy: "?legacy = companion_providers l3" by (simp add: legacyOperatorJSON_def l1_def l3_def Let_def)
  let ?ps = "nested_or_empty (nested_or_empty current ''models'') ''providers''"
  have models: "map_of l3 ''models'' = map_of current ''models''"
    by (simp add: l3_def l1_def move_memory_search_frame config_simps)
  then have lm: "lookup_path (JObj l3) (''models'' # ks) = lookup_path (JObj current) (''models'' # ks)" for ks by simp
  have ps: "nested_or_empty (nested_or_empty l3 ''models'') ''providers'' = ?ps"
    by (simp add: nested_or_empty_conv models)
  have mem: "lookup_path (JObj l1) [''memory'', ''search''] = lookup_path (JObj current) [''memory'', ''search'']"
    by (simp add: l1_def config_simps)
  have l1d: "nested_or_empty (nested_or_empty l1 ''agents'') ''defaults'' = AList.delete ''modelPolicy'' ?defaults"
    by (simp add: l1_def config_simps)
  have d: "nested_or_empty (nested_or_empty ?legacy ''agents'') ''defaults'' =
     (case lookup_path (JObj current) [''memory'', ''search''] of
        Some search \<Rightarrow> setDefault ''memorySearch'' search (AList.delete ''modelPolicy'' ?defaults)
      | None \<Rightarrow> AList.delete ''modelPolicy'' ?defaults)"
    using move_memory_search_defaults [of l1, unfolded mem l1d]
    by (simp del: lookup_path.simps add: legacy l3_def config_simps)
  have "lookup_path (JObj ?legacy) [''agents'', ''defaults'', ''modelPolicy''] = None"
    by (simp del: lookup_path.simps(2) add: lookup_nested lookup_single d)
      (simp add: setDefault_def split: option.split)
  moreover have "lookup_path (JObj ?legacy) [''memory'', ''search''] = None"
    using move_memory_search_gone [of l1] by (simp add: legacy companion_providers_frame l3_def config_simps)
  moreover have "lookup_path (JObj ?legacy) [''agents'', ''defaults'', ''memorySearch''] =
           Some (case map_of ?defaults ''memorySearch'' of Some own \<Rightarrow> own | None \<Rightarrow> search)"
      if "lookup_path (JObj current) [''memory'', ''search''] = Some search" for search
    using that by (simp del: lookup_path.simps(2) add: lookup_nested lookup_single d)
      (auto simp: setDefault_def has_key_map_of split: option.split)
  moreover have "lookup_path (JObj ?legacy) [''gateway'', ''controlUi'', ''dangerouslyDisableDeviceAuth''] =
        Some (JBool (shouldDisableDevicePairing (sp_Auth (cl_Spec instance))))"
    by (simp add: legacy companion_providers_frame l3_def config_simps)
  moreover have "lookup_path (JObj ?legacy) [''models'', ''providers'', k] = Some v"
      if "lookup_path (JObj current) [''models'', ''providers'', k] = Some v" for k v
  proof -
    have "map_of ?ps k = Some v" using that by (simp only: lookup_nested lookup_single)
    with fold_add_companions_keeps [of ?ps k v ?ps] companion_providers_path [of l3 k "[]" v] that show ?thesis
      by (simp del: lookup_path.simps(2) add: lookup_nested lookup_single lm legacy ps)
  qed
  moreover have "lookup_path (JObj ?legacy) [''models'', ''providers'', ''openai-codex'', ''api''] =
           Some (JStr ''openai-chatgpt-responses'')"
      if "lookup_path (JObj current) [''models'', ''providers'', ''openai''] = Some (JObj p)"
        "lookup_path (JObj current) [''models'', ''providers'', ''openai-codex''] = None" for p
  proof -
    have "map_of ?ps ''openai'' = Some (JObj p)" "map_of ?ps ''openai-codex'' = None"
      using that by (simp_all only: lookup_nested lookup_single)
    then obtain q where "map_of (fold add_companions ?ps ?ps) ''openai-codex'' = Some (JObj q)"
        "map_of q ''api'' = Some (JStr ''openai-chatgpt-responses'')"
      using fold_add_companions_openai [OF map_of_SomeD] by blast
    with companion_providers_path [of l3 "''openai''" "[]" "JObj p"] that(1) show ?thesis
      by (simp del: lookup_path.simps(2) add: lookup_nested lookup_single lm legacy ps) (simp add: nested_or_empty_conv)
  qed
  ultimately show ?thesis unfolding Let_def by blast
qed

theorem legacy_document_witness:
  "lookup_path (JObj (legacyOperatorJSON sample_instance
     [(''models'', JObj [(''providers'', JObj [(''openai'', JObj [(''baseUrl'', JStr ''u'')])])])]))
     [''models'', ''providers'', ''openai-codex'', ''api''] = Some (JStr ''openai-chatgpt-responses'')"
proof -
  let ?c = "[(''models'', JObj [(''providers'', JObj [(''openai'', JObj [(''baseUrl'', JStr ''u'')])])])]"
  have "lookup_path (JObj ?c) [''models'', ''providers'', ''openai''] = Some (JObj [(''baseUrl'', JStr ''u'')])"
    "lookup_path (JObj ?c) [''models'', ''providers'', ''openai-codex''] = None" by simp_all
  then show ?thesis using legacy_document [of sample_instance ?c] unfolding Let_def by blast
qed

end
