(* ===== verification/Plugins.thy ===== *)
theory Plugins
  imports Config_Injection
begin

section \<open>Plugins (\<open>src/internal/controller/claw_plugins.go\<close>)\<close>

text \<open>
  Which plugins a gateway installs, the script that installs them, and the version check. A package
  spec is a package name with an optional \<open>@version\<close>; scoped package names start with an \<open>@\<close> of
  their own. The install script is a shell script, and package specs come from the resource: they
  are quoted, and \<open>sh_word\<close> below reads a quoted word back the way a POSIX shell does.
\<close>

definition pluginsEnabled :: "Claw \<Rightarrow> bool" where
  "pluginsEnabled instance \<longleftrightarrow> sp_Plugins (cl_Spec instance) \<noteq> []"

definition pluginPackageName :: "string \<Rightarrow> string" where
  "pluginPackageName spec =
     (case LastIndexByte spec (CHR ''@'') of
        Some idx \<Rightarrow> if idx > 0 then take idx spec else spec
      | None \<Rightarrow> spec)"

definition requiredProviderPlugins :: "Claw \<Rightarrow> string list" where
  "requiredProviderPlugins instance =
     map (\<lambda>p. if sp_Version (cl_Spec instance) \<noteq> [] then p @ ''@'' @ sp_Version (cl_Spec instance) else p)
       (dedup_by id [] (filter (\<lambda>p. p \<noteq> [])
         (map (\<lambda>c. pd_VertexPlugin (provider_defaults (cs_Provider c)))
           (filter usesVertexSDK (sp_Credentials (cl_Spec instance))))))"

definition requiredDiagnosticsPlugins :: "Claw \<Rightarrow> string list" where
  "requiredDiagnosticsPlugins instance =
     (if tracesEnabled instance \<or> logsEnabled instance then [''@openclaw/diagnostics-otel''] else []) @
     (if metricsEnabled instance then [''@openclaw/diagnostics-prometheus''] else [])"

definition operatorRequiredPlugins :: "Claw \<Rightarrow> string list" where
  "operatorRequiredPlugins instance = requiredProviderPlugins instance @ requiredDiagnosticsPlugins instance"

definition effectivePlugins :: "Claw \<Rightarrow> string list" where
  "effectivePlugins instance =
     (let implicit = operatorRequiredPlugins instance;
          explicit = sp_Plugins (cl_Spec instance)
      in if implicit = [] then explicit
         else explicit @ dedup_by pluginPackageName (map pluginPackageName explicit) implicit)"

subsection \<open>The install script\<close>

definition newline :: string where
  "newline = [CHR 0x0A]"

definition clean_managed_lines :: "string list" where
  \<open>clean_managed_lines =
     [''set -e'',
      ''EXT="/home/node/.openclaw/extensions"'',
      ''MANIFEST="$EXT/.operator-managed"'',
      ''if [ -f "$MANIFEST" ]; then'',
      ''  while IFS= read -r dir; do'',
      ''    case "$dir" in'',
      ''      ""|.|..|*/*|*..*) continue ;;'',
      ''    esac'',
      ''    target="$EXT/$dir"'',
      ''    [ -e "$target" ] || continue'',
      ''    rm -rf -- "$target"'',
      ''  done < "$MANIFEST"'',
      ''  rm -f "$MANIFEST"'']\<close>

definition clean_unmanaged_lines :: "string list" where
  \<open>clean_unmanaged_lines =
     [''else'',
      ''  # No manifest from a previous successful install '' @ [CHR 0xE2, CHR 0x80, CHR 0x94] @ '' clean all extension'',
      ''  # dirs to avoid "plugin already exists" errors from orphaned directories'',
      ''  # left by pods killed mid-install or pre-manifest operator versions.'',
      ''  find "$EXT" -mindepth 1 -maxdepth 1 -type d -exec rm -rf {} + 2>/dev/null || true'']\<close>

definition snapshot_lines :: "string list" where
  \<open>snapshot_lines =
     [''fi'',
      ''mkdir -p "$EXT"'',
      ''ls "$EXT" 2>/dev/null | sort > /tmp/before-plugins.txt'']\<close>

definition manifest_line :: string where
  \<open>manifest_line = ''ls "$EXT" | sort | comm -13 /tmp/before-plugins.txt - > "$MANIFEST"''\<close>

definition sh_quote :: "string \<Rightarrow> string" where
  "sh_quote pkg = [CHR 0x27] @ concat (map (\<lambda>c. if c = CHR 0x27 then [CHR 0x27, CHR 0x5C, CHR 0x27, CHR 0x27] else [c]) pkg) @ [CHR 0x27]"

definition install_line :: "string \<Rightarrow> string" where
  "install_line pkg = ''openclaw plugins install clawhub:'' @ sh_quote pkg"

definition generatePluginInstallScript :: "string list \<Rightarrow> bool \<Rightarrow> string" where
  "generatePluginInstallScript plugins preserveUnmanaged =
     concat (map (\<lambda>l. l @ newline)
       (clean_managed_lines @ (if preserveUnmanaged then [] else clean_unmanaged_lines) @ snapshot_lines @
        map install_line plugins @ [manifest_line]))"

subsection \<open>Versions\<close>

fun compare_parts :: "string list \<Rightarrow> string list \<Rightarrow> int \<times> bool" where
  "compare_parts [] [] = (0, True)"
| "compare_parts (a # as) [] =
     (case Atoi a of
        None \<Rightarrow> (0, False)
      | Some aVal \<Rightarrow> if aVal < 0 then (-1, True) else if aVal > 0 then (1, True) else compare_parts as [])"
| "compare_parts [] (b # bs) =
     (case Atoi b of
        None \<Rightarrow> (0, False)
      | Some bVal \<Rightarrow> if 0 < bVal then (-1, True) else if 0 > bVal then (1, True) else compare_parts [] bs)"
| "compare_parts (a # as) (b # bs) =
     (case Atoi a of
        None \<Rightarrow> (0, False)
      | Some aVal \<Rightarrow>
          (case Atoi b of
             None \<Rightarrow> (0, False)
           | Some bVal \<Rightarrow> if aVal < bVal then (-1, True) else if aVal > bVal then (1, True) else compare_parts as bs))"

definition compareCalver :: "string \<Rightarrow> string \<Rightarrow> int \<times> bool" where
  "compareCalver a b = compare_parts (SplitByte (CHR ''.'') a) (SplitByte (CHR ''.'') b)"

datatype compat_warning = NotCalVer string | PluginTooNew string string string

fun check_plugins :: "string \<Rightarrow> CredentialSpec list \<Rightarrow> compat_warning option" where
  "check_plugins version [] = None"
| "check_plugins version (cred # creds) =
     (if \<not> usesVertexSDK cred then check_plugins version creds
      else
        let defaults = provider_defaults (cs_Provider cred)
        in if pd_VertexPlugin defaults = [] \<or> pd_PluginMinVersion defaults = [] then check_plugins version creds
           else case compareCalver version (pd_PluginMinVersion defaults) of (cmp, ok) \<Rightarrow>
             if \<not> ok then Some (NotCalVer version)
             else if cmp < 0 then Some (PluginTooNew (pd_VertexPlugin defaults) (pd_PluginMinVersion defaults) version)
             else check_plugins version creds)"

definition checkPluginCompatibility :: "Claw \<Rightarrow> compat_warning option" where
  "checkPluginCompatibility instance =
     (if sp_Version (cl_Spec instance) = [] then None
      else check_plugins (sp_Version (cl_Spec instance)) (sp_Credentials (cl_Spec instance)))"

subsection \<open>The plugin list\<close>

text \<open>
  The plugins to install are the declared ones, unchanged and first, followed by operator
  required plugins: every required package is there exactly once or in the version the user
  declared, and nothing else is added.
\<close>

theorem effectivePlugins_correct:
  "\<exists>added. effectivePlugins instance = sp_Plugins (cl_Spec instance) @ added \<and>
     set added \<subseteq> set (operatorRequiredPlugins instance) \<and>
     distinct (map pluginPackageName added) \<and>
     pluginPackageName ` set added =
       pluginPackageName ` set (operatorRequiredPlugins instance) - pluginPackageName ` set (sp_Plugins (cl_Spec instance))"
proof -
  let ?added = "dedup_by pluginPackageName (map pluginPackageName (sp_Plugins (cl_Spec instance))) (operatorRequiredPlugins instance)"
  have "effectivePlugins instance = sp_Plugins (cl_Spec instance) @ ?added" by (simp add: effectivePlugins_def Let_def)
  then show ?thesis
    using set_dedup_by_subset distinct_dedup_by keys_dedup_by
      [of pluginPackageName "map pluginPackageName (sp_Plugins (cl_Spec instance))"] by fastforce
qed

subsection \<open>Quoting\<close>

text \<open>
  Reading one word of a shell command: single quotes protect everything up to the next one, a
  backslash protects one character, blanks and newlines end the word; a character that has a
  meaning of its own makes the reading fail.
\<close>

definition sh_special :: "char \<Rightarrow> bool" where
  \<open>sh_special c \<longleftrightarrow> c \<in> set ''|&;<>()$`"*?[#~=%!{}'' \<close>

fun sh_read :: "bool \<Rightarrow> string \<Rightarrow> (string \<times> string) option" where
  "sh_read True [] = None"
| "sh_read False [] = Some ([], [])"
| "sh_read True (c # cs) =
     (if c = CHR 0x27 then sh_read False cs else map_option (apfst (Cons c)) (sh_read True cs))"
| "sh_read False (c # cs) =
     (if c = CHR 0x27 then sh_read True cs
      else if c = CHR 0x5C then (case cs of [] \<Rightarrow> None | d # ds \<Rightarrow> map_option (apfst (Cons d)) (sh_read False ds))
      else if c \<in> {CHR 0x20, CHR 0x09, CHR 0x0A} then Some ([], c # cs)
      else if sh_special c then None
      else map_option (apfst (Cons c)) (sh_read False cs))"

definition sh_word :: "string \<Rightarrow> (string \<times> string) option" where
  "sh_word s = sh_read False s"

lemma sh_read_quoted:
  "sh_read True (concat (map (\<lambda>c. if c = CHR 0x27 then [CHR 0x27, CHR 0x5C, CHR 0x27, CHR 0x27] else [c]) pkg) @ CHR 0x27 # rest) =
     map_option (apfst ((@) pkg)) (sh_read False rest)"
  by (induction pkg) (simp_all add: option.map_comp comp_def apfst_def map_prod_def split_beta option.map_ident)

text \<open>
  Package names cannot inject shell code: in every install command the shell reads the rest of
  the line as one word, which is the prefix \<open>clawhub:\<close> followed by the package exactly as declared,
  whatever quotes, blanks or operators it contains.
\<close>

theorem install_line_is_one_word:
  "\<exists>w. install_line pkg = ''openclaw plugins install '' @ w \<and>
     sh_word (w @ newline @ rest) = Some (''clawhub:'' @ pkg, newline @ rest)"
proof -
  have q: "sh_word (sh_quote pkg @ newline @ rest) = Some (pkg, newline @ rest)"
    by (simp add: sh_word_def sh_quote_def sh_read_quoted newline_def)
  have "sh_read False (''clawhub:'' @ s) = map_option (apfst ((@) ''clawhub:'')) (sh_read False s)" for s
    by (simp add: sh_special_def option.map_comp comp_def apfst_def map_prod_def split_def)
  with q show ?thesis
    by (intro exI [of _ "''clawhub:'' @ sh_quote pkg"]) (simp add: install_line_def sh_word_def del: append.simps)
qed

subsection \<open>The version order\<close>

text \<open>A version is its sequence of numbers, continued with zeros.\<close>

definition segment :: "int list \<Rightarrow> nat \<Rightarrow> int" where
  "segment xs i = (if i < length xs then xs ! i else 0)"

lemma segment_simps [simp]:
  "segment [] i = 0" "segment (x # xs) 0 = x" "segment (x # xs) (Suc i) = segment xs i"
  by (simp_all add: segment_def)

definition precedes :: "int list \<Rightarrow> int list \<Rightarrow> bool" where
  "precedes xs ys \<longleftrightarrow> (\<exists>i. segment xs i < segment ys i \<and> (\<forall>j < i. segment xs j = segment ys j))"

lemma segment_tl [simp]: "segment (tl xs) i = segment xs (Suc i)"
  by (cases xs) simp_all

lemma precedes_step:
  "precedes xs ys \<longleftrightarrow> segment xs 0 < segment ys 0 \<or> segment xs 0 = segment ys 0 \<and> precedes (tl xs) (tl ys)"
proof
  assume "precedes xs ys"
  then obtain i where i: "segment xs i < segment ys i" "\<forall>j < i. segment xs j = segment ys j" by (auto simp: precedes_def)
  show "segment xs 0 < segment ys 0 \<or> segment xs 0 = segment ys 0 \<and> precedes (tl xs) (tl ys)"
  proof (cases i)
    case (Suc k)
    with i have "segment (tl xs) k < segment (tl ys) k" "\<forall>j < k. segment (tl xs) j = segment (tl ys) j" by simp_all
    with i Suc show ?thesis by (auto simp: precedes_def)
  qed (use i in simp)
next
  assume "segment xs 0 < segment ys 0 \<or> segment xs 0 = segment ys 0 \<and> precedes (tl xs) (tl ys)"
  then show "precedes xs ys"
  proof
    assume "segment xs 0 = segment ys 0 \<and> precedes (tl xs) (tl ys)"
    then obtain k where k: "segment xs 0 = segment ys 0" "segment xs (Suc k) < segment ys (Suc k)"
        "\<forall>j < k. segment xs (Suc j) = segment ys (Suc j)" by (auto simp: precedes_def)
    then have "\<forall>j < Suc k. segment xs j = segment ys j" by (auto simp: less_Suc_eq_0_disj)
    with k(2) show ?thesis unfolding precedes_def by blast
  qed (auto simp: precedes_def)
qed

lemma all_step: "(\<forall>i. segment xs i = segment ys i) \<longleftrightarrow> segment xs 0 = segment ys 0 \<and> (\<forall>i. segment (tl xs) i = segment (tl ys) i)"
  by (auto simp: gr0_conv_Suc) (metis not0_implies_Suc)

lemma compare_parts_numeric:
  assumes "map Atoi as = map Some xs" "map Atoi bs = map Some ys"
  shows "compare_parts as bs =
    (if precedes xs ys then -1 else if precedes ys xs then 1 else 0, True) \<and>
    (\<not> precedes xs ys \<and> \<not> precedes ys xs \<longleftrightarrow> (\<forall>i. segment xs i = segment ys i))"
  using assms
proof (induction as bs arbitrary: xs ys rule: compare_parts.induct)
  case 1
  then show ?case by (simp add: precedes_def)
next
  case (2 a as)
  then obtain x xs' where [simp]: "xs = x # xs'" "Atoi a = Some x" "ys = []" "map Atoi as = map Some xs'" by (cases xs) auto
  show ?case
    using "2.IH" [of x xs' "[]"] precedes_step [of "x # xs'" "[]"] precedes_step [of "[]" "x # xs'"] all_step [of "x # xs'" "[]"]
    by auto
next
  case (3 b bs)
  then obtain y ys' where [simp]: "ys = y # ys'" "Atoi b = Some y" "xs = []" "map Atoi bs = map Some ys'" by (cases ys) auto
  show ?case
    using "3.IH" [of y "[]" ys'] precedes_step [of "[]" "y # ys'"] precedes_step [of "y # ys'" "[]"] all_step [of "[]" "y # ys'"]
    by auto
next
  case (4 a as b bs)
  then obtain x xs' y ys' where [simp]: "xs = x # xs'" "Atoi a = Some x" "map Atoi as = map Some xs'"
      "ys = y # ys'" "Atoi b = Some y" "map Atoi bs = map Some ys'" by (cases xs; cases ys) auto
  show ?case
    using "4.IH" [of x y xs' ys'] precedes_step [of "x # xs'" "y # ys'"] precedes_step [of "y # ys'" "x # xs'"]
      all_step [of "x # xs'" "y # ys'"]
    by auto
qed

lemma precedes_asym: "precedes xs ys \<Longrightarrow> \<not> precedes ys xs"
proof
  assume "precedes xs ys" "precedes ys xs"
  then obtain i k where "segment xs i < segment ys i" "\<forall>j < i. segment xs j = segment ys j"
    "segment ys k < segment xs k" "\<forall>j < k. segment ys j = segment xs j" by (auto simp: precedes_def)
  then show False by (cases i k rule: linorder_cases) auto
qed

definition calver :: "string \<Rightarrow> int list \<Rightarrow> bool" where
  "calver v xs \<longleftrightarrow> map Atoi (SplitByte (CHR ''.'') v) = map Some xs"

lemma compareCalver_numeric:
  "calver a xs \<Longrightarrow> calver b ys \<Longrightarrow>
   compareCalver a b = (if precedes xs ys then -1 else if precedes ys xs then 1 else 0, True)"
  using compare_parts_numeric by (simp add: compareCalver_def calver_def)

text \<open>
  On versions whose segments are all numbers the comparison is the lexicographic order of the
  numbers, with missing segments read as zero, and it is a comparison: swapping the arguments negates
  the result, and it is zero exactly for versions with the same numbers. A malformed segment is
  noticed only when the numbers before it are equal; a difference in an earlier segment decides
  first.
\<close>

theorem compareCalver_order:
  assumes "calver a xs" and "calver b ys"
  shows "compareCalver a b = (if precedes xs ys then -1 else if precedes ys xs then 1 else 0, True) \<and>
    compareCalver b a = (- fst (compareCalver a b), True) \<and>
    (fst (compareCalver a b) = 0 \<longleftrightarrow> (\<forall>i. segment xs i = segment ys i)) \<and>
    compareCalver ''2026.beta'' ''2026.6.8'' = (0, False) \<and>
    compareCalver ''2025.beta'' ''2026.6.8'' = (-1, True)"
proof -
  have z: "\<not> precedes xs ys \<and> \<not> precedes ys xs \<longleftrightarrow> (\<forall>i. segment xs i = segment ys i)"
    using compare_parts_numeric assms unfolding calver_def by blast
  have "compareCalver ''2026.beta'' ''2026.6.8'' = (0, False)" "compareCalver ''2025.beta'' ''2026.6.8'' = (-1, True)"
    by code_simp+
  moreover have "compareCalver b a = (- fst (compareCalver a b), True)"
    using precedes_asym [of xs ys] by (simp add: compareCalver_numeric [OF assms] compareCalver_numeric [OF assms(2,1)])
  moreover have "fst (compareCalver a b) = 0 \<longleftrightarrow> (\<forall>i. segment xs i = segment ys i)"
    unfolding z [symmetric] by (simp add: compareCalver_numeric [OF assms])
  ultimately show ?thesis using compareCalver_numeric [OF assms] by blast
qed

theorem compareCalver_order_witness:
  "compareCalver ''2026.6.8'' ''2026.6.10'' = (-1, True)"
proof -
  have c: "calver ''2026.6.8'' [2026, 6, 8]" "calver ''2026.6.10'' [2026, 6, 10]" by code_simp+
  have "precedes [2026, 6, 8] [2026, 6, 10]"
    unfolding precedes_def by (intro exI [of _ "2"]) (auto simp: segment_def less_Suc_eq numeral_2_eq_2)
  then show ?thesis using compareCalver_order [OF c] by simp
qed

lemma known_min_versions:
  assumes "pd_PluginMinVersion (provider_defaults p) \<noteq> []"
  shows "calver (pd_PluginMinVersion (provider_defaults p)) [2026, 6, 8]"
proof -
  have "list_all (\<lambda>(k, d). pd_PluginMinVersion d = [] \<or> calver (pd_PluginMinVersion d) [2026, 6, 8]) knownProviders" by code_simp
  with assms show ?thesis
    by (auto simp: provider_defaults_def no_defaults_def list_all_iff split: option.splits dest!: map_of_SomeD)
qed

text \<open>
  The compatibility check is exact on proper versions: it stays silent precisely when no
  Vertex credential needs a plugin whose minimum version is above the requested one.
\<close>

theorem checkPluginCompatibility_exact:
  assumes "sp_Version (cl_Spec instance) \<noteq> []" and "calver (sp_Version (cl_Spec instance)) xs"
  shows "checkPluginCompatibility instance = None \<longleftrightarrow>
    (\<forall>cred \<in> set (sp_Credentials (cl_Spec instance)). \<forall>ys. usesVertexSDK cred \<longrightarrow>
       pd_VertexPlugin (provider_defaults (cs_Provider cred)) \<noteq> [] \<longrightarrow>
       pd_PluginMinVersion (provider_defaults (cs_Provider cred)) \<noteq> [] \<longrightarrow>
       calver (pd_PluginMinVersion (provider_defaults (cs_Provider cred))) ys \<longrightarrow> \<not> precedes xs ys)"
proof -
  have u: "ys = zs" if "calver v ys" "calver v zs" for v ys zs
    using that by (metis calver_def inj_Some inj_map_eq_map)
  have "check_plugins (sp_Version (cl_Spec instance)) creds = None \<longleftrightarrow>
    (\<forall>cred \<in> set creds. \<forall>ys. usesVertexSDK cred \<longrightarrow>
       pd_VertexPlugin (provider_defaults (cs_Provider cred)) \<noteq> [] \<longrightarrow>
       pd_PluginMinVersion (provider_defaults (cs_Provider cred)) \<noteq> [] \<longrightarrow>
       calver (pd_PluginMinVersion (provider_defaults (cs_Provider cred))) ys \<longrightarrow> \<not> precedes xs ys)" for creds
  proof (induction creds)
    case (Cons cred creds)
    let ?min = "pd_PluginMinVersion (provider_defaults (cs_Provider cred))"
    show ?case
    proof (cases "usesVertexSDK cred \<and> pd_VertexPlugin (provider_defaults (cs_Provider cred)) \<noteq> [] \<and> ?min \<noteq> []")
      case True
      then have c: "calver ?min [2026, 6, 8]" by (simp add: known_min_versions)
      then have "(\<forall>ys. calver ?min ys \<longrightarrow> \<not> precedes xs ys) \<longleftrightarrow> \<not> precedes xs [2026, 6, 8]" using u by blast
      with True Cons.IH compareCalver_numeric [OF assms(2) c] show ?thesis by (auto simp: Let_def)
    next
      case False
      with Cons.IH show ?thesis by (auto simp: Let_def)
    qed
  qed simp
  with assms(1) show ?thesis by (simp add: checkPluginCompatibility_def)
qed

definition vertex_instance :: Claw where
  "vertex_instance = sample_instance\<lparr>cl_Spec := empty_ClawSpec\<lparr>sp_Version := ''2026.6.5'',
     sp_Credentials := [empty_CredentialSpec\<lparr>cs_Name := ''v'', cs_Type := CredentialTypeGCP, cs_Provider := ''anthropic''\<rparr>]\<rparr>\<rparr>"

theorem checkPluginCompatibility_exact_witness:
  "checkPluginCompatibility vertex_instance \<noteq> None"
proof -
  let ?c = "hd (sp_Credentials (cl_Spec vertex_instance))"
  have v: "sp_Version (cl_Spec vertex_instance) \<noteq> []" "calver (sp_Version (cl_Spec vertex_instance)) [2026, 6, 5]" by code_simp+
  have f: "usesVertexSDK ?c" "pd_VertexPlugin (provider_defaults (cs_Provider ?c)) \<noteq> []"
    "pd_PluginMinVersion (provider_defaults (cs_Provider ?c)) \<noteq> []"
    "calver (pd_PluginMinVersion (provider_defaults (cs_Provider ?c))) [2026, 6, 8]"
    "sp_Credentials (cl_Spec vertex_instance) \<noteq> []" by code_simp+
  have "precedes [2026, 6, 5] [2026, 6, 8]"
    unfolding precedes_def by (intro exI [of _ "2"]) (auto simp: segment_def less_Suc_eq numeral_2_eq_2)
  then show ?thesis using checkPluginCompatibility_exact [OF v] f hd_in_set by blast
qed

end
