(* ===== verification/Egress.thy ===== *)
theory Egress
  imports Config_Injection
begin

section \<open>Egress targets (\<open>src/internal/controller/claw_egress.go\<close>)\<close>

text \<open>
  Where MCP servers and telemetry collectors live: the classification of a service URL as in-cluster
  or external, and the list of targets that the network policy rules are built from. The network
  policies themselves are edited in \<open>Manifests\<close>.
\<close>

record egressTarget =
  et_Port :: int
  et_Namespace :: string
  et_External :: bool

datatype egress_error = UrlUnparseable string | UrlWithoutHost string | UrlPortInvalid string

definition resolvePort :: "Url \<Rightarrow> (egress_error, int) result" where
  "resolvePort u =
     (if Port u \<noteq> [] then
        (case Atoi (Port u) of None \<Rightarrow> Inl (UrlPortInvalid (Port u)) | Some port \<Rightarrow> Inr port)
      else if u_Scheme u = ''https'' then Inr 443 else Inr 80)"

definition service_namespace :: "string \<Rightarrow> string option" where
  "service_namespace hostname =
     (let parts = SplitByte (CHR ''.'') hostname
      in if length parts = 1 then Some []
         else if HasSuffix hostname ''.svc.cluster.local'' then Some (parts ! 1)
         else if HasSuffix hostname ''.svc'' then Some (parts ! 1)
         else None)"

definition classifyServiceURL :: "string \<Rightarrow> string \<Rightarrow> (egress_error, egressTarget) result" where
  "classifyServiceURL rawURL instanceNamespace =
     (case UrlParse rawURL of
        None \<Rightarrow> Inl (UrlUnparseable rawURL)
      | Some parsed \<Rightarrow>
          let hostname = Hostname parsed
          in if hostname = [] then Inl (UrlWithoutHost rawURL)
             else rbind (resolvePort parsed) (\<lambda>port.
               if ParseIP hostname then Inr \<lparr>et_Port = port, et_Namespace = [], et_External = True\<rparr>
               else case service_namespace hostname of
                 None \<Rightarrow> Inr \<lparr>et_Port = port, et_Namespace = [], et_External = True\<rparr>
               | Some namespace \<Rightarrow>
                   Inr \<lparr>et_Port = port, et_Namespace = (if namespace = instanceNamespace then [] else namespace),
                        et_External = False\<rparr>))"

definition inClusterBypassEnabled :: "Claw \<Rightarrow> bool" where
  "inClusterBypassEnabled instance =
     (case sp_Network (cl_Spec instance) of None \<Rightarrow> False | Some n \<Rightarrow> net_InClusterBypass n = Some True)"

text \<open>The warning names the first server of the map that is affected.\<close>

fun bypassed_server :: "string \<Rightarrow> (string, McpServerSpec) gomap \<Rightarrow> (string \<times> string) option" where
  "bypassed_server ns [] = None"
| "bypassed_server ns ((name, mcp) # rest) =
     (if mcp_URL mcp = [] \<or> mcp_CredentialRef mcp = [] then bypassed_server ns rest
      else case classifyServiceURL (mcp_URL mcp) ns of
        Inl _ \<Rightarrow> bypassed_server ns rest
      | Inr target \<Rightarrow> if et_External target then bypassed_server ns rest else Some (name, mcp_CredentialRef mcp))"

definition validateMcpCredentialRefBypass :: "Claw \<Rightarrow> (string \<times> string) option" where
  "validateMcpCredentialRefBypass instance =
     (if \<not> inClusterBypassEnabled instance then None
      else bypassed_server (cl_Namespace instance) (sp_McpServers (cl_Spec instance)))"

definition dedupKey :: "egressTarget \<Rightarrow> string" where
  "dedupKey t =
     (if et_External t then ''external:'' @ Itoa (et_Port t)
      else ''incluster:'' @ et_Namespace t @ '':'' @ Itoa (et_Port t))"

definition mcp_targets :: "string \<Rightarrow> (string, McpServerSpec) gomap \<Rightarrow> egressTarget list" where
  "mcp_targets ns servers =
     List.map_filter (\<lambda>(name, mcp).
       if mcp_URL mcp = [] then None
       else case classifyServiceURL (mcp_URL mcp) ns of Inl _ \<Rightarrow> None | Inr target \<Rightarrow> Some target) servers"

definition target_less :: "egressTarget \<Rightarrow> egressTarget \<Rightarrow> bool" where
  "target_less a b =
     (if et_Namespace a \<noteq> et_Namespace b then et_Namespace a < et_Namespace b
      else if et_Port a \<noteq> et_Port b then et_Port a - et_Port b < 0
      else if et_External a \<noteq> et_External b then \<not> et_External a
      else False)"

definition classifyMcpEgressTargets :: "Claw \<Rightarrow> egressTarget list" where
  "classifyMcpEgressTargets instance =
     SliceStable target_less
       (dedup_by dedupKey [] (mcp_targets (cl_Namespace instance) (sp_McpServers (cl_Spec instance))))"

fun telemetry_targets :: "string \<Rightarrow> string list \<Rightarrow> (egress_error, egressTarget list) result" where
  "telemetry_targets ns [] = Inr []"
| "telemetry_targets ns (ep # eps) =
     (if ep = [] then telemetry_targets ns eps
      else rbind (classifyServiceURL ep ns) (\<lambda>target.
           rbind (telemetry_targets ns eps) (\<lambda>targets. Inr (target # targets))))"

definition classifyTelemetryEndpoints :: "Claw \<Rightarrow> (egress_error, egressTarget list) result" where
  "classifyTelemetryEndpoints instance =
     rbind (telemetry_targets (cl_Namespace instance) [tracesEndpoint instance, logsEndpoint instance])
       (\<lambda>targets. Inr (dedup_by dedupKey [] targets))"

definition collectExternalNon443Ports :: "egressTarget list \<Rightarrow> int list" where
  "collectExternalNon443Ports targets =
     SliceStable (<) (dedup_by id [] (map et_Port (filter (\<lambda>t. et_External t \<and> et_Port t \<noteq> 443) targets)))"

definition filterInCluster :: "egressTarget list \<Rightarrow> egressTarget list" where
  "filterInCluster targets = filter (\<lambda>t. \<not> et_External t) targets"

definition buildInClusterEgressRule :: "egressTarget \<Rightarrow> jobj" where
  "buildInClusterEgressRule t =
     (let ports = [JObj [(''port'', JNum (et_Port t)), (''protocol'', JStr ''TCP'')]];
          to = (if et_Namespace t = [] then [JObj [(''podSelector'', JObj [])]]
                else [JObj [(''namespaceSelector'',
                       JObj [(''matchLabels'', JObj [(''kubernetes.io/metadata.name'', JStr (et_Namespace t))])])]])
      in [(''to'', JArr to), (''ports'', JArr ports)])"

subsection \<open>The target list\<close>

lemma last_separator_unique:
  assumes "a @ c # x = b @ c # y" "c \<notin> set x" "c \<notin> set y"
  shows "a = b \<and> x = y"
proof -
  have t: "takeWhile (\<lambda>d. d \<noteq> c) (rev (u @ c # v)) = rev v" if "c \<notin> set v" for u v
  proof -
    have "takeWhile (\<lambda>d. d \<noteq> c) (rev v @ c # rev u) = rev v" using that by (subst takeWhile_append2) auto
    then show ?thesis by simp
  qed
  have "rev x = rev y" using t [of x a] t [of y b] assms by simp
  with assms(1) show ?thesis by simp
qed

lemma colon_not_in_Itoa: "CHR '':'' \<notin> set (Itoa i)"
proof -
  have "\<not> is_digit_byte (CHR '':'')" by code_simp
  then have "CHR '':'' \<notin> set (nat_digits n)" for n
    using nat_digits_digits [of n] by (auto simp: list_all_iff)
  then show ?thesis by (simp add: Itoa_def)
qed

text \<open>Targets that classification yields: an external target has no namespace.\<close>

definition wf_target :: "egressTarget \<Rightarrow> bool" where
  "wf_target t \<longleftrightarrow> (et_External t \<longrightarrow> et_Namespace t = [])"

lemma classify_wf: "classifyServiceURL u ns = Inr t \<Longrightarrow> wf_target t"
  by (auto simp: classifyServiceURL_def wf_target_def Let_def rbind_eq_Inr split: option.splits if_splits)

lemma dedupKey_inj: "wf_target s \<Longrightarrow> wf_target t \<Longrightarrow> dedupKey s = dedupKey t \<Longrightarrow> s = t"
proof -
  assume wf: "wf_target s" "wf_target t" and eq: "dedupKey s = dedupKey t"
  have ext: "et_External s = et_External t"
    using eq by (auto simp: dedupKey_def split: if_splits)
  show "s = t"
  proof (cases "et_External t")
    case True
    with eq ext wf show ?thesis by (simp add: dedupKey_def wf_target_def)
  next
    case False
    with eq ext have "et_Namespace s @ CHR '':'' # Itoa (et_Port s) = et_Namespace t @ CHR '':'' # Itoa (et_Port t)"
      by (simp add: dedupKey_def)
    then have "et_Namespace s = et_Namespace t \<and> Itoa (et_Port s) = Itoa (et_Port t)"
      by (rule last_separator_unique) (simp_all add: colon_not_in_Itoa)
    with ext show ?thesis by simp
  qed
qed

definition target_key :: "egressTarget \<Rightarrow> string \<times> int \<times> bool" where
  "target_key t = (et_Namespace t, et_Port t, et_External t)"

lemma target_less_key: "target_less a b \<longleftrightarrow> target_key a < target_key b"
  by (auto simp: target_less_def target_key_def less_prod_simp less_bool_def)

lemma target_key_inject: "target_key s = target_key t \<longleftrightarrow> s = t"
  by (auto simp: target_key_def)

interpretation target_order: strict_weak_order target_less
  by unfold_locales (auto simp: target_less_key)

lemma set_mcp_targets:
  "set (mcp_targets ns servers) =
     {t. \<exists>(name, mcp) \<in> set servers. mcp_URL mcp \<noteq> [] \<and> classifyServiceURL (mcp_URL mcp) ns = Inr t}"
proof (induction servers)
  case (Cons e servers)
  obtain name mcp where e: "e = (name, mcp)" by (cases e)
  show ?case
  proof (cases "mcp_URL mcp \<noteq> [] \<and> is_ok (classifyServiceURL (mcp_URL mcp) ns)")
    case True
    then obtain t where t: "classifyServiceURL (mcp_URL mcp) ns = Inr t" by (auto simp: is_ok_iff)
    with True e Cons show ?thesis by (auto simp: mcp_targets_def List.map_filter_simps)
  next
    case False
    then have "mcp_targets ns (e # servers) = mcp_targets ns servers"
      by (auto simp: mcp_targets_def List.map_filter_simps e is_ok_iff split: sum.splits)
    with False e Cons show ?thesis by auto
  qed
qed (simp add: mcp_targets_def List.map_filter_simps)

lemma dedup_targets_set:
  assumes "\<forall>t \<in> set ts. wf_target t"
  shows "set (dedup_by dedupKey [] ts) = set ts"
proof
  show "set (dedup_by dedupKey [] ts) \<subseteq> set ts" by (rule set_dedup_by_subset)
  show "set ts \<subseteq> set (dedup_by dedupKey [] ts)"
  proof
    fix t assume t: "t \<in> set ts"
    then have "dedupKey t \<in> dedupKey ` set (dedup_by dedupKey [] ts)" by (simp add: keys_dedup_by)
    then obtain s where s: "s \<in> set (dedup_by dedupKey [] ts)" "dedupKey s = dedupKey t" by auto
    then have "s = t" using dedupKey_inj [of s t] assms t set_dedup_by_subset [of dedupKey "[]" ts] by blast
    with s show "t \<in> set (dedup_by dedupKey [] ts)" by simp
  qed
qed

lemma distinct_insert_stable: "distinct (insert_stable lt x ys) \<longleftrightarrow> x \<notin> set ys \<and> distinct ys"
  by (induction ys) auto

lemma distinct_SliceStable: "distinct (SliceStable lt xs) \<longleftrightarrow> distinct xs"
  by (induction xs) (simp_all add: distinct_insert_stable)

lemma sorted_targets_unique:
  assumes "sorted_wrt (\<lambda>a b. \<not> target_less b a) xs" "sorted_wrt (\<lambda>a b. \<not> target_less b a) ys"
    "distinct xs" "distinct ys" "set xs = set ys"
  shows "xs = ys"
proof -
  have "sorted (map target_key zs)" if "sorted_wrt (\<lambda>a b. \<not> target_less b a) zs" for zs
    using that by (simp add: sorted_wrt_map target_less_key not_less)
  moreover have "inj target_key" by (simp add: inj_def target_key_inject)
  ultimately have "map target_key xs = map target_key ys"
    using assms by (intro sorted_distinct_set_unique) (auto simp: distinct_map inj_on_def target_key_inject)
  then show ?thesis using \<open>inj target_key\<close> by (simp add: inj_map_eq_map)
qed

text \<open>
  (C39) The egress targets are exactly the classified MCP URLs, each once, and in an order that
  depends on nothing but the servers themselves: any iteration order of the server map gives the
  same list, so the network policies are stable across reconciles.
\<close>

theorem egress_targets_deterministic:
  assumes "set servers = set (sp_McpServers (cl_Spec instance))"
  shows "classifyMcpEgressTargets (instance\<lparr>cl_Spec := (cl_Spec instance)\<lparr>sp_McpServers := servers\<rparr>\<rparr>) =
      classifyMcpEgressTargets instance \<and>
    distinct (classifyMcpEgressTargets instance) \<and>
    set (classifyMcpEgressTargets instance) =
      {t. \<exists>(name, mcp) \<in> set (sp_McpServers (cl_Spec instance)).
            mcp_URL mcp \<noteq> [] \<and> classifyServiceURL (mcp_URL mcp) (cl_Namespace instance) = Inr t}"
proof -
  let ?i = "instance\<lparr>cl_Spec := (cl_Spec instance)\<lparr>sp_McpServers := servers\<rparr>\<rparr>"
  have st: "set (classifyMcpEgressTargets i) = set (mcp_targets (cl_Namespace i) (sp_McpServers (cl_Spec i)))" for i
  proof -
    have "\<forall>t \<in> set (mcp_targets (cl_Namespace i) (sp_McpServers (cl_Spec i))). wf_target t"
      using classify_wf by (auto simp: set_mcp_targets)
    then show ?thesis by (simp add: classifyMcpEgressTargets_def dedup_targets_set)
  qed
  have d: "distinct (classifyMcpEgressTargets i)" for i
    using distinct_dedup_by [of dedupKey "[]"] by (simp add: classifyMcpEgressTargets_def distinct_SliceStable distinct_map)
  have "classifyMcpEgressTargets ?i = classifyMcpEgressTargets instance"
  proof (rule sorted_targets_unique)
    show "set (classifyMcpEgressTargets ?i) = set (classifyMcpEgressTargets instance)"
      using assms by (simp add: st set_mcp_targets)
    show "distinct (classifyMcpEgressTargets ?i)" "distinct (classifyMcpEgressTargets instance)" by (rule d)+
  qed (simp_all add: classifyMcpEgressTargets_def target_order.sorted_SliceStable del: SliceStable_simps)
  with d show ?thesis by (simp add: st set_mcp_targets)
qed

definition egress_instance :: "(string, McpServerSpec) gomap \<Rightarrow> Claw" where
  "egress_instance servers = sample_instance\<lparr>cl_Spec := empty_ClawSpec\<lparr>sp_McpServers := servers\<rparr>\<rparr>"

theorem egress_targets_deterministic_witness:
  "classifyMcpEgressTargets (egress_instance
     [(''b'', empty_McpServerSpec\<lparr>mcp_URL := ''http://tools:9000''\<rparr>), (''a'', empty_McpServerSpec\<lparr>mcp_URL := ''https://mcp.io''\<rparr>)]) =
   classifyMcpEgressTargets (egress_instance
     [(''a'', empty_McpServerSpec\<lparr>mcp_URL := ''https://mcp.io''\<rparr>), (''b'', empty_McpServerSpec\<lparr>mcp_URL := ''http://tools:9000''\<rparr>)])"
  (is "classifyMcpEgressTargets (egress_instance ?x) = classifyMcpEgressTargets (egress_instance ?y)")
proof -
  have "set ?x = set (sp_McpServers (cl_Spec (egress_instance ?y)))" by (auto simp: egress_instance_def)
  from egress_targets_deterministic [OF this] show ?thesis by (simp add: egress_instance_def)
qed

subsection \<open>Namespaces\<close>

lemma SplitByte_dot: "CHR ''.'' \<notin> set s \<Longrightarrow> SplitByte (CHR ''.'') (s @ CHR ''.'' # t) = s # SplitByte (CHR ''.'') t"
  by (simp add: SplitByte_append_sep SplitByte_id)

text \<open>
  Service names are attributed to the namespace in their second label, with either cluster
  suffix, and bare names to the instance's own. This is the namespace of the service for
  two-part names only; the DNS name of a pod behind a headless service has the namespace in its third
  label, and the rule built for it opens the wrong namespace.
\<close>

theorem service_namespace_second_label:
  assumes "CHR ''.'' \<notin> set svc" and "CHR ''.'' \<notin> set ns" and "CHR ''.'' \<notin> set pod"
  shows "service_namespace svc = Some [] \<and>
    service_namespace (svc @ ''.'' @ ns @ ''.svc'') = Some ns \<and>
    service_namespace (svc @ ''.'' @ ns @ ''.svc.cluster.local'') = Some ns \<and>
    service_namespace (pod @ ''.'' @ svc @ ''.'' @ ns @ ''.svc'') = Some svc \<and>
    service_namespace (pod @ ''.'' @ svc @ ''.'' @ ns @ ''.svc.cluster.local'') = Some svc"
proof -
  have second: "service_namespace (s @ CHR ''.'' # n @ CHR ''.'' # r) = Some n"
    if "CHR ''.'' \<notin> set s" "CHR ''.'' \<notin> set n"
      "suffix ''.svc'' (CHR ''.'' # r) \<or> suffix ''.svc.cluster.local'' (CHR ''.'' # r)" for s n r
  proof -
    have "suffix p (s @ CHR ''.'' # n @ CHR ''.'' # r)" if "suffix p (CHR ''.'' # r)" for p
      using that suffix_appendI [of p "CHR ''.'' # r" "s @ CHR ''.'' # n"] by simp
    with that show ?thesis by (auto simp: service_namespace_def Let_def SplitByte_dot)
  qed
  have ends: "suffix ''.svc'' (CHR ''.'' # ns @ ''.svc'')" "suffix ''.svc.cluster.local'' (CHR ''.'' # ns @ ''.svc.cluster.local'')"
    using suffix_appendI [of "''.svc''" "''.svc''" "CHR ''.'' # ns"]
      suffix_appendI [of "''.svc.cluster.local''" "''.svc.cluster.local''" "CHR ''.'' # ns"] by simp_all
  show ?thesis
  proof (intro conjI)
    show "service_namespace svc = Some []" using assms by (simp add: service_namespace_def SplitByte_id)
    show "service_namespace (svc @ ''.'' @ ns @ ''.svc'') = Some ns" using second [of svc ns "''svc''"] assms by simp
    show "service_namespace (svc @ ''.'' @ ns @ ''.svc.cluster.local'') = Some ns"
      using second [of svc ns "''svc.cluster.local''"] assms by simp
    show "service_namespace (pod @ ''.'' @ svc @ ''.'' @ ns @ ''.svc'') = Some svc"
      using second [of pod svc "ns @ ''.svc''"] assms ends by simp
    show "service_namespace (pod @ ''.'' @ svc @ ''.'' @ ns @ ''.svc.cluster.local'') = Some svc"
      using second [of pod svc "ns @ ''.svc.cluster.local''"] assms ends by simp
  qed
qed

theorem service_namespace_second_label_witness:
  "service_namespace ''mcp.tools.svc'' = Some ''tools'' \<and>
   service_namespace ''mcp-0.mcp.tools.svc.cluster.local'' = Some ''mcp''"
  using service_namespace_second_label [of "''mcp''" "''tools''" "''mcp-0''"] by simp

end
