(* ===== verification/Workspace.thy ===== *)
theory Workspace
  imports GoStd Config_Injection
begin

section \<open>Workspace files, skills and restrictions\<close>

text \<open>
  The validation of everything that becomes a file of the agent's workspace: workspace files and
  skills (\<open>src/internal/controller/claw_workspace.go\<close>), persona keys and read-only paths
  (\<open>src/internal/controller/claw_restrictions.go\<close>), and the encoding of workspace paths as ConfigMap
  keys. \<open>filepath.Clean\<close> is \<^const>\<open>Clean\<close> on the platforms the operator runs on.
\<close>

abbreviation Contains :: "string \<Rightarrow> string \<Rightarrow> bool" where
  "Contains s sub \<equiv> sublist sub s"

abbreviation workspaceKeyPrefix :: string where "workspaceKeyPrefix \<equiv> ''_ws_''"
abbreviation skillKeyPrefix :: string where "skillKeyPrefix \<equiv> ''_skill_''"
abbreviation pathSeparatorCode :: string where "pathSeparatorCode \<equiv> ''--''"

definition builtinSkillNames :: "string list" where
  "builtinSkillNames = [''platform'', ''kubernetes'']"

definition encodeWorkspacePath :: "string \<Rightarrow> string" where
  "encodeWorkspacePath p = concat (map (\<lambda>c. if c = CHR ''/'' then pathSeparatorCode else [c]) p)"

datatype workspace_error =
    PathEmpty
  | PathAbsolute string
  | PathTraversal string
  | PathDelimiter string
  | PathPlatformSkill string
  | PathKubernetesSkill string
  | SkillNameEmpty
  | SkillNameDot string
  | SkillNameSlash string
  | SkillNameDelimiter string
  | SkillNameBuiltin string
  | SkillImageDuplicate string
  | SkillImageConflict string string
  | SkillImageNoReference string
  | SkillImagePullSecretEmpty string
  | SkillConfigMapEmpty
  | SkillConfigMapDuplicate string
  | PersonaKeyEmpty
  | PersonaKeySeparator string
  | PersonaKeyDot string
  | PersonaKeyNotClean string
  | ReadOnlyEmpty
  | ReadOnlyAbsolute string
  | ReadOnlyNothing string
  | ReadOnlyTraversal string
  | ReadOnlyGlob string
  | ReadOnlyComma string
  | ReadOnlyNotClean string
  | ReadOnlyFileAsDirectory string

definition check_workspace_path :: "string \<Rightarrow> (workspace_error, unit) result" where
  "check_workspace_path p =
     (if p = [] then Inl PathEmpty
      else if rooted_path p then Inl (PathAbsolute p)
      else if Contains p ''..'' then Inl (PathTraversal p)
      else if Contains p pathSeparatorCode then Inl (PathDelimiter p)
      else
        let cleaned = Clean p
        in if HasPrefix cleaned ''skills/platform/'' \<or> cleaned = ''skills/platform'' then Inl (PathPlatformSkill p)
           else if HasPrefix cleaned ''skills/kubernetes/'' \<or> cleaned = ''skills/kubernetes'' then Inl (PathKubernetesSkill p)
           else Inr ())"

fun check_all :: "('a \<Rightarrow> ('e, unit) result) \<Rightarrow> 'a list \<Rightarrow> ('e, unit) result" where
  "check_all check [] = Inr ()"
| "check_all check (x # xs) = rbind (check x) (\<lambda>_. check_all check xs)"

definition validateWorkspaceFiles :: "(string, string) gomap \<Rightarrow> (workspace_error, unit) result" where
  "validateWorkspaceFiles files = check_all check_workspace_path (map fst files)"

definition validateSkillName :: "string \<Rightarrow> (workspace_error, unit) result" where
  "validateSkillName name =
     (if name = [] then Inl SkillNameEmpty
      else if name = ''.'' \<or> name = ''..'' then Inl (SkillNameDot name)
      else if Contains name ''/'' then Inl (SkillNameSlash name)
      else if Contains name pathSeparatorCode then Inl (SkillNameDelimiter name)
      else if name \<in> set builtinSkillNames then Inl (SkillNameBuiltin name)
      else Inr ())"

definition validateSkillNames :: "(string, string) gomap \<Rightarrow> (workspace_error, unit) result" where
  "validateSkillNames skills = check_all validateSkillName (map fst skills)"

fun check_skill_images ::
  "string list \<Rightarrow> (string, string) gomap \<Rightarrow> SkillImageSpec list \<Rightarrow> (workspace_error, unit) result" where
  "check_skill_images seen allNames [] = Inr ()"
| "check_skill_images seen allNames (si # rest) =
     rbind (validateSkillName (si_Name si)) (\<lambda>_.
       if si_Name si \<in> set seen then Inl (SkillImageDuplicate (si_Name si))
       else case map_of allNames (si_Name si) of
         Some source \<Rightarrow> Inl (SkillImageConflict (si_Name si) source)
       | None \<Rightarrow>
           if si_Image si = [] then Inl (SkillImageNoReference (si_Name si))
           else if list_ex (\<lambda>ps. ps = []) (si_ImagePullSecrets si) then Inl (SkillImagePullSecretEmpty (si_Name si))
           else check_skill_images (si_Name si # seen) allNames rest)"

definition validateSkillImages :: "SkillImageSpec list \<Rightarrow> (string, string) gomap \<Rightarrow> (workspace_error, unit) result" where
  "validateSkillImages skillImages allNames = check_skill_images [] allNames skillImages"

fun check_skill_configmaps :: "string list \<Rightarrow> SkillConfigMapRef list \<Rightarrow> (workspace_error, unit) result" where
  "check_skill_configmaps seen [] = Inr ()"
| "check_skill_configmaps seen (ref # refs) =
     (if scm_Name ref = [] then Inl SkillConfigMapEmpty
      else if scm_Name ref \<in> set seen then Inl (SkillConfigMapDuplicate (scm_Name ref))
      else check_skill_configmaps (scm_Name ref # seen) refs)"

definition validateSkillConfigMaps :: "SkillConfigMapRef list \<Rightarrow> (workspace_error, unit) result" where
  "validateSkillConfigMaps refs = check_skill_configmaps [] refs"

definition validateSkills :: "Claw \<Rightarrow> (workspace_error, unit) result" where
  "validateSkills instance =
     (case sp_Skills (cl_Spec instance) of
        None \<Rightarrow> Inr ()
      | Some s \<Rightarrow>
          rbind (validateSkillNames (sk_Content s)) (\<lambda>_.
          rbind (validateSkillImages (sk_Images s) (map (\<lambda>(name, _). (name, ''spec.skills.content'')) (sk_Content s))) (\<lambda>_.
            validateSkillConfigMaps (sk_ConfigMaps s))))"

subsection \<open>Restrictions\<close>

definition check_persona_key :: "string \<Rightarrow> (workspace_error, unit) result" where
  "check_persona_key key =
     (if key = [] then Inl PersonaKeyEmpty
      else if Contains key ''/'' \<or> Contains key [CHR 0x5C] then Inl (PersonaKeySeparator key)
      else if key = ''.'' \<or> key = ''..'' then Inl (PersonaKeyDot key)
      else if Clean key \<noteq> key then Inl (PersonaKeyNotClean key)
      else Inr ())"

definition validatePersonaKeys :: "string list \<Rightarrow> (workspace_error, unit) result" where
  "validatePersonaKeys keys = check_all check_persona_key keys"

text \<open>\<open>filepath.Ext\<close>: the part of the last element from its last dot on.\<close>

definition Ext :: "string \<Rightarrow> string" where
  "Ext p =
     (let base = (case LastIndexByte p (CHR ''/'') of Some i \<Rightarrow> drop (Suc i) p | None \<Rightarrow> p)
      in case LastIndexByte base (CHR ''.'') of Some i \<Rightarrow> drop i base | None \<Rightarrow> [])"

definition readonly_clean :: "string \<Rightarrow> string" where
  "readonly_clean p = TrimSuffix (TrimSuffix p ''/**'') ''/''"

definition check_readonly_path :: "string \<Rightarrow> (workspace_error, unit) result" where
  "check_readonly_path p =
     (if p = [] then Inl ReadOnlyEmpty
      else if rooted_path p then Inl (ReadOnlyAbsolute p)
      else
        let isDirPattern = (HasSuffix p ''/'' \<or> HasSuffix p ''/**'');
            clean = readonly_clean p
        in if clean = [] then Inl (ReadOnlyNothing p)
           else if Contains clean ''..'' then Inl (ReadOnlyTraversal p)
           else if list_ex (\<lambda>c. c \<in> set ''*?['') clean then Inl (ReadOnlyGlob p)
           else if Contains clean '','' then Inl (ReadOnlyComma p)
           else if Clean clean \<noteq> clean then Inl (ReadOnlyNotClean p)
           else if isDirPattern \<and> Ext clean \<noteq> [] then Inl (ReadOnlyFileAsDirectory p)
           else Inr ())"

definition validateReadOnlyPaths :: "string list \<Rightarrow> (workspace_error, unit) result" where
  "validateReadOnlyPaths paths = check_all check_readonly_path paths"

definition sortedPersonaKeys :: "(string, string) gomap \<Rightarrow> string list" where
  "sortedPersonaKeys data = SliceStable (<) (map fst data)"

definition pluginInstallationDisabled :: "Claw \<Rightarrow> bool" where
  "pluginInstallationDisabled instance =
     (case sp_Restrictions (cl_Spec instance) of
        None \<Rightarrow> False
      | Some r \<Rightarrow> rs_PluginInstallation r = Some False)"

subsection \<open>Paths stay inside the workspace\<close>

lemma check_all_Inr: "check_all check xs = Inr u \<longleftrightarrow> (\<forall>x \<in> set xs. check x = Inr ())"
  by (induction xs) (auto simp: rbind_eq_Inr)

lemma SplitByte_sublist: "w \<in> set (SplitByte c s) \<Longrightarrow> sublist w s"
proof (induction s arbitrary: w)
  case (Cons d s)
  then show ?case
  proof (cases "d = c")
    case True
    with Cons show ?thesis by (auto simp: sublist_Cons_right)
  next
    case False
    obtain v vs where v: "SplitByte c s = v # vs" by (cases "SplitByte c s") auto
    have p: "prefix v s"
      using v Join_SplitByte [of c s] by (cases vs) (auto simp: prefix_def)
    from False v Cons.prems have "w = d # v \<or> w \<in> set vs" by simp
    then show ?thesis
    proof
      assume "w = d # v"
      with p show ?thesis by (auto simp: sublist_Cons_right)
    next
      assume "w \<in> set vs"
      with v Cons.IH [of w] show ?thesis by (auto simp: sublist_Cons_right)
    qed
  qed
qed simp

lemma clean_comps_filter:
  "''..'' \<notin> set cs \<Longrightarrow> clean_comps r acc cs = rev acc @ filter (\<lambda>c. c \<noteq> [] \<and> c \<noteq> ''.'') cs"
  by (induction cs arbitrary: acc) auto

lemma path_comps_no_dotdot:
  assumes "\<not> Contains p ''..''"
  shows "list_all real_elem (path_comps p)"
proof -
  have nd: "''..'' \<notin> set (SplitByte (CHR ''/'') p)" using assms SplitByte_sublist by blast
  then have "path_comps p = filter (\<lambda>c. c \<noteq> [] \<and> c \<noteq> ''.'') (SplitByte (CHR ''/'') p)"
    by (simp add: path_comps_def clean_comps_filter)
  with nd show ?thesis by (auto simp: list_all_iff real_elem_def SplitByte_no_sep)
qed

lemma Clean_relative:
  "\<not> rooted_path p \<Longrightarrow> path_comps p \<noteq> [] \<Longrightarrow> Clean p = Join ''/'' (path_comps p)"
  by (simp add: Clean_def)

lemma Join_two: "Join ''/'' (a # b # cs) = a @ ''/'' @ b @ (if cs = [] then [] else ''/'' @ Join ''/'' cs)"
  by (cases cs) simp_all

lemma builtin_dir_rejected:
  assumes "\<not> rooted_path p" "prefix [a, b] (path_comps p)"
  shows "HasPrefix (Clean p) (a @ ''/'' @ b @ ''/'') \<or> Clean p = a @ ''/'' @ b"
proof -
  obtain cs where cs: "path_comps p = a # b # cs" using assms(2) by (auto simp: prefix_def)
  with assms(1) have "Clean p = a @ ''/'' @ b @ (if cs = [] then [] else ''/'' @ Join ''/'' cs)"
    by (simp add: Clean_relative Join_two del: Join.simps)
  then show ?thesis by (auto simp: prefix_def)
qed



subsection \<open>Workspace paths as ConfigMap keys\<close>

text \<open>
  How the init container turns a key back into a path (\<open>replace(/--/g, "/")\<close> in the script of
  \<open>src/internal/assets/manifests/claw/configmap.yaml\<close>): leftmost matches first.
\<close>

fun decode_key :: "string \<Rightarrow> string" where
  "decode_key (c # d # s) =
     (if c = CHR ''-'' \<and> d = CHR ''-'' then CHR ''/'' # decode_key s else c # decode_key (d # s))"
| "decode_key s = s"

lemma encode_simps [simp]:
  "encodeWorkspacePath [] = []"
  "encodeWorkspacePath (c # p) = (if c = CHR ''/'' then ''--'' @ encodeWorkspacePath p else c # encodeWorkspacePath p)"
  by (simp_all add: encodeWorkspacePath_def)

lemma decode_key_other: "c \<noteq> CHR ''-'' \<Longrightarrow> decode_key (c # s) = c # decode_key s"
  by (cases s) simp_all

lemma decode_encode_iff:
  "\<not> Contains p ''--'' \<Longrightarrow> decode_key (encodeWorkspacePath p) = p \<longleftrightarrow> \<not> Contains p ''-/''"
proof (induction p)
  case (Cons c p)
  have np: "\<not> Contains p ''--''" using Cons.prems by (auto simp: sublist_Cons_right)
  consider "c = CHR ''/''" | "c = CHR ''-''" | "c \<noteq> CHR ''/''" "c \<noteq> CHR ''-''" by blast
  then show ?case
  proof cases
    case 1
    with Cons.IH [OF np] show ?thesis by (simp add: sublist_Cons_right)
  next
    case 2
    show ?thesis
    proof (cases p)
      case (Cons d q)
      have "d \<noteq> CHR ''-''" using 2 Cons Cons.prems by (auto simp: sublist_Cons_right)
      with 2 Cons Cons.IH [OF np] show ?thesis
        by (cases "d = CHR ''/''") (auto simp: sublist_Cons_right)
    qed (use 2 in \<open>simp add: sublist_Cons_right\<close>)
  next
    case 3
    with Cons.IH [OF np] show ?thesis by (simp add: decode_key_other sublist_Cons_right)
  qed
qed simp

text \<open>
  The key of a workspace file is decoded to the path it came from exactly when no directory
  name of the path ends in a dash: the delimiter is reserved, but a dash before a slash is not, and
  two validated paths can share one key, so that one of them is lost and the other misplaced.
\<close>

theorem workspace_key_roundtrip:
  "(check_workspace_path p = Inr () \<longrightarrow>
      (decode_key (encodeWorkspacePath p) = p \<longleftrightarrow> \<not> Contains p ''-/'')) \<and>
   check_workspace_path ''a-/b'' = Inr () \<and> check_workspace_path ''a/-b'' = Inr () \<and>
   encodeWorkspacePath ''a-/b'' = encodeWorkspacePath ''a/-b''"
proof -
  have "check_workspace_path ''a-/b'' = Inr ()" "check_workspace_path ''a/-b'' = Inr ()" by code_simp+
  moreover have "\<not> Contains p ''--''" if "check_workspace_path p = Inr ()"
    using that by (auto simp: check_workspace_path_def split: if_splits)
  ultimately show ?thesis using decode_encode_iff by simp
qed

theorem workspace_key_roundtrip_witness:
  "decode_key (encodeWorkspacePath ''docs/a-b.md'') = ''docs/a-b.md''"
proof -
  have "check_workspace_path ''docs/a-b.md'' = Inr ()" "\<not> Contains ''docs/a-b.md'' ''-/''" by code_simp+
  then show ?thesis using workspace_key_roundtrip by blast
qed

end
