(* ===== verification/Unstructured.thy ===== *)
theory Unstructured
  imports Plugins Egress Workspace
begin

section \<open>Manifest objects (\<open>k8s.io/apimachinery\<close>, \<open>unstructured\<close>)\<close>

text \<open>
  The operator edits Kubernetes manifests as trees, through the accessors of the apimachinery
  package \<open>unstructured\<close>. That package is outside the repository: its functions are the fields of
  the parameter \<open>unstructured_lib\<close>, and the locale \<open>unstructured_laws\<close> states what its
  documentation promises. \<open>tree_unstructured\<close> is an instance, so the laws can be met.

  An accessor returns a value, a flag that it was found, and an error; \<open>nested\<close> has one constructor
  for each outcome. A setter that fails returns nothing. The accessors copy, so an edit changes the
  object only when its result is written back.

  The rest of the theory has the idioms that the editing functions of the operator share: search
  the object by kind and name, read a list, edit the container with a given name, write back. An
  edit that fails aborts the reconcile, so a failing edit has no resulting objects.
\<close>

datatype 'a nested = NestedError | NestedMissing | NestedFound 'a

record unstructured_lib =
  us_NestedFieldNoCopy :: "jobj \<Rightarrow> string list \<Rightarrow> json nested"
  us_NestedSlice :: "jobj \<Rightarrow> string list \<Rightarrow> json list nested"
  us_NestedMap :: "jobj \<Rightarrow> string list \<Rightarrow> jobj nested"
  us_NestedString :: "jobj \<Rightarrow> string list \<Rightarrow> string nested"
  us_NestedStringMap :: "jobj \<Rightarrow> string list \<Rightarrow> (string, string) gomap nested"
  us_SetNestedField :: "jobj \<Rightarrow> json \<Rightarrow> string list \<Rightarrow> jobj option"
  us_SetNestedSlice :: "jobj \<Rightarrow> json list \<Rightarrow> string list \<Rightarrow> jobj option"
  us_SetNestedMap :: "jobj \<Rightarrow> jobj \<Rightarrow> string list \<Rightarrow> jobj option"
  us_SetNestedStringMap :: "jobj \<Rightarrow> (string, string) gomap \<Rightarrow> string list \<Rightarrow> jobj option"
  us_GetKind :: "jobj \<Rightarrow> string"
  us_GetName :: "jobj \<Rightarrow> string"
  us_GetLabels :: "jobj \<Rightarrow> (string, string) gomap"
  us_SetLabels :: "jobj \<Rightarrow> (string, string) gomap \<Rightarrow> jobj"

fun typed :: "(json \<Rightarrow> 'a option) \<Rightarrow> json nested \<Rightarrow> 'a nested" where
  "typed as (NestedFound v) = (case as v of Some x \<Rightarrow> NestedFound x | None \<Rightarrow> NestedError)"
| "typed as NestedMissing = NestedMissing"
| "typed as NestedError = NestedError"

fun found_or :: "'a \<Rightarrow> 'a nested \<Rightarrow> 'a" where
  "found_or d (NestedFound x) = x"
| "found_or d _ = d"

fun as_str_map :: "json \<Rightarrow> (string, string) gomap option" where
  "as_str_map (JObj m) =
     (if list_all (\<lambda>(k, v). as_str v \<noteq> None) m then Some (map (\<lambda>(k, v). (k, the (as_str v))) m) else None)"
| "as_str_map _ = None"

abbreviation of_str_map :: "(string, string) gomap \<Rightarrow> json" where
  "of_str_map m \<equiv> JObj (map (\<lambda>(k, v). (k, JStr v)) m)"

locale unstructured_laws =
  fixes u :: unstructured_lib
  assumes member: "us_NestedFieldNoCopy u obj [k] = (case map_of obj k of Some v \<Rightarrow> NestedFound v | None \<Rightarrow> NestedMissing)"
    and descend: "map_of obj k = Some (JObj child) \<Longrightarrow> us_NestedFieldNoCopy u obj (k # k' # ks) = us_NestedFieldNoCopy u child (k' # ks)"
    and slice: "us_NestedSlice u obj p = typed as_arr (us_NestedFieldNoCopy u obj p)"
    and map: "us_NestedMap u obj p = typed as_obj (us_NestedFieldNoCopy u obj p)"
    and str: "us_NestedString u obj p = typed as_str (us_NestedFieldNoCopy u obj p)"
    and str_map: "us_NestedStringMap u obj p = typed as_str_map (us_NestedFieldNoCopy u obj p)"
    and set_slice: "us_SetNestedSlice u obj xs p = us_SetNestedField u obj (JArr xs) p"
    and set_map: "us_SetNestedMap u obj m p = us_SetNestedField u obj (JObj m) p"
    and set_str_map: "us_SetNestedStringMap u obj sm p = us_SetNestedField u obj (of_str_map sm) p"
    and set_member: "us_SetNestedField u obj v [k] \<noteq> None"
    and get_set: "\<lbrakk>p \<noteq> []; us_SetNestedField u obj v p = Some obj'\<rbrakk> \<Longrightarrow> us_NestedFieldNoCopy u obj' p = NestedFound v"
    and set_frame: "\<lbrakk>us_SetNestedField u obj v p = Some obj'; \<not> prefix p q; \<not> prefix q p\<rbrakk> \<Longrightarrow>
      us_NestedFieldNoCopy u obj' q = us_NestedFieldNoCopy u obj q"
    and kind: "us_GetKind u obj = found_or [] (typed as_str (us_NestedFieldNoCopy u obj [''kind'']))"
    and name: "us_GetName u obj = found_or [] (typed as_str (us_NestedFieldNoCopy u obj [''metadata'', ''name'']))"
    and labels: "us_GetLabels u obj = found_or [] (typed as_str_map (us_NestedFieldNoCopy u obj [''metadata'', ''labels'']))"
    and set_labels: "us_SetNestedField u obj (of_str_map sm) [''metadata'', ''labels''] = Some obj' \<Longrightarrow> us_SetLabels u obj sm = obj'"
    and set_labels_keeps: "us_GetKind u (us_SetLabels u obj sm) = us_GetKind u obj"
      "us_GetName u (us_SetLabels u obj sm) = us_GetName u obj"
      "hd q \<noteq> ''metadata'' \<Longrightarrow> q \<noteq> [] \<Longrightarrow> us_NestedFieldNoCopy u (us_SetLabels u obj sm) q = us_NestedFieldNoCopy u obj q"

subsection \<open>An instance\<close>

text \<open>Reading descends through objects and fails on anything else; writing creates missing objects.\<close>

fun tree_get :: "jobj \<Rightarrow> string list \<Rightarrow> json nested" where
  "tree_get obj [] = NestedFound (JObj obj)"
| "tree_get obj [k] = (case map_of obj k of Some v \<Rightarrow> NestedFound v | None \<Rightarrow> NestedMissing)"
| "tree_get obj (k # k' # ks) =
     (case map_of obj k of
        Some (JObj child) \<Rightarrow> tree_get child (k' # ks)
      | Some _ \<Rightarrow> NestedError
      | None \<Rightarrow> NestedMissing)"

fun tree_set :: "jobj \<Rightarrow> json \<Rightarrow> string list \<Rightarrow> jobj option" where
  "tree_set obj v [] = None"
| "tree_set obj v [k] = Some (AList.update k v obj)"
| "tree_set obj v (k # k' # ks) =
     (case map_of obj k of
        Some (JObj child) \<Rightarrow> map_option (\<lambda>c. AList.update k (JObj c) obj) (tree_set child v (k' # ks))
      | Some _ \<Rightarrow> None
      | None \<Rightarrow> map_option (\<lambda>c. AList.update k (JObj c) obj) (tree_set [] v (k' # ks)))"

definition tree_set_labels :: "jobj \<Rightarrow> (string, string) gomap \<Rightarrow> jobj" where
  "tree_set_labels obj sm =
     (case tree_set obj (of_str_map sm) [''metadata'', ''labels''] of Some obj' \<Rightarrow> obj' | None \<Rightarrow> obj)"

definition tree_unstructured :: unstructured_lib where
  "tree_unstructured =
     \<lparr>us_NestedFieldNoCopy = tree_get,
      us_NestedSlice = (\<lambda>obj p. typed as_arr (tree_get obj p)),
      us_NestedMap = (\<lambda>obj p. typed as_obj (tree_get obj p)),
      us_NestedString = (\<lambda>obj p. typed as_str (tree_get obj p)),
      us_NestedStringMap = (\<lambda>obj p. typed as_str_map (tree_get obj p)),
      us_SetNestedField = tree_set,
      us_SetNestedSlice = (\<lambda>obj xs. tree_set obj (JArr xs)),
      us_SetNestedMap = (\<lambda>obj m. tree_set obj (JObj m)),
      us_SetNestedStringMap = (\<lambda>obj sm. tree_set obj (of_str_map sm)),
      us_GetKind = (\<lambda>obj. found_or [] (typed as_str (tree_get obj [''kind'']))),
      us_GetName = (\<lambda>obj. found_or [] (typed as_str (tree_get obj [''metadata'', ''name'']))),
      us_GetLabels = (\<lambda>obj. found_or [] (typed as_str_map (tree_get obj [''metadata'', ''labels'']))),
      us_SetLabels = tree_set_labels\<rparr>"

lemma tree_get_set: "p \<noteq> [] \<Longrightarrow> tree_set obj v p = Some obj' \<Longrightarrow> tree_get obj' p = NestedFound v"
  by (induction obj v p arbitrary: obj' rule: tree_set.induct) (auto split: option.splits json.splits)

lemma tree_set_child:
  assumes "tree_set obj v (k # k' # ks) = Some obj'"
  obtains child c where "tree_set child v (k' # ks) = Some c" and "obj' = AList.update k (JObj c) obj"
    and "map_of obj k = Some (JObj child) \<or> map_of obj k = None \<and> child = []"
  using assms by (auto split: option.splits json.splits)

lemma tree_get_empty: "q \<noteq> [] \<Longrightarrow> tree_get [] q = NestedMissing"
  by (cases "([]::jobj, q)" rule: tree_get.cases) auto

lemma tree_set_frame:
  "tree_set obj v p = Some obj' \<Longrightarrow> \<not> prefix p q \<Longrightarrow> \<not> prefix q p \<Longrightarrow> tree_get obj' q = tree_get obj q"
proof (induction p arbitrary: obj obj' q)
  case (Cons k p)
  then obtain j qs where q: "q = j # qs" by (cases q) auto
  show ?case
  proof (cases "p = []")
    case True
    with Cons q have "j \<noteq> k" by auto
    with Cons(2) True q show ?thesis by (cases qs) auto
  next
    case False
    then obtain k' ks where p: "p = k' # ks" by (cases p) auto
    from Cons(2) [unfolded p] obtain child c where c: "tree_set child v (k' # ks) = Some c"
      and obj': "obj' = AList.update k (JObj c) obj"
      and child: "map_of obj k = Some (JObj child) \<or> map_of obj k = None \<and> child = []"
      by (rule tree_set_child)
    show ?thesis
    proof (cases "j = k")
      case False
      with q obj' show ?thesis by (cases qs) (simp_all split: option.splits json.splits)
    next
      case True
      with Cons(3,4) q have np: "\<not> prefix p qs" "\<not> prefix qs p" by auto
      then obtain q' qs' where qs: "qs = q' # qs'" by (cases qs) auto
      from Cons(1) [OF c [folded p] np] have "tree_get c qs = tree_get child qs" .
      with True q qs obj' child show ?thesis by (auto simp: tree_get_empty)
    qed
  qed
qed simp

lemma metadata_paths [simp]:
  "\<not> prefix [''metadata'', ''labels''] [''kind'']" "\<not> prefix [''kind''] [''metadata'', ''labels'']"
  "\<not> prefix [''metadata'', ''labels''] [''metadata'', ''name'']" "\<not> prefix [''metadata'', ''name''] [''metadata'', ''labels'']"
  by simp_all

lemma tree_set_labels_frame:
  assumes "\<not> prefix [''metadata'', ''labels''] q" "\<not> prefix q [''metadata'', ''labels'']"
  shows "tree_get (tree_set_labels obj sm) q = tree_get obj q"
  using assms by (auto simp: tree_set_labels_def tree_set_frame split: option.splits simp del: tree_set.simps)

lemma tree_set_labels_Some:
  "tree_set obj (of_str_map sm) [''metadata'', ''labels''] = Some obj' \<Longrightarrow> tree_set_labels obj sm = obj'"
  by (simp add: tree_set_labels_def del: tree_set.simps)

interpretation tree: unstructured_laws tree_unstructured
proof
  fix obj :: jobj and sm q
  assume "hd q \<noteq> ''metadata''" "q \<noteq> ([] :: string list)"
  then have "\<not> prefix [''metadata'', ''labels''] q" "\<not> prefix q [''metadata'', ''labels'']" by (cases q; auto)+
  then show "us_NestedFieldNoCopy tree_unstructured (us_SetLabels tree_unstructured obj sm) q = us_NestedFieldNoCopy tree_unstructured obj q"
    by (simp add: tree_unstructured_def tree_set_labels_frame)
next
  fix obj sm
  show "us_GetKind tree_unstructured (us_SetLabels tree_unstructured obj sm) = us_GetKind tree_unstructured obj"
    using tree_set_labels_frame [of "[''kind'']" obj sm] by (simp add: tree_unstructured_def)
next
  fix obj child :: jobj and k k' ks
  assume "map_of obj k = Some (JObj child)"
  then show "us_NestedFieldNoCopy tree_unstructured obj (k # k' # ks) = us_NestedFieldNoCopy tree_unstructured child (k' # ks)"
    by (simp add: tree_unstructured_def)
qed (simp_all add: tree_unstructured_def tree_get_set tree_set_frame tree_set_labels_frame tree_set_labels_Some
    del: tree_set.simps(3) tree_get.simps(3))

subsection \<open>Reading, writing and searching\<close>

datatype manifest_error =
    ObjectMissing string string
  | FieldBroken "string list"
  | FieldMissing "string list"
  | WriteFailed "string list"
  | ContainerMissing string
  | ContainersMissing "string list"
  | EnvConflict string
  | SecretUnavailable string
  | SecretKeyMissing string string
  | ResourceUnavailable string
  | SkillClash string string string
  | RawInvalid string
  | EgressFailed egress_error
  | WorkspaceFailed workspace_error
  | ConfigFailed config_error

type_synonym 'a edited = "(manifest_error, 'a) result"

abbreviation DeploymentKind :: string where "DeploymentKind \<equiv> ''Deployment''"
abbreviation ConfigMapKind :: string where "ConfigMapKind \<equiv> ''ConfigMap''"
abbreviation NetworkPolicyKind :: string where "NetworkPolicyKind \<equiv> ''NetworkPolicy''"
abbreviation ServiceKind :: string where "ServiceKind \<equiv> ''Service''"
abbreviation RouteKind :: string where "RouteKind \<equiv> ''Route''"

abbreviation pod_containers :: "string list" where
  "pod_containers \<equiv> [''spec'', ''template'', ''spec'', ''containers'']"
abbreviation pod_initContainers :: "string list" where
  "pod_initContainers \<equiv> [''spec'', ''template'', ''spec'', ''initContainers'']"
abbreviation pod_volumes :: "string list" where
  "pod_volumes \<equiv> [''spec'', ''template'', ''spec'', ''volumes'']"
abbreviation pod_annotations :: "string list" where
  "pod_annotations \<equiv> [''spec'', ''template'', ''metadata'', ''annotations'']"

text \<open>
  \<open>slice_of\<close> is \<open>xs, _, _ := unstructured.NestedSlice(...)\<close>, which reads nil when the field is
  missing or broken; \<open>read_slice\<close> is the variant that returns an error for both.
\<close>

abbreviation slice_of :: "unstructured_lib \<Rightarrow> jobj \<Rightarrow> string list \<Rightarrow> json list" where
  "slice_of u obj p \<equiv> found_or [] (us_NestedSlice u obj p)"

abbreviation string_of :: "unstructured_lib \<Rightarrow> jobj \<Rightarrow> string list \<Rightarrow> string" where
  "string_of u obj p \<equiv> found_or [] (us_NestedString u obj p)"

definition read_slice :: "unstructured_lib \<Rightarrow> jobj \<Rightarrow> string list \<Rightarrow> json list edited" where
  "read_slice u obj p =
     (case us_NestedSlice u obj p of
        NestedError \<Rightarrow> Inl (FieldBroken p)
      | NestedMissing \<Rightarrow> Inl (FieldMissing p)
      | NestedFound xs \<Rightarrow> Inr xs)"

definition written :: "string list \<Rightarrow> jobj option \<Rightarrow> jobj edited" where
  "written p obj' = (case obj' of None \<Rightarrow> Inl (WriteFailed p) | Some obj \<Rightarrow> Inr obj)"

abbreviation write_slice :: "unstructured_lib \<Rightarrow> jobj \<Rightarrow> json list \<Rightarrow> string list \<Rightarrow> jobj edited" where
  "write_slice u obj xs p \<equiv> written p (us_SetNestedSlice u obj xs p)"

abbreviation write_field :: "unstructured_lib \<Rightarrow> jobj \<Rightarrow> json \<Rightarrow> string list \<Rightarrow> jobj edited" where
  "write_field u obj v p \<equiv> written p (us_SetNestedField u obj v p)"

abbreviation write_map :: "unstructured_lib \<Rightarrow> jobj \<Rightarrow> jobj \<Rightarrow> string list \<Rightarrow> jobj edited" where
  "write_map u obj m p \<equiv> written p (us_SetNestedMap u obj m p)"

abbreviation write_str_map :: "unstructured_lib \<Rightarrow> jobj \<Rightarrow> (string, string) gomap \<Rightarrow> string list \<Rightarrow> jobj edited" where
  "write_str_map u obj m p \<equiv> written p (us_SetNestedStringMap u obj m p)"

text \<open>The loop that looks for one object and returns after editing it.\<close>

fun edit_object :: "unstructured_lib \<Rightarrow> string \<Rightarrow> string \<Rightarrow> (jobj \<Rightarrow> jobj edited) \<Rightarrow> jobj list \<Rightarrow> jobj list edited" where
  "edit_object u kind nm f [] = Inl (ObjectMissing kind nm)"
| "edit_object u kind nm f (obj # objs) =
     (if us_GetKind u obj \<noteq> kind \<or> us_GetName u obj \<noteq> nm
      then rbind (edit_object u kind nm f objs) (\<lambda>objs'. Inr (obj # objs'))
      else rbind (f obj) (\<lambda>obj'. Inr (obj' # objs)))"

fun findObject :: "unstructured_lib \<Rightarrow> jobj list \<Rightarrow> string \<Rightarrow> string \<Rightarrow> jobj edited" where
  "findObject u [] kind nm = Inl (ObjectMissing kind nm)"
| "findObject u (obj # objs) kind nm =
     (if us_GetKind u obj = kind \<and> us_GetName u obj = nm then Inr obj else findObject u objs kind nm)"

text \<open>
  Container lists: the first container with a name (\<open>container_named\<close>, \<open>edit_first\<close>), or every one
  (\<open>edit_each\<close>). Entries that are no objects are skipped.
\<close>

fun container_named :: "unstructured_lib \<Rightarrow> string \<Rightarrow> json list \<Rightarrow> jobj option" where
  "container_named u nm [] = None"
| "container_named u nm (c # cs) =
     (case as_obj c of
        Some cm \<Rightarrow> if string_of u cm [''name''] = nm then Some cm else container_named u nm cs
      | None \<Rightarrow> container_named u nm cs)"

fun edit_first :: "unstructured_lib \<Rightarrow> string \<Rightarrow> (jobj \<Rightarrow> jobj edited) \<Rightarrow> json list \<Rightarrow> json list edited" where
  "edit_first u nm f [] = Inl (ContainerMissing nm)"
| "edit_first u nm f (c # cs) =
     (case as_obj c of
        Some cm \<Rightarrow>
          if string_of u cm [''name''] = nm then rbind (f cm) (\<lambda>cm'. Inr (JObj cm' # cs))
          else rbind (edit_first u nm f cs) (\<lambda>cs'. Inr (c # cs'))
      | None \<Rightarrow> rbind (edit_first u nm f cs) (\<lambda>cs'. Inr (c # cs')))"

fun edit_each :: "unstructured_lib \<Rightarrow> string \<Rightarrow> (jobj \<Rightarrow> jobj edited) \<Rightarrow> json list \<Rightarrow> json list edited" where
  "edit_each u nm f [] = Inr []"
| "edit_each u nm f (c # cs) =
     rbind (case as_obj c of
              Some cm \<Rightarrow> if string_of u cm [''name''] = nm then rbind (f cm) (\<lambda>cm'. Inr (JObj cm')) else Inr c
            | None \<Rightarrow> Inr c)
       (\<lambda>c'. rbind (edit_each u nm f cs) (\<lambda>cs'. Inr (c' # cs')))"

text \<open>Add string values to the annotations of a pod template.\<close>

definition stamp_annotations :: "unstructured_lib \<Rightarrow> (string, string) gomap \<Rightarrow> jobj \<Rightarrow> jobj edited" where
  "stamp_annotations u new obj =
     (let annotations = found_or [] (us_NestedStringMap u obj pod_annotations)
      in write_str_map u obj (map_copy new annotations) pod_annotations)"

subsection \<open>What the edits keep\<close>

text \<open>
  Every edit is framed: the objects keep their number, order, kinds and names, and only those it is
  for are changed.
\<close>

definition same_id :: "unstructured_lib \<Rightarrow> jobj \<Rightarrow> jobj \<Rightarrow> bool" where
  "same_id u obj obj' \<longleftrightarrow> us_GetKind u obj' = us_GetKind u obj \<and> us_GetName u obj' = us_GetName u obj"

locale manifest_edit =
  fixes u :: unstructured_lib and touched :: "string \<Rightarrow> string \<Rightarrow> bool"
    and edit :: "jobj list \<Rightarrow> jobj list edited"
  assumes frame: "edit objs = Inr objs' \<Longrightarrow>
    list_all2 (\<lambda>obj obj'. same_id u obj obj' \<and> (touched (us_GetKind u obj) (us_GetName u obj) \<or> obj' = obj)) objs objs'"
begin

lemma same_number: "edit objs = Inr objs' \<Longrightarrow> length objs' = length objs"
  using frame list_all2_lengthD by fastforce

lemma same_ids: "edit objs = Inr objs' \<Longrightarrow>
    map (\<lambda>obj. (us_GetKind u obj, us_GetName u obj)) objs' = map (\<lambda>obj. (us_GetKind u obj, us_GetName u obj)) objs"
  by (drule frame) (auto simp: list_all2_conv_all_nth same_id_def intro!: nth_equalityI)

lemma untouched:
  assumes "edit objs = Inr objs'" "i < length objs" "\<not> touched (us_GetKind u (objs ! i)) (us_GetName u (objs ! i))"
  shows "objs' ! i = objs ! i"
  using frame [OF assms(1)] assms(2,3) by (auto simp: list_all2_conv_all_nth)

end

lemma same_id_trans: "same_id u x y \<Longrightarrow> same_id u y z \<Longrightarrow> same_id u x z"
  by (simp add: same_id_def)

lemma same_id_refl [simp]: "same_id u x x"
  by (simp add: same_id_def)

lemma manifest_edit_seq:
  assumes "manifest_edit u K f" "\<And>objs. manifest_edit u K (g objs)"
  shows "manifest_edit u K (\<lambda>objs. rbind (f objs) (g objs))"
proof
  fix objs objs' assume "rbind (f objs) (g objs) = Inr objs'"
  then obtain mid where "f objs = Inr mid" "g objs mid = Inr objs'" by (auto simp: rbind_eq_Inr)
  from manifest_edit.frame [OF assms(1) this(1)] manifest_edit.frame [OF assms(2) this(2)]
  show "list_all2 (\<lambda>obj obj'. same_id u obj obj' \<and> (K (us_GetKind u obj) (us_GetName u obj) \<or> obj' = obj)) objs objs'"
    by (rule list_all2_trans [rotated]) (auto simp: same_id_def)
qed

lemma manifest_edit_mono: "manifest_edit u K f \<Longrightarrow> (\<And>k n. K k n \<Longrightarrow> L k n) \<Longrightarrow> manifest_edit u L f"
  unfolding manifest_edit_def by (blast intro: list_all2_mono)

lemma manifest_edit_return: "manifest_edit u K Inr"
  by (simp add: manifest_edit_def list_all2_refl)

lemma manifest_edit_fail: "manifest_edit u K (\<lambda>_. Inl e)"
  by (simp add: manifest_edit_def)

lemma manifest_edit_if:
  "(b \<Longrightarrow> manifest_edit u K f) \<Longrightarrow> (\<not> b \<Longrightarrow> manifest_edit u K g) \<Longrightarrow> manifest_edit u K (\<lambda>objs. if b then f objs else g objs)"
  by (cases b) simp_all

lemma manifest_edit_option:
  "(x = None \<Longrightarrow> manifest_edit u K f) \<Longrightarrow> (\<And>y. x = Some y \<Longrightarrow> manifest_edit u K (g y)) \<Longrightarrow>
     manifest_edit u K (\<lambda>objs. case x of None \<Rightarrow> f objs | Some y \<Rightarrow> g y objs)"
  by (cases x) simp_all

lemma manifest_edit_bind:
  "(\<And>y. x = Inr y \<Longrightarrow> manifest_edit u K (g y)) \<Longrightarrow> manifest_edit u K (\<lambda>objs. rbind x (\<lambda>y. g y objs))"
  by (cases x) (simp_all add: manifest_edit_fail)

text \<open>An edit of one object that keeps its kind and name.\<close>

definition keeps_id :: "unstructured_lib \<Rightarrow> (jobj \<Rightarrow> jobj edited) \<Rightarrow> bool" where
  "keeps_id u f \<longleftrightarrow> (\<forall>obj obj'. f obj = Inr obj' \<longrightarrow> same_id u obj obj')"

lemma manifest_edit_object:
  assumes "keeps_id u f"
  shows "manifest_edit u (\<lambda>k n. k = kind \<and> n = nm) (edit_object u kind nm f)"
proof
  fix objs objs'
  show "edit_object u kind nm f objs = Inr objs' \<Longrightarrow>
      list_all2 (\<lambda>obj obj'. same_id u obj obj' \<and> (us_GetKind u obj = kind \<and> us_GetName u obj = nm \<or> obj' = obj)) objs objs'"
    using assms by (induction objs arbitrary: objs') (auto simp: rbind_eq_Inr keeps_id_def list_all2_refl split: if_splits)
qed

lemma edit_object_found:
  assumes "edit_object u kind nm f objs = Inr objs'"
  obtains pre obj post obj' where "objs = pre @ obj # post" and "objs' = pre @ obj' # post" and "f obj = Inr obj'"
    and "us_GetKind u obj = kind" and "us_GetName u obj = nm"
    and "\<forall>x \<in> set pre. us_GetKind u x \<noteq> kind \<or> us_GetName u x \<noteq> nm"
  using assms
proof (induction objs arbitrary: objs' thesis)
  case (Cons x xs)
  show ?case
  proof (cases "us_GetKind u x \<noteq> kind \<or> us_GetName u x \<noteq> nm")
    case True
    with Cons(3) obtain xs' where "edit_object u kind nm f xs = Inr xs'" "objs' = x # xs'" by (auto simp: rbind_eq_Inr)
    with Cons(1) [OF _ this(1)] True show ?thesis by (metis Cons.prems(1) append_Cons set_ConsD)
  next
    case False
    with Cons(3) obtain y where "f x = Inr y" "objs' = y # xs" by (auto simp: rbind_eq_Inr)
    with False show ?thesis by (intro Cons(2) [of "[]" x xs y]) simp_all
  qed
qed simp

lemma findObject_split:
  "\<forall>x \<in> set pre. us_GetKind u x \<noteq> kind \<or> us_GetName u x \<noteq> nm \<Longrightarrow> us_GetKind u obj = kind \<Longrightarrow> us_GetName u obj = nm \<Longrightarrow>
     findObject u (pre @ obj # post) kind nm = Inr obj"
  by (induction pre) auto

lemma edit_object_find:
  assumes "edit_object u kind nm f objs = Inr objs'" "keeps_id u f"
  obtains obj obj' where "findObject u objs kind nm = Inr obj" "findObject u objs' kind nm = Inr obj'" "f obj = Inr obj'"
proof (rule edit_object_found [OF assms(1)])
  fix pre obj post obj'
  assume *: "objs = pre @ obj # post" "objs' = pre @ obj' # post" "f obj = Inr obj'" "us_GetKind u obj = kind"
    "us_GetName u obj = nm" "\<forall>x \<in> set pre. us_GetKind u x \<noteq> kind \<or> us_GetName u x \<noteq> nm"
  from assms(2) *(3) have "same_id u obj obj'" by (simp add: keeps_id_def)
  with * show thesis by (intro that [of obj obj']) (simp_all add: findObject_split same_id_def)
qed

lemma edit_first_found:
  assumes "edit_first u nm f cs = Inr cs'"
  obtains pre c post c' where "cs = pre @ JObj c # post" and "cs' = pre @ JObj c' # post" and "f c = Inr c'"
    and "string_of u c [''name''] = nm" and "container_named u nm cs = Some c"
    and "\<forall>post'. container_named u nm (pre @ post') = container_named u nm post'"
  using assms
proof (induction cs arbitrary: cs' thesis)
  case (Cons x xs)
  show ?case
  proof (cases "\<exists>c. x = JObj c \<and> string_of u c [''name''] = nm")
    case True
    with Cons(3) obtain c c' where "x = JObj c" "string_of u c [''name''] = nm" "f c = Inr c'" "cs' = JObj c' # xs"
      by (auto simp: rbind_eq_Inr)
    then show ?thesis by (intro Cons(2) [of "[]" c xs c']) simp_all
  next
    case False
    then have skip: "container_named u nm (x # ys) = container_named u nm ys" for ys by (cases x) auto
    from False Cons(3) obtain xs' where xs': "edit_first u nm f xs = Inr xs'" "cs' = x # xs'"
      by (cases x) (auto simp: rbind_eq_Inr split: if_splits)
    show ?thesis
    proof (rule Cons(1) [OF _ xs'(1)])
      fix pre c post c'
      assume "xs = pre @ JObj c # post" "xs' = pre @ JObj c' # post" "f c = Inr c'" "string_of u c [''name''] = nm"
        "container_named u nm xs = Some c" "\<forall>post'. container_named u nm (pre @ post') = container_named u nm post'"
      with xs'(2) skip show thesis by (intro Cons(2) [of "x # pre" c post c']) (simp_all del: container_named.simps)
    qed
  qed
qed simp

lemma written_Inr [simp]: "written p x = Inr y \<longleftrightarrow> x = Some y"
  by (cases x) (simp_all add: written_def)

lemma read_slice_Inr: "read_slice u obj p = Inr xs \<longleftrightarrow> us_NestedSlice u obj p = NestedFound xs"
  by (cases "us_NestedSlice u obj p") (simp_all add: read_slice_def)

context unstructured_laws
begin

lemma set_keeps_id:
  assumes "us_SetNestedField u obj v (k # ks) = Some obj'" "k \<noteq> ''kind''" "k \<noteq> ''metadata''"
  shows "same_id u obj obj'"
  unfolding same_id_def kind name using assms by (simp add: set_frame)

lemma slice_keeps_id:
  "us_SetNestedSlice u obj xs (k # ks) = Some obj' \<Longrightarrow> k \<noteq> ''kind'' \<Longrightarrow> k \<noteq> ''metadata'' \<Longrightarrow> same_id u obj obj'"
  unfolding set_slice by (rule set_keeps_id)

lemma map_keeps_id:
  "us_SetNestedMap u obj m (k # ks) = Some obj' \<Longrightarrow> k \<noteq> ''kind'' \<Longrightarrow> k \<noteq> ''metadata'' \<Longrightarrow> same_id u obj obj'"
  unfolding set_map by (rule set_keeps_id)

lemma str_map_keeps_id:
  "us_SetNestedStringMap u obj m (k # ks) = Some obj' \<Longrightarrow> k \<noteq> ''kind'' \<Longrightarrow> k \<noteq> ''metadata'' \<Longrightarrow> same_id u obj obj'"
  unfolding set_str_map by (rule set_keeps_id)

lemma stamp_keeps_id: "keeps_id u (stamp_annotations u new)"
  by (auto simp: keeps_id_def stamp_annotations_def Let_def intro: str_map_keeps_id)

lemma slice_get_set: "p \<noteq> [] \<Longrightarrow> us_SetNestedSlice u obj xs p = Some obj' \<Longrightarrow> us_NestedSlice u obj' p = NestedFound xs"
  by (simp add: set_slice slice get_set)

lemma slice_frame: "us_SetNestedSlice u obj xs p = Some obj' \<Longrightarrow> \<not> prefix p q \<Longrightarrow> \<not> prefix q p \<Longrightarrow>
    us_NestedSlice u obj' q = us_NestedSlice u obj q"
  by (simp add: set_slice slice set_frame)

lemma string_slice_frame: "us_SetNestedSlice u obj xs p = Some obj' \<Longrightarrow> \<not> prefix p q \<Longrightarrow> \<not> prefix q p \<Longrightarrow>
    us_NestedString u obj' q = us_NestedString u obj q"
  by (simp add: set_slice str set_frame)

lemma string_member: "us_NestedString u obj [k] = NestedFound s \<longleftrightarrow> map_of obj k = Some (JStr s)"
  by (auto simp: str member split: option.splits elim!: typed.elims)

lemma slice_member: "us_NestedSlice u obj [k] = NestedFound xs \<longleftrightarrow> map_of obj k = Some (JArr xs)"
  by (auto simp: slice member split: option.splits elim!: typed.elims)

end

lemma keeps_id_seq:
  "keeps_id u f \<Longrightarrow> (\<And>x. keeps_id u (g x)) \<Longrightarrow> keeps_id u (\<lambda>obj. rbind (f obj) (g obj))"
  unfolding keeps_id_def rbind_eq_Inr by (blast intro: same_id_trans)

lemmas keeps_id_intros = unstructured_laws.slice_keeps_id unstructured_laws.map_keeps_id
  unstructured_laws.str_map_keeps_id unstructured_laws.set_keeps_id

text \<open>A small Deployment for the examples: one container and two init containers.\<close>

definition sample_deployment :: "string \<Rightarrow> string \<Rightarrow> jobj" where
  "sample_deployment nm container =
     [(''kind'', JStr DeploymentKind), (''metadata'', JObj [(''name'', JStr nm)]),
      (''spec'', JObj [(''template'', JObj [(''spec'', JObj
        [(''containers'', JArr [JObj [(''name'', JStr container)]]),
         (''initContainers'', JArr [JObj [(''name'', JStr ''init-volume'')], JObj [(''name'', JStr ''init-config'')]])])])])]"

end
