(* ===== verification/Gateway_Deployment.thy ===== *)
theory Gateway_Deployment
  imports Unstructured "HOL-Library.Multiset"
begin

section \<open>The gateway Deployment (\<open>src/internal/controller/claw_deployment.go\<close>)\<close>

text \<open>
  The edits of the gateway's manifest: image, pull policy, Vertex and Kubernetes support, config
  mode, skill images, agent files, home mounts, resources, secret-backed environment variables, the
  annotations that trigger rollouts, and the proxy bypass. The SHA-256 digest is a parameter, and a
  user Secret's resource version is read through the parameter \<open>version\<close>.

  The properties: environment merging keeps every desired reference and is idempotent, the MCP
  environment does not depend on the order of the server map, and every edit is confined to the
  gateway Deployment.
\<close>

text \<open>Resource names, \<open>src/internal/controller/claw_resource_controller.go\<close>.\<close>

definition getClawDeploymentName :: "string \<Rightarrow> string" where "getClawDeploymentName n = n"
definition getProxyDeploymentName :: "string \<Rightarrow> string" where "getProxyDeploymentName n = n @ ''-proxy''"
definition getGatewaySecretName :: "string \<Rightarrow> string" where "getGatewaySecretName n = n @ ''-gateway-token''"
definition getConfigMapName :: "string \<Rightarrow> string" where "getConfigMapName n = n @ ''-config''"
definition getPVCName :: "string \<Rightarrow> string" where "getPVCName n = n @ ''-home-pvc''"
definition getServiceName :: "string \<Rightarrow> string" where "getServiceName n = n"
definition getProxyServiceName :: "string \<Rightarrow> string" where "getProxyServiceName n = n @ ''-proxy''"
definition getRouteName :: "string \<Rightarrow> string" where "getRouteName n = n"
definition getProxyCAConfigMapName :: "string \<Rightarrow> string" where "getProxyCAConfigMapName n = n @ ''-proxy-ca''"
definition getVertexADCConfigMapName :: "string \<Rightarrow> string" where "getVertexADCConfigMapName n = n @ ''-vertex-adc''"
definition getKubeConfigMapName :: "string \<Rightarrow> string" where "getKubeConfigMapName n = n @ ''-kube-config''"
definition getIngressNetworkPolicyName :: "string \<Rightarrow> string" where "getIngressNetworkPolicyName n = n @ ''-ingress''"
definition getEgressNetworkPolicyName :: "string \<Rightarrow> string" where "getEgressNetworkPolicyName n = n @ ''-egress''"
definition getProxyEgressNetworkPolicyName :: "string \<Rightarrow> string" where
  "getProxyEgressNetworkPolicyName n = n @ ''-proxy-egress''"
definition getProxyConfigMapName :: "string \<Rightarrow> string" where "getProxyConfigMapName n = n @ ''-proxy-config''"

abbreviation ClawProxyContainerName :: string where "ClawProxyContainerName \<equiv> ''proxy''"
abbreviation ClawGatewayContainerName :: string where "ClawGatewayContainerName \<equiv> ''gateway''"
abbreviation ClawInitVolumeContainerName :: string where "ClawInitVolumeContainerName \<equiv> ''init-volume''"
abbreviation ClawInitConfigContainerName :: string where "ClawInitConfigContainerName \<equiv> ''init-config''"

subsection \<open>Images\<close>

definition effectiveOpenClawImage :: "Claw \<Rightarrow> string" where
  "effectiveOpenClawImage instance =
     (if sp_Image (cl_Spec instance) \<noteq> [] then sp_Image (cl_Spec instance)
      else if sp_Version (cl_Spec instance) \<noteq> [] then ''ghcr.io/openclaw/openclaw:'' @ sp_Version (cl_Spec instance)
      else ''ghcr.io/openclaw/openclaw:2026.6.10'')"

definition clawContainers :: "string list" where
  "clawContainers = [ClawInitVolumeContainerName, ClawInitConfigContainerName, ClawGatewayContainerName]"

definition container_names :: "unstructured_lib \<Rightarrow> json list \<Rightarrow> string list" where
  "container_names u cs = map (\<lambda>cm. string_of u cm [''name'']) (List.map_filter as_obj cs)"

definition optional_slice :: "unstructured_lib \<Rightarrow> jobj \<Rightarrow> string list \<Rightarrow> json list edited" where
  "optional_slice u obj p =
     (case us_NestedSlice u obj p of
        NestedError \<Rightarrow> Inl (FieldBroken p) | NestedMissing \<Rightarrow> Inr [] | NestedFound xs \<Rightarrow> Inr xs)"

definition set_images :: "unstructured_lib \<Rightarrow> string \<Rightarrow> string list \<Rightarrow> jobj \<Rightarrow> jobj edited" where
  "set_images u img p obj =
     (case us_NestedSlice u obj p of
        NestedFound cs \<Rightarrow>
          write_slice u obj
            (map (\<lambda>c. case as_obj c of
                   Some cm \<Rightarrow> if string_of u cm [''name''] \<in> set clawContainers
                              then JObj (AList.update ''image'' (JStr img) cm) else c
                 | None \<Rightarrow> c) cs) p
      | _ \<Rightarrow> Inr obj)"

definition configureClawImage :: "unstructured_lib \<Rightarrow> jobj list \<Rightarrow> Claw \<Rightarrow> jobj list edited" where
  "configureClawImage u objects instance =
     (let img = effectiveOpenClawImage instance
      in edit_object u DeploymentKind (getClawDeploymentName (cl_Name instance))
        (\<lambda>obj.
          rbind (optional_slice u obj pod_initContainers) (\<lambda>ics.
          rbind (optional_slice u obj pod_containers) (\<lambda>cs.
            let found = container_names u ics @ container_names u cs;
                missing = filter (\<lambda>n. n \<notin> set found) clawContainers
            in if missing \<noteq> [] then Inl (ContainersMissing missing)
               else rbind (set_images u img pod_initContainers obj) (set_images u img pod_containers))))
        objects)"

definition set_pull_policy :: "unstructured_lib \<Rightarrow> string \<Rightarrow> string list \<Rightarrow> jobj \<Rightarrow> jobj edited" where
  "set_pull_policy u policy p obj =
     (case us_NestedSlice u obj p of
        NestedError \<Rightarrow> Inl (FieldBroken p)
      | NestedMissing \<Rightarrow> Inr obj
      | NestedFound cs \<Rightarrow>
          write_slice u obj
            (map (\<lambda>c. case as_obj c of
                   Some cm \<Rightarrow> JObj (AList.update ''imagePullPolicy'' (JStr policy) cm) | None \<Rightarrow> c) cs) p)"

definition configureImagePullPolicy :: "unstructured_lib \<Rightarrow> jobj list \<Rightarrow> string \<Rightarrow> jobj list edited" where
  "configureImagePullPolicy u objects policy =
     (if policy = [] then Inr objects
      else rmap (\<lambda>obj.
             if us_GetKind u obj \<noteq> DeploymentKind then Inr obj
             else rbind (set_pull_policy u policy pod_containers obj)
                    (set_pull_policy u policy pod_initContainers)) objects)"

subsection \<open>Vertex and Kubernetes\<close>

definition hasVertexSDKCredentials :: "resolvedCredential list \<Rightarrow> bool" where
  "hasVertexSDKCredentials credentials = list_ex (\<lambda>rc. usesVertexSDK (rc_Spec rc)) credentials"

definition env_value :: "string \<Rightarrow> string \<Rightarrow> json" where
  "env_value nm v = JObj [(''name'', JStr nm), (''value'', JStr v)]"

definition volume_mount :: "string \<Rightarrow> string \<Rightarrow> json" where
  "volume_mount nm path = JObj [(''name'', JStr nm), (''mountPath'', JStr path), (''readOnly'', JBool True)]"

definition configmap_volume :: "string \<Rightarrow> string \<Rightarrow> json" where
  "configmap_volume nm cm = JObj [(''name'', JStr nm), (''configMap'', JObj [(''name'', JStr cm)])]"

text \<open>
  The shape the two functions share: extend the environment and mounts of the first container with
  the name, write it back, then the volumes. The lists are read before anything is written.
\<close>

definition extend_container ::
  "unstructured_lib \<Rightarrow> string \<Rightarrow> (json list \<Rightarrow> json list) \<Rightarrow> (json list \<Rightarrow> json list) \<Rightarrow> (json list \<Rightarrow> json list) \<Rightarrow> jobj \<Rightarrow> jobj edited" where
  "extend_container u nm on_env on_mounts on_volumes obj =
     rbind (read_slice u obj pod_containers) (\<lambda>containers.
     rbind (edit_first u nm (\<lambda>container.
              rbind (write_slice u container (on_env (slice_of u container [''env''])) [''env'']) (\<lambda>container'.
                write_slice u container' (on_mounts (slice_of u container [''volumeMounts''])) [''volumeMounts'']))
            containers) (\<lambda>containers'.
     rbind (write_slice u obj containers' pod_containers) (\<lambda>obj'.
       write_slice u obj' (on_volumes (slice_of u obj pod_volumes)) pod_volumes)))"

definition vertex_env :: "CredentialSpec list \<Rightarrow> json list" where
  "vertex_env vertexCreds =
     env_value ''GOOGLE_APPLICATION_CREDENTIALS'' ''/etc/vertex-adc/adc.json'' #
     (case find (\<lambda>cred. cs_Provider cred = ''anthropic'' \<and> cs_GCP cred \<noteq> None) vertexCreds of
        Some cred \<Rightarrow> [env_value ''ANTHROPIC_VERTEX_PROJECT_ID'' (gcp_Project (the (cs_GCP cred)))]
      | None \<Rightarrow> [])"

definition configureClawDeploymentForVertex ::
  "unstructured_lib \<Rightarrow> jobj list \<Rightarrow> resolvedCredential list \<Rightarrow> string \<Rightarrow> jobj list edited" where
  "configureClawDeploymentForVertex u objects credentials instanceName =
     (let vertexCreds = filter usesVertexSDK (map rc_Spec credentials)
      in if vertexCreds = [] then Inr objects
         else edit_object u DeploymentKind (getClawDeploymentName instanceName)
           (extend_container u ClawGatewayContainerName
              (\<lambda>envVars. envVars @ vertex_env vertexCreds)
              (\<lambda>mounts. mounts @ [volume_mount ''vertex-adc'' ''/etc/vertex-adc''])
              (\<lambda>volumes. volumes @ [configmap_volume ''vertex-adc'' (getVertexADCConfigMapName instanceName)]))
           objects)"

definition init_kubectl :: "string \<Rightarrow> json" where
  "init_kubectl kubectlImage =
     JObj [(''name'', JStr ''init-kubectl''), (''image'', JStr kubectlImage), (''imagePullPolicy'', JStr ''IfNotPresent''),
       (''command'', JArr [JStr ''sh'', JStr ''-c'', JStr ''cp /usr/bin/oc /usr/bin/kubectl /tools/'']),
       (''securityContext'', JObj [(''runAsNonRoot'', JBool True), (''allowPrivilegeEscalation'', JBool False),
          (''readOnlyRootFilesystem'', JBool True), (''capabilities'', JObj [(''drop'', JArr [JStr ''ALL''])])]),
       (''resources'', JObj [(''requests'', JObj [(''memory'', JStr ''32Mi''), (''cpu'', JStr ''50m'')]),
          (''limits'', JObj [(''memory'', JStr ''64Mi''), (''cpu'', JStr ''100m'')])]),
       (''volumeMounts'', JArr [JObj [(''name'', JStr ''kubectl-bin''), (''mountPath'', JStr ''/tools'')]])]"

definition configureClawDeploymentForKubernetes ::
  "unstructured_lib \<Rightarrow> jobj list \<Rightarrow> resolvedCredential list \<Rightarrow> string \<Rightarrow> string \<Rightarrow> jobj list edited" where
  "configureClawDeploymentForKubernetes u objects credentials kubectlImage instanceName =
     (if \<not> hasKubernetesCredentials credentials then Inr objects
      else edit_object u DeploymentKind (getClawDeploymentName instanceName)
        (\<lambda>obj. rbind (extend_container u ClawGatewayContainerName
              (\<lambda>envVars. envVars @ [env_value ''KUBECONFIG'' ''/etc/kube/config'',
                 env_value ''PATH'' ''/opt/kube-tools:/usr/local/sbin:/usr/local/bin:/usr/sbin:/usr/bin:/sbin:/bin''])
              (\<lambda>mounts. mounts @ [volume_mount ''kube-config'' ''/etc/kube'', volume_mount ''kubectl-bin'' ''/opt/kube-tools''])
              (\<lambda>volumes. volumes @ [configmap_volume ''kube-config'' (getKubeConfigMapName instanceName),
                 JObj [(''name'', JStr ''kubectl-bin''), (''emptyDir'', JObj [])]]) obj)
            (\<lambda>obj'. write_slice u obj' (slice_of u obj pod_initContainers @ [init_kubectl kubectlImage]) pod_initContainers))
        objects)"

subsection \<open>Lists of variables, mounts and volumes\<close>

fun setOrAppendEnv :: "json list \<Rightarrow> string \<Rightarrow> string \<Rightarrow> json list" where
  "setOrAppendEnv [] nm v = [env_value nm v]"
| "setOrAppendEnv (e # es) nm v =
     (case as_obj e of
        Some env \<Rightarrow>
          if map_of env ''name'' = Some (JStr nm)
          then JObj (AList.delete ''valueFrom'' (AList.update ''value'' (JStr v) env)) # es
          else e # setOrAppendEnv es nm v
      | None \<Rightarrow> e # setOrAppendEnv es nm v)"

definition str_at :: "jobj \<Rightarrow> string \<Rightarrow> string" where
  "str_at m k = (case Option.bind (map_of m k) as_str of Some s \<Rightarrow> s | None \<Rightarrow> [])"

fun setOrAppendVolumeMount :: "json list \<Rightarrow> jobj \<Rightarrow> json list" where
  "setOrAppendVolumeMount [] mount = [JObj mount]"
| "setOrAppendVolumeMount (e # es) mount =
     (case as_obj e of
        Some existing \<Rightarrow>
          if map_of existing ''name'' = Some (JStr (str_at mount ''name'')) \<and>
             map_of existing ''mountPath'' = Some (JStr (str_at mount ''mountPath''))
          then JObj mount # es else e # setOrAppendVolumeMount es mount
      | None \<Rightarrow> e # setOrAppendVolumeMount es mount)"

fun setOrAppendVolume :: "json list \<Rightarrow> jobj \<Rightarrow> json list" where
  "setOrAppendVolume [] vol = [JObj vol]"
| "setOrAppendVolume (e # es) vol =
     (case as_obj e of
        Some existing \<Rightarrow>
          if map_of existing ''name'' = Some (JStr (str_at vol ''name'')) then JObj vol # es
          else e # setOrAppendVolume es vol
      | None \<Rightarrow> e # setOrAppendVolume es vol)"

definition removeHomeVolumeMounts :: "json list \<Rightarrow> json list" where
  "removeHomeVolumeMounts mounts =
     filter (\<lambda>m. case as_obj m of
               Some mount \<Rightarrow> \<not> (str_at mount ''name'' = ''claw-home'' \<and> HasPrefix (str_at mount ''mountPath'') ''/home/node'')
             | None \<Rightarrow> True) mounts"

definition configureWholeHomeMount :: "unstructured_lib \<Rightarrow> jobj \<Rightarrow> jobj edited" where
  "configureWholeHomeMount u container =
     (let mounts = removeHomeVolumeMounts (slice_of u container [''volumeMounts''])
      in write_slice u container
           (setOrAppendVolumeMount mounts
              [(''name'', JStr ''claw-home''), (''mountPath'', JStr ''/home/node''), (''subPath'', JStr ''home'')])
           [''volumeMounts''])"

subsection \<open>Config mode and management\<close>

definition clawConfigModeAndManagement :: "Claw \<Rightarrow> string \<times> string" where
  "clawConfigModeAndManagement instance =
     ((case sp_Config (cl_Spec instance) of
         Some c \<Rightarrow> if cfs_MergeMode c \<noteq> [] then cfs_MergeMode c else ''merge''
       | None \<Rightarrow> ''merge''),
      (if userManagedConfig instance then ''user'' else ''operator''))"

fun set_mode_env :: "json list \<Rightarrow> string \<Rightarrow> json list" where
  "set_mode_env [] mode = [env_value ''CLAW_CONFIG_MODE'' mode]"
| "set_mode_env (e # es) mode =
     (case as_obj e of
        Some env \<Rightarrow>
          if map_of env ''name'' = Some (JStr ''CLAW_CONFIG_MODE'') then JObj (AList.update ''value'' (JStr mode) env) # es
          else e # set_mode_env es mode
      | None \<Rightarrow> e # set_mode_env es mode)"

text \<open>Edit one list of the pod: read it (it must be there), edit its containers, write it back.\<close>

definition edit_pod_list :: "unstructured_lib \<Rightarrow> string list \<Rightarrow> (json list \<Rightarrow> json list edited) \<Rightarrow> jobj \<Rightarrow> jobj edited" where
  "edit_pod_list u p f obj =
     rbind (read_slice u obj p) (\<lambda>cs. rbind (f cs) (\<lambda>cs'. write_slice u obj cs' p))"

definition edit_env :: "unstructured_lib \<Rightarrow> (json list \<Rightarrow> json list) \<Rightarrow> jobj \<Rightarrow> jobj edited" where
  "edit_env u f container = write_slice u container (f (slice_of u container [''env''])) [''env'']"

definition edit_mounts :: "unstructured_lib \<Rightarrow> (json list \<Rightarrow> json list) \<Rightarrow> jobj \<Rightarrow> jobj edited" where
  "edit_mounts u f container = write_slice u container (f (slice_of u container [''volumeMounts''])) [''volumeMounts'']"

definition configureClawDeploymentConfigMode :: "unstructured_lib \<Rightarrow> jobj list \<Rightarrow> Claw \<Rightarrow> jobj list edited" where
  "configureClawDeploymentConfigMode u objects instance =
     (let mode = fst (clawConfigModeAndManagement instance)
      in edit_object u DeploymentKind (getClawDeploymentName (cl_Name instance))
           (edit_pod_list u pod_initContainers
              (edit_first u ClawInitConfigContainerName (edit_env u (\<lambda>envVars. set_mode_env envVars mode))))
           objects)"

text \<open>Edit every container with the name and insist that there is one.\<close>

definition edit_all_named :: "unstructured_lib \<Rightarrow> string \<Rightarrow> (jobj \<Rightarrow> jobj edited) \<Rightarrow> json list \<Rightarrow> json list edited" where
  "edit_all_named u nm f cs =
     rbind (edit_each u nm f cs) (\<lambda>cs'. if container_named u nm cs = None then Inl (ContainerMissing nm) else Inr cs')"

definition configureUserManagedOpenClawFiles :: "unstructured_lib \<Rightarrow> jobj list \<Rightarrow> Claw \<Rightarrow> jobj list edited" where
  "configureUserManagedOpenClawFiles u objects instance =
     (if \<not> userManagedConfig instance then Inr objects
      else edit_object u DeploymentKind (getClawDeploymentName (cl_Name instance))
           (edit_pod_list u pod_initContainers
              (edit_all_named u ClawInitConfigContainerName
                 (edit_env u (\<lambda>envVars. setOrAppendEnv envVars ''CLAW_CONFIG_MANAGEMENT'' ''user''))))
           objects)"

subsection \<open>Home mounts and resources\<close>

definition configureGatewayWholeHomeMount :: "unstructured_lib \<Rightarrow> jobj list \<Rightarrow> string \<Rightarrow> jobj list edited" where
  "configureGatewayWholeHomeMount u objects instanceName =
     edit_object u DeploymentKind (getClawDeploymentName instanceName)
       (\<lambda>obj.
         rbind (edit_pod_list u pod_initContainers (edit_each u ClawInitConfigContainerName (configureWholeHomeMount u)) obj)
           (edit_pod_list u pod_containers (edit_each u ClawGatewayContainerName (configureWholeHomeMount u))))
       objects"

definition merge_resources :: "unstructured_lib \<Rightarrow> GatewayResourcesSpec \<Rightarrow> jobj \<Rightarrow> jobj" where
  "merge_resources u spec resources =
     fold (\<lambda>(section, quantities) res.
        if quantities = [] then res
        else AList.update section
               (JObj (map_copy (map (\<lambda>(n, q). (n, JStr q)) quantities) (found_or [] (us_NestedMap u res [section])))) res)
       [(''requests'', gr_Requests spec), (''limits'', gr_Limits spec)] resources"

definition configureGatewayResources :: "unstructured_lib \<Rightarrow> jobj list \<Rightarrow> Claw \<Rightarrow> jobj list edited" where
  "configureGatewayResources u objects instance =
     (case sp_Resources (cl_Spec instance) of
        None \<Rightarrow> Inr objects
      | Some spec \<Rightarrow>
          edit_object u DeploymentKind (getClawDeploymentName (cl_Name instance))
            (edit_pod_list u pod_containers
              (edit_first u ClawGatewayContainerName (\<lambda>container.
                 write_map u container
                   (merge_resources u spec (found_or [] (us_NestedMap u container [''resources'']))) [''resources''])))
            objects)"

definition configureGatewayContainer :: "unstructured_lib \<Rightarrow> jobj list \<Rightarrow> Claw \<Rightarrow> jobj list edited" where
  "configureGatewayContainer u objects instance =
     rbind (configureGatewayWholeHomeMount u objects (cl_Name instance))
       (\<lambda>objects'. configureGatewayResources u objects' instance)"

subsection \<open>Skill images\<close>

definition skill_volume :: "SkillImageSpec \<Rightarrow> jobj" where
  "skill_volume si =
     [(''name'', JStr (''skill-image-'' @ si_Name si)),
      (''image'', JObj ((''reference'', JStr (si_Image si)) #
         (if si_PullPolicy si \<noteq> [] then [(''pullPolicy'', JStr (si_PullPolicy si))] else [])))]"

definition skill_mount :: "SkillImageSpec \<Rightarrow> jobj" where
  "skill_mount si =
     [(''name'', JStr (''skill-image-'' @ si_Name si)),
      (''mountPath'', JStr (''/home/node/.openclaw/workspace/skills/'' @ si_Name si)), (''readOnly'', JBool True)]"

text \<open>Pull secrets that are named once are kept in order; existing entries without a name are dropped.\<close>

definition pull_secrets :: "unstructured_lib \<Rightarrow> json list \<Rightarrow> SkillImageSpec list \<Rightarrow> json list" where
  "pull_secrets u existing skillImages =
     (let named = filter (\<lambda>ref. string_of u ref [''name''] \<noteq> []) (List.map_filter as_obj existing);
          new = dedup_by id (map (\<lambda>ref. string_of u ref [''name'']) named) (concat (map si_ImagePullSecrets skillImages))
      in map JObj named @ map (\<lambda>n. JObj [(''name'', JStr n)]) new)"

definition add_skill_images :: "unstructured_lib \<Rightarrow> SkillImageSpec list \<Rightarrow> jobj \<Rightarrow> jobj edited" where
  "add_skill_images u skillImages obj =
     (let volumes = fold (\<lambda>si vs. setOrAppendVolume vs (skill_volume si)) skillImages (slice_of u obj pod_volumes);
          secrets = pull_secrets u (slice_of u obj [''spec'', ''template'', ''spec'', ''imagePullSecrets'']) skillImages
      in rbind (edit_first u ClawGatewayContainerName
                 (edit_mounts u (\<lambda>mounts. fold (\<lambda>si ms. setOrAppendVolumeMount ms (skill_mount si)) skillImages mounts))
                 (slice_of u obj pod_containers)) (\<lambda>containers.
         rbind (write_slice u obj containers pod_containers) (\<lambda>obj1.
         rbind (write_slice u obj1 volumes pod_volumes) (\<lambda>obj2.
           if secrets = [] then Inr obj2
           else write_slice u obj2 secrets [''spec'', ''template'', ''spec'', ''imagePullSecrets'']))))"

definition configureSkillImages :: "unstructured_lib \<Rightarrow> jobj list \<Rightarrow> Claw \<Rightarrow> jobj list edited" where
  "configureSkillImages u objects instance =
     (case sp_Skills (cl_Spec instance) of
        None \<Rightarrow> Inr objects
      | Some skills \<Rightarrow>
          if sk_Images skills = [] then Inr objects
          else rmap (\<lambda>obj.
                 if us_GetKind u obj \<noteq> DeploymentKind \<or> us_GetName u obj \<noteq> getClawDeploymentName (cl_Name instance)
                 then Inr obj else add_skill_images u (sk_Images skills) obj) objects)"

subsection \<open>Agent files\<close>

definition agentFilesApplyPolicy :: "Claw \<Rightarrow> string" where
  "agentFilesApplyPolicy instance =
     (case sp_AgentFiles (cl_Spec instance) of
        Some af \<Rightarrow> if af_ApplyPolicy af \<noteq> [] then af_ApplyPolicy af else ''IfMissing''
      | None \<Rightarrow> ''IfMissing'')"

definition agentFilesConfigMapKey :: "AgentFilesConfigMapRef option \<Rightarrow> string" where
  "agentFilesConfigMapKey ref =
     (case ref of Some r \<Rightarrow> if afc_Key r \<noteq> [] then afc_Key r else ''agentfiles.tgz'' | None \<Rightarrow> ''agentfiles.tgz'')"

definition add_mount :: "unstructured_lib \<Rightarrow> jobj \<Rightarrow> jobj \<Rightarrow> jobj edited" where
  "add_mount u mount = edit_mounts u (\<lambda>mounts. setOrAppendVolumeMount mounts mount)"

definition agent_source_env :: "AgentFilesSpec \<Rightarrow> json list \<Rightarrow> json list" where
  "agent_source_env af envVars =
     (let e1 = (case af_ConfigMapRef af of
                  Some ref \<Rightarrow> setOrAppendEnv (setOrAppendEnv envVars ''AGENT_FILES_SOURCE'' ''configmap'')
                    ''AGENT_FILES_CONFIGMAP_PATH'' (''/agent-files/'' @ agentFilesConfigMapKey (Some ref))
                | None \<Rightarrow> envVars);
          e2 = (case af_Git af of
                  Some git \<Rightarrow>
                    (let g1 = setOrAppendEnv (setOrAppendEnv e1 ''AGENT_FILES_SOURCE'' ''git'') ''AGENT_FILES_GIT_URL'' (afg_URL git);
                         g2 = (if afg_Ref git \<noteq> [] then setOrAppendEnv g1 ''AGENT_FILES_GIT_REF'' (afg_Ref git) else g1);
                         g3 = (if afg_Path git \<noteq> [] then setOrAppendEnv g2 ''AGENT_FILES_GIT_PATH'' (afg_Path git) else g2)
                     in if afg_SecretRef git \<noteq> None then setOrAppendEnv g3 ''AGENT_FILES_GIT_SECRET_DIR'' ''/etc/git-credentials''
                        else g3)
                | None \<Rightarrow> e1)
      in if af_ReadOnly af \<noteq> [] then setOrAppendEnv e2 ''AGENT_FILES_READ_ONLY'' (Join '','' (af_ReadOnly af)) else e2)"

definition configureAgentFilesOnInitConfig :: "unstructured_lib \<Rightarrow> Claw \<Rightarrow> AgentFilesSpec \<Rightarrow> jobj \<Rightarrow> jobj edited" where
  "configureAgentFilesOnInitConfig u instance af container =
     (let envVars = agent_source_env af
            (setOrAppendEnv (slice_of u container [''env'']) ''AGENT_FILES_APPLY_POLICY'' (agentFilesApplyPolicy instance))
      in rbind (if af_ConfigMapRef af = None then Inr container
                else add_mount u [(''name'', JStr ''agent-files''), (''mountPath'', JStr ''/agent-files''), (''readOnly'', JBool True)] container)
           (\<lambda>c1. rbind (if (case af_Git af of Some git \<Rightarrow> afg_SecretRef git = None | None \<Rightarrow> True) then Inr c1
                else add_mount u [(''name'', JStr ''git-credentials''), (''mountPath'', JStr ''/etc/git-credentials''), (''readOnly'', JBool True)] c1)
           (\<lambda>c2. rbind (if af_ReadOnly af = [] then Inr c2
                else add_mount u [(''name'', JStr ''protected-files''), (''mountPath'', JStr ''/protected-files'')] c2)
           (\<lambda>c3. write_slice u c3 envVars [''env'']))))"

abbreviation workspaceDir :: string where "workspaceDir \<equiv> ''/home/node/.openclaw/workspace''"

definition configureReadOnlyMounts :: "unstructured_lib \<Rightarrow> string list \<Rightarrow> jobj \<Rightarrow> jobj edited" where
  "configureReadOnlyMounts u readOnly =
     edit_pod_list u pod_containers
       (edit_all_named u ClawGatewayContainerName
          (edit_mounts u (\<lambda>mounts. fold (\<lambda>entry ms.
             setOrAppendVolumeMount ms
               [(''name'', JStr ''protected-files''), (''mountPath'', JStr (workspaceDir @ ''/'' @ readonly_clean entry)),
                (''subPath'', JStr (''workspace/'' @ readonly_clean entry)), (''readOnly'', JBool True)]) readOnly mounts)))"

definition agent_volumes :: "AgentFilesSpec \<Rightarrow> json list \<Rightarrow> json list" where
  "agent_volumes af volumes =
     (let v1 = (case af_ConfigMapRef af of
                  Some ref \<Rightarrow> setOrAppendVolume volumes [(''name'', JStr ''agent-files''), (''configMap'', JObj [(''name'', JStr (afc_Name ref))])]
                | None \<Rightarrow> volumes);
          v2 = (case Option.bind (af_Git af) afg_SecretRef of
                  Some ref \<Rightarrow> setOrAppendVolume v1 [(''name'', JStr ''git-credentials''), (''secret'', JObj [(''secretName'', JStr (gsr_Name ref))])]
                | None \<Rightarrow> v1)
      in if af_ReadOnly af \<noteq> [] then setOrAppendVolume v2 [(''name'', JStr ''protected-files''), (''emptyDir'', JObj [])] else v2)"

definition configureAgentFiles :: "unstructured_lib \<Rightarrow> jobj list \<Rightarrow> Claw \<Rightarrow> jobj list edited" where
  "configureAgentFiles u objects instance =
     (case sp_AgentFiles (cl_Spec instance) of
        None \<Rightarrow> Inr objects
      | Some af \<Rightarrow>
          edit_object u DeploymentKind (getClawDeploymentName (cl_Name instance))
            (\<lambda>obj.
              rbind (edit_pod_list u pod_initContainers
                       (edit_all_named u ClawInitConfigContainerName (configureAgentFilesOnInitConfig u instance af)) obj) (\<lambda>obj1.
              rbind (write_slice u obj1 (agent_volumes af (slice_of u obj1 pod_volumes)) pod_volumes) (\<lambda>obj2.
                if af_ReadOnly af = [] then Inr obj2 else configureReadOnlyMounts u (af_ReadOnly af) obj2)))
            objects)"

subsection \<open>Environment variables backed by Secrets\<close>

definition env_from :: "McpEnvFromSecret \<Rightarrow> json" where
  "env_from ef =
     JObj [(''name'', JStr (ef_Name ef)),
       (''valueFrom'', JObj [(''secretKeyRef'',
          JObj [(''name'', JStr (sr_Name (ef_SecretRef ef))), (''key'', JStr (sr_Key (ef_SecretRef ef)))])])]"

definition same_secret_ref :: "unstructured_lib \<Rightarrow> jobj \<Rightarrow> McpEnvFromSecret \<Rightarrow> bool" where
  "same_secret_ref u em ef \<longleftrightarrow>
     string_of u em [''valueFrom'', ''secretKeyRef'', ''name''] = sr_Name (ef_SecretRef ef) \<and>
     string_of u em [''valueFrom'', ''secretKeyRef'', ''key''] = sr_Key (ef_SecretRef ef)"

fun merge_env_from :: "unstructured_lib \<Rightarrow> McpEnvFromSecret \<Rightarrow> json list \<Rightarrow> json list" where
  "merge_env_from u ef [] = [env_from ef]"
| "merge_env_from u ef (e # es) =
     (case as_obj e of
        Some em \<Rightarrow>
          if string_of u em [''name''] \<noteq> ef_Name ef then e # merge_env_from u ef es
          else if same_secret_ref u em ef then e # es
          else env_from ef # es
      | None \<Rightarrow> e # merge_env_from u ef es)"

definition mergeEnvFromIntoSlice :: "unstructured_lib \<Rightarrow> json list \<Rightarrow> McpEnvFromSecret list \<Rightarrow> json list" where
  "mergeEnvFromIntoSlice u existing desired = fold (merge_env_from u) desired existing"

definition env_from_less :: "string \<times> McpEnvFromSecret \<Rightarrow> string \<times> McpEnvFromSecret \<Rightarrow> bool" where
  "env_from_less a b =
     (if fst a \<noteq> fst b then fst a < fst b
      else if ef_Name (snd a) \<noteq> ef_Name (snd b) then ef_Name (snd a) < ef_Name (snd b)
      else if sr_Name (ef_SecretRef (snd a)) \<noteq> sr_Name (ef_SecretRef (snd b))
        then sr_Name (ef_SecretRef (snd a)) < sr_Name (ef_SecretRef (snd b))
      else sr_Key (ef_SecretRef (snd a)) < sr_Key (ef_SecretRef (snd b)))"

text \<open>An entry takes the place of an earlier one with its name, and is added at the end otherwise.\<close>

fun replace_entry :: "McpEnvFromSecret \<Rightarrow> McpEnvFromSecret list \<Rightarrow> McpEnvFromSecret list" where
  "replace_entry ef [] = [ef]"
| "replace_entry ef (d # ds) = (if ef_Name d = ef_Name ef then ef # ds else d # replace_entry ef ds)"

definition all_env_from :: "(string, McpServerSpec) gomap \<Rightarrow> (string \<times> McpEnvFromSecret) list" where
  "all_env_from servers = concat (map (\<lambda>(serverName, spec). map (Pair serverName) (mcp_EnvFrom spec)) servers)"

definition collectAndDeduplicateMcpEnvFrom :: "Claw \<Rightarrow> McpEnvFromSecret list" where
  "collectAndDeduplicateMcpEnvFrom instance =
     fold (\<lambda>se ds. replace_entry (snd se) ds)
       (SliceStable env_from_less (all_env_from (sp_McpServers (cl_Spec instance)))) []"

definition configureGatewayForMcpServers :: "unstructured_lib \<Rightarrow> jobj list \<Rightarrow> Claw \<Rightarrow> jobj list edited" where
  "configureGatewayForMcpServers u objects instance =
     (let desired = collectAndDeduplicateMcpEnvFrom instance
      in if desired = [] then Inr objects
         else edit_object u DeploymentKind (getClawDeploymentName (cl_Name instance))
           (edit_pod_list u pod_containers
              (edit_first u ClawGatewayContainerName (edit_env u (\<lambda>envVars. mergeEnvFromIntoSlice u envVars desired))))
           objects)"

record channelEnvFromSecret =
  ce_Channel :: string
  ce_Env :: McpEnvFromSecret

definition channel_env :: "CredentialSpec \<Rightarrow> channelEnvFromSecret list" where
  "channel_env cred =
     (if cs_Channel cred = [] then []
      else case map_of knownChannels (cs_Channel cred) of
        None \<Rightarrow> []
      | Some defaults \<Rightarrow>
          List.map_filter (\<lambda>sr.
            if csr_GatewayEnv sr = [] then None
            else map_option (\<lambda>ref. \<lparr>ce_Channel = cs_Channel cred, ce_Env = \<lparr>ef_Name = csr_GatewayEnv sr, ef_SecretRef = ref\<rparr>\<rparr>)
                   (if csr_Role sr \<noteq> [] then secretForRole cred (csr_Role sr) else primarySecret cred))
            (cd_SecretRoles defaults))"

definition collectChannelEnvFrom :: "Claw \<Rightarrow> channelEnvFromSecret list edited" where
  "collectChannelEnvFrom instance =
     (case validateUniqueChannels instance of
        Inl e \<Rightarrow> Inl (ConfigFailed e)
      | Inr _ \<Rightarrow> Inr (concat (map channel_env (sp_Credentials (cl_Spec instance)))))"

text \<open>The first variable with the name decides: the same reference is kept, any other is a conflict.\<close>

fun env_conflict :: "unstructured_lib \<Rightarrow> McpEnvFromSecret \<Rightarrow> json list \<Rightarrow> bool" where
  "env_conflict u ef [] = False"
| "env_conflict u ef (e # es) =
     (case as_obj e of
        Some em \<Rightarrow> if string_of u em [''name''] \<noteq> ef_Name ef then env_conflict u ef es else \<not> same_secret_ref u em ef
      | None \<Rightarrow> env_conflict u ef es)"

definition mergeChannelEnvFromIntoSlice :: "unstructured_lib \<Rightarrow> json list \<Rightarrow> McpEnvFromSecret list \<Rightarrow> json list edited" where
  "mergeChannelEnvFromIntoSlice u existing desired =
     (case find (\<lambda>ef. env_conflict u ef existing) desired of
        Some ef \<Rightarrow> Inl (EnvConflict (ef_Name ef))
      | None \<Rightarrow> Inr (mergeEnvFromIntoSlice u existing desired))"

definition configureGatewayForChannels :: "unstructured_lib \<Rightarrow> jobj list \<Rightarrow> Claw \<Rightarrow> jobj list edited" where
  "configureGatewayForChannels u objects instance =
     rbind (collectChannelEnvFrom instance) (\<lambda>channelEnv.
       let desired = map ce_Env channelEnv
       in if desired = [] then Inr objects
          else edit_object u DeploymentKind (getClawDeploymentName (cl_Name instance))
            (edit_pod_list u pod_containers
               (edit_first u ClawGatewayContainerName (\<lambda>container.
                  rbind (mergeChannelEnvFromIntoSlice u (slice_of u container [''env'']) desired) (\<lambda>envVars.
                    write_slice u container envVars [''env'']))))
            objects)"

subsection \<open>Annotations that trigger rollouts\<close>

abbreviation AnnotationPrefixSecretVersion :: string where
  "AnnotationPrefixSecretVersion \<equiv> ''claw.sandbox.redhat.com/''"
abbreviation AnnotationSuffixSecretVersion :: string where
  "AnnotationSuffixSecretVersion \<equiv> ''-secret-version''"
abbreviation AnnotationPrefixMcpSecretVersion :: string where
  "AnnotationPrefixMcpSecretVersion \<equiv> ''claw.sandbox.redhat.com/mcp-''"

text \<open>\<open>sum256\<close> is the digest in hexadecimal; its first twelve digits are those of six bytes.\<close>

definition mcpAnnotationKey :: "(string \<Rightarrow> string) \<Rightarrow> string \<Rightarrow> string \<Rightarrow> string" where
  "mcpAnnotationKey sum256 serverName envName = take 12 (sum256 (serverName @ ''/'' @ envName))"

fun versions_of :: "(string \<Rightarrow> string option) \<Rightarrow> (string \<times> string) list \<Rightarrow> (string, string) gomap edited" where
  "versions_of version [] = Inr []"
| "versions_of version ((key, secretName) # refs) =
     (case version secretName of
        None \<Rightarrow> Inl (SecretUnavailable secretName)
      | Some rv \<Rightarrow> rbind (versions_of version refs) (\<lambda>vs. Inr ((key, rv) # vs)))"

definition mcp_secret_refs :: "(string \<Rightarrow> string) \<Rightarrow> Claw \<Rightarrow> (string \<times> string) list" where
  "mcp_secret_refs sum256 instance =
     concat (map (\<lambda>serverName.
        case map_of (sp_McpServers (cl_Spec instance)) serverName of
          Some spec \<Rightarrow> map (\<lambda>ef. (mcpAnnotationKey sum256 serverName (ef_Name ef), sr_Name (ef_SecretRef ef))) (mcp_EnvFrom spec)
        | None \<Rightarrow> []) (SliceStable (<) (map fst (sp_McpServers (cl_Spec instance)))))"

definition stampMcpSecretVersionAnnotation ::
  "unstructured_lib \<Rightarrow> (string \<Rightarrow> string) \<Rightarrow> (string \<Rightarrow> string option) \<Rightarrow> jobj list \<Rightarrow> Claw \<Rightarrow> jobj list edited" where
  "stampMcpSecretVersionAnnotation u sum256 version objects instance =
     rbind (versions_of version (mcp_secret_refs sum256 instance)) (\<lambda>versions.
       if versions = [] then Inr objects
       else edit_object u DeploymentKind (getClawDeploymentName (cl_Name instance))
         (stamp_annotations u (map (\<lambda>(key, rv).
            (AnnotationPrefixMcpSecretVersion @ key @ AnnotationSuffixSecretVersion, rv)) versions)) objects)"

definition stampChannelSecretVersionAnnotation ::
  "unstructured_lib \<Rightarrow> (string \<Rightarrow> string) \<Rightarrow> (string \<Rightarrow> string option) \<Rightarrow> jobj list \<Rightarrow> Claw \<Rightarrow> jobj list edited" where
  "stampChannelSecretVersionAnnotation u sum256 version objects instance =
     rbind (collectChannelEnvFrom instance) (\<lambda>channelEnv.
     rbind (versions_of version (map (\<lambda>entry.
              (mcpAnnotationKey sum256 (ce_Channel entry) (ef_Name (ce_Env entry)), sr_Name (ef_SecretRef (ce_Env entry)))) channelEnv))
       (\<lambda>versions.
         if versions = [] then Inr objects
         else edit_object u DeploymentKind (getClawDeploymentName (cl_Name instance))
           (stamp_annotations u (map (\<lambda>(key, rv).
              (AnnotationPrefixSecretVersion @ ''channel-'' @ key @ AnnotationSuffixSecretVersion, rv)) versions)) objects))"

text \<open>The text that is hashed: \<open>%v\<close> of the data values is the parameter \<open>render\<close>.\<close>

definition gateway_hash_input :: "(json \<Rightarrow> string) \<Rightarrow> jobj \<Rightarrow> string list \<Rightarrow> string" where
  "gateway_hash_input render configData plugins =
     concat (map (\<lambda>k. k @ ''='' @ (case map_of configData k of Some v \<Rightarrow> render v | None \<Rightarrow> []) @ [CHR 0x0A])
               (SliceStable (<) (map fst configData))) @
     (if plugins = [] then [] else ''plugins='' @ Join '','' (SliceStable (<) plugins) @ [CHR 0x0A])"

definition stampGatewayConfigHash ::
  "unstructured_lib \<Rightarrow> (string \<Rightarrow> string) \<Rightarrow> (json \<Rightarrow> string) \<Rightarrow> jobj list \<Rightarrow> string \<Rightarrow> string list \<Rightarrow> jobj list edited" where
  "stampGatewayConfigHash u sum256 render objects instanceName plugins =
     rbind (findObject u objects ConfigMapKind (getConfigMapName instanceName)) (\<lambda>cm.
       case us_NestedMap u cm [''data''] of
         NestedError \<Rightarrow> Inl (FieldBroken [''data''])
       | NestedMissing \<Rightarrow> Inl (FieldMissing [''data''])
       | NestedFound configData \<Rightarrow>
           edit_object u DeploymentKind (getClawDeploymentName instanceName)
             (stamp_annotations u [(''claw.sandbox.redhat.com/gateway-config-hash'', sum256 (gateway_hash_input render configData plugins))])
             objects)"

definition git_secret :: "Claw \<Rightarrow> GitSecretRef option" where
  "git_secret instance = Option.bind (sp_AgentFiles (cl_Spec instance)) (\<lambda>af. Option.bind (af_Git af) afg_SecretRef)"

definition stampGitSecretVersion ::
  "unstructured_lib \<Rightarrow> (string \<Rightarrow> string option) \<Rightarrow> jobj list \<Rightarrow> Claw \<Rightarrow> jobj list edited" where
  "stampGitSecretVersion u version objects instance =
     (case git_secret instance of
        None \<Rightarrow> Inr objects
      | Some ref \<Rightarrow>
          (case version (gsr_Name ref) of
             None \<Rightarrow> Inl (SecretUnavailable (gsr_Name ref))
           | Some rv \<Rightarrow>
               edit_object u DeploymentKind (getClawDeploymentName (cl_Name instance))
                 (stamp_annotations u [(AnnotationPrefixSecretVersion @ ''git-credentials'' @ AnnotationSuffixSecretVersion, rv)])
                 objects))"

definition validateGitSecretRef :: "secret_reader \<Rightarrow> Claw \<Rightarrow> unit edited" where
  "validateGitSecretRef get instance =
     (case git_secret instance of
        None \<Rightarrow> Inr ()
      | Some ref \<Rightarrow>
          (case get (gsr_Name ref) of
             SecretData data \<Rightarrow>
               if \<not> has_key data ''username'' then Inl (SecretKeyMissing (gsr_Name ref) ''username'')
               else if \<not> has_key data ''password'' then Inl (SecretKeyMissing (gsr_Name ref) ''password'')
               else Inr ()
           | _ \<Rightarrow> Inl (SecretUnavailable (gsr_Name ref))))"

subsection \<open>Proxy bypass and service account\<close>

definition append_suffix :: "unstructured_lib \<Rightarrow> json \<Rightarrow> json" where
  "append_suffix u e =
     (case as_obj e of
        Some em \<Rightarrow>
          if string_of u em [''name''] \<in> {''NO_PROXY'', ''no_proxy''} \<and> string_of u em [''value''] \<noteq> []
          then JObj (AList.update ''value'' (JStr (string_of u em [''value''] @ '',.svc,.svc.cluster.local'')) em) else e
      | None \<Rightarrow> e)"

text \<open>An error of the write is ignored, and the container is left as it was.\<close>

definition appendNoProxySuffix :: "unstructured_lib \<Rightarrow> jobj \<Rightarrow> jobj" where
  "appendNoProxySuffix u container =
     (case us_SetNestedSlice u container (map (append_suffix u) (slice_of u container [''env''])) [''env''] of
        Some container' \<Rightarrow> container' | None \<Rightarrow> container)"

definition configureGatewayNoProxy :: "unstructured_lib \<Rightarrow> jobj list \<Rightarrow> Claw \<Rightarrow> jobj list edited" where
  "configureGatewayNoProxy u objects instance =
     (if \<not> inClusterBypassEnabled instance then Inr objects
      else edit_object u DeploymentKind (getClawDeploymentName (cl_Name instance))
        (edit_pod_list u pod_containers
           (edit_first u ClawGatewayContainerName (\<lambda>container. Inr (appendNoProxySuffix u container)))) objects)"

definition configureClawDeploymentServiceAccount :: "unstructured_lib \<Rightarrow> jobj list \<Rightarrow> Claw \<Rightarrow> jobj list edited" where
  "configureClawDeploymentServiceAccount u objects instance =
     (if sp_ServiceAccountName (cl_Spec instance) = [] then Inr objects
      else edit_object u DeploymentKind (getClawDeploymentName (cl_Name instance))
        (\<lambda>obj.
          rbind (write_field u obj (JStr (sp_ServiceAccountName (cl_Spec instance)))
                   [''spec'', ''template'', ''spec'', ''serviceAccountName''])
            (\<lambda>obj'. write_field u obj' (JBool True) [''spec'', ''template'', ''spec'', ''automountServiceAccountToken'']))
        objects)"

subsection \<open>The edits are confined to the gateway Deployment\<close>

definition gateway_only :: "string \<Rightarrow> string \<Rightarrow> string \<Rightarrow> bool" where
  "gateway_only instanceName kind nm \<longleftrightarrow> kind = DeploymentKind \<and> nm = getClawDeploymentName instanceName"

lemma manifest_edit_rmap:
  assumes "\<And>obj obj'. f obj = Inr obj' \<Longrightarrow> same_id u obj obj'"
    and "\<And>obj obj'. f obj = Inr obj' \<Longrightarrow> \<not> K (us_GetKind u obj) (us_GetName u obj) \<Longrightarrow> obj' = obj"
  shows "manifest_edit u K (rmap f)"
proof
  fix objs objs' assume "rmap f objs = Inr objs'"
  then show "list_all2 (\<lambda>obj obj'. same_id u obj obj' \<and> (K (us_GetKind u obj) (us_GetName u obj) \<or> obj' = obj)) objs objs'"
    using assms by (induction objs arbitrary: objs') (fastforce simp: rbind_eq_Inr)+
qed

context unstructured_laws
begin

lemma edit_pod_list_id: "edit_pod_list u (k # ks) f obj = Inr obj' \<Longrightarrow> k \<noteq> ''kind'' \<Longrightarrow> k \<noteq> ''metadata'' \<Longrightarrow> same_id u obj obj'"
  by (auto simp: edit_pod_list_def rbind_eq_Inr intro: slice_keeps_id)

lemma extend_container_id: "extend_container u nm f g h obj = Inr obj' \<Longrightarrow> same_id u obj obj'"
  by (auto simp: extend_container_def rbind_eq_Inr intro!: same_id_trans [OF slice_keeps_id slice_keeps_id])

lemma set_images_id: "set_images u img (k # ks) obj = Inr obj' \<Longrightarrow> k \<noteq> ''kind'' \<Longrightarrow> k \<noteq> ''metadata'' \<Longrightarrow> same_id u obj obj'"
  by (auto simp: set_images_def split: nested.splits intro: slice_keeps_id)

lemma set_pull_policy_id:
  "set_pull_policy u policy (k # ks) obj = Inr obj' \<Longrightarrow> k \<noteq> ''kind'' \<Longrightarrow> k \<noteq> ''metadata'' \<Longrightarrow> same_id u obj obj'"
  by (auto simp: set_pull_policy_def split: nested.splits intro: slice_keeps_id)

lemma gateway_edit: "keeps_id u f \<Longrightarrow> manifest_edit u (gateway_only n) (edit_object u DeploymentKind (getClawDeploymentName n) f)"
  by (rule manifest_edit_mono [OF manifest_edit_object]) (simp_all add: gateway_only_def)

lemmas id_dests = edit_pod_list_id extend_container_id set_images_id set_pull_policy_id
  slice_keeps_id map_keeps_id str_map_keeps_id set_keeps_id

lemmas gateway_edit_intros = gateway_edit manifest_edit_return manifest_edit_if manifest_edit_fail

end

sublocale unstructured_laws \<subseteq> claw_image: manifest_edit u "gateway_only (cl_Name i)" "\<lambda>objs. configureClawImage u objs i" for i
  unfolding configureClawImage_def Let_def
  by (intro gateway_edit) (auto simp: keeps_id_def rbind_eq_Inr same_id_def split: if_splits dest!: id_dests)

sublocale unstructured_laws \<subseteq> pull_policy: manifest_edit u "\<lambda>k n. k = DeploymentKind" "\<lambda>objs. configureImagePullPolicy u objs policy" for policy
  unfolding configureImagePullPolicy_def
  by (intro manifest_edit_if manifest_edit_return manifest_edit_rmap)
     (auto simp: rbind_eq_Inr same_id_def split: if_splits dest!: id_dests)

sublocale unstructured_laws \<subseteq> vertex: manifest_edit u "gateway_only n" "\<lambda>objs. configureClawDeploymentForVertex u objs creds n" for n creds
  unfolding configureClawDeploymentForVertex_def Let_def
  by (intro gateway_edit_intros) (auto simp: keeps_id_def dest!: id_dests)

sublocale unstructured_laws \<subseteq> kubernetes: manifest_edit u "gateway_only n"
    "\<lambda>objs. configureClawDeploymentForKubernetes u objs creds img n" for n creds img
  unfolding configureClawDeploymentForKubernetes_def
  by (intro gateway_edit_intros) (auto simp: keeps_id_def rbind_eq_Inr same_id_def dest!: id_dests)

sublocale unstructured_laws \<subseteq> config_mode: manifest_edit u "gateway_only (cl_Name i)" "\<lambda>objs. configureClawDeploymentConfigMode u objs i" for i
  unfolding configureClawDeploymentConfigMode_def Let_def
  by (intro gateway_edit_intros) (auto simp: keeps_id_def dest!: id_dests)

sublocale unstructured_laws \<subseteq> user_managed: manifest_edit u "gateway_only (cl_Name i)" "\<lambda>objs. configureUserManagedOpenClawFiles u objs i" for i
  unfolding configureUserManagedOpenClawFiles_def
  by (intro gateway_edit_intros) (auto simp: keeps_id_def dest!: id_dests)

sublocale unstructured_laws \<subseteq> home_mount: manifest_edit u "gateway_only n" "\<lambda>objs. configureGatewayWholeHomeMount u objs n" for n
  unfolding configureGatewayWholeHomeMount_def
  by (intro gateway_edit_intros) (auto simp: keeps_id_def rbind_eq_Inr same_id_def dest!: id_dests)

sublocale unstructured_laws \<subseteq> resources: manifest_edit u "gateway_only (cl_Name i)" "\<lambda>objs. configureGatewayResources u objs i" for i
  unfolding configureGatewayResources_def
  by (cases "sp_Resources (cl_Spec i)") (auto intro!: gateway_edit_intros simp: keeps_id_def dest!: id_dests)

sublocale unstructured_laws \<subseteq> gateway_container: manifest_edit u "gateway_only (cl_Name i)" "\<lambda>objs. configureGatewayContainer u objs i" for i
  unfolding configureGatewayContainer_def
  by (rule manifest_edit_seq) unfold_locales

sublocale unstructured_laws \<subseteq> skill_images: manifest_edit u "gateway_only (cl_Name i)" "\<lambda>objs. configureSkillImages u objs i" for i
proof -
  have "same_id u obj obj'" if "add_skill_images u sis obj = Inr obj'" for sis obj obj'
    using that by (auto simp: add_skill_images_def rbind_eq_Inr Let_def same_id_def split: if_splits dest!: id_dests)
  then show "manifest_edit u (gateway_only (cl_Name i)) (\<lambda>objs. configureSkillImages u objs i)"
    unfolding configureSkillImages_def
    by (cases "sp_Skills (cl_Spec i)")
       (auto intro!: manifest_edit_return manifest_edit_if manifest_edit_rmap simp: gateway_only_def split: if_splits)
qed

sublocale unstructured_laws \<subseteq> agent_files: manifest_edit u "gateway_only (cl_Name i)" "\<lambda>objs. configureAgentFiles u objs i" for i
  unfolding configureAgentFiles_def configureReadOnlyMounts_def
  by (cases "sp_AgentFiles (cl_Spec i)")
     (auto intro!: gateway_edit_intros simp: keeps_id_def rbind_eq_Inr same_id_def split: if_splits dest!: id_dests)

sublocale unstructured_laws \<subseteq> mcp_servers: manifest_edit u "gateway_only (cl_Name i)" "\<lambda>objs. configureGatewayForMcpServers u objs i" for i
  unfolding configureGatewayForMcpServers_def Let_def
  by (intro gateway_edit_intros) (auto simp: keeps_id_def dest!: id_dests)

sublocale unstructured_laws \<subseteq> channels: manifest_edit u "gateway_only (cl_Name i)" "\<lambda>objs. configureGatewayForChannels u objs i" for i
  unfolding configureGatewayForChannels_def Let_def
  by (cases "collectChannelEnvFrom i") (auto intro!: gateway_edit_intros simp: keeps_id_def dest!: id_dests)

sublocale unstructured_laws \<subseteq> no_proxy: manifest_edit u "gateway_only (cl_Name i)" "\<lambda>objs. configureGatewayNoProxy u objs i" for i
  unfolding configureGatewayNoProxy_def
  by (intro gateway_edit_intros) (auto simp: keeps_id_def dest!: id_dests)

sublocale unstructured_laws \<subseteq> service_account: manifest_edit u "gateway_only (cl_Name i)" "\<lambda>objs. configureClawDeploymentServiceAccount u objs i" for i
  unfolding configureClawDeploymentServiceAccount_def
  by (intro gateway_edit_intros) (auto simp: keeps_id_def rbind_eq_Inr same_id_def dest!: id_dests)

subsection \<open>Merging secret-backed variables\<close>

text \<open>
  The variable a container has for a name is the first one in its list, so \<^const>\<open>container_named\<close>
  is the lookup here too.
\<close>

context unstructured_laws
begin

lemma name_member: "string_of u obj [''name''] = (case map_of obj ''name'' of Some (JStr s) \<Rightarrow> s | _ \<Rightarrow> [])"
  by (auto simp: str member split: option.splits json.splits)

lemma env_from_name: "env_from ef = JObj em \<Longrightarrow> string_of u em [''name''] = ef_Name ef"
  by (auto simp: env_from_def name_member)

lemma env_from_ref: "env_from ef = JObj em \<Longrightarrow> same_secret_ref u em ef"
  by (auto simp: env_from_def same_secret_ref_def str member descend)

lemma merge_env_from_found:
  "\<exists>em. container_named u (ef_Name ef) (merge_env_from u ef es) = Some em \<and> same_secret_ref u em ef"
proof (induction es)
  case Nil
  obtain em where "env_from ef = JObj em" by (simp add: env_from_def)
  with env_from_name [OF this] env_from_ref [OF this] show ?case by simp
next
  case (Cons e es)
  obtain em where "env_from ef = JObj em" by (simp add: env_from_def)
  with env_from_name [OF this] env_from_ref [OF this] Cons show ?case by (cases e) auto
qed

lemma merge_env_from_other:
  "nm \<noteq> ef_Name ef \<Longrightarrow> container_named u nm (merge_env_from u ef es) = container_named u nm es"
proof (induction es)
  case Nil
  obtain em where "env_from ef = JObj em" by (simp add: env_from_def)
  with env_from_name [OF this] Nil show ?case by simp
next
  case (Cons e es)
  obtain em where "env_from ef = JObj em" by (simp add: env_from_def)
  with env_from_name [OF this] Cons show ?case by (cases e) auto
qed

lemma merge_env_from_stable:
  assumes "container_named u (ef_Name ef) es = Some em" "same_secret_ref u em ef"
  shows "merge_env_from u ef es = es"
  using assms
proof (induction es)
  case (Cons e es)
  then show ?case by (cases e) (auto split: if_splits)
qed simp

lemma merge_other:
  "nm \<notin> ef_Name ` set desired \<Longrightarrow>
     container_named u nm (mergeEnvFromIntoSlice u existing desired) = container_named u nm existing"
  unfolding mergeEnvFromIntoSlice_def by (induction desired arbitrary: existing) (auto simp: merge_env_from_other)

lemma merge_found:
  assumes "distinct (map ef_Name desired)" "ef \<in> set desired"
  shows "\<exists>em. container_named u (ef_Name ef) (mergeEnvFromIntoSlice u existing desired) = Some em \<and> same_secret_ref u em ef"
  using assms
proof (induction desired arbitrary: existing)
  case (Cons d ds)
  show ?case
  proof (cases "ef = d")
    case True
    with Cons(2) merge_other [of "ef_Name d" ds] merge_env_from_found [of d existing] show ?thesis
      by (auto simp: mergeEnvFromIntoSlice_def)
  next
    case False
    with Cons show ?thesis by (simp add: mergeEnvFromIntoSlice_def)
  qed
qed simp

lemma merge_stable:
  assumes "\<And>ef. ef \<in> set desired \<Longrightarrow> \<exists>em. container_named u (ef_Name ef) es = Some em \<and> same_secret_ref u em ef"
  shows "mergeEnvFromIntoSlice u es desired = es"
  using assms unfolding mergeEnvFromIntoSlice_def
proof (induction desired)
  case (Cons d ds)
  then have "merge_env_from u d es = es" by (metis list.set_intros(1) merge_env_from_stable)
  with Cons show ?case by simp
qed simp

lemma merge_idem:
  "distinct (map ef_Name desired) \<Longrightarrow>
     mergeEnvFromIntoSlice u (mergeEnvFromIntoSlice u existing desired) desired = mergeEnvFromIntoSlice u existing desired"
  by (intro merge_stable merge_found)

lemma env_conflict_iff:
  "env_conflict u ef es \<longleftrightarrow> (\<exists>em. container_named u (ef_Name ef) es = Some em \<and> \<not> same_secret_ref u em ef)"
proof (induction es)
  case (Cons e es)
  then show ?case by (cases e) auto
qed simp

end

lemma replace_entry_names: "ef_Name ` set (replace_entry ef ds) = insert (ef_Name ef) (ef_Name ` set ds)"
  by (induction ds) auto

lemma replace_entry_distinct: "distinct (map ef_Name ds) \<Longrightarrow> distinct (map ef_Name (replace_entry ef ds))"
proof (induction ds)
  case (Cons d ds)
  then show ?case using replace_entry_names [of ef ds] by auto
qed simp

lemma fold_replace_distinct:
  "distinct (map ef_Name ds) \<Longrightarrow> distinct (map ef_Name (fold (\<lambda>se. replace_entry (snd se)) ses ds))"
  by (induction ses arbitrary: ds) (auto intro: replace_entry_distinct)

lemma fold_replace_names:
  "ef_Name ` set (fold (\<lambda>se. replace_entry (snd se)) ses ds) = (ef_Name \<circ> snd) ` set ses \<union> ef_Name ` set ds"
  by (induction ses arbitrary: ds) (auto simp: replace_entry_names)

lemma collect_distinct: "distinct (map ef_Name (collectAndDeduplicateMcpEnvFrom i))"
  unfolding collectAndDeduplicateMcpEnvFrom_def by (rule fold_replace_distinct) simp

lemma collect_names:
  "ef_Name ` set (collectAndDeduplicateMcpEnvFrom i) = {ef_Name ef | ef s. s \<in> snd ` set (sp_McpServers (cl_Spec i)) \<and> ef \<in> set (mcp_EnvFrom s)}"
  by (force simp: collectAndDeduplicateMcpEnvFrom_def fold_replace_names all_env_from_def)

text \<open>
  What a variable is made of is its name and the reference; the comparison looks at the server first.
  Sorting by a key sorts the keys, so the order of the server map has no influence.
\<close>

definition env_key :: "string \<times> McpEnvFromSecret \<Rightarrow> string \<times> string \<times> string \<times> string" where
  "env_key a = (fst a, ef_Name (snd a), sr_Name (ef_SecretRef (snd a)), sr_Key (ef_SecretRef (snd a)))"

lemma env_from_less_key: "env_from_less a b \<longleftrightarrow> env_key a < env_key b"
  by (auto simp: env_from_less_def env_key_def less_prod_simp)

interpretation env_order: strict_weak_order env_from_less
  by unfold_locales (auto simp: env_from_less_key)

lemma mset_SliceStable: "mset (SliceStable lt xs) = mset xs"
proof (induction xs)
  case (Cons x xs)
  have "mset (insert_stable lt x ys) = add_mset x (mset ys)" for ys by (induction ys) auto
  with Cons show ?case by simp
qed simp

lemma map_key_SliceStable: "map env_key (SliceStable env_from_less xs) = sort (map env_key xs)"
proof (rule sym, rule properties_for_sort)
  show "mset (map env_key (SliceStable env_from_less xs)) = mset (map env_key xs)" by (simp add: mset_SliceStable)
  show "sorted (map env_key (SliceStable env_from_less xs))"
    using env_order.sorted_SliceStable [of xs] by (simp add: sorted_wrt_map env_from_less_key not_less)
qed

fun replace_json :: "string \<times> json \<Rightarrow> (string \<times> json) list \<Rightarrow> (string \<times> json) list" where
  "replace_json e [] = [e]"
| "replace_json e (d # ds) = (if fst d = fst e then e # ds else d # replace_json e ds)"

lemma map_replace_entry:
  "map (\<lambda>ef. (ef_Name ef, env_from ef)) (replace_entry ef ds) =
     replace_json (ef_Name ef, env_from ef) (map (\<lambda>ef. (ef_Name ef, env_from ef)) ds)"
  by (induction ds) simp_all

lemma map_fold_replace:
  "map (\<lambda>ef. (ef_Name ef, env_from ef)) (fold (\<lambda>se. replace_entry (snd se)) ses ds) =
     fold replace_json (map (\<lambda>se. (ef_Name (snd se), env_from (snd se))) ses) (map (\<lambda>ef. (ef_Name ef, env_from ef)) ds)"
  by (induction ses arbitrary: ds) (simp_all add: map_replace_entry)

lemma collect_deterministic:
  assumes "mset (sp_McpServers (cl_Spec i)) = mset (sp_McpServers (cl_Spec j))"
  shows "map env_from (collectAndDeduplicateMcpEnvFrom i) = map env_from (collectAndDeduplicateMcpEnvFrom j)"
proof -
  define entry where "entry k = (fst (snd k), JObj [(''name'', JStr (fst (snd k))), (''valueFrom'', JObj [(''secretKeyRef'',
      JObj [(''name'', JStr (fst (snd (snd k)))), (''key'', JStr (snd (snd (snd k))))])])])" for k :: "string \<times> string \<times> string \<times> string"
  have entry: "(ef_Name (snd se), env_from (snd se)) = entry (env_key se)" for se
    by (simp add: entry_def env_key_def env_from_def)
  have "mset (all_env_from s) = (\<Sum>(n, spec) \<in># mset s. mset (map (Pair n) (mcp_EnvFrom spec)))" for s
    by (induction s) (auto simp: all_env_from_def)
  then have "mset (all_env_from (sp_McpServers (cl_Spec i))) = mset (all_env_from (sp_McpServers (cl_Spec j)))"
    by (simp add: assms)
  then have "sort (map env_key (all_env_from (sp_McpServers (cl_Spec i)))) = sort (map env_key (all_env_from (sp_McpServers (cl_Spec j))))"
    by (intro properties_for_sort) simp_all
  then have "map env_key (SliceStable env_from_less (all_env_from (sp_McpServers (cl_Spec i)))) =
      map env_key (SliceStable env_from_less (all_env_from (sp_McpServers (cl_Spec j))))"
    by (simp add: map_key_SliceStable)
  from arg_cong [OF this, of "map entry"]
  have "map (\<lambda>ef. (ef_Name ef, env_from ef)) (collectAndDeduplicateMcpEnvFrom i) =
      map (\<lambda>ef. (ef_Name ef, env_from ef)) (collectAndDeduplicateMcpEnvFrom j)"
    unfolding collectAndDeduplicateMcpEnvFrom_def map_fold_replace entry by (simp add: comp_def)
  from arg_cong [OF this, of "map snd"] show ?thesis by (simp add: comp_def)
qed

subsection \<open>The gateway's environment\<close>

definition container_env :: "unstructured_lib \<Rightarrow> string \<Rightarrow> jobj \<Rightarrow> json list" where
  "container_env u nm obj =
     (case container_named u nm (slice_of u obj pod_containers) of Some c \<Rightarrow> slice_of u c [''env''] | None \<Rightarrow> [])"

context unstructured_laws
begin

lemma edit_env_container:
  assumes "edit_env u f c = Inr c'"
  shows "string_of u c' [''name''] = string_of u c [''name'']" and "slice_of u c' [''env''] = f (slice_of u c [''env''])"
  using assms by (simp_all add: edit_env_def string_slice_frame slice_get_set)

lemma edit_container_env:
  assumes "edit_pod_list u pod_containers (edit_first u nm (edit_env u f)) obj = Inr obj'"
  shows "container_env u nm obj' = f (container_env u nm obj)"
proof -
  from assms obtain cs cs' where cs: "us_NestedSlice u obj pod_containers = NestedFound cs"
    and edit: "edit_first u nm (edit_env u f) cs = Inr cs'" and set: "us_SetNestedSlice u obj cs' pod_containers = Some obj'"
    by (auto simp: edit_pod_list_def rbind_eq_Inr read_slice_Inr)
  from set have cs': "us_NestedSlice u obj' pod_containers = NestedFound cs'" by (rule slice_get_set [rotated]) simp
  from edit obtain pre c post c' where "cs = pre @ JObj c # post" "cs' = pre @ JObj c' # post" "edit_env u f c = Inr c'" "string_of u c [''name''] = nm"
    "container_named u nm cs = Some c" "\<forall>post'. container_named u nm (pre @ post') = container_named u nm post'"
    by (rule edit_first_found)
  with cs cs' edit_env_container [of f c c'] show ?thesis by (simp add: container_env_def)
qed

end

text \<open>
  Every Secret an MCP server asks for reaches the gateway: after a successful edit the
  gateway container defines each requested variable by a reference to a requested Secret, and every
  other variable is as it was. The variables do not depend on the iteration order of the server
  map, and editing twice is editing once, so a reconcile causes no spurious rollout.
\<close>

theorem mcp_secrets_reach_gateway:
  assumes "unstructured_laws u" and "configureGatewayForMcpServers u objs instance = Inr objs'"
    and "spec \<in> snd ` set (sp_McpServers (cl_Spec instance))" and "ef \<in> set (mcp_EnvFrom spec)"
  shows "\<exists>obj obj'. findObject u objs DeploymentKind (getClawDeploymentName (cl_Name instance)) = Inr obj \<and>
    findObject u objs' DeploymentKind (getClawDeploymentName (cl_Name instance)) = Inr obj' \<and>
    (\<exists>em ef'. container_named u (ef_Name ef) (container_env u ClawGatewayContainerName obj') = Some em \<and>
       ef' \<in> set (collectAndDeduplicateMcpEnvFrom instance) \<and> ef_Name ef' = ef_Name ef \<and> same_secret_ref u em ef') \<and>
    (\<forall>nm. nm \<notin> ef_Name ` set (collectAndDeduplicateMcpEnvFrom instance) \<longrightarrow>
       container_named u nm (container_env u ClawGatewayContainerName obj') =
       container_named u nm (container_env u ClawGatewayContainerName obj)) \<and>
    mergeEnvFromIntoSlice u (container_env u ClawGatewayContainerName obj') (collectAndDeduplicateMcpEnvFrom instance) =
      container_env u ClawGatewayContainerName obj' \<and>
    (\<forall>j. mset (sp_McpServers (cl_Spec j)) = mset (sp_McpServers (cl_Spec instance)) \<longrightarrow>
       map env_from (collectAndDeduplicateMcpEnvFrom j) = map env_from (collectAndDeduplicateMcpEnvFrom instance))"
proof -
  let ?d = "collectAndDeduplicateMcpEnvFrom instance"
  let ?f = "edit_pod_list u pod_containers (edit_first u ClawGatewayContainerName (edit_env u (\<lambda>envVars. mergeEnvFromIntoSlice u envVars ?d)))"
  note laws = assms(1)
  have "ef_Name ef \<in> ef_Name ` set ?d" using assms(3,4) by (auto simp: collect_names)
  then obtain ef' where ef': "ef' \<in> set ?d" "ef_Name ef' = ef_Name ef" by auto
  then have "?d \<noteq> []" by auto
  with assms(2) have edit: "edit_object u DeploymentKind (getClawDeploymentName (cl_Name instance)) ?f objs = Inr objs'"
    by (simp add: configureGatewayForMcpServers_def Let_def)
  have "keeps_id u ?f" by (auto simp: keeps_id_def dest!: unstructured_laws.edit_pod_list_id [OF laws])
  with edit obtain obj obj' where find: "findObject u objs DeploymentKind (getClawDeploymentName (cl_Name instance)) = Inr obj"
      "findObject u objs' DeploymentKind (getClawDeploymentName (cl_Name instance)) = Inr obj'" and "?f obj = Inr obj'"
    by (rule edit_object_find)
  then have env: "container_env u ClawGatewayContainerName obj' = mergeEnvFromIntoSlice u (container_env u ClawGatewayContainerName obj) ?d"
    by (simp add: unstructured_laws.edit_container_env [OF laws])
  from unstructured_laws.merge_found [OF laws collect_distinct ef'(1)] ef'
  have "\<exists>em ef'. container_named u (ef_Name ef) (container_env u ClawGatewayContainerName obj') = Some em \<and>
      ef' \<in> set ?d \<and> ef_Name ef' = ef_Name ef \<and> same_secret_ref u em ef'" unfolding env by metis
  moreover have "mergeEnvFromIntoSlice u (container_env u ClawGatewayContainerName obj') ?d = container_env u ClawGatewayContainerName obj'"
    unfolding env by (rule unstructured_laws.merge_idem [OF laws collect_distinct])
  moreover have "container_named u nm (container_env u ClawGatewayContainerName obj') =
      container_named u nm (container_env u ClawGatewayContainerName obj)" if "nm \<notin> ef_Name ` set ?d" for nm
    unfolding env using that by (rule unstructured_laws.merge_other [OF laws])
  ultimately show ?thesis using find collect_deterministic by blast
qed

definition sample_mcp_claw :: Claw where
  "sample_mcp_claw = \<lparr>cl_Name = ''c'', cl_Namespace = ''ns'', cl_Generation = 1, cl_Annotations = [],
     cl_Spec = empty_ClawSpec\<lparr>sp_McpServers := [(''db'', empty_McpServerSpec\<lparr>mcp_EnvFrom :=
       [\<lparr>ef_Name = ''PGPASS'', ef_SecretRef = \<lparr>sr_Name = ''pg'', sr_Key = ''pw'', sr_Role = []\<rparr>\<rparr>]\<rparr>)]\<rparr>,
     cl_Status = empty_ClawStatus\<rparr>"

theorem mcp_secrets_reach_gateway_witness:
  "\<exists>objs' obj' em ef'. configureGatewayForMcpServers tree_unstructured [sample_deployment ''c'' ''gateway''] sample_mcp_claw = Inr objs' \<and>
     findObject tree_unstructured objs' DeploymentKind ''c'' = Inr obj' \<and>
     container_named tree_unstructured ''PGPASS'' (container_env tree_unstructured ''gateway'' obj') = Some em \<and>
     ef' \<in> set (collectAndDeduplicateMcpEnvFrom sample_mcp_claw) \<and> same_secret_ref tree_unstructured em ef'"
proof -
  have "is_ok (configureGatewayForMcpServers tree_unstructured [sample_deployment ''c'' ''gateway''] sample_mcp_claw)"
    by code_simp
  then obtain objs' where edit: "configureGatewayForMcpServers tree_unstructured [sample_deployment ''c'' ''gateway''] sample_mcp_claw = Inr objs'"
    by (auto simp: is_ok_iff)
  let ?ef = "\<lparr>ef_Name = ''PGPASS'', ef_SecretRef = \<lparr>sr_Name = ''pg'', sr_Key = ''pw'', sr_Role = []\<rparr>\<rparr>"
  let ?spec = "empty_McpServerSpec\<lparr>mcp_EnvFrom := [?ef]\<rparr>"
  have "?spec \<in> snd ` set (sp_McpServers (cl_Spec sample_mcp_claw))" "?ef \<in> set (mcp_EnvFrom ?spec)"
    by (simp_all add: sample_mcp_claw_def)
  from mcp_secrets_reach_gateway [OF tree.unstructured_laws_axioms edit this] edit show ?thesis
    by (simp add: getClawDeploymentName_def sample_mcp_claw_def [THEN arg_cong, of cl_Name]) blast
qed

end
