(* ===== verification/Proxy_Routes.thy ===== *)
theory Proxy_Routes
  imports GoStd
begin

section \<open>Route table of the credential proxy (\<open>src/internal/proxy/config.go\<close>)\<close>

text \<open>
  The route record, the path filter, the domain matcher with its three precedence tiers, and the two
  lookups: \<open>MatchRoute\<close> by host and path (forward proxy mode), \<open>MatchRouteByPath\<close> by path prefix
  (gateway mode). The lemmas relate the path filter to the list of path elements, the lookups to
  declarative selections, and the CONNECT-time decision to every later lookup for the host.
\<close>

named_theorems route_simps \<open>unfolding the lookups\<close>

text \<open>
  \<open>r_injector\<close> is the unexported field \<open>injector\<close>, which \<open>NewServer\<close> fills: the address of the
  injector object in the server's store, \<^const>\<open>None\<close> for the nil interface.
\<close>

record Route =
  r_Domain :: string
  r_Injector :: string
  r_Header :: string
  r_ValuePrefix :: string
  r_BasicUsername :: string
  r_EnvVar :: string
  r_SAFilePath :: string
  r_GCPProject :: string
  r_GCPLocation :: string
  r_PathPrefix :: string
  r_Upstream :: string
  r_ClientID :: string
  r_TokenURL :: string
  r_Scopes :: "string list"
  r_DefaultHeaders :: "(string, string) gomap"
  r_KubeconfigPath :: string
  r_CACert :: string
  r_AllowedPaths :: "string list"
  r_injector :: "nat option"

definition empty_Route :: Route where
  "empty_Route = \<lparr>r_Domain = [], r_Injector = [], r_Header = [], r_ValuePrefix = [], r_BasicUsername = [],
     r_EnvVar = [], r_SAFilePath = [], r_GCPProject = [], r_GCPLocation = [], r_PathPrefix = [],
     r_Upstream = [], r_ClientID = [], r_TokenURL = [], r_Scopes = [], r_DefaultHeaders = [],
     r_KubeconfigPath = [], r_CACert = [], r_AllowedPaths = [], r_injector = None\<rparr>"

record Config =
  Routes :: "Route list"

definition NeedsMITM :: "Route \<Rightarrow> bool" where
  "NeedsMITM r =
     (if r_Injector r \<noteq> ''none'' then True
      else length (r_AllowedPaths r) > 0 \<or> length (r_DefaultHeaders r) > 0)"

definition pathEntryMatches :: "string \<Rightarrow> string \<Rightarrow> bool" where
  "pathEntryMatches reqPath entry =
     (let clean = Clean reqPath; entryClean = Clean entry
      in if HasSuffix entry ''/'' then HasPrefix clean (entryClean @ ''/'') \<or> clean = entryClean
         else clean = entryClean)"

definition PathAllowed :: "Route \<Rightarrow> string \<Rightarrow> bool" where
  "PathAllowed r reqPath =
     (if r_AllowedPaths r = [] then True
      else list_ex (pathEntryMatches reqPath) (r_AllowedPaths r))"

definition domainMatches :: "string \<Rightarrow> string \<Rightarrow> string \<Rightarrow> bool" where
  "domainMatches domain hostLower hostname =
     (if HasPrefix domain ''.'' then HasSuffix hostname domain \<or> hostname = drop 1 domain
      else if SplitHostPort domain \<noteq> None then hostLower = domain
      else hostname = domain)"

text \<open>The three tiers \<open>matchingRoutes\<close> sorts matching routes into.\<close>

datatype domain_tier = SuffixTier | ExactTier | PortExactTier

definition domain_tier_of :: "string \<Rightarrow> domain_tier" where
  "domain_tier_of domain =
     (if HasPrefix domain ''.'' then SuffixTier
      else if SplitHostPort domain \<noteq> None then PortExactTier
      else ExactTier)"

definition matchingRoutes :: "Config \<Rightarrow> string \<Rightarrow> string \<Rightarrow> Route list" where
  "matchingRoutes c hostLower hostname =
     (let hits = filter (\<lambda>r. domainMatches (ToLower (r_Domain r)) hostLower hostname) (Routes c);
          tier = (\<lambda>t. filter (\<lambda>r. domain_tier_of (ToLower (r_Domain r)) = t) hits);
          portExact = tier PortExactTier; exact = tier ExactTier; suffix = tier SuffixTier
      in if length portExact > 0 then portExact
         else if length exact > 0 then exact
         else suffix)"

definition parseHost :: "string \<Rightarrow> string \<times> string" where
  "parseHost host =
     (let hostLower = ToLower host
      in case SplitHostPort hostLower of
           Some (h, _) \<Rightarrow> (hostLower, h)
         | None \<Rightarrow> (hostLower, hostLower))"

abbreviation candidates :: "Config \<Rightarrow> string \<Rightarrow> Route list" where
  "candidates c host \<equiv> matchingRoutes c (fst (parseHost host)) (snd (parseHost host))"

text \<open>
  The selection loop of \<open>MatchRoute\<close>. Its inner loop updates \<open>best\<close> and \<open>bestLen\<close> when a matching
  entry is strictly longer than the best one so far.
\<close>

definition scan_entry :: "string \<Rightarrow> Route \<Rightarrow> string \<Rightarrow> Route option \<times> nat \<Rightarrow> Route option \<times> nat" where
  "scan_entry path r entry bl =
     (if pathEntryMatches path entry \<and> length entry > snd bl then (Some r, length entry) else bl)"

definition scan_route ::
  "string \<Rightarrow> Route \<Rightarrow> Route option \<times> Route option \<times> nat \<Rightarrow> Route option \<times> Route option \<times> nat" where
  "scan_route path r st =
     (case st of (catchAll, bl) \<Rightarrow>
        if r_AllowedPaths r = [] then (if catchAll = None then Some r else catchAll, bl)
        else (catchAll, fold (scan_entry path r) (r_AllowedPaths r) bl))"

definition MatchRoute :: "Config \<Rightarrow> string \<Rightarrow> string \<Rightarrow> Route option" where
  "MatchRoute c host path =
     (let matches = candidates c host
      in if matches = [] then None
         else if length matches = 1 \<or> path = [] then Some (hd matches)
         else (case fold (scan_route path) matches (None, None, 0) of
                 (catchAll, best, _) \<Rightarrow> (if best \<noteq> None then best else catchAll)))"

definition NeedsMITMForHost :: "Config \<Rightarrow> string \<Rightarrow> bool" where
  "NeedsMITMForHost c host = list_ex NeedsMITM (candidates c host)"

fun match_by_path :: "Route list \<Rightarrow> string \<Rightarrow> (Route \<times> string) option" where
  "match_by_path [] path = None"
| "match_by_path (r # rs) path =
     (if r_PathPrefix r = [] \<or> r_Upstream r = [] then match_by_path rs path
      else if HasPrefix path (r_PathPrefix r @ ''/'') then Some (r, TrimPrefix path (r_PathPrefix r))
      else if path = r_PathPrefix r then Some (r, ''/'')
      else match_by_path rs path)"

definition MatchRouteByPath :: "Config \<Rightarrow> string \<Rightarrow> (Route \<times> string) option" where
  "MatchRouteByPath c path = match_by_path (Routes c) path"

lemmas [route_simps] = matchingRoutes_def MatchRoute_def NeedsMITMForHost_def MatchRouteByPath_def Let_def

lemma NeedsMITM_iff:
  "NeedsMITM r \<longleftrightarrow> r_Injector r \<noteq> ''none'' \<or> r_AllowedPaths r \<noteq> [] \<or> r_DefaultHeaders r \<noteq> []"
  by (auto simp: NeedsMITM_def)

subsection \<open>The path filter on path elements\<close>

text \<open>
  For rooted paths a directory entry admits exactly the paths below it, element by element, and any
  other entry admits exactly the path it names.
\<close>

lemma pathEntryMatches_elements:
  assumes p: "rooted_path p" and e: "rooted_path e" and ne: "path_comps e \<noteq> []"
  shows "pathEntryMatches p e \<longleftrightarrow>
     (if HasSuffix e ''/'' then prefix (path_comps e) (path_comps p)
      else path_comps p = path_comps e)"
proof -
  have "Clean p = Clean e \<longleftrightarrow> path_comps p = path_comps e" using p e by (rule Clean_eq_iff)
  moreover have "HasPrefix (Clean p) (Clean e @ ''/'') \<longleftrightarrow> strict_prefix (path_comps e) (path_comps p)"
    using p e ne by (rule Clean_prefix_iff)
  ultimately show ?thesis
    by (auto simp: pathEntryMatches_def Let_def prefix_order.le_less)
qed

lemma pathEntryMatches_Clean: "pathEntryMatches (Clean p) e = pathEntryMatches p e"
  by (simp add: pathEntryMatches_def Clean_idem)

lemma PathAllowed_iff:
  "PathAllowed r p \<longleftrightarrow> r_AllowedPaths r = [] \<or> (\<exists>e \<in> set (r_AllowedPaths r). pathEntryMatches p e)"
  by (auto simp: PathAllowed_def list_ex_iff)

lemma PathAllowed_Clean: "PathAllowed r (Clean p) = PathAllowed r p"
  by (simp add: PathAllowed_iff pathEntryMatches_Clean)

subsection \<open>Matching routes and their tiers\<close>

fun tier_rank :: "domain_tier \<Rightarrow> nat" where
  "tier_rank SuffixTier = 0"
| "tier_rank ExactTier = 1"
| "tier_rank PortExactTier = 2"

definition route_matches :: "string \<Rightarrow> Route \<Rightarrow> bool" where
  "route_matches host r = domainMatches (ToLower (r_Domain r)) (fst (parseHost host)) (snd (parseHost host))"

definition route_rank :: "Route \<Rightarrow> nat" where
  "route_rank r = tier_rank (domain_tier_of (ToLower (r_Domain r)))"

lemma route_rank_cases: "route_rank r \<in> {0, 1, 2}"
  by (cases "domain_tier_of (ToLower (r_Domain r))") (simp_all add: route_rank_def)

lemma tier_rank_inject: "tier_rank s = tier_rank t \<longleftrightarrow> s = t"
  by (cases s; cases t) simp_all

text \<open>\<open>matchingRoutes\<close> keeps, in table order, the matching routes of the highest tier that occurs.\<close>

theorem candidates_top_tier:
  "candidates c host =
     filter (\<lambda>r. route_matches host r \<and>
       (\<forall>q \<in> set (Routes c). route_matches host q \<longrightarrow> route_rank q \<le> route_rank r)) (Routes c)"
proof -
  let ?rs = "Routes c"
  let ?m = "\<lambda>r. route_matches host r"
  let ?t = "\<lambda>n. filter (\<lambda>r. ?m r \<and> route_rank r = n) ?rs"
  have tier: "filter (\<lambda>r. domain_tier_of (ToLower (r_Domain r)) = t) (filter ?m ?rs) = ?t (tier_rank t)" for t
    by (simp add: route_rank_def tier_rank_inject conj_commute)
  have unfold: "candidates c host = (if ?t 2 \<noteq> [] then ?t 2 else if ?t 1 \<noteq> [] then ?t 1 else ?t 0)"
    unfolding matchingRoutes_def Let_def route_matches_def [symmetric] tier by simp
  have two: "route_rank q \<le> 2" for q using route_rank_cases [of q] by auto
  consider (port) "?t 2 \<noteq> []" | (exact) "?t 2 = []" "?t 1 \<noteq> []" | (suffix) "?t 2 = []" "?t 1 = []" by blast
  then show ?thesis
  proof cases
    case port
    then obtain q where q: "q \<in> set ?rs" "?m q" "route_rank q = 2" by (auto simp: filter_empty_conv)
    have "?m r \<and> route_rank r = 2 \<longleftrightarrow> ?m r \<and> (\<forall>q \<in> set ?rs. ?m q \<longrightarrow> route_rank q \<le> route_rank r)" for r
      using q two [of r] two by (metis le_antisym)
    then show ?thesis unfolding unfold using port by (simp cong: filter_cong)
  next
    case exact
    then obtain q where q: "q \<in> set ?rs" "?m q" "route_rank q = 1" by (auto simp: filter_empty_conv)
    have le: "\<And>q. q \<in> set ?rs \<Longrightarrow> ?m q \<Longrightarrow> route_rank q \<le> 1"
    proof -
      fix q assume "q \<in> set ?rs" "?m q"
      with exact(1) have "route_rank q \<noteq> 2" by (simp add: filter_empty_conv)
      with route_rank_cases [of q] show "route_rank q \<le> 1" by auto
    qed
    have "?m r \<and> route_rank r = 1 \<longleftrightarrow> ?m r \<and> (\<forall>q \<in> set ?rs. ?m q \<longrightarrow> route_rank q \<le> route_rank r)"
      if "r \<in> set ?rs" for r
      using q le that by (metis le_antisym)
    then show ?thesis unfolding unfold using exact by (simp cong: filter_cong)
  next
    case suffix
    have z: "\<And>q. q \<in> set ?rs \<Longrightarrow> ?m q \<Longrightarrow> route_rank q = 0"
    proof -
      fix q assume "q \<in> set ?rs" "?m q"
      with suffix have "route_rank q \<noteq> 2" "route_rank q \<noteq> 1" by (simp_all add: filter_empty_conv)
      with route_rank_cases [of q] show "route_rank q = 0" by simp
    qed
    have "?m r \<and> route_rank r = 0 \<longleftrightarrow> ?m r \<and> (\<forall>q \<in> set ?rs. ?m q \<longrightarrow> route_rank q \<le> route_rank r)"
      if "r \<in> set ?rs" for r
      using z that by auto
    then show ?thesis unfolding unfold using suffix by (simp cong: filter_cong)
  qed
qed

lemma candidates_subset: "r \<in> set (candidates c host) \<Longrightarrow> r \<in> set (Routes c) \<and> route_matches host r"
  by (simp add: candidates_top_tier)

lemma candidates_empty_iff:
  "candidates c host = [] \<longleftrightarrow> (\<forall>r \<in> set (Routes c). \<not> route_matches host r)"
proof
  assume none: "candidates c host = []"
  show "\<forall>r \<in> set (Routes c). \<not> route_matches host r"
  proof (rule ccontr)
    let ?S = "route_rank ` {r \<in> set (Routes c). route_matches host r}"
    assume "\<not> (\<forall>r \<in> set (Routes c). \<not> route_matches host r)"
    then have "?S \<noteq> {}" by auto
    then have "Max ?S \<in> ?S" by (intro Max_in) auto
    then obtain r where r: "r \<in> set (Routes c)" "route_matches host r" "route_rank r = Max ?S"
      by auto
    then have "r \<in> set (candidates c host)" by (simp add: candidates_top_tier)
    with none show False by simp
  qed
qed (simp add: candidates_top_tier)

subsection \<open>The selection loop\<close>

lemma scan_entries:
  assumes "fold (scan_entry path r) es (b, l) = (b', l')"
  shows "l \<le> l' \<and> (\<forall>e \<in> set es. pathEntryMatches path e \<longrightarrow> length e \<le> l') \<and>
    ((b', l') = (b, l) \<or> (b' = Some r \<and> l < l' \<and> (\<exists>e \<in> set es. pathEntryMatches path e \<and> l' = length e)))"
  using assms
proof (induction es arbitrary: b l)
  case (Cons e es)
  show ?case
  proof (cases "pathEntryMatches path e \<and> length e > l")
    case True
    then show ?thesis using Cons.IH [of "Some r" "length e"] Cons.prems by (auto simp: scan_entry_def)
  next
    case False
    then show ?thesis using Cons.IH [of b l] Cons.prems by (auto simp: scan_entry_def)
  qed
qed simp

lemma scan_route_simps:
  "r_AllowedPaths r = [] \<Longrightarrow> scan_route path r (ca, bl) = (if ca = None then Some r else ca, bl)"
  "r_AllowedPaths r \<noteq> [] \<Longrightarrow>
     scan_route path r (ca, bl) = (ca, fold (scan_entry path r) (r_AllowedPaths r) bl)"
  by (simp_all add: scan_route_def)

definition admits :: "string \<Rightarrow> Route \<Rightarrow> nat \<Rightarrow> bool" where
  "admits path r n \<longleftrightarrow> (\<exists>e \<in> set (r_AllowedPaths r). pathEntryMatches path e \<and> length e = n)"

lemma scan_routes:
  assumes "fold (scan_route path) rs (ca, b, l) = (ca', b', l')"
  shows "l \<le> l' \<and> (\<forall>r \<in> set rs. \<forall>n. admits path r n \<longrightarrow> n \<le> l') \<and>
    ((b', l') = (b, l) \<or> (\<exists>r \<in> set rs. b' = Some r \<and> l < l' \<and> admits path r l')) \<and>
    ca' = (if ca = None then List.find (\<lambda>r. r_AllowedPaths r = []) rs else ca)"
  using assms
proof (induction rs arbitrary: ca b l)
  case (Cons r rs)
  show ?case
  proof (cases "r_AllowedPaths r = []")
    case True
    then show ?thesis
      using Cons.IH [of "if ca = None then Some r else ca" b l] Cons.prems
      by (auto simp: scan_route_simps admits_def)
  next
    case False
    obtain b1 l1 where s: "fold (scan_entry path r) (r_AllowedPaths r) (b, l) = (b1, l1)" by fastforce
    note e = scan_entries [OF s]
    from s False Cons.prems have f: "fold (scan_route path) rs (ca, b1, l1) = (ca', b', l')"
      by (simp add: scan_route_simps)
    note ih = Cons.IH [OF f]
    have "\<forall>n. admits path r n \<longrightarrow> n \<le> l'" using e ih by (force simp: admits_def)
    moreover have "(b', l') = (b, l) \<or> (\<exists>r' \<in> set (r # rs). b' = Some r' \<and> l < l' \<and> admits path r' l')"
      using e ih by (auto simp: admits_def)
    ultimately show ?thesis using False e ih by auto
  qed
qed simp

text \<open>What \<open>MatchRoute\<close> returns when several routes compete for a host.\<close>

lemma MatchRoute_many:
  assumes "length (candidates c host) \<noteq> 1" "path \<noteq> []" and "MatchRoute c host path = Some r"
  shows "r \<in> set (candidates c host) \<and>
    ((\<exists>n > 0. admits path r n \<and> (\<forall>q \<in> set (candidates c host). \<forall>m. admits path q m \<longrightarrow> m \<le> n)) \<or>
     (r_AllowedPaths r = [] \<and> (\<forall>q \<in> set (candidates c host). \<forall>m. admits path q m \<longrightarrow> m = 0)))"
proof -
  let ?ms = "candidates c host"
  from assms have ne: "?ms \<noteq> []" by (auto simp: MatchRoute_def Let_def)
  obtain ca b l where f: "fold (scan_route path) ?ms (None, None, 0) = (ca, b, l)"
    by (cases "fold (scan_route path) ?ms (None, None, 0)") auto
  note s = scan_routes [OF f]
  from assms ne f have r: "(if b \<noteq> None then b else ca) = Some r" by (simp add: MatchRoute_def Let_def)
  show ?thesis
  proof (cases "b = None")
    case True
    with s have "l = 0" by auto
    with True r s have "List.find (\<lambda>r. r_AllowedPaths r = []) ?ms = Some r" by simp
    then have "r \<in> set ?ms" "r_AllowedPaths r = []" by (auto simp: find_Some_iff)
    with s \<open>l = 0\<close> show ?thesis by auto
  next
    case False
    with r s show ?thesis by auto
  qed
qed

lemma MatchRoute_candidate: "MatchRoute c host path = Some r \<Longrightarrow> r \<in> set (candidates c host)"
proof (cases "length (candidates c host) = 1 \<or> path = []")
  case True
  assume "MatchRoute c host path = Some r"
  with True show ?thesis by (cases "candidates c host") (auto simp: MatchRoute_def Let_def)
qed (use MatchRoute_many in blast)

lemma MatchRoute_CONNECT: "MatchRoute c host [] = (case candidates c host of [] \<Rightarrow> None | r # _ \<Rightarrow> Some r)"
  by (simp add: MatchRoute_def Let_def split: list.split)

subsection \<open>Properties of the route table\<close>

lemma MatchRoute_None_many:
  assumes "length (candidates c host) \<noteq> 1" "path \<noteq> []" and "MatchRoute c host path = None"
    and "r \<in> set (candidates c host)"
  shows "r_AllowedPaths r \<noteq> [] \<and> (\<forall>n. admits path r n \<longrightarrow> n = 0)"
proof -
  let ?ms = "candidates c host"
  obtain ca b l where f: "fold (scan_route path) ?ms (None, None, 0) = (ca, b, l)"
    by (cases "fold (scan_route path) ?ms (None, None, 0)") auto
  note s = scan_routes [OF f]
  from assms(4) have "?ms \<noteq> []" by auto
  with assms(1-3) f have none: "(if b \<noteq> None then b else ca) = None" by (simp add: MatchRoute_def Let_def)
  then have "b = None" "ca = None" by (auto split: if_splits)
  with s have "List.find (\<lambda>r. r_AllowedPaths r = []) ?ms = None" "l = 0" by auto
  with s assms(4) show ?thesis by (auto simp: find_None_iff)
qed


definition two_routes :: Config where
  "two_routes = \<lparr>Routes =
     [empty_Route\<lparr>r_Domain := ''a.com'', r_Injector := ''none'', r_AllowedPaths := [''/api/'']\<rparr>,
      empty_Route\<lparr>r_Domain := ''A.com'', r_Injector := ''none'', r_AllowedPaths := [''/api/admin/'']\<rparr>,
      empty_Route\<lparr>r_Domain := ''.com'', r_Injector := ''none''\<rparr>]\<rparr>"


text \<open>
  (C18) The path filter works on path elements and cannot be escaped by dot segments or doubled
  slashes: for rooted paths and rooted, non-root entries, a route admits a path exactly when it has
  no entries, or the element list of some entry ending in a slash is a prefix of the element list of
  the path, or the path has exactly the elements of some other entry.
\<close>

theorem PathAllowed_elements:
  assumes "rooted_path p" and "\<forall>e \<in> set (r_AllowedPaths r). rooted_path e \<and> path_comps e \<noteq> []"
  shows "PathAllowed r p \<longleftrightarrow> r_AllowedPaths r = [] \<or>
    (\<exists>e \<in> set (r_AllowedPaths r).
       if HasSuffix e ''/'' then prefix (path_comps e) (path_comps p) else path_comps p = path_comps e)"
  using assms pathEntryMatches_elements [OF assms(1)] unfolding PathAllowed_iff by blast

theorem PathAllowed_elements_witness:
  "\<not> PathAllowed (Routes two_routes ! 0) ''/api/../etc'' \<and> path_comps ''/api/../etc'' = [''etc'']"
proof -
  have e: "path_comps ''/api/'' = [''api'']" "path_comps ''/api/../etc'' = [''etc'']"
    "r_AllowedPaths (Routes two_routes ! 0) = [''/api/'']" by code_simp+
  then show ?thesis using PathAllowed_elements [of "''/api/../etc''" "Routes two_routes ! 0"] by simp
qed

text \<open>
  The one rooted entry outside that rule is \<open>"/"\<close>: it ends in a slash, but since cleaning keeps
  its slash the prefix compared with is \<open>"//"\<close>, so it admits the root path and nothing below it.
\<close>

theorem root_entry_admits_only_root:
  assumes "rooted_path p"
  shows "pathEntryMatches p ''/'' \<longleftrightarrow> path_comps p = []"
proof -
  have c: "Clean ''/'' = ''/''" "rooted_path ''/''" "path_comps ''/'' = []" by code_simp+
  have "\<not> prefix ''//'' (Clean p)"
  proof
    assume "prefix ''//'' (Clean p)"
    then obtain t where t: "Clean p = CHR ''/'' # CHR ''/'' # t" by (auto simp: prefix_def)
    from assms have "Clean p = CHR ''/'' # Join ''/'' (path_comps p)" by (simp add: Clean_def)
    with t have j: "Join ''/'' (path_comps p) = CHR ''/'' # t" by simp
    then obtain c cs where cs: "path_comps p = c # cs" by (cases "path_comps p") auto
    with path_comps_rooted [OF assms] have "real_elem c" by simp
    then have "c \<noteq> []" "CHR ''/'' \<notin> set c" by (auto dest: real_elemD)
    with j cs show False by (cases c; cases cs) auto
  qed
  moreover have "Clean p = Clean ''/'' \<longleftrightarrow> path_comps p = []"
    using Clean_eq_iff [OF assms c(2)] c(3) by simp
  ultimately show ?thesis using c(1) by (simp add: pathEntryMatches_def Let_def suffix_def)
qed

theorem root_entry_admits_only_root_witness:
  "\<not> pathEntryMatches ''/v1'' ''/''"
proof -
  have "rooted_path ''/v1''" "path_comps ''/v1'' \<noteq> []" by code_simp+
  then show ?thesis using root_entry_admits_only_root [of "''/v1''"] by simp
qed

text \<open>
  Gateway routing. The first gateway route whose prefix is the path or a whole leading part of
  it is taken, and the path handed to the upstream is what follows the prefix: it starts with a
  slash and, unless the path was the bare prefix, prefix and remainder make up the path again.
\<close>

theorem MatchRouteByPath_strips:
  "case MatchRouteByPath c path of
     None \<Rightarrow> \<forall>r \<in> set (Routes c). r_PathPrefix r = [] \<or> r_Upstream r = [] \<or>
       (path \<noteq> r_PathPrefix r \<and> \<not> HasPrefix path (r_PathPrefix r @ ''/''))
   | Some (r, p) \<Rightarrow> r \<in> set (Routes c) \<and> r_PathPrefix r \<noteq> [] \<and> r_Upstream r \<noteq> [] \<and> HasPrefix p ''/'' \<and>
       (path = r_PathPrefix r @ p \<or> path = r_PathPrefix r \<and> p = ''/'')"
proof -
  have "case match_by_path rs path of
     None \<Rightarrow> \<forall>r \<in> set rs. r_PathPrefix r = [] \<or> r_Upstream r = [] \<or>
       (path \<noteq> r_PathPrefix r \<and> \<not> HasPrefix path (r_PathPrefix r @ ''/''))
   | Some (r, p) \<Rightarrow> r \<in> set rs \<and> r_PathPrefix r \<noteq> [] \<and> r_Upstream r \<noteq> [] \<and> HasPrefix p ''/'' \<and>
       (path = r_PathPrefix r @ p \<or> path = r_PathPrefix r \<and> p = ''/'')" for rs
  proof (induction rs path rule: match_by_path.induct)
    case (2 r rs path)
    then show ?case
      by (cases "r_PathPrefix r = [] \<or> r_Upstream r = []";
          cases "HasPrefix path (r_PathPrefix r @ ''/'')";
          cases "path = r_PathPrefix r")
        (auto simp: prefix_def TrimPrefix_def split: option.splits)
  qed simp
  then show ?thesis by (simp add: MatchRouteByPath_def)
qed

definition gateway_config :: Config where
  "gateway_config = \<lparr>Routes = [empty_Route\<lparr>r_PathPrefix := ''/gw'', r_Upstream := ''https://u''\<rparr>]\<rparr>"

theorem MatchRouteByPath_strips_witness:
  "\<exists>r. MatchRouteByPath gateway_config ''/gw/v1'' = Some (r, ''/v1'') \<and> ''/gw/v1'' = r_PathPrefix r @ ''/v1''"
proof -
  have "MatchRouteByPath gateway_config ''/gw/v1'' = Some (hd (Routes gateway_config), ''/v1'')" by code_simp
  then show ?thesis using MatchRouteByPath_strips [of gateway_config "''/gw/v1''"] by auto
qed

end
