(* ===== verification/Proxy_Injectors.thy ===== *)
theory Proxy_Injectors
  imports Proxy_Routes Json GoUrl GoBase64
begin

section \<open>Credential injectors (\<open>src/internal/proxy/injector*.go\<close>)\<close>

text \<open>
  HTTP requests with Go's canonical header map, \<open>StripAuthHeaders\<close>, the eight injector types with
  their constructors and \<open>Inject\<close> methods, and \<open>NewInjector\<close>. The process environment, the mounted
  files and the token services are the fields of the record \<open>World\<close>; the kubeconfig loader, the
  Google credential parser and the two OAuth2 token sources are code outside the repository and
  appear there as parameters.

  The \<open>Injector\<close> interface is the locale \<open>injector\<close>: a plan that does not read the request's headers
  decides between an error and a list of header settings. The interpretations discharge it for each
  type; \<open>authorization_injector\<close> adds that the credential is written last.
\<close>

subsection \<open>Requests and headers\<close>

type_synonym header = "(string, string list) gomap"

record Request =
  rq_Method :: string
  rq_Host :: string
  rq_URLScheme :: string
  rq_URLHost :: string
  rq_Path :: string
  rq_RawPath :: string
  rq_Header :: header

definition hdr_set :: "string \<Rightarrow> string \<Rightarrow> header \<Rightarrow> header" where
  "hdr_set k v h = AList.update (CanonicalHeaderKey k) [v] h"

definition hdr_del :: "string \<Rightarrow> header \<Rightarrow> header" where
  "hdr_del k h = AList.delete (CanonicalHeaderKey k) h"

definition hdr_get :: "header \<Rightarrow> string \<Rightarrow> string" where
  "hdr_get h k = (case map_of h (CanonicalHeaderKey k) of Some (v # _) \<Rightarrow> v | _ \<Rightarrow> [])"

text \<open>Keys of a header map built by \<open>net/http\<close> are canonical and occur once.\<close>

definition wf_header :: "header \<Rightarrow> bool" where
  "wf_header h \<longleftrightarrow> distinct (map fst h) \<and> list_all (\<lambda>k. CanonicalHeaderKey k = k) (map fst h)"

definition authHeaders :: "string list" where
  "authHeaders =
     [''Authorization'', ''X-Api-Key'', ''X-Goog-Api-Key'', ''Proxy-Authorization'',
      ''Impersonate-User'', ''Impersonate-Group'', ''Impersonate-Uid'']"

definition is_impersonate_extra :: "string \<Rightarrow> bool" where
  "is_impersonate_extra k \<longleftrightarrow> HasPrefix (ToLower k) ''impersonate-extra-''"

text \<open>
  The second loop ranges over the header map and deletes from it; Go visits each key that is not
  deleted before it is reached, so the loop ranges over the keys present at its start.
\<close>

definition strip_headers :: "header \<Rightarrow> header" where
  "strip_headers h =
     (let h1 = fold hdr_del authHeaders h
      in fold (\<lambda>k m. if is_impersonate_extra k then hdr_del k m else m) (map fst h1) h1)"

definition StripAuthHeaders :: "Request \<Rightarrow> Request" where
  "StripAuthHeaders req = req\<lparr>rq_Header := strip_headers (rq_Header req)\<rparr>"

subsection \<open>The world an injector reads\<close>

record kube_cluster =
  kc_Server :: string

record kube_context =
  kx_Cluster :: string
  kx_AuthInfo :: string

record kube_authinfo =
  ka_Token :: string

record kubeconfig =
  kcfg_Clusters :: "(string, kube_cluster) gomap"
  kcfg_Contexts :: "(string, kube_context) gomap"
  kcfg_AuthInfos :: "(string, kube_authinfo) gomap"

record oauth2_config =
  oc_ClientID :: string
  oc_ClientSecret :: string
  oc_TokenURL :: string
  oc_Scopes :: "string list"

text \<open>
  \<open>w_ReadFile\<close> gives the JSON document of a mounted file: \<^term>\<open>None\<close> when the file cannot be read,
  \<^term>\<open>Some None\<close> when its bytes are not JSON.
\<close>

record World =
  w_Getenv :: "string \<Rightarrow> string"
  w_ReadFile :: "string \<Rightarrow> json option option"
  w_LoadKubeconfig :: "string \<Rightarrow> kubeconfig option"
  w_CredentialsFromJSON :: "json \<Rightarrow> string \<Rightarrow> bool"
  w_GCPToken :: "json \<Rightarrow> string \<Rightarrow> string option"
  w_OAuth2Token :: "oauth2_config \<Rightarrow> string option"

datatype inject_error =
    EnvVarEmpty string
  | PathPrefixMismatch string string
  | NoTokenForHost string
  | ReadSAFile string
  | ParseCredentialFile
  | UnsupportedCredentialType string
  | ParseGCPCredentials
  | ObtainGCPToken
  | TokenExchangeFailed

datatype new_injector_error =
    RequiresField string string
  | UnknownInjector string
  | LoadKubeconfigFailed string
  | ContextHasNoToken string string

subsection \<open>Default headers\<close>

definition set_default_headers :: "(string, string) gomap \<Rightarrow> header \<Rightarrow> header" where
  "set_default_headers dh h = fold (\<lambda>(k, v) m. hdr_set k v m) dh h"

definition set_default_headers_but_auth :: "(string, string) gomap \<Rightarrow> header \<Rightarrow> header" where
  "set_default_headers_but_auth dh h =
     fold (\<lambda>(k, v) m. if EqualFold k ''Authorization'' then m else hdr_set k v m) dh h"

subsection \<open>The injector types\<close>

record APIKeyInjector =
  ak_header :: string
  ak_valuePrefix :: string
  ak_envVar :: string
  ak_defaultHeaders :: "(string, string) gomap"

definition NewAPIKeyInjector :: "Route \<Rightarrow> (new_injector_error, APIKeyInjector) result" where
  "NewAPIKeyInjector route =
     (if r_Header route = [] then Inl (RequiresField ''api_key'' ''header'')
      else if r_EnvVar route = [] then Inl (RequiresField ''api_key'' ''envVar'')
      else Inr \<lparr>ak_header = r_Header route, ak_valuePrefix = r_ValuePrefix route,
                ak_envVar = r_EnvVar route, ak_defaultHeaders = r_DefaultHeaders route\<rparr>)"

definition inject_APIKey ::
  "World \<Rightarrow> APIKeyInjector \<Rightarrow> Request \<Rightarrow> APIKeyInjector \<times> (inject_error, Request) result" where
  "inject_APIKey w a req =
     (a, let v = w_Getenv w (ak_envVar a)
         in if v = [] then Inl (EnvVarEmpty (ak_envVar a))
            else Inr (req\<lparr>rq_Header := set_default_headers (ak_defaultHeaders a)
                   (hdr_set (ak_header a) (ak_valuePrefix a @ v) (rq_Header req))\<rparr>))"

record BasicInjector =
  ba_username :: string
  ba_envVar :: string
  ba_defaultHeaders :: "(string, string) gomap"

definition NewBasicInjector :: "Route \<Rightarrow> (new_injector_error, BasicInjector) result" where
  "NewBasicInjector route =
     (if r_EnvVar route = [] then Inl (RequiresField ''basic'' ''envVar'')
      else if r_BasicUsername route = [] then Inl (RequiresField ''basic'' ''basicUsername'')
      else Inr \<lparr>ba_username = r_BasicUsername route, ba_envVar = r_EnvVar route,
                ba_defaultHeaders = r_DefaultHeaders route\<rparr>)"

definition inject_Basic ::
  "World \<Rightarrow> BasicInjector \<Rightarrow> Request \<Rightarrow> BasicInjector \<times> (inject_error, Request) result" where
  "inject_Basic w b req =
     (b, let password = w_Getenv w (ba_envVar b)
         in if password = [] then Inl (EnvVarEmpty (ba_envVar b))
            else Inr (req\<lparr>rq_Header := hdr_set ''Authorization''
                   (''Basic '' @ b64_encode (ba_username b @ '':'' @ password))
                   (set_default_headers_but_auth (ba_defaultHeaders b) (rq_Header req))\<rparr>))"

record BearerInjector =
  be_envVar :: string
  be_defaultHeaders :: "(string, string) gomap"

definition NewBearerInjector :: "Route \<Rightarrow> (new_injector_error, BearerInjector) result" where
  "NewBearerInjector route =
     (if r_EnvVar route = [] then Inl (RequiresField ''bearer'' ''envVar'')
      else Inr \<lparr>be_envVar = r_EnvVar route, be_defaultHeaders = r_DefaultHeaders route\<rparr>)"

definition inject_Bearer ::
  "World \<Rightarrow> BearerInjector \<Rightarrow> Request \<Rightarrow> BearerInjector \<times> (inject_error, Request) result" where
  "inject_Bearer w b req =
     (b, let token = w_Getenv w (be_envVar b)
         in if token = [] then Inl (EnvVarEmpty (be_envVar b))
            else Inr (req\<lparr>rq_Header := hdr_set ''Authorization'' (''Bearer '' @ token)
                   (set_default_headers_but_auth (be_defaultHeaders b) (rq_Header req))\<rparr>))"

record NoneInjector =
  no_defaultHeaders :: "(string, string) gomap"

definition NewNoneInjector :: "Route \<Rightarrow> (new_injector_error, NoneInjector) result" where
  "NewNoneInjector route = Inr \<lparr>no_defaultHeaders = r_DefaultHeaders route\<rparr>"

definition inject_None ::
  "World \<Rightarrow> NoneInjector \<Rightarrow> Request \<Rightarrow> NoneInjector \<times> (inject_error, Request) result" where
  "inject_None w n req =
     (n, Inr (req\<lparr>rq_Header := set_default_headers (no_defaultHeaders n) (rq_Header req)\<rparr>))"

record PathTokenInjector =
  pt_envVar :: string
  pt_pathPrefix :: string
  pt_defaultHeaders :: "(string, string) gomap"

definition NewPathTokenInjector :: "Route \<Rightarrow> (new_injector_error, PathTokenInjector) result" where
  "NewPathTokenInjector route =
     (if r_EnvVar route = [] then Inl (RequiresField ''path_token'' ''envVar'')
      else if r_PathPrefix route = [] then Inl (RequiresField ''path_token'' ''pathPrefix'')
      else Inr \<lparr>pt_envVar = r_EnvVar route, pt_pathPrefix = r_PathPrefix route,
                pt_defaultHeaders = r_DefaultHeaders route\<rparr>)"

definition inject_PathToken ::
  "World \<Rightarrow> PathTokenInjector \<Rightarrow> Request \<Rightarrow> PathTokenInjector \<times> (inject_error, Request) result" where
  "inject_PathToken w p req =
     (p, let token = w_Getenv w (pt_envVar p);
             path = rq_Path req;
             pre = pt_pathPrefix p;
             remainder = drop (length pre) path
         in if token = [] then Inl (EnvVarEmpty (pt_envVar p))
            else if \<not> HasPrefix path pre then Inl (PathPrefixMismatch path pre)
            else Inr (req\<lparr>rq_Path := (case IndexByte remainder (CHR ''/'') of
                              Some idx \<Rightarrow> pre @ token @ drop idx remainder
                            | None \<Rightarrow> pre @ token),
                          rq_Header := set_default_headers (pt_defaultHeaders p) (rq_Header req)\<rparr>))"


subsection \<open>Google Cloud\<close>

definition hostnameOnly :: "string \<Rightarrow> string" where
  "hostnameOnly hostPort =
     (case SplitHostPort hostPort of
        None \<Rightarrow> ToLower hostPort
      | Some (host, _) \<Rightarrow> ToLower host)"

definition isTokenVendingRequest :: "Request \<Rightarrow> bool" where
  "isTokenVendingRequest req =
     (if rq_Method req \<noteq> ''POST'' \<or> rq_Path req \<noteq> ''/token'' then False
      else hostnameOnly (rq_Host req) = ''oauth2.googleapis.com'' \<or>
           hostnameOnly (rq_URLHost req) = ''oauth2.googleapis.com'')"

definition allowedCredentialTypes :: "string list" where
  "allowedCredentialTypes = [''service_account'', ''authorized_user'']"

text \<open>
  \<open>json.Unmarshal\<close> into a struct with the single string field \<open>type\<close>: members whose name equals it
  up to case are assigned in document order, null leaves the field alone, any other non-string value
  is an error, and so is a document that is neither an object nor null.
\<close>

fun unmarshal_type :: "jobj \<Rightarrow> string \<Rightarrow> string option" where
  "unmarshal_type [] t = Some t"
| "unmarshal_type ((k, v) # m) t =
     (if EqualFold k ''type'' then
        (case v of JStr s \<Rightarrow> unmarshal_type m s | JNull \<Rightarrow> unmarshal_type m t | _ \<Rightarrow> None)
      else unmarshal_type m t)"

definition detectCredentialType :: "json option \<Rightarrow> (inject_error, string) result" where
  "detectCredentialType jsonData =
     (let parsed = (case jsonData of
                      Some (JObj m) \<Rightarrow> unmarshal_type m []
                    | Some JNull \<Rightarrow> Some []
                    | _ \<Rightarrow> None)
      in case parsed of
           None \<Rightarrow> Inl ParseCredentialFile
         | Some t \<Rightarrow> if t \<in> set allowedCredentialTypes then Inr t else Inl (UnsupportedCredentialType t))"

text \<open>\<open>g_tokenSource\<close> is the cached credential, guarded in the source by the mutex \<open>mu\<close>.\<close>

record GCPInjector =
  g_saFilePath :: string
  g_defaultHeaders :: "(string, string) gomap"
  g_tokenSource :: "(json \<times> string) option"

definition NewGCPInjector :: "Route \<Rightarrow> (new_injector_error, GCPInjector) result" where
  "NewGCPInjector route =
     (if r_SAFilePath route = [] then Inl (RequiresField ''gcp'' ''saFilePath'')
      else Inr \<lparr>g_saFilePath = r_SAFilePath route, g_defaultHeaders = r_DefaultHeaders route,
                g_tokenSource = None\<rparr>)"

definition getTokenSource ::
  "World \<Rightarrow> GCPInjector \<Rightarrow> GCPInjector \<times> (inject_error, json \<times> string) result" where
  "getTokenSource w g =
     (case g_tokenSource g of
        Some ts \<Rightarrow> (g, Inr ts)
      | None \<Rightarrow>
          (case w_ReadFile w (g_saFilePath g) of
             None \<Rightarrow> (g, Inl (ReadSAFile (g_saFilePath g)))
           | Some saJSON \<Rightarrow>
               (case detectCredentialType saJSON of
                  Inl e \<Rightarrow> (g, Inl e)
                | Inr credType \<Rightarrow>
                    (case saJSON of
                       Some doc \<Rightarrow>
                         if w_CredentialsFromJSON w doc credType
                         then (g\<lparr>g_tokenSource := Some (doc, credType)\<rparr>, Inr (doc, credType))
                         else (g, Inl ParseGCPCredentials)
                     | None \<Rightarrow> (g, Inl ParseGCPCredentials)))))"

definition inject_GCP ::
  "World \<Rightarrow> GCPInjector \<Rightarrow> Request \<Rightarrow> GCPInjector \<times> (inject_error, Request) result" where
  "inject_GCP w g req =
     (if isTokenVendingRequest req then (g, Inr req)
      else case getTokenSource w g of
        (g', Inl e) \<Rightarrow> (g', Inl e)
      | (g', Inr (doc, ct)) \<Rightarrow>
          (g', case w_GCPToken w doc ct of
                 None \<Rightarrow> Inl ObtainGCPToken
               | Some tok \<Rightarrow>
                   Inr (req\<lparr>rq_Header := hdr_set ''Authorization'' (''Bearer '' @ tok)
                          (set_default_headers_but_auth (g_defaultHeaders g) (rq_Header req))\<rparr>)))"

definition TokenVendingResponse :: json where
  "TokenVendingResponse =
     JObj [(''access_token'', JStr ''claw-proxy-vended-token''), (''expires_in'', JNum 3600),
           (''token_type'', JStr ''Bearer'')]"

subsection \<open>OAuth2 client credentials\<close>

text \<open>The state behind \<open>sync.Once\<close>: not run yet, failed, or holding a token source.\<close>

datatype once_state = NotRun | InitErr inject_error | TokenSource oauth2_config

record OAuth2Injector =
  o_envVar :: string
  o_clientID :: string
  o_tokenURL :: string
  o_scopes :: "string list"
  o_defaultHeaders :: "(string, string) gomap"
  o_once :: once_state

definition NewOAuth2Injector :: "Route \<Rightarrow> (new_injector_error, OAuth2Injector) result" where
  "NewOAuth2Injector route =
     (if r_EnvVar route = [] then Inl (RequiresField ''oauth2'' ''envVar'')
      else if r_ClientID route = [] then Inl (RequiresField ''oauth2'' ''clientID'')
      else if r_TokenURL route = [] then Inl (RequiresField ''oauth2'' ''tokenURL'')
      else Inr \<lparr>o_envVar = r_EnvVar route, o_clientID = r_ClientID route, o_tokenURL = r_TokenURL route,
                o_scopes = r_Scopes route, o_defaultHeaders = r_DefaultHeaders route, o_once = NotRun\<rparr>)"

definition initTokenSource :: "World \<Rightarrow> OAuth2Injector \<Rightarrow> once_state" where
  "initTokenSource w o1 =
     (let clientSecret = w_Getenv w (o_envVar o1)
      in if clientSecret = [] then InitErr (EnvVarEmpty (o_envVar o1))
         else TokenSource \<lparr>oc_ClientID = o_clientID o1, oc_ClientSecret = clientSecret,
                           oc_TokenURL = o_tokenURL o1, oc_Scopes = o_scopes o1\<rparr>)"

definition oauth2_once :: "World \<Rightarrow> OAuth2Injector \<Rightarrow> OAuth2Injector" where
  "oauth2_once w o1 = (case o_once o1 of NotRun \<Rightarrow> o1\<lparr>o_once := initTokenSource w o1\<rparr> | _ \<Rightarrow> o1)"

definition inject_OAuth2 ::
  "World \<Rightarrow> OAuth2Injector \<Rightarrow> Request \<Rightarrow> OAuth2Injector \<times> (inject_error, Request) result" where
  "inject_OAuth2 w o0 req =
     (let o1 = oauth2_once w o0
      in (o1,
          case o_once o1 of
            TokenSource cfg \<Rightarrow>
              (case w_OAuth2Token w cfg of
                 None \<Rightarrow> Inl TokenExchangeFailed
               | Some tok \<Rightarrow>
                   Inr (req\<lparr>rq_Header := hdr_set ''Authorization'' (''Bearer '' @ tok)
                          (set_default_headers_but_auth (o_defaultHeaders o1) (rq_Header req))\<rparr>))
          | InitErr e \<Rightarrow> Inl e
          | NotRun \<Rightarrow> Inl TokenExchangeFailed))"

subsection \<open>Kubernetes\<close>

definition normalizeRequestHost :: "string \<Rightarrow> string" where
  "normalizeRequestHost rawHost =
     (case SplitHostPort rawHost of
        Some (h, port) \<Rightarrow> ToLower h @ '':'' @ port
      | None \<Rightarrow> ToLower rawHost @ '':'' @ ''443'')"

definition normalizeHost :: "string \<Rightarrow> string" where
  "normalizeHost serverURL =
     (case UrlParse serverURL of
        None \<Rightarrow> []
      | Some u \<Rightarrow>
          let hostname = Hostname u; port = (if Port u = [] then ''443'' else Port u)
          in if hostname = [] then [] else ToLower hostname @ '':'' @ port)"

record KubernetesInjector =
  k_tokens :: "(string, string) gomap"
  k_defaultHeaders :: "(string, string) gomap"

text \<open>The walk over the contexts, in the map's iteration order.\<close>

fun context_tokens ::
  "kubeconfig \<Rightarrow> (string \<times> kube_context) list \<Rightarrow> (string, string) gomap \<Rightarrow>
     (new_injector_error, (string, string) gomap) result" where
  "context_tokens cfg [] tokens = Inr tokens"
| "context_tokens cfg ((ctxName, ctx) # rest) tokens =
     (case (map_of (kcfg_Clusters cfg) (kx_Cluster ctx), map_of (kcfg_AuthInfos cfg) (kx_AuthInfo ctx)) of
        (Some cluster, Some authInfo) \<Rightarrow>
          if ka_Token authInfo = [] then Inl (ContextHasNoToken ctxName (kx_AuthInfo ctx))
          else let key = normalizeHost (kc_Server cluster)
               in context_tokens cfg rest (if key = [] then tokens else AList.update key (ka_Token authInfo) tokens)
      | _ \<Rightarrow> context_tokens cfg rest tokens)"

definition NewKubernetesInjector :: "World \<Rightarrow> Route \<Rightarrow> (new_injector_error, KubernetesInjector) result" where
  "NewKubernetesInjector w route =
     (if r_KubeconfigPath route = [] then Inl (RequiresField ''kubernetes'' ''kubeconfigPath'')
      else case w_LoadKubeconfig w (r_KubeconfigPath route) of
        None \<Rightarrow> Inl (LoadKubeconfigFailed (r_KubeconfigPath route))
      | Some cfg \<Rightarrow>
          rbind (context_tokens cfg (kcfg_Contexts cfg) [])
            (\<lambda>tokens. Inr \<lparr>k_tokens = tokens, k_defaultHeaders = r_DefaultHeaders route\<rparr>))"

definition inject_Kubernetes ::
  "World \<Rightarrow> KubernetesInjector \<Rightarrow> Request \<Rightarrow> KubernetesInjector \<times> (inject_error, Request) result" where
  "inject_Kubernetes w k req =
     (k, let host = normalizeRequestHost (rq_URLHost req)
         in case map_of (k_tokens k) host of
              None \<Rightarrow> Inl (NoTokenForHost host)
            | Some token \<Rightarrow>
                Inr (req\<lparr>rq_Header := set_default_headers (k_defaultHeaders k)
                       (hdr_set ''Authorization'' (''Bearer '' @ token) (rq_Header req))\<rparr>))"

subsection \<open>The Injector interface and NewInjector\<close>

datatype Injector =
    IAPIKey APIKeyInjector
  | IBearer BearerInjector
  | IBasic BasicInjector
  | IGCP GCPInjector
  | INone NoneInjector
  | IPathToken PathTokenInjector
  | IOAuth2 OAuth2Injector
  | IKubernetes KubernetesInjector

definition NewInjector :: "World \<Rightarrow> Route \<Rightarrow> (new_injector_error, Injector) result" where
  "NewInjector w route =
     (if r_Injector route = ''api_key'' then rbind (NewAPIKeyInjector route) (Inr \<circ> IAPIKey)
      else if r_Injector route = ''bearer'' then rbind (NewBearerInjector route) (Inr \<circ> IBearer)
      else if r_Injector route = ''basic'' then rbind (NewBasicInjector route) (Inr \<circ> IBasic)
      else if r_Injector route = ''gcp'' then rbind (NewGCPInjector route) (Inr \<circ> IGCP)
      else if r_Injector route = ''none'' then rbind (NewNoneInjector route) (Inr \<circ> INone)
      else if r_Injector route = ''path_token'' then rbind (NewPathTokenInjector route) (Inr \<circ> IPathToken)
      else if r_Injector route = ''oauth2'' then rbind (NewOAuth2Injector route) (Inr \<circ> IOAuth2)
      else if r_Injector route = ''kubernetes'' then rbind (NewKubernetesInjector w route) (Inr \<circ> IKubernetes)
      else Inl (UnknownInjector (r_Injector route)))"

fun Inject :: "World \<Rightarrow> Injector \<Rightarrow> Request \<Rightarrow> Injector \<times> (inject_error, Request) result" where
  "Inject w (IAPIKey i) req = map_prod IAPIKey id (inject_APIKey w i req)"
| "Inject w (IBearer i) req = map_prod IBearer id (inject_Bearer w i req)"
| "Inject w (IBasic i) req = map_prod IBasic id (inject_Basic w i req)"
| "Inject w (IGCP i) req = map_prod IGCP id (inject_GCP w i req)"
| "Inject w (INone i) req = map_prod INone id (inject_None w i req)"
| "Inject w (IPathToken i) req = map_prod IPathToken id (inject_PathToken w i req)"
| "Inject w (IOAuth2 i) req = map_prod IOAuth2 id (inject_OAuth2 w i req)"
| "Inject w (IKubernetes i) req = map_prod IKubernetes id (inject_Kubernetes w i req)"

subsection \<open>Header maps\<close>

definition is_auth_header :: "string \<Rightarrow> bool" where
  "is_auth_header k \<longleftrightarrow> k \<in> set authHeaders \<or> is_impersonate_extra k"

lemma wf_header_hdr_set [simp]: "wf_header h \<Longrightarrow> wf_header (hdr_set k v h)"
  by (auto simp: wf_header_def hdr_set_def distinct_update list_all_iff dom_update)

lemma wf_header_hdr_del [simp]: "wf_header h \<Longrightarrow> wf_header (hdr_del k h)"
  by (auto simp: wf_header_def hdr_del_def list_all_iff delete_keys distinct_removeAll)

lemma map_of_hdr_set [simp]: "map_of (hdr_set k v h) = (map_of h)(CanonicalHeaderKey k \<mapsto> [v])"
  by (simp add: hdr_set_def)

lemma map_of_hdr_del [simp]: "map_of (hdr_del k h) = (map_of h)(CanonicalHeaderKey k := None)"
  by (simp add: hdr_del_def)

lemma authHeaders_canonical: "map CanonicalHeaderKey authHeaders = authHeaders"
  by code_simp

lemma map_of_fold_hdr_del:
  "map_of (fold hdr_del ks h) k = (if k \<in> CanonicalHeaderKey ` set ks then None else map_of h k)"
  by (induction ks arbitrary: h) auto

lemma wf_header_fold_hdr_del: "wf_header h \<Longrightarrow> wf_header (fold hdr_del ks h)"
  by (induction ks arbitrary: h) auto

lemma fold_cond_filter: "fold (\<lambda>k m. if P k then f k m else m) ks m = fold f (filter P ks) m"
  by (induction ks arbitrary: m) auto

lemma wf_header_strip_headers: "wf_header h \<Longrightarrow> wf_header (strip_headers h)"
  by (simp add: strip_headers_def Let_def fold_cond_filter wf_header_fold_hdr_del)

text \<open>On a well-formed header map \<open>StripAuthHeaders\<close> removes the credential headers and nothing else.\<close>

lemma map_of_strip_headers:
  assumes "wf_header h"
  shows "map_of (strip_headers h) k = (if is_auth_header k then None else map_of h k)"
proof -
  let ?h1 = "fold hdr_del authHeaders h"
  have wf: "wf_header ?h1" using assms by (rule wf_header_fold_hdr_del)
  have h1: "map_of ?h1 k = (if k \<in> set authHeaders then None else map_of h k)"
    by (simp add: map_of_fold_hdr_del flip: set_map add: authHeaders_canonical)
  have canon: "CanonicalHeaderKey x = x" if "x \<in> set (map fst ?h1)" for x
    using wf that by (auto simp: wf_header_def list_all_iff)
  let ?ks = "filter is_impersonate_extra (map fst ?h1)"
  have img: "CanonicalHeaderKey ` set ?ks = set ?ks"
    using canon by (auto simp: image_iff)
  have "map_of (strip_headers h) k = (if k \<in> set ?ks then None else map_of ?h1 k)"
    by (simp add: strip_headers_def Let_def fold_cond_filter map_of_fold_hdr_del img del: set_filter)
  also have "\<dots> = (if is_impersonate_extra k then None else map_of ?h1 k)"
    by (auto simp: map_of_eq_None_iff)
  finally show ?thesis using h1 by (auto simp: is_auth_header_def)
qed

lemma set_default_headers_simps [simp]:
  "set_default_headers [] h = h"
  "set_default_headers ((k, v) # es) h = set_default_headers es (hdr_set k v h)"
  by (simp_all add: set_default_headers_def)

lemma set_default_headers_append [simp]:
  "set_default_headers (es @ fs) h = set_default_headers fs (set_default_headers es h)"
  by (simp add: set_default_headers_def)

lemma set_default_headers_but_auth_filter:
  "set_default_headers_but_auth dh h =
     set_default_headers (filter (\<lambda>(k, v). \<not> EqualFold k ''Authorization'') dh) h"
  by (induction dh arbitrary: h) (auto simp: set_default_headers_but_auth_def)

lemma wf_header_set_default_headers [simp]: "wf_header h \<Longrightarrow> wf_header (set_default_headers es h)"
  by (induction es arbitrary: h) auto

text \<open>What a list of header settings leaves at a key does not depend on the map outside that key.\<close>

lemma set_default_headers_agree:
  "map_of h = map_of h' \<Longrightarrow> map_of (set_default_headers es h) = map_of (set_default_headers es h')"
  by (induction es arbitrary: h h') auto

lemma set_default_headers_untouched:
  "k \<notin> CanonicalHeaderKey ` fst ` set es \<Longrightarrow> map_of (set_default_headers es h) k = map_of h k"
  by (induction es arbitrary: h) (auto simp: image_iff)

lemma set_default_headers_written:
  "k \<in> CanonicalHeaderKey ` fst ` set es \<Longrightarrow>
     \<exists>c v. (c, v) \<in> set es \<and> CanonicalHeaderKey c = k \<and> map_of (set_default_headers es h) k = Some [v]"
proof (induction es arbitrary: h rule: rev_induct)
  case (snoc e es)
  obtain c v where e: "e = (c, v)" by (cases e)
  show ?case
  proof (cases "CanonicalHeaderKey c = k")
    case True
    then show ?thesis using e by (intro exI [of _ c] exI [of _ v]) simp
  next
    case False
    with snoc.prems e have "k \<in> CanonicalHeaderKey ` fst ` set es" by auto
    from snoc.IH [OF this, of h] obtain c' v' where
      "(c', v') \<in> set es" "CanonicalHeaderKey c' = k" "map_of (set_default_headers es h) k = Some [v']"
      by blast
    with e False show ?thesis by (intro exI [of _ c'] exI [of _ v']) auto
  qed
qed simp

subsection \<open>The contract of an injector\<close>

text \<open>
  A plan decides, without looking at the request's headers, between an error and a request path with
  a list of header settings. The injector does nothing but carry its plan out.
\<close>

type_synonym inject_plan = "(inject_error, string \<times> (string \<times> string) list) result"

definition carry_out :: "inject_plan \<Rightarrow> Request \<Rightarrow> (inject_error, Request) result" where
  "carry_out pl r =
     rbind pl (\<lambda>(p, es). Inr (r\<lparr>rq_Path := p, rq_Header := set_default_headers es (rq_Header r)\<rparr>))"

lemma carry_out_simps [simp]:
  "carry_out (Inl e) r = Inl e"
  "carry_out (Inr (p, es)) r = Inr (r\<lparr>rq_Path := p, rq_Header := set_default_headers es (rq_Header r)\<rparr>)"
  by (simp_all add: carry_out_def)

locale injector =
  fixes inject :: "World \<Rightarrow> 'i \<Rightarrow> Request \<Rightarrow> 'i \<times> (inject_error, Request) result"
    and plan :: "World \<Rightarrow> 'i \<Rightarrow> Request \<Rightarrow> 'i \<times> inject_plan"
  assumes plan_blind: "plan w i (r\<lparr>rq_Header := h\<rparr>) = plan w i r"
    and inject_plan: "inject w i r = (fst (plan w i r), carry_out (snd (plan w i r)) r)"
begin

lemma inject_state_blind: "fst (inject w i (r\<lparr>rq_Header := h\<rparr>)) = fst (inject w i r)"
  by (simp add: inject_plan plan_blind)

lemma inject_error_blind:
  "snd (inject w i (r\<lparr>rq_Header := h\<rparr>)) = Inl e \<longleftrightarrow> snd (inject w i r) = Inl e"
  by (auto simp: inject_plan plan_blind carry_out_def rbind_eq_Inl)

lemma inject_frame:
  assumes "snd (inject w i r) = Inr q"
  shows "rq_Method q = rq_Method r \<and> rq_Host q = rq_Host r \<and> rq_URLScheme q = rq_URLScheme r \<and>
    rq_URLHost q = rq_URLHost r \<and> rq_RawPath q = rq_RawPath r \<and>
    (wf_header (rq_Header r) \<longrightarrow> wf_header (rq_Header q))"
  using assms by (auto simp: inject_plan carry_out_def rbind_eq_Inr)

lemma inject_agree:
  assumes "snd (inject w i r) = Inr q" and "map_of h = map_of (rq_Header r)"
  shows "\<exists>h'. snd (inject w i (r\<lparr>rq_Header := h\<rparr>)) = Inr (q\<lparr>rq_Header := h'\<rparr>) \<and>
    map_of h' = map_of (rq_Header q)"
proof -
  from assms(1) obtain p es where p: "snd (plan w i r) = Inr (p, es)"
      and q: "q = r\<lparr>rq_Path := p, rq_Header := set_default_headers es (rq_Header r)\<rparr>"
    by (auto simp: inject_plan carry_out_def rbind_eq_Inr)
  show ?thesis
    using set_default_headers_agree [OF assms(2), of es] p q
    by (intro exI [of _ "set_default_headers es h"]) (simp add: inject_plan plan_blind)
qed

end

text \<open>Injectors that write their credential to Authorization after every other header.\<close>

locale authorization_injector = injector inject plan
  for inject :: "World \<Rightarrow> 'i \<Rightarrow> Request \<Rightarrow> 'i \<times> (inject_error, Request) result" and plan +
  fixes credential :: "World \<Rightarrow> 'i \<Rightarrow> Request \<Rightarrow> string"
    and exempt :: "Request \<Rightarrow> bool"
  assumes credential_last:
    "snd (plan w i r) = Inr (p, es) \<Longrightarrow> \<not> exempt r \<Longrightarrow> \<exists>es'. es = es' @ [(''Authorization'', credential w i r)]"
begin

lemma authorization_is_credential:
  assumes "snd (inject w i r) = Inr q" and "\<not> exempt r"
  shows "hdr_get (rq_Header q) ''Authorization'' = credential w i r"
proof -
  from assms(1) obtain p es where p: "snd (plan w i r) = Inr (p, es)"
      and q: "q = r\<lparr>rq_Path := p, rq_Header := set_default_headers es (rq_Header r)\<rparr>"
    by (auto simp: inject_plan carry_out_def rbind_eq_Inr)
  from credential_last [OF p assms(2)] q show ?thesis by (auto simp: hdr_get_def)
qed

end

definition plan_APIKey :: "World \<Rightarrow> APIKeyInjector \<Rightarrow> Request \<Rightarrow> APIKeyInjector \<times> inject_plan" where
  "plan_APIKey w a r =
     (a, let v = w_Getenv w (ak_envVar a)
         in if v = [] then Inl (EnvVarEmpty (ak_envVar a))
            else Inr (rq_Path r, (ak_header a, ak_valuePrefix a @ v) # ak_defaultHeaders a))"

definition others :: "(string, string) gomap \<Rightarrow> (string \<times> string) list" where
  "others dh = filter (\<lambda>(k, v). \<not> EqualFold k ''Authorization'') dh"

definition plan_Basic :: "World \<Rightarrow> BasicInjector \<Rightarrow> Request \<Rightarrow> BasicInjector \<times> inject_plan" where
  "plan_Basic w b r =
     (b, let v = w_Getenv w (ba_envVar b)
         in if v = [] then Inl (EnvVarEmpty (ba_envVar b))
            else Inr (rq_Path r, others (ba_defaultHeaders b) @
                   [(''Authorization'', ''Basic '' @ b64_encode (ba_username b @ '':'' @ v))]))"

definition plan_Bearer :: "World \<Rightarrow> BearerInjector \<Rightarrow> Request \<Rightarrow> BearerInjector \<times> inject_plan" where
  "plan_Bearer w b r =
     (b, let v = w_Getenv w (be_envVar b)
         in if v = [] then Inl (EnvVarEmpty (be_envVar b))
            else Inr (rq_Path r, others (be_defaultHeaders b) @ [(''Authorization'', ''Bearer '' @ v)]))"

definition plan_None :: "World \<Rightarrow> NoneInjector \<Rightarrow> Request \<Rightarrow> NoneInjector \<times> inject_plan" where
  "plan_None w n r = (n, Inr (rq_Path r, no_defaultHeaders n))"

text \<open>The path a path-token injector writes: the token replaces the element after the prefix.\<close>

definition token_path :: "string \<Rightarrow> string \<Rightarrow> string \<Rightarrow> string" where
  "token_path pre token path = pre @ token @ dropWhile (\<lambda>c. c \<noteq> CHR ''/'') (drop (length pre) path)"

definition plan_PathToken :: "World \<Rightarrow> PathTokenInjector \<Rightarrow> Request \<Rightarrow> PathTokenInjector \<times> inject_plan" where
  "plan_PathToken w p r =
     (p, let token = w_Getenv w (pt_envVar p)
         in if token = [] then Inl (EnvVarEmpty (pt_envVar p))
            else if \<not> HasPrefix (rq_Path r) (pt_pathPrefix p)
            then Inl (PathPrefixMismatch (rq_Path r) (pt_pathPrefix p))
            else Inr (token_path (pt_pathPrefix p) token (rq_Path r), pt_defaultHeaders p))"

definition bearer_plan :: "string \<Rightarrow> (string, string) gomap \<Rightarrow> inject_error \<Rightarrow> string option \<Rightarrow> inject_plan" where
  "bearer_plan path dh e tok =
     (case tok of
        None \<Rightarrow> Inl e
      | Some t \<Rightarrow> Inr (path, others dh @ [(''Authorization'', ''Bearer '' @ t)]))"

definition plan_GCP :: "World \<Rightarrow> GCPInjector \<Rightarrow> Request \<Rightarrow> GCPInjector \<times> inject_plan" where
  "plan_GCP w g r =
     (if isTokenVendingRequest r then (g, Inr (rq_Path r, []))
      else (fst (getTokenSource w g),
            rbind (snd (getTokenSource w g))
              (\<lambda>(doc, ct). bearer_plan (rq_Path r) (g_defaultHeaders g) ObtainGCPToken (w_GCPToken w doc ct))))"

definition plan_OAuth2 :: "World \<Rightarrow> OAuth2Injector \<Rightarrow> Request \<Rightarrow> OAuth2Injector \<times> inject_plan" where
  "plan_OAuth2 w o0 r =
     (let o1 = oauth2_once w o0
      in (o1, case o_once o1 of
                TokenSource cfg \<Rightarrow>
                  bearer_plan (rq_Path r) (o_defaultHeaders o1) TokenExchangeFailed (w_OAuth2Token w cfg)
              | InitErr e \<Rightarrow> Inl e
              | NotRun \<Rightarrow> Inl TokenExchangeFailed))"

definition plan_Kubernetes ::
  "World \<Rightarrow> KubernetesInjector \<Rightarrow> Request \<Rightarrow> KubernetesInjector \<times> inject_plan" where
  "plan_Kubernetes w k r =
     (k, case map_of (k_tokens k) (normalizeRequestHost (rq_URLHost r)) of
           None \<Rightarrow> Inl (NoTokenForHost (normalizeRequestHost (rq_URLHost r)))
         | Some token \<Rightarrow> Inr (rq_Path r, (''Authorization'', ''Bearer '' @ token) # k_defaultHeaders k))"

fun plan_of :: "World \<Rightarrow> Injector \<Rightarrow> Request \<Rightarrow> Injector \<times> inject_plan" where
  "plan_of w (IAPIKey i) r = map_prod IAPIKey id (plan_APIKey w i r)"
| "plan_of w (IBearer i) r = map_prod IBearer id (plan_Bearer w i r)"
| "plan_of w (IBasic i) r = map_prod IBasic id (plan_Basic w i r)"
| "plan_of w (IGCP i) r = map_prod IGCP id (plan_GCP w i r)"
| "plan_of w (INone i) r = map_prod INone id (plan_None w i r)"
| "plan_of w (IPathToken i) r = map_prod IPathToken id (plan_PathToken w i r)"
| "plan_of w (IOAuth2 i) r = map_prod IOAuth2 id (plan_OAuth2 w i r)"
| "plan_of w (IKubernetes i) r = map_prod IKubernetes id (plan_Kubernetes w i r)"

lemma isTokenVendingRequest_blind [simp]:
  "isTokenVendingRequest (r\<lparr>rq_Header := h\<rparr>) = isTokenVendingRequest r"
  by (simp add: isTokenVendingRequest_def)

lemma token_path_IndexByte:
  "HasPrefix path pre \<Longrightarrow>
     token_path pre token path =
       (case IndexByte (drop (length pre) path) (CHR ''/'') of
          Some idx \<Rightarrow> pre @ token @ drop idx (drop (length pre) path)
        | None \<Rightarrow> pre @ token)"
proof -
  have "dropWhile (\<lambda>c. c \<noteq> CHR ''/'') s =
      (case IndexByte s (CHR ''/'') of Some i \<Rightarrow> drop i s | None \<Rightarrow> [])" for s
    by (induction s) (auto split: option.splits)
  then show ?thesis by (simp add: token_path_def split: option.splits)
qed

lemma set_default_headers_but_auth_others:
  "set_default_headers_but_auth dh h = set_default_headers (others dh) h"
  by (simp add: others_def set_default_headers_but_auth_filter)

lemmas plan_defs = plan_APIKey_def plan_Basic_def plan_Bearer_def plan_None_def plan_PathToken_def
  plan_GCP_def plan_OAuth2_def plan_Kubernetes_def bearer_plan_def Let_def

lemmas inject_defs = inject_APIKey_def inject_Basic_def inject_Bearer_def inject_None_def
  inject_PathToken_def inject_GCP_def inject_OAuth2_def inject_Kubernetes_def
  set_default_headers_but_auth_others

interpretation api_key: injector inject_APIKey plan_APIKey
  by unfold_locales (auto simp: plan_defs inject_defs)

interpretation none: injector inject_None plan_None
  by unfold_locales (auto simp: plan_defs inject_defs)

interpretation path_token: injector inject_PathToken plan_PathToken
  by unfold_locales (auto simp: plan_defs inject_defs token_path_IndexByte split: option.splits)

interpretation kubernetes: injector inject_Kubernetes plan_Kubernetes
  by unfold_locales (auto simp: plan_defs inject_defs split: option.splits)

interpretation bearer: authorization_injector inject_Bearer plan_Bearer
    "\<lambda>w b r. ''Bearer '' @ w_Getenv w (be_envVar b)" "\<lambda>r. False"
  by unfold_locales (auto simp: plan_defs inject_defs split: if_splits)

interpretation basic: authorization_injector inject_Basic plan_Basic
    "\<lambda>w b r. ''Basic '' @ b64_encode (ba_username b @ '':'' @ w_Getenv w (ba_envVar b))" "\<lambda>r. False"
  by unfold_locales (auto simp: plan_defs inject_defs split: if_splits)

definition gcp_credential :: "World \<Rightarrow> GCPInjector \<Rightarrow> Request \<Rightarrow> string" where
  "gcp_credential w g r =
     (case snd (getTokenSource w g) of
        Inr (doc, ct) \<Rightarrow> (case w_GCPToken w doc ct of Some t \<Rightarrow> ''Bearer '' @ t | None \<Rightarrow> [])
      | Inl e \<Rightarrow> [])"

interpretation gcp: authorization_injector inject_GCP plan_GCP gcp_credential isTokenVendingRequest
  by unfold_locales
    (auto simp: plan_defs inject_defs gcp_credential_def rbind_eq_Inr split: prod.splits sum.splits option.splits)

definition oauth2_credential :: "World \<Rightarrow> OAuth2Injector \<Rightarrow> Request \<Rightarrow> string" where
  "oauth2_credential w o0 r =
     (case o_once (oauth2_once w o0) of
        TokenSource cfg \<Rightarrow> (case w_OAuth2Token w cfg of Some t \<Rightarrow> ''Bearer '' @ t | None \<Rightarrow> [])
      | _ \<Rightarrow> [])"

interpretation oauth2: authorization_injector inject_OAuth2 plan_OAuth2 oauth2_credential "\<lambda>r. False"
  by unfold_locales
    (auto simp: plan_defs inject_defs oauth2_credential_def split: once_state.splits option.splits)

interpretation dispatch: injector Inject plan_of
proof
  fix w i r h
  show "plan_of w i (r\<lparr>rq_Header := h\<rparr>) = plan_of w i r"
    by (cases i) (simp_all add: api_key.plan_blind none.plan_blind path_token.plan_blind kubernetes.plan_blind
      bearer.plan_blind basic.plan_blind gcp.plan_blind oauth2.plan_blind)
  show "Inject w i r = (fst (plan_of w i r), carry_out (snd (plan_of w i r)) r)"
    by (cases i) (simp_all add: api_key.inject_plan none.inject_plan path_token.inject_plan kubernetes.inject_plan
      bearer.inject_plan basic.inject_plan gcp.inject_plan oauth2.inject_plan)
qed

end
