(* ===== verification/Proxy_Server.thy ===== *)
theory Proxy_Server
  imports Proxy_Injectors
begin

section \<open>The proxy server (\<open>src/internal/proxy/server.go\<close>)\<close>

text \<open>
  \<open>NewServer\<close> with the CA checks and the gateway table, the two goproxy callbacks (CONNECT and
  request), gateway mode and the top-level \<open>Handler\<close>. Injector objects live in the store \<open>srv_heap\<close>;
  a route points into it, so a token cached by one request is seen by the next one on that route.

  The lemmas: every route of a server built by \<open>NewServer\<close> points to the injector its configuration
  describes, and every step keeps it so; client credentials never reach the upstream; and what each
  branch of the handlers answers.

  goproxy's own connection handling, TLS, and the hop-by-hop processing inside
  \<open>httputil.ReverseProxy\<close> are outside the model: a forwarded request is the one handed to them.
\<close>

subsection \<open>Certificates\<close>

text \<open>
  The X.509 functions of the standard library are the fields of \<open>pki\<close>; \<open>KeyUsageCertSign\<close> is bit 5
  of the key usage.
\<close>

datatype public_key = ECDSAKey nat int int | OtherKey

record ec_key =
  ek_Curve :: nat
  ek_X :: int
  ek_Y :: int

record certificate =
  c_IsCA :: bool
  c_KeyUsage :: nat
  c_PublicKey :: public_key

record pki =
  pki_PemDecode :: "string \<Rightarrow> string option"
  pki_ParseCertificate :: "string \<Rightarrow> certificate option"
  pki_ParseECPrivateKey :: "string \<Rightarrow> ec_key option"
  pki_SystemCertPool :: "string list option"
  pki_CertsFromPEM :: "string \<Rightarrow> string list"

datatype server_error =
    CACertPEM | CACertParse | NotCA | NoCertSign | CAKeyPEM | CAKeyParse | NotECDSA | KeyMismatch
  | CreateInjector string new_injector_error
  | ParseUpstream string string

definition parseCA :: "pki \<Rightarrow> string \<Rightarrow> string \<Rightarrow> (server_error, certificate \<times> ec_key) result" where
  "parseCA pk certPEM keyPEM =
     (case pki_PemDecode pk certPEM of
        None \<Rightarrow> Inl CACertPEM
      | Some certBlock \<Rightarrow>
     (case pki_ParseCertificate pk certBlock of
        None \<Rightarrow> Inl CACertParse
      | Some cert \<Rightarrow>
          if \<not> c_IsCA cert then Inl NotCA
          else if c_KeyUsage cert div 32 mod 2 = 0 then Inl NoCertSign
          else
     (case pki_PemDecode pk keyPEM of
        None \<Rightarrow> Inl CAKeyPEM
      | Some keyBlock \<Rightarrow>
     (case pki_ParseECPrivateKey pk keyBlock of
        None \<Rightarrow> Inl CAKeyParse
      | Some key \<Rightarrow>
     (case c_PublicKey cert of
        OtherKey \<Rightarrow> Inl NotECDSA
      | ECDSAKey curve x y \<Rightarrow>
          if curve \<noteq> ek_Curve key \<or> x \<noteq> ek_X key \<or> y \<noteq> ek_Y key then Inl KeyMismatch
          else Inr (cert, key))))))"

definition buildRootCAPool :: "pki \<Rightarrow> Config \<Rightarrow> string list" where
  "buildRootCAPool pk cfg =
     fold (\<lambda>r pool.
        if r_CACert r = [] then pool
        else case b64_decode (r_CACert r) of
               None \<Rightarrow> pool
             | Some pemBytes \<Rightarrow> pool @ pki_CertsFromPEM pk pemBytes)
       (Routes cfg) (case pki_SystemCertPool pk of None \<Rightarrow> [] | Some pool \<Rightarrow> pool)"

subsection \<open>Construction\<close>

record Server =
  srv_cfg :: Config
  srv_heap :: "Injector list"
  srv_gateways :: "(string, Url) gomap"
  srv_rootCAs :: "string list"

text \<open>The first loop allocates an injector per route; the heap grows by one object each time.\<close>

fun attach_injectors ::
  "World \<Rightarrow> Route list \<Rightarrow> Injector list \<Rightarrow> (server_error, Route list \<times> Injector list) result" where
  "attach_injectors w [] heap = Inr ([], heap)"
| "attach_injectors w (r # rs) heap =
     (case NewInjector w r of
        Inl e \<Rightarrow> Inl (CreateInjector (r_Domain r) e)
      | Inr ij \<Rightarrow>
          rbind (attach_injectors w rs (heap @ [ij]))
            (\<lambda>(rs', heap'). Inr (r\<lparr>r_injector := Some (length heap)\<rparr> # rs', heap')))"

definition register_gateway :: "Route \<Rightarrow> (string, Url) gomap \<Rightarrow> (server_error, (string, Url) gomap) result" where
  "register_gateway r gws =
     (if r_PathPrefix r = [] \<or> r_Upstream r = [] then Inr gws
      else case UrlParse (r_Upstream r) of
             None \<Rightarrow> Inl (ParseUpstream (r_Upstream r) (r_Domain r))
           | Some u \<Rightarrow> Inr (AList.update (r_PathPrefix r) u gws))"

definition NewServer :: "World \<Rightarrow> pki \<Rightarrow> Config \<Rightarrow> string \<Rightarrow> string \<Rightarrow> (server_error, Server) result" where
  "NewServer w pk cfg caCertPEM caKeyPEM =
     rbind (parseCA pk caCertPEM caKeyPEM) (\<lambda>_.
     rbind (attach_injectors w (Routes cfg) []) (\<lambda>(rs, heap).
     rbind (rfold register_gateway rs []) (\<lambda>gws.
       Inr \<lparr>srv_cfg = \<lparr>Routes = rs\<rparr>, srv_heap = heap, srv_gateways = gws,
            srv_rootCAs = buildRootCAPool pk cfg\<rparr>)))"

subsection \<open>Handlers\<close>

record Response =
  resp_Status :: nat
  resp_ContentType :: string
  resp_Body :: string

datatype connect_action = ConnectReject Response | ConnectAccept | ConnectMitm

definition text_response :: "nat \<Rightarrow> string \<Rightarrow> Response" where
  "text_response st body = \<lparr>resp_Status = st, resp_ContentType = ''text/plain'', resp_Body = body\<rparr>"

definition domain_not_allowed :: string where
  "domain_not_allowed = ''{\"error\":\"domain not allowed\"}''"

definition path_not_allowed :: string where
  "path_not_allowed = ''{\"error\":\"path not allowed\"}''"

definition injection_failed :: string where
  "injection_failed = ''{\"error\":\"credential injection failed\"}''"

definition no_gateway_route :: string where
  "no_gateway_route = ''{\"error\":\"no gateway route configured\"}''"

definition handleConnect :: "Config \<Rightarrow> string \<Rightarrow> connect_action \<times> string" where
  "handleConnect cfg host =
     (case MatchRoute cfg host [] of
        None \<Rightarrow> (ConnectReject (text_response 403 domain_not_allowed), host)
      | Some route \<Rightarrow>
          if \<not> NeedsMITMForHost cfg host then (ConnectAccept, host) else (ConnectMitm, host))"

text \<open>
  What a request handler does: forward a request, answer it, answer with the vended dummy token, or
  die on a nil or dangling injector.
\<close>

datatype outcome =
    Forward Request
  | Answer Response
  | VendToken json
  | Panic

text \<open>Calling the injector a route points to, in the server's store.\<close>

definition call_injector :: "World \<Rightarrow> Server \<Rightarrow> Route \<Rightarrow> Request \<Rightarrow> Server \<times> (inject_error, Request) result option" where
  "call_injector w s route req =
     (case r_injector route of
        None \<Rightarrow> (s, None)
      | Some a \<Rightarrow>
          if a < length (srv_heap s) then
            (case Inject w (srv_heap s ! a) req of
               (ij', res) \<Rightarrow> (s\<lparr>srv_heap := (srv_heap s)[a := ij']\<rparr>, Some res))
          else (s, None))"

text \<open>
  The code after the call: an injection error is answered, the injected request goes to \<open>next\<close>.
\<close>

definition after_call ::
  "(Request \<Rightarrow> Request) \<Rightarrow> Response \<Rightarrow> Server \<times> (inject_error, Request) result option \<Rightarrow> Server \<times> outcome" where
  "after_call next failed c =
     (fst c, case snd c of
               None \<Rightarrow> Panic
             | Some (Inl e) \<Rightarrow> Answer failed
             | Some (Inr req) \<Rightarrow> Forward (next req))"

definition drop_proxy_headers :: "Request \<Rightarrow> Request" where
  "drop_proxy_headers req = req\<lparr>rq_Header := hdr_del ''X-Forwarded-For'' (hdr_del ''Via'' (rq_Header req))\<rparr>"

definition handleRequest :: "World \<Rightarrow> Server \<Rightarrow> Request \<Rightarrow> Server \<times> outcome" where
  "handleRequest w s req =
     (case MatchRoute (srv_cfg s) (rq_URLHost req) (rq_Path req) of
        None \<Rightarrow> (s, Answer (text_response 403 domain_not_allowed))
      | Some route \<Rightarrow>
          if \<not> PathAllowed route (rq_Path req) then (s, Answer (text_response 403 path_not_allowed))
          else
            let req1 = StripAuthHeaders req
            in if r_Injector route = ''gcp'' \<and> isTokenVendingRequest req1 then (s, VendToken TokenVendingResponse)
               else after_call drop_proxy_headers (text_response 502 injection_failed)
                      (call_injector w s route req1))"

text \<open>The \<open>Director\<close> of a gateway's reverse proxy.\<close>

definition gateway_director :: "Url \<Rightarrow> Request \<Rightarrow> Request" where
  "gateway_director upstream req =
     req\<lparr>rq_URLScheme := u_Scheme upstream, rq_URLHost := u_Host upstream, rq_Host := u_Host upstream\<rparr>"

definition http_error :: "nat \<Rightarrow> string \<Rightarrow> Response" where
  "http_error st body =
     \<lparr>resp_Status = st, resp_ContentType = ''text/plain; charset=utf-8'', resp_Body = body @ [CHR 0x0A]\<rparr>"

text \<open>
  The rewriting after the injection: the route's default headers, the stripped path, no Via and no
  X-Forwarded-For, then the director.
\<close>

definition gateway_request :: "Url \<Rightarrow> Route \<Rightarrow> string \<Rightarrow> Request \<Rightarrow> Request" where
  "gateway_request upstream route strippedPath r =
     (let r1 = r\<lparr>rq_Header := set_default_headers (r_DefaultHeaders route) (rq_Header r)\<rparr>;
          r2 = r1\<lparr>rq_Path := strippedPath, rq_RawPath := []\<rparr>
      in gateway_director upstream (drop_proxy_headers r2))"

definition serveGateway :: "World \<Rightarrow> Server \<Rightarrow> Request \<Rightarrow> Route \<Rightarrow> string \<Rightarrow> Server \<times> outcome" where
  "serveGateway w s r route strippedPath =
     (case map_of (srv_gateways s) (r_PathPrefix route) of
        None \<Rightarrow> (s, Answer (http_error 502 no_gateway_route))
      | Some upstream \<Rightarrow>
          let r1 = StripAuthHeaders r
          in if r_Injector route = ''gcp'' \<and> isTokenVendingRequest r1 then (s, VendToken TokenVendingResponse)
             else after_call (gateway_request upstream route strippedPath) (http_error 502 injection_failed)
                    (call_injector w s route r1))"

text \<open>
  The top-level handler. \<^term>\<open>None\<close> is the delegation to goproxy, which calls \<open>handleConnect\<close> or
  \<open>handleRequest\<close> back.
\<close>

definition Handler :: "World \<Rightarrow> Server \<Rightarrow> Request \<Rightarrow> Server \<times> outcome option" where
  "Handler w s r =
     (if rq_Method r \<noteq> ''CONNECT'' \<and> rq_Path r = ''/healthz''
      then (s, Some (Answer \<lparr>resp_Status = 200, resp_ContentType = [], resp_Body = ''ok'' @ [CHR 0x0A]\<rparr>))
      else if rq_Method r \<noteq> ''CONNECT'' then
        (case MatchRouteByPath (srv_cfg s) (rq_Path r) of
           Some (route, strippedPath) \<Rightarrow> apsnd Some (serveGateway w s r route strippedPath)
         | None \<Rightarrow> (s, None))
      else (s, None))"

subsection \<open>The injector store\<close>

text \<open>An injector with its token cache emptied: what \<open>NewInjector\<close> returned.\<close>

fun fresh_of :: "Injector \<Rightarrow> Injector" where
  "fresh_of (IGCP g) = IGCP (g\<lparr>g_tokenSource := None\<rparr>)"
| "fresh_of (IOAuth2 o1) = IOAuth2 (o1\<lparr>o_once := NotRun\<rparr>)"
| "fresh_of i = i"

lemma fresh_of_Inject: "fresh_of (fst (Inject w i r)) = fresh_of i"
proof (cases i)
  case (IGCP g)
  then show ?thesis
    by (auto simp: inject_GCP_def getTokenSource_def split: option.splits sum.splits prod.splits)
next
  case (IOAuth2 o1)
  then show ?thesis by (auto simp: inject_OAuth2_def oauth2_once_def Let_def split: once_state.splits)
qed (simp_all add: inject_defs)

lemma NewInjector_fresh: "NewInjector w r = Inr i \<Longrightarrow> fresh_of i = i"
  by (auto simp: NewInjector_def rbind_eq_Inr NewGCPInjector_def NewOAuth2Injector_def split: if_splits)

lemma NewInjector_injector_blind [simp]: "NewInjector w (r\<lparr>r_injector := a\<rparr>) = NewInjector w r"
  by (simp add: NewInjector_def NewAPIKeyInjector_def NewBearerInjector_def NewBasicInjector_def
    NewGCPInjector_def NewNoneInjector_def NewPathTokenInjector_def NewOAuth2Injector_def
    NewKubernetesInjector_def split: option.split)

text \<open>The route's pointer is live, and the object behind it is the one its configuration describes.\<close>

definition route_live :: "World \<Rightarrow> Injector list \<Rightarrow> Route \<Rightarrow> bool" where
  "route_live w0 heap r \<longleftrightarrow>
     (\<exists>a. r_injector r = Some a \<and> a < length heap \<and> NewInjector w0 r = Inr (fresh_of (heap ! a)))"

definition gateway_live :: "(string, Url) gomap \<Rightarrow> Route \<Rightarrow> bool" where
  "gateway_live gws r \<longleftrightarrow>
     (r_PathPrefix r \<noteq> [] \<and> r_Upstream r \<noteq> [] \<longrightarrow> map_of gws (r_PathPrefix r) \<noteq> None)"

definition wf_server :: "World \<Rightarrow> Server \<Rightarrow> bool" where
  "wf_server w0 s \<longleftrightarrow>
     (\<forall>r \<in> set (Routes (srv_cfg s)). route_live w0 (srv_heap s) r \<and> gateway_live (srv_gateways s) r)"

lemma attach_injectors_heap:
  "attach_injectors w rs heap = Inr (rs', heap') \<Longrightarrow> prefix heap heap'"
proof (induction rs arbitrary: heap rs' heap')
  case (Cons r rs)
  then show ?case by (fastforce simp: rbind_eq_Inr split: sum.splits dest: append_prefixD)
qed simp

lemma attach_injectors_live:
  "attach_injectors w rs heap = Inr (rs', heap') \<Longrightarrow> r \<in> set rs' \<Longrightarrow> route_live w heap' r"
proof (induction rs arbitrary: heap rs' heap')
  case (Cons q rs)
  from Cons.prems(1) obtain i rs1 where i: "NewInjector w q = Inr i"
      and rest: "attach_injectors w rs (heap @ [i]) = Inr (rs1, heap')"
      and rs': "rs' = q\<lparr>r_injector := Some (length heap)\<rparr> # rs1"
    by (auto simp: rbind_eq_Inr split: sum.splits)
  from attach_injectors_heap [OF rest] obtain rest' where rest': "heap' = heap @ i # rest'"
    by (auto elim: prefixE)
  have "route_live w heap' (q\<lparr>r_injector := Some (length heap)\<rparr>)"
    using i rest' NewInjector_fresh [OF i] by (simp add: route_live_def)
  with Cons.IH [OF rest] Cons.prems(2) rs' show ?case by auto
qed simp

lemma attach_injectors_routes:
  "attach_injectors w rs heap = Inr (rs', heap') \<Longrightarrow>
     map (\<lambda>r. r\<lparr>r_injector := None\<rparr>) rs' = map (\<lambda>r. r\<lparr>r_injector := None\<rparr>) rs"
  by (induction rs arbitrary: heap rs' heap') (auto simp: rbind_eq_Inr split: sum.splits)

lemma register_gateway_live:
  assumes "rfold register_gateway rs gws = Inr gws'"
  shows "(\<forall>r \<in> set rs. gateway_live gws' r) \<and> (\<forall>k. map_of gws k \<noteq> None \<longrightarrow> map_of gws' k \<noteq> None)"
  using assms
proof (induction rs arbitrary: gws)
  case (Cons r rs)
  from Cons.prems obtain gws1 where g: "register_gateway r gws = Inr gws1"
      and rest: "rfold register_gateway rs gws1 = Inr gws'"
    by (auto simp: rbind_eq_Inr)
  from g have "gateway_live gws1 r" "\<forall>k. map_of gws k \<noteq> None \<longrightarrow> map_of gws1 k \<noteq> None"
    by (auto simp: register_gateway_def gateway_live_def split: if_splits option.splits)
  with Cons.IH [OF rest] show ?case by (auto simp: gateway_live_def)
qed simp

lemma NewServer_wf: "NewServer w pk cfg cert key = Inr s \<Longrightarrow> wf_server w s"
  by (auto simp: NewServer_def rbind_eq_Inr wf_server_def attach_injectors_live dest: register_gateway_live)

lemma call_injector_live:
  assumes "route_live w0 (srv_heap s) r"
  obtains a where "r_injector r = Some a" "a < length (srv_heap s)"
    "NewInjector w0 r = Inr (fresh_of (srv_heap s ! a))"
    "call_injector w s r q =
       (s\<lparr>srv_heap := (srv_heap s)[a := fst (Inject w (srv_heap s ! a) q)]\<rparr>, Some (snd (Inject w (srv_heap s ! a) q)))"
  using assms by (auto simp: route_live_def call_injector_def split: prod.splits)

lemma route_live_update:
  assumes "route_live w0 heap r"
  shows "route_live w0 (heap[a := fst (Inject w (heap ! a) q)]) r"
  using assms by (cases "a < length heap") (auto simp: route_live_def nth_list_update fresh_of_Inject)

lemma call_injector_wf: "wf_server w0 s \<Longrightarrow> wf_server w0 (fst (call_injector w s r q))"
  by (auto simp: call_injector_def wf_server_def route_live_update split: option.split prod.split)
    (metis fst_conv route_live_update)+

lemma handleRequest_state:
  "fst (handleRequest w s q) = s \<or> (\<exists>r q'. fst (handleRequest w s q) = fst (call_injector w s r q'))"
  by (auto simp: handleRequest_def after_call_def Let_def split: option.split)

lemma serveGateway_state:
  "fst (serveGateway w s q r p) = s \<or> (\<exists>q'. fst (serveGateway w s q r p) = fst (call_injector w s r q'))"
  by (auto simp: serveGateway_def after_call_def Let_def split: option.split)

subsection \<open>Runs of the server\<close>

text \<open>
  A server built at start-up in the world \<open>w0\<close> serves requests in any order, each in the world of
  its own moment (secret files and token services change while the process runs).
\<close>

inductive server_run :: "World \<Rightarrow> pki \<Rightarrow> Config \<Rightarrow> Server \<Rightarrow> bool" for w0 pk cfg where
  start: "NewServer w0 pk cfg cert key = Inr s \<Longrightarrow> server_run w0 pk cfg s"
| request: "server_run w0 pk cfg s \<Longrightarrow> server_run w0 pk cfg (fst (handleRequest w s q))"
| handler: "server_run w0 pk cfg s \<Longrightarrow> server_run w0 pk cfg (fst (Handler w s q))"

inductive_cases server_runE: "server_run w0 pk cfg s"

lemma handleRequest_wf: "wf_server w0 s \<Longrightarrow> wf_server w0 (fst (handleRequest w s q))"
  using handleRequest_state [of w s q] call_injector_wf [of w0 s w] by metis

lemma serveGateway_wf: "wf_server w0 s \<Longrightarrow> wf_server w0 (fst (serveGateway w s q r p))"
  using serveGateway_state [of w s q r p] call_injector_wf [of w0 s w] by metis

lemma Handler_wf: "wf_server w0 s \<Longrightarrow> wf_server w0 (fst (Handler w s q))"
  by (auto simp: Handler_def serveGateway_wf split: option.split)

lemma server_run_wf: "server_run w0 pk cfg s \<Longrightarrow> wf_server w0 s"
  by (induction rule: server_run.induct) (auto intro: NewServer_wf handleRequest_wf Handler_wf)

lemma call_injector_cfg [simp]:
  "srv_cfg (fst (call_injector w s r q)) = srv_cfg s"
  "srv_gateways (fst (call_injector w s r q)) = srv_gateways s"
  by (auto simp: call_injector_def split: option.split prod.split)

lemma handleRequest_cfg: "srv_cfg (fst (handleRequest w s q)) = srv_cfg s"
  using handleRequest_state [of w s q] by (metis call_injector_cfg(1))

lemma Handler_cfg: "srv_cfg (fst (Handler w s q)) = srv_cfg s"
proof -
  have "srv_cfg (fst (serveGateway w s q r p)) = srv_cfg s" for r p
    using serveGateway_state [of w s q r p] by (metis call_injector_cfg(1))
  then show ?thesis by (auto simp: Handler_def split: option.split)
qed

lemma server_run_routes:
  "server_run w0 pk cfg s \<Longrightarrow>
     map (\<lambda>r. r\<lparr>r_injector := None\<rparr>) (Routes (srv_cfg s)) = map (\<lambda>r. r\<lparr>r_injector := None\<rparr>) (Routes cfg)"
proof (induction rule: server_run.induct)
  case (start cert key s)
  then show ?case by (auto simp: NewServer_def rbind_eq_Inr dest: attach_injectors_routes)
qed (simp_all add: handleRequest_cfg Handler_cfg)

lemma MatchRoute_in_Routes: "MatchRoute c host path = Some r \<Longrightarrow> r \<in> set (Routes c) \<and> route_matches host r"
  by (blast dest: MatchRoute_candidate candidates_subset)

lemma match_by_path_in: "match_by_path rs path = Some (r, p) \<Longrightarrow> r \<in> set rs \<and> r_PathPrefix r \<noteq> [] \<and> r_Upstream r \<noteq> []"
  by (induction rs path rule: match_by_path.induct) (auto split: if_splits)

subsection \<open>What the request handler forwards\<close>

text \<open>The four ways \<open>handleRequest\<close> ends on a live route, as one rule.\<close>

lemma handleRequest_Forward:
  assumes "handleRequest w s q = (s', Forward f)"
  obtains r a q2 where
    "MatchRoute (srv_cfg s) (rq_URLHost q) (rq_Path q) = Some r" "PathAllowed r (rq_Path q)"
    "\<not> (r_Injector r = ''gcp'' \<and> isTokenVendingRequest q)"
    "r_injector r = Some a" "a < length (srv_heap s)"
    "snd (Inject w (srv_heap s ! a) (StripAuthHeaders q)) = Inr q2" "f = drop_proxy_headers q2"
proof -
  from assms obtain r where r: "MatchRoute (srv_cfg s) (rq_URLHost q) (rq_Path q) = Some r"
      "PathAllowed r (rq_Path q)" "\<not> (r_Injector r = ''gcp'' \<and> isTokenVendingRequest (StripAuthHeaders q))"
    by (auto simp: handleRequest_def Let_def split: option.splits if_splits)
  with assms obtain q2 where q2: "call_injector w s r (StripAuthHeaders q) = (s', Some (Inr q2))"
      "f = drop_proxy_headers q2"
    by (cases "call_injector w s r (StripAuthHeaders q)")
      (auto simp: handleRequest_def after_call_def Let_def split: option.splits sum.splits)
  then obtain a where "r_injector r = Some a" "a < length (srv_heap s)"
      "snd (Inject w (srv_heap s ! a) (StripAuthHeaders q)) = Inr q2"
    by (auto simp: call_injector_def split: option.splits prod.splits if_splits)
  with r q2 that show ?thesis by (simp add: StripAuthHeaders_def)
qed

lemma drop_proxy_headers_simps [simp]:
  "rq_Method (drop_proxy_headers q) = rq_Method q" "rq_Host (drop_proxy_headers q) = rq_Host q"
  "rq_URLScheme (drop_proxy_headers q) = rq_URLScheme q" "rq_URLHost (drop_proxy_headers q) = rq_URLHost q"
  "rq_Path (drop_proxy_headers q) = rq_Path q" "rq_RawPath (drop_proxy_headers q) = rq_RawPath q"
  by (simp_all add: drop_proxy_headers_def)

lemma canonical_proxy_headers [simp]:
  "CanonicalHeaderKey ''Via'' = ''Via''" "CanonicalHeaderKey ''X-Forwarded-For'' = ''X-Forwarded-For''"
  "CanonicalHeaderKey ''Authorization'' = ''Authorization''"
  by code_simp+

lemma map_of_drop_proxy_headers:
  "map_of (rq_Header (drop_proxy_headers q)) k =
     (if k = ''Via'' \<or> k = ''X-Forwarded-For'' then None else map_of (rq_Header q) k)"
  by (auto simp: drop_proxy_headers_def)

subsection \<open>Client credentials do not reach the upstream\<close>

definition same_but_credentials :: "Request \<Rightarrow> Request \<Rightarrow> bool" where
  "same_but_credentials q q' \<longleftrightarrow>
     q' = q\<lparr>rq_Header := rq_Header q'\<rparr> \<and> wf_header (rq_Header q) \<and> wf_header (rq_Header q') \<and>
     (\<forall>k. \<not> is_auth_header k \<longrightarrow> map_of (rq_Header q) k = map_of (rq_Header q') k)"

fun same_outcome :: "outcome \<Rightarrow> outcome \<Rightarrow> bool" where
  "same_outcome (Forward f) (Forward g) \<longleftrightarrow>
     g = f\<lparr>rq_Header := rq_Header g\<rparr> \<and> map_of (rq_Header f) = map_of (rq_Header g)"
| "same_outcome x y \<longleftrightarrow> x = y"

lemma same_outcome_refl [simp]: "same_outcome x x"
  by (cases x) simp_all

lemma strip_same:
  assumes "same_but_credentials q q'"
  shows "StripAuthHeaders q' = (StripAuthHeaders q)\<lparr>rq_Header := rq_Header (StripAuthHeaders q')\<rparr> \<and>
    map_of (rq_Header (StripAuthHeaders q')) = map_of (rq_Header (StripAuthHeaders q))"
proof
  from assms have q': "q' = q\<lparr>rq_Header := rq_Header q'\<rparr>" by (simp add: same_but_credentials_def)
  show "StripAuthHeaders q' = (StripAuthHeaders q)\<lparr>rq_Header := rq_Header (StripAuthHeaders q')\<rparr>"
    by (subst (1 2) q') (simp add: StripAuthHeaders_def)
  from assms show "map_of (rq_Header (StripAuthHeaders q')) = map_of (rq_Header (StripAuthHeaders q))"
    by (auto simp: fun_eq_iff StripAuthHeaders_def map_of_strip_headers same_but_credentials_def)
qed

lemma Inject_blind:
  assumes "q' = q\<lparr>rq_Header := rq_Header q'\<rparr>" and "map_of (rq_Header q') = map_of (rq_Header q)"
  shows "fst (Inject w i q') = fst (Inject w i q) \<and>
    (case snd (Inject w i q) of
       Inl e \<Rightarrow> snd (Inject w i q') = Inl e
     | Inr r \<Rightarrow> \<exists>h. snd (Inject w i q') = Inr (r\<lparr>rq_Header := h\<rparr>) \<and> map_of h = map_of (rq_Header r))"
proof
  show "fst (Inject w i q') = fst (Inject w i q)"
    using dispatch.inject_state_blind [where r = q and h = "rq_Header q'"] assms(1) by metis
  show "case snd (Inject w i q) of
       Inl e \<Rightarrow> snd (Inject w i q') = Inl e
     | Inr r \<Rightarrow> \<exists>h. snd (Inject w i q') = Inr (r\<lparr>rq_Header := h\<rparr>) \<and> map_of h = map_of (rq_Header r)"
  proof (cases "snd (Inject w i q)")
    case (Inl e)
    then show ?thesis using dispatch.inject_error_blind [where r = q and h = "rq_Header q'"] assms(1) by simp
  next
    case (Inr r)
    then show ?thesis using dispatch.inject_agree [OF Inr assms(2)] assms(1) by simp
  qed
qed

lemma call_injector_blind:
  assumes "q' = q\<lparr>rq_Header := rq_Header q'\<rparr>" and "map_of (rq_Header q') = map_of (rq_Header q)"
  shows "fst (call_injector w s r q') = fst (call_injector w s r q) \<and>
    (case snd (call_injector w s r q) of
       Some (Inr f) \<Rightarrow> \<exists>h. snd (call_injector w s r q') = Some (Inr (f\<lparr>rq_Header := h\<rparr>)) \<and> map_of h = map_of (rq_Header f)
     | x \<Rightarrow> snd (call_injector w s r q') = x)"
proof (cases "r_injector r")
  case (Some a)
  show ?thesis
    using Inject_blind [OF assms, of w "srv_heap s ! a"] Some
    by (auto simp: call_injector_def split: prod.splits sum.splits option.splits)
qed (simp add: call_injector_def)

subsection \<open>A concrete server\<close>

text \<open>One bearer route with a path filter and a gateway prefix, one basic route, one pure tunnel.\<close>

definition sample_world :: World where
  "sample_world =
     \<lparr>w_Getenv = (\<lambda>v. if v = ''CRED_A'' then ''s3cret'' else if v = ''CRED_B'' then ''pw'' else []),
      w_ReadFile = (\<lambda>_. None), w_LoadKubeconfig = (\<lambda>_. None), w_CredentialsFromJSON = (\<lambda>_ _. False),
      w_GCPToken = (\<lambda>_ _. None), w_OAuth2Token = (\<lambda>_. None)\<rparr>"

definition sample_pki :: pki where
  "sample_pki =
     \<lparr>pki_PemDecode = Some,
      pki_ParseCertificate = (\<lambda>_. Some \<lparr>c_IsCA = True, c_KeyUsage = 32, c_PublicKey = ECDSAKey 1 2 3\<rparr>),
      pki_ParseECPrivateKey = (\<lambda>_. Some \<lparr>ek_Curve = 1, ek_X = 2, ek_Y = 3\<rparr>),
      pki_SystemCertPool = None, pki_CertsFromPEM = (\<lambda>_. [])\<rparr>"

definition sample_routes :: "Route list" where
  "sample_routes =
     [empty_Route\<lparr>r_Domain := ''api.example.com'', r_Injector := ''bearer'', r_EnvVar := ''CRED_A'',
        r_AllowedPaths := [''/v1/''], r_PathPrefix := ''/gw'', r_Upstream := ''https://up.example.com''\<rparr>,
      empty_Route\<lparr>r_Domain := ''.example.com'', r_Injector := ''basic'', r_EnvVar := ''CRED_B'',
        r_BasicUsername := ''bob''\<rparr>,
      empty_Route\<lparr>r_Domain := ''plain.net'', r_Injector := ''none''\<rparr>]"

definition sample_config :: Config where
  "sample_config = \<lparr>Routes = sample_routes\<rparr>"

definition sample_server :: Server where
  "sample_server =
     \<lparr>srv_cfg = \<lparr>Routes = map (\<lambda>(r, i). r\<lparr>r_injector := Some i\<rparr>) (zip sample_routes [0, 1, 2])\<rparr>,
      srv_heap = [IBearer \<lparr>be_envVar = ''CRED_A'', be_defaultHeaders = []\<rparr>,
                  IBasic \<lparr>ba_username = ''bob'', ba_envVar = ''CRED_B'', ba_defaultHeaders = []\<rparr>,
                  INone \<lparr>no_defaultHeaders = []\<rparr>],
      srv_gateways = [(''/gw'', \<lparr>u_Scheme = ''https'', u_Host = ''up.example.com''\<rparr>)],
      srv_rootCAs = []\<rparr>"

definition sample_request :: "header \<Rightarrow> Request" where
  "sample_request h =
     \<lparr>rq_Method = ''GET'', rq_Host = ''api.example.com'', rq_URLScheme = ''https'',
      rq_URLHost = ''api.example.com:443'', rq_Path = ''/v1/x'', rq_RawPath = [], rq_Header = h\<rparr>"

lemma sample_NewServer: "NewServer sample_world sample_pki sample_config [] [] = Inr sample_server"
  by code_simp

lemma sample_run: "server_run sample_world sample_pki sample_config sample_server"
  by (rule server_run.start [OF sample_NewServer])

lemma sample_forward:
  "handleRequest sample_world sample_server (sample_request [(''Accept'', [''a'']), (''Authorization'', [''x''])]) =
     (sample_server, Forward (sample_request [(''Accept'', [''a'']), (''Authorization'', [''Bearer s3cret''])]))"
  by code_simp

subsection \<open>Properties of the server\<close>

lemma after_call_blind:
  assumes "q' = q\<lparr>rq_Header := rq_Header q'\<rparr>" and "map_of (rq_Header q') = map_of (rq_Header q)"
    and "\<And>f h. map_of h = map_of (rq_Header f) \<Longrightarrow> same_outcome (Forward (fwd f)) (Forward (fwd (f\<lparr>rq_Header := h\<rparr>)))"
  shows "fst (after_call fwd a (call_injector w s r q')) = fst (after_call fwd a (call_injector w s r q)) \<and>
    same_outcome (snd (after_call fwd a (call_injector w s r q))) (snd (after_call fwd a (call_injector w s r q')))"
proof -
  note call = call_injector_blind [OF assms(1,2), of w s r]
  consider (ok) f where "snd (call_injector w s r q) = Some (Inr f)"
    | (err) e where "snd (call_injector w s r q) = Some (Inl e)" | (nil) "snd (call_injector w s r q) = None"
    by (metis option.exhaust sum.exhaust)
  then show ?thesis
  proof cases
    case ok
    with call obtain h where "snd (call_injector w s r q') = Some (Inr (f\<lparr>rq_Header := h\<rparr>))"
        "map_of h = map_of (rq_Header f)"
      by auto
    with call ok assms(3) show ?thesis by (simp add: after_call_def del: same_outcome.simps)
  qed (use call in \<open>auto simp: after_call_def\<close>)
qed

lemma same_but_credentials_simps:
  assumes "same_but_credentials q q'"
  shows "rq_URLHost q' = rq_URLHost q" "rq_Path q' = rq_Path q" "rq_Method q' = rq_Method q"
    "isTokenVendingRequest (StripAuthHeaders q') = isTokenVendingRequest (StripAuthHeaders q)"
proof -
  obtain h where q': "q' = q\<lparr>rq_Header := h\<rparr>" using assms by (auto simp: same_but_credentials_def)
  show "rq_URLHost q' = rq_URLHost q" "rq_Path q' = rq_Path q" "rq_Method q' = rq_Method q"
    by (simp_all add: q')
  show "isTokenVendingRequest (StripAuthHeaders q') = isTokenVendingRequest (StripAuthHeaders q)"
    by (simp add: StripAuthHeaders_def q')
qed

lemma drop_proxy_headers_blind:
  "map_of h = map_of (rq_Header f) \<Longrightarrow>
     same_outcome (Forward (drop_proxy_headers f)) (Forward (drop_proxy_headers (f\<lparr>rq_Header := h\<rparr>)))"
  by (simp add: drop_proxy_headers_def)

lemma gateway_request_blind:
  "map_of h = map_of (rq_Header f) \<Longrightarrow>
     same_outcome (Forward (gateway_request u r p f)) (Forward (gateway_request u r p (f\<lparr>rq_Header := h\<rparr>)))"
  using set_default_headers_agree [of h "rq_Header f" "r_DefaultHeaders r"]
  by (simp add: gateway_request_def gateway_director_def drop_proxy_headers_def Let_def)

lemma sample_same:
  "same_but_credentials (sample_request [(''Accept'', [''a''])])
     (sample_request [(''Accept'', [''a'']), (''Authorization'', [''Bearer stolen''])])"
proof -
  have "is_auth_header ''Authorization''" "wf_header [(''Accept'', [''a''])]"
    "wf_header [(''Accept'', [''a'']), (''Authorization'', [''Bearer stolen''])]"
    by code_simp+
  then show ?thesis by (auto simp: same_but_credentials_def sample_request_def)
qed

text \<open>
  (C1) Forward proxy mode hides the client's credentials: two requests that differ only in
  credential headers (Authorization, API key headers, Proxy-Authorization, the Impersonate family)
  change the server's state in the same way and have the same outcome, so the request sent upstream
  carries no information from those headers.
\<close>

theorem forward_hides_client_credentials:
  assumes "same_but_credentials q q'"
  shows "fst (handleRequest w s q') = fst (handleRequest w s q) \<and>
    same_outcome (snd (handleRequest w s q)) (snd (handleRequest w s q'))"
proof -
  note [simp] = same_but_credentials_simps [OF assms] and strip = strip_same [OF assms]
  have "fst (after_call drop_proxy_headers a (call_injector w s r (StripAuthHeaders q'))) =
        fst (after_call drop_proxy_headers a (call_injector w s r (StripAuthHeaders q))) \<and>
      same_outcome (snd (after_call drop_proxy_headers a (call_injector w s r (StripAuthHeaders q))))
        (snd (after_call drop_proxy_headers a (call_injector w s r (StripAuthHeaders q'))))" for a r
    by (rule after_call_blind [OF conjunct1 [OF strip] conjunct2 [OF strip]]) (rule drop_proxy_headers_blind)
  then show ?thesis by (auto simp: handleRequest_def Let_def split: option.split)
qed

theorem forward_hides_client_credentials_witness:
  "same_but_credentials (sample_request [(''Accept'', [''a''])])
     (sample_request [(''Accept'', [''a'']), (''Authorization'', [''Bearer stolen''])]) \<and>
   same_outcome (snd (handleRequest sample_world sample_server (sample_request [(''Accept'', [''a''])])))
     (snd (handleRequest sample_world sample_server
        (sample_request [(''Accept'', [''a'']), (''Authorization'', [''Bearer stolen''])])))"
  using forward_hides_client_credentials [OF sample_same, of sample_world sample_server] sample_same by blast

text \<open>
  (C2) Gateway mode hides the client's credentials in the same sense, for every request the
  top-level handler serves itself.
\<close>

theorem gateway_hides_client_credentials:
  assumes "same_but_credentials q q'"
  shows "fst (Handler w s q') = fst (Handler w s q) \<and>
    rel_option same_outcome (snd (Handler w s q)) (snd (Handler w s q'))"
proof -
  note [simp] = same_but_credentials_simps [OF assms] and strip = strip_same [OF assms]
  have "fst (after_call (gateway_request u r p) a (call_injector w s r (StripAuthHeaders q'))) =
        fst (after_call (gateway_request u r p) a (call_injector w s r (StripAuthHeaders q))) \<and>
      same_outcome (snd (after_call (gateway_request u r p) a (call_injector w s r (StripAuthHeaders q))))
        (snd (after_call (gateway_request u r p) a (call_injector w s r (StripAuthHeaders q'))))" for u a r p
    by (rule after_call_blind [OF conjunct1 [OF strip] conjunct2 [OF strip]]) (rule gateway_request_blind)
  then have "fst (serveGateway w s q' r p) = fst (serveGateway w s q r p) \<and>
      same_outcome (snd (serveGateway w s q r p)) (snd (serveGateway w s q' r p))" for r p
    by (auto simp: serveGateway_def Let_def split: option.split)
  then show ?thesis by (auto simp: Handler_def split: option.split)
qed

theorem gateway_hides_client_credentials_witness:
  "fst (Handler sample_world sample_server (sample_request [(''Accept'', [''a'']), (''Authorization'', [''Bearer stolen''])]))
     = fst (Handler sample_world sample_server (sample_request [(''Accept'', [''a''])]))"
  using gateway_hides_client_credentials [OF sample_same, of sample_world sample_server] by blast

lemma serveGateway_live:
  assumes "wf_server w0 s" and "MatchRouteByPath (srv_cfg s) path = Some (r, p)"
  shows "snd (serveGateway w s q r p) \<noteq> Panic \<and>
    snd (serveGateway w s q r p) \<noteq> Answer (http_error 502 no_gateway_route)"
proof -
  have r: "r \<in> set (Routes (srv_cfg s))" "r_PathPrefix r \<noteq> []" "r_Upstream r \<noteq> []"
    using assms(2) match_by_path_in by (auto simp: MatchRouteByPath_def)
  with assms(1) obtain u where u: "map_of (srv_gateways s) (r_PathPrefix r) = Some u"
    by (auto simp: wf_server_def gateway_live_def)
  from assms(1) r have "route_live w0 (srv_heap s) r" by (auto simp: wf_server_def)
  then obtain res where "snd (call_injector w s r (StripAuthHeaders q)) = Some res"
    by (rule call_injector_live [where w = w and q = "StripAuthHeaders q"]) auto
  moreover have "injection_failed \<noteq> no_gateway_route" by code_simp
  ultimately show ?thesis using u
    by (auto simp: serveGateway_def after_call_def http_error_def Let_def split: sum.split)
qed

text \<open>
  (C3) A server built by \<open>NewServer\<close> never dies on a missing injector and never finds a gateway route
  without its reverse proxy, whatever requests it has served before: every route keeps pointing to
  the injector its configuration describes, up to the tokens it caches.
\<close>

theorem server_run_never_panics:
  assumes "server_run w0 pk cfg s"
  shows "snd (handleRequest w s q) \<noteq> Panic \<and> snd (Handler w s q) \<noteq> Some Panic \<and>
    snd (Handler w s q) \<noteq> Some (Answer (http_error 502 no_gateway_route)) \<and>
    (\<forall>r \<in> set (Routes (srv_cfg s)). \<exists>a < length (srv_heap s).
       r_injector r = Some a \<and> NewInjector w0 r = Inr (fresh_of (srv_heap s ! a)))"
proof (intro conjI)
  have wf: "wf_server w0 s" using assms by (rule server_run_wf)
  then show "\<forall>r \<in> set (Routes (srv_cfg s)). \<exists>a < length (srv_heap s).
       r_injector r = Some a \<and> NewInjector w0 r = Inr (fresh_of (srv_heap s ! a))"
    by (auto simp: wf_server_def route_live_def)
  show "snd (handleRequest w s q) \<noteq> Panic"
  proof
    assume "snd (handleRequest w s q) = Panic"
    then obtain r where r: "MatchRoute (srv_cfg s) (rq_URLHost q) (rq_Path q) = Some r"
        "snd (call_injector w s r (StripAuthHeaders q)) = None"
      by (auto simp: handleRequest_def after_call_def Let_def split: option.splits if_splits sum.splits)
    then have "route_live w0 (srv_heap s) r" using wf MatchRoute_in_Routes by (auto simp: wf_server_def)
    then show False using r(2) by (auto simp: route_live_def call_injector_def split: prod.splits)
  qed
  have "http_error 502 no_gateway_route \<noteq>
      \<lparr>resp_Status = 200, resp_ContentType = [], resp_Body = ''ok'' @ [CHR 0x0A]\<rparr>"
    by (simp add: http_error_def)
  then show "snd (Handler w s q) \<noteq> Some Panic"
    "snd (Handler w s q) \<noteq> Some (Answer (http_error 502 no_gateway_route))"
    using serveGateway_live [OF wf, of "rq_Path q" _ _ w q]
    by (auto simp: Handler_def split: option.splits)
qed

theorem server_run_never_panics_witness:
  "server_run sample_world sample_pki sample_config sample_server \<and>
   snd (handleRequest sample_world sample_server (sample_request [])) \<noteq> Panic"
  using server_run_never_panics [OF sample_run, of sample_world "sample_request []"] sample_run by blast

lemma hdr_get_drop_proxy_headers [simp]:
  "hdr_get (rq_Header (drop_proxy_headers q)) ''Authorization'' = hdr_get (rq_Header q) ''Authorization''"
  by (simp add: hdr_get_def map_of_drop_proxy_headers)

text \<open>
  (C4) A request leaves the forward proxy only to the host it was sent to, only when a configured
  route matches that host, only on a path that route allows, with the same method, and without the
  proxy trace headers Via and X-Forwarded-For.
\<close>

theorem forwarded_requests_are_allowed:
  assumes "handleRequest w s q = (s', Forward f)"
  shows "\<exists>r \<in> set (Routes (srv_cfg s)). route_matches (rq_URLHost q) r \<and>
      (\<forall>r' \<in> set (Routes (srv_cfg s)). route_matches (rq_URLHost q) r' \<longrightarrow> route_rank r' \<le> route_rank r) \<and>
      PathAllowed r (rq_Path q) \<and>
      rq_URLHost f = rq_URLHost q \<and> rq_Host f = rq_Host q \<and> rq_URLScheme f = rq_URLScheme q \<and>
      rq_Method f = rq_Method q \<and>
      map_of (rq_Header f) ''Via'' = None \<and> map_of (rq_Header f) ''X-Forwarded-For'' = None"
proof -
  from assms obtain r a q2 where r: "MatchRoute (srv_cfg s) (rq_URLHost q) (rq_Path q) = Some r"
      "PathAllowed r (rq_Path q)"
      and q2: "snd (Inject w (srv_heap s ! a) (StripAuthHeaders q)) = Inr q2" and f: "f = drop_proxy_headers q2"
    by (rule handleRequest_Forward)
  from r(1) have "r \<in> set (candidates (srv_cfg s) (rq_URLHost q))" by (rule MatchRoute_candidate)
  moreover note dispatch.inject_frame [OF q2]
  ultimately show ?thesis using r(2) f
    by (intro bexI [of _ r]) (auto simp: candidates_top_tier StripAuthHeaders_def map_of_drop_proxy_headers)
qed

theorem forwarded_requests_are_allowed_witness:
  "\<exists>r \<in> set (Routes (srv_cfg sample_server)). route_matches ''api.example.com:443'' r \<and> PathAllowed r ''/v1/x''"
  using forwarded_requests_are_allowed [OF sample_forward] by (simp add: sample_request_def) blast

text \<open>
  (C19) On a bearer route the upstream receives exactly the token of the route's environment variable
  as Authorization, and on a basic route exactly the route's user and the password of its variable,
  whatever default headers the route has; the secret is not empty.
\<close>

theorem forwarded_credential:
  assumes run: "server_run w0 pk cfg s" and fwd: "handleRequest w s q = (s', Forward f)"
    and r: "MatchRoute (srv_cfg s) (rq_URLHost q) (rq_Path q) = Some r"
  shows "(r_Injector r = ''bearer'' \<longrightarrow> w_Getenv w (r_EnvVar r) \<noteq> [] \<and>
            hdr_get (rq_Header f) ''Authorization'' = ''Bearer '' @ w_Getenv w (r_EnvVar r)) \<and>
         (r_Injector r = ''basic'' \<longrightarrow> w_Getenv w (r_EnvVar r) \<noteq> [] \<and>
            hdr_get (rq_Header f) ''Authorization'' =
              ''Basic '' @ b64_encode (r_BasicUsername r @ '':'' @ w_Getenv w (r_EnvVar r)))"
proof -
  from fwd r obtain a q2 where a: "r_injector r = Some a" "a < length (srv_heap s)"
      and q2: "snd (Inject w (srv_heap s ! a) (StripAuthHeaders q)) = Inr q2" and f: "f = drop_proxy_headers q2"
    by (metis handleRequest_Forward option.inject)
  have "route_live w0 (srv_heap s) r"
    using server_run_wf [OF run] MatchRoute_in_Routes [OF r] by (simp add: wf_server_def)
  with a have new: "NewInjector w0 r = Inr (fresh_of (srv_heap s ! a))" by (simp add: route_live_def)
  show ?thesis
  proof (intro conjI impI)
    assume "r_Injector r = ''bearer''"
    with new obtain b where b: "srv_heap s ! a = IBearer b" "be_envVar b = r_EnvVar r"
      by (cases "srv_heap s ! a") (auto simp: NewInjector_def rbind_eq_Inr NewBearerInjector_def split: if_splits)
    with q2 have q2b: "snd (inject_Bearer w b (StripAuthHeaders q)) = Inr q2" by simp
    from q2b b show "w_Getenv w (r_EnvVar r) \<noteq> []" by (auto simp: inject_Bearer_def)
    from bearer.authorization_is_credential [OF q2b] b f
    show "hdr_get (rq_Header f) ''Authorization'' = ''Bearer '' @ w_Getenv w (r_EnvVar r)" by simp
  next
    assume "r_Injector r = ''basic''"
    with new obtain b where b: "srv_heap s ! a = IBasic b" "ba_envVar b = r_EnvVar r" "ba_username b = r_BasicUsername r"
      by (cases "srv_heap s ! a") (auto simp: NewInjector_def rbind_eq_Inr NewBasicInjector_def split: if_splits)
    with q2 have q2b: "snd (inject_Basic w b (StripAuthHeaders q)) = Inr q2" by simp
    from q2b b show "w_Getenv w (r_EnvVar r) \<noteq> []" by (auto simp: inject_Basic_def)
    from basic.authorization_is_credential [OF q2b] b f
    show "hdr_get (rq_Header f) ''Authorization'' =
        ''Basic '' @ b64_encode (r_BasicUsername r @ '':'' @ w_Getenv w (r_EnvVar r))" by simp
  qed
qed

lemma sample_match:
  "MatchRoute (srv_cfg sample_server) ''api.example.com:443'' ''/v1/x'' = Some (hd (Routes (srv_cfg sample_server)))"
  by code_simp

lemma sample_bearer:
  "r_Injector (hd (Routes (srv_cfg sample_server))) = ''bearer''"
  "r_EnvVar (hd (Routes (srv_cfg sample_server))) = ''CRED_A''" "w_Getenv sample_world ''CRED_A'' = ''s3cret''"
  by code_simp+

theorem forwarded_credential_witness:
  "hdr_get (rq_Header (sample_request [(''Accept'', [''a'']), (''Authorization'', [''Bearer s3cret''])])) ''Authorization''
     = ''Bearer s3cret''"
  using forwarded_credential [OF sample_run sample_forward, of "hd (Routes (srv_cfg sample_server))"]
    sample_match sample_bearer
  by (simp add: sample_request_def)

text \<open>
  The CONNECT decision. A tunnel is refused with 403 exactly when no route matches the host; it
  is relayed without interception exactly when every best-tier route for the host is a bare
  passthrough. In the first case every later request to the host is refused too; in the second no
  path of the host has a credential, a path filter or default headers that the tunnel would skip.
\<close>

theorem connect_decision:
  "(case fst (handleConnect cfg host) of
      ConnectReject resp \<Rightarrow>
        resp_Status resp = 403 \<and> (\<forall>r \<in> set (Routes cfg). \<not> route_matches host r) \<and>
        (\<forall>path. MatchRoute cfg host path = None)
    | ConnectAccept \<Rightarrow>
        candidates cfg host \<noteq> [] \<and> (\<forall>r \<in> set (candidates cfg host). \<not> NeedsMITM r) \<and>
        (\<forall>path r. MatchRoute cfg host path = Some r \<longrightarrow>
           r_Injector r = ''none'' \<and> r_AllowedPaths r = [] \<and> r_DefaultHeaders r = [])
    | ConnectMitm \<Rightarrow> (\<exists>r \<in> set (candidates cfg host). NeedsMITM r))"
proof (cases "candidates cfg host")
  case Nil
  then have "MatchRoute cfg host path = None" for path by (simp add: MatchRoute_def Let_def)
  with Nil show ?thesis
    using candidates_empty_iff [of cfg host] by (simp add: handleConnect_def text_response_def)
next
  case (Cons c cs)
  then have c: "MatchRoute cfg host [] = Some c" by (simp add: MatchRoute_CONNECT)
  show ?thesis
  proof (cases "NeedsMITMForHost cfg host")
    case True
    then show ?thesis using c by (auto simp: handleConnect_def NeedsMITMForHost_def list_ex_iff)
  next
    case False
    then have none: "\<forall>r \<in> set (candidates cfg host). \<not> NeedsMITM r"
      by (auto simp: NeedsMITMForHost_def list_ex_iff)
    then have "\<not> NeedsMITM r" if "MatchRoute cfg host path = Some r" for path r
      using MatchRoute_candidate [OF that] by blast
    then show ?thesis using c False Cons none by (auto simp: handleConnect_def NeedsMITM_iff)
  qed
qed

theorem connect_decision_witness:
  "fst (handleConnect sample_config ''plain.net:443'') = ConnectAccept \<and>
   candidates sample_config ''plain.net:443'' \<noteq> []"
proof -
  have "fst (handleConnect sample_config ''plain.net:443'') = ConnectAccept" by code_simp
  then show ?thesis using connect_decision [of sample_config "''plain.net:443''"] by auto
qed

end
