(* ===== verification/Route_Json.thy ===== *)
theory Route_Json
  imports Proxy_Config Proxy_Server
begin

section \<open>The route table on the wire\<close>

text \<open>
  The operator marshals its \<open>proxyRoute\<close> list (\<open>claw_proxy.go\<close>), the proxy unmarshals it into its own
  \<open>Route\<close> type (\<open>LoadConfig\<close> in \<open>config.go\<close>): two struct types in two packages with the same JSON
  names. Unmarshalling matches member names up to case, ignores unknown members, leaves a field
  alone on null and fails on a value of the wrong type. A document is taken to have its
  \<open>routes\<close> member once.
\<close>

subsection \<open>Marshalling\<close>

definition omit_str :: "string \<Rightarrow> string \<Rightarrow> jobj" where
  "omit_str k s = (if s = [] then [] else [(k, JStr s)])"

definition omit_strs :: "string \<Rightarrow> string list \<Rightarrow> jobj" where
  "omit_strs k ss = (if ss = [] then [] else [(k, JArr (map JStr ss))])"

definition omit_map :: "string \<Rightarrow> (string, string) gomap \<Rightarrow> jobj" where
  "omit_map k m = (if m = [] then [] else [(k, JObj (map (apsnd JStr) m))])"

definition marshal_route :: "proxyRoute \<Rightarrow> json" where
  "marshal_route r = JObj (
     [(''domain'', JStr (pr_Domain r)), (''injector'', JStr (pr_Injector r))] @
     omit_str ''header'' (pr_Header r) @ omit_str ''valuePrefix'' (pr_ValuePrefix r) @
     omit_str ''basicUsername'' (pr_BasicUsername r) @ omit_str ''envVar'' (pr_EnvVar r) @
     omit_str ''saFilePath'' (pr_SAFilePath r) @ omit_str ''gcpProject'' (pr_GCPProject r) @
     omit_str ''gcpLocation'' (pr_GCPLocation r) @ omit_str ''pathPrefix'' (pr_PathPrefix r) @
     omit_str ''upstream'' (pr_Upstream r) @ omit_str ''clientID'' (pr_ClientID r) @
     omit_str ''tokenURL'' (pr_TokenURL r) @ omit_strs ''scopes'' (pr_Scopes r) @
     omit_map ''defaultHeaders'' (pr_DefaultHeaders r) @ omit_str ''kubeconfigPath'' (pr_KubeconfigPath r) @
     omit_str ''caCert'' (pr_CACert r) @ omit_strs ''allowedPaths'' (pr_AllowedPaths r))"

definition marshal_config :: "proxyRoute list \<Rightarrow> json" where
  "marshal_config routes = JObj [(''routes'', JArr (map marshal_route routes))]"

subsection \<open>Unmarshalling\<close>

fun set_str :: "((string \<Rightarrow> string) \<Rightarrow> Route \<Rightarrow> Route) \<Rightarrow> json \<Rightarrow> Route \<Rightarrow> Route option" where
  "set_str upd (JStr s) r = Some (upd (\<lambda>_. s) r)"
| "set_str upd JNull r = Some r"
| "set_str upd _ r = None"

fun str_elem :: "json \<Rightarrow> string option" where
  "str_elem (JStr s) = Some s"
| "str_elem JNull = Some []"
| "str_elem _ = None"

fun set_strs :: "((string list \<Rightarrow> string list) \<Rightarrow> Route \<Rightarrow> Route) \<Rightarrow> json \<Rightarrow> Route \<Rightarrow> Route option" where
  "set_strs upd (JArr xs) r = map_option (\<lambda>ss. upd (\<lambda>_. ss) r) (those (map str_elem xs))"
| "set_strs upd JNull r = Some (upd (\<lambda>_. []) r)"
| "set_strs upd _ r = None"

fun set_headers :: "json \<Rightarrow> Route \<Rightarrow> Route option" where
  "set_headers (JObj m) r =
     map_option (\<lambda>vs. r\<lparr>r_DefaultHeaders := map_copy (zip (map fst m) vs) (r_DefaultHeaders r)\<rparr>)
       (those (map (str_elem \<circ> snd) m))"
| "set_headers JNull r = Some (r\<lparr>r_DefaultHeaders := []\<rparr>)"
| "set_headers _ r = None"

definition field_setters :: "(string \<times> (json \<Rightarrow> Route \<Rightarrow> Route option)) list" where
  "field_setters =
     [(''domain'', set_str r_Domain_update), (''injector'', set_str r_Injector_update),
      (''header'', set_str r_Header_update), (''valuePrefix'', set_str r_ValuePrefix_update),
      (''basicUsername'', set_str r_BasicUsername_update), (''envVar'', set_str r_EnvVar_update),
      (''saFilePath'', set_str r_SAFilePath_update), (''gcpProject'', set_str r_GCPProject_update),
      (''gcpLocation'', set_str r_GCPLocation_update), (''pathPrefix'', set_str r_PathPrefix_update),
      (''upstream'', set_str r_Upstream_update), (''clientID'', set_str r_ClientID_update),
      (''tokenURL'', set_str r_TokenURL_update), (''scopes'', set_strs r_Scopes_update),
      (''defaultHeaders'', set_headers), (''kubeconfigPath'', set_str r_KubeconfigPath_update),
      (''caCert'', set_str r_CACert_update), (''allowedPaths'', set_strs r_AllowedPaths_update)]"

definition set_member :: "string \<Rightarrow> json \<Rightarrow> Route \<Rightarrow> Route option" where
  "set_member k v r =
     (case List.find (\<lambda>(name, _). EqualFold k name) field_setters of
        Some (_, setter) \<Rightarrow> setter v r
      | None \<Rightarrow> Some r)"

fun set_members :: "jobj \<Rightarrow> Route \<Rightarrow> Route option" where
  "set_members [] r = Some r"
| "set_members ((k, v) # m) r = Option.bind (set_member k v r) (set_members m)"

fun unmarshal_route :: "json \<Rightarrow> Route option" where
  "unmarshal_route (JObj m) = set_members m empty_Route"
| "unmarshal_route JNull = Some empty_Route"
| "unmarshal_route _ = None"

fun set_routes :: "jobj \<Rightarrow> Config \<Rightarrow> Config option" where
  "set_routes [] c = Some c"
| "set_routes ((k, v) # m) c =
     (if EqualFold k ''routes'' then
        (case v of
           JArr xs \<Rightarrow> Option.bind (those (map unmarshal_route xs)) (\<lambda>rs. set_routes m (c\<lparr>Routes := rs\<rparr>))
         | JNull \<Rightarrow> set_routes m (c\<lparr>Routes := []\<rparr>)
         | _ \<Rightarrow> None)
      else set_routes m c)"

datatype load_error = ReadConfig | ParseConfig

text \<open>\<open>file\<close> is the content of the configuration file: missing, not JSON, or a document.\<close>

definition LoadConfig :: "json option option \<Rightarrow> (load_error, Config) result" where
  "LoadConfig file =
     (case file of
        None \<Rightarrow> Inl ReadConfig
      | Some doc \<Rightarrow>
          (case (case doc of
                   Some (JObj m) \<Rightarrow> set_routes m \<lparr>Routes = []\<rparr>
                 | Some JNull \<Rightarrow> Some \<lparr>Routes = []\<rparr>
                 | _ \<Rightarrow> None) of
             None \<Rightarrow> Inl ParseConfig
           | Some c \<Rightarrow> Inr c))"

subsection \<open>Round trip\<close>

text \<open>The proxy's view of an operator route.\<close>

definition route_of :: "proxyRoute \<Rightarrow> Route" where
  "route_of r =
     \<lparr>r_Domain = pr_Domain r, r_Injector = pr_Injector r, r_Header = pr_Header r, r_ValuePrefix = pr_ValuePrefix r,
      r_BasicUsername = pr_BasicUsername r, r_EnvVar = pr_EnvVar r, r_SAFilePath = pr_SAFilePath r,
      r_GCPProject = pr_GCPProject r, r_GCPLocation = pr_GCPLocation r, r_PathPrefix = pr_PathPrefix r,
      r_Upstream = pr_Upstream r, r_ClientID = pr_ClientID r, r_TokenURL = pr_TokenURL r, r_Scopes = pr_Scopes r,
      r_DefaultHeaders = pr_DefaultHeaders r, r_KubeconfigPath = pr_KubeconfigPath r, r_CACert = pr_CACert r,
      r_AllowedPaths = pr_AllowedPaths r, r_injector = None\<rparr>"

lemma those_Some: "those (map Some xs) = Some xs"
  by (induction xs) simp_all

lemma find_field:
  "distinct (map (ToLower \<circ> fst) tbl) \<Longrightarrow> (k, f) \<in> set tbl \<Longrightarrow>
     List.find (\<lambda>(name, _). EqualFold k name) tbl = Some (k, f)"
proof (induction tbl)
  case (Cons e tbl)
  show ?case
  proof (cases "e = (k, f)")
    case False
    with Cons.prems have "(k, f) \<in> set tbl" by simp
    then have "ToLower k \<in> set (map (ToLower \<circ> fst) tbl)" by force
    moreover from Cons.prems(1) have "ToLower (fst e) \<notin> set (map (ToLower \<circ> fst) tbl)" by simp
    ultimately have "\<not> EqualFold k (fst e)" unfolding EqualFold_def by metis
    with Cons \<open>(k, f) \<in> set tbl\<close> show ?thesis by (cases e) simp
  qed simp
qed simp

lemma set_member_field: "(k, f) \<in> set field_setters \<Longrightarrow> set_member k v r = f v r"
proof -
  have "distinct (map (ToLower \<circ> fst) field_setters)" by code_simp
  then show "(k, f) \<in> set field_setters \<Longrightarrow> set_member k v r = f v r"
    by (simp add: set_member_def find_field)
qed

lemma set_member_simps:
  "set_member ''domain'' v r = set_str r_Domain_update v r"
  "set_member ''injector'' v r = set_str r_Injector_update v r"
  "set_member ''header'' v r = set_str r_Header_update v r"
  "set_member ''valuePrefix'' v r = set_str r_ValuePrefix_update v r"
  "set_member ''basicUsername'' v r = set_str r_BasicUsername_update v r"
  "set_member ''envVar'' v r = set_str r_EnvVar_update v r"
  "set_member ''saFilePath'' v r = set_str r_SAFilePath_update v r"
  "set_member ''gcpProject'' v r = set_str r_GCPProject_update v r"
  "set_member ''gcpLocation'' v r = set_str r_GCPLocation_update v r"
  "set_member ''pathPrefix'' v r = set_str r_PathPrefix_update v r"
  "set_member ''upstream'' v r = set_str r_Upstream_update v r"
  "set_member ''clientID'' v r = set_str r_ClientID_update v r"
  "set_member ''tokenURL'' v r = set_str r_TokenURL_update v r"
  "set_member ''scopes'' v r = set_strs r_Scopes_update v r"
  "set_member ''kubeconfigPath'' v r = set_str r_KubeconfigPath_update v r"
  "set_member ''caCert'' v r = set_str r_CACert_update v r"
  "set_member ''allowedPaths'' v r = set_strs r_AllowedPaths_update v r"
  "set_member ''defaultHeaders'' v r = set_headers v r"
  by (rule set_member_field, simp add: field_setters_def)+

lemma update_empty:
  "r_Header r = [] \<Longrightarrow> r\<lparr>r_Header := []\<rparr> = r"
  "r_ValuePrefix r = [] \<Longrightarrow> r\<lparr>r_ValuePrefix := []\<rparr> = r"
  "r_BasicUsername r = [] \<Longrightarrow> r\<lparr>r_BasicUsername := []\<rparr> = r"
  "r_EnvVar r = [] \<Longrightarrow> r\<lparr>r_EnvVar := []\<rparr> = r"
  "r_SAFilePath r = [] \<Longrightarrow> r\<lparr>r_SAFilePath := []\<rparr> = r"
  "r_GCPProject r = [] \<Longrightarrow> r\<lparr>r_GCPProject := []\<rparr> = r"
  "r_GCPLocation r = [] \<Longrightarrow> r\<lparr>r_GCPLocation := []\<rparr> = r"
  "r_PathPrefix r = [] \<Longrightarrow> r\<lparr>r_PathPrefix := []\<rparr> = r"
  "r_Upstream r = [] \<Longrightarrow> r\<lparr>r_Upstream := []\<rparr> = r"
  "r_ClientID r = [] \<Longrightarrow> r\<lparr>r_ClientID := []\<rparr> = r"
  "r_TokenURL r = [] \<Longrightarrow> r\<lparr>r_TokenURL := []\<rparr> = r"
  "r_Scopes r = [] \<Longrightarrow> r\<lparr>r_Scopes := []\<rparr> = r"
  "r_KubeconfigPath r = [] \<Longrightarrow> r\<lparr>r_KubeconfigPath := []\<rparr> = r"
  "r_CACert r = [] \<Longrightarrow> r\<lparr>r_CACert := []\<rparr> = r"
  "r_AllowedPaths r = [] \<Longrightarrow> r\<lparr>r_AllowedPaths := []\<rparr> = r"
  by (cases r, simp)+

lemma omit_str_step:
  "(\<And>v. set_member k v r = set_str upd v r) \<Longrightarrow> upd (\<lambda>_. []) r = r \<Longrightarrow>
     set_members (omit_str k s) r = Some (upd (\<lambda>_. s) r)"
  by (simp add: omit_str_def)

lemma omit_strs_step:
  "(\<And>v. set_member k v r = set_strs upd v r) \<Longrightarrow> upd (\<lambda>_. []) r = r \<Longrightarrow>
     set_members (omit_strs k ss) r = Some (upd (\<lambda>_. ss) r)"
  by (simp add: omit_strs_def comp_def those_Some)

lemma omit_steps:
  "r_Header r = [] \<Longrightarrow> set_members (omit_str ''header'' x) r = Some (r\<lparr>r_Header := x\<rparr>)"
  "r_ValuePrefix r = [] \<Longrightarrow> set_members (omit_str ''valuePrefix'' x) r = Some (r\<lparr>r_ValuePrefix := x\<rparr>)"
  "r_BasicUsername r = [] \<Longrightarrow> set_members (omit_str ''basicUsername'' x) r = Some (r\<lparr>r_BasicUsername := x\<rparr>)"
  "r_EnvVar r = [] \<Longrightarrow> set_members (omit_str ''envVar'' x) r = Some (r\<lparr>r_EnvVar := x\<rparr>)"
  "r_SAFilePath r = [] \<Longrightarrow> set_members (omit_str ''saFilePath'' x) r = Some (r\<lparr>r_SAFilePath := x\<rparr>)"
  "r_GCPProject r = [] \<Longrightarrow> set_members (omit_str ''gcpProject'' x) r = Some (r\<lparr>r_GCPProject := x\<rparr>)"
  "r_GCPLocation r = [] \<Longrightarrow> set_members (omit_str ''gcpLocation'' x) r = Some (r\<lparr>r_GCPLocation := x\<rparr>)"
  "r_PathPrefix r = [] \<Longrightarrow> set_members (omit_str ''pathPrefix'' x) r = Some (r\<lparr>r_PathPrefix := x\<rparr>)"
  "r_Upstream r = [] \<Longrightarrow> set_members (omit_str ''upstream'' x) r = Some (r\<lparr>r_Upstream := x\<rparr>)"
  "r_ClientID r = [] \<Longrightarrow> set_members (omit_str ''clientID'' x) r = Some (r\<lparr>r_ClientID := x\<rparr>)"
  "r_TokenURL r = [] \<Longrightarrow> set_members (omit_str ''tokenURL'' x) r = Some (r\<lparr>r_TokenURL := x\<rparr>)"
  "r_Scopes r = [] \<Longrightarrow> set_members (omit_strs ''scopes'' xs) r = Some (r\<lparr>r_Scopes := xs\<rparr>)"
  "r_KubeconfigPath r = [] \<Longrightarrow> set_members (omit_str ''kubeconfigPath'' x) r = Some (r\<lparr>r_KubeconfigPath := x\<rparr>)"
  "r_CACert r = [] \<Longrightarrow> set_members (omit_str ''caCert'' x) r = Some (r\<lparr>r_CACert := x\<rparr>)"
  "r_AllowedPaths r = [] \<Longrightarrow> set_members (omit_strs ''allowedPaths'' xs) r = Some (r\<lparr>r_AllowedPaths := xs\<rparr>)"
  by (rule omit_str_step omit_strs_step, rule set_member_simps, erule update_empty)+

lemma set_members_append: "set_members (m @ m') r = Option.bind (set_members m r) (set_members m')"
proof (induction m arbitrary: r)
  case (Cons kv m)
  then show ?case by (cases kv, cases "set_member (fst kv) (snd kv) r") simp_all
qed simp

lemma update_fresh: "k \<notin> fst ` set m \<Longrightarrow> AList.update k v m = m @ [(k, v)]"
  by (induction m) auto

lemma map_copy_fresh:
  "distinct (map fst m) \<Longrightarrow> fst ` set m \<inter> fst ` set d = {} \<Longrightarrow> map_copy m d = d @ m"
proof (induction m arbitrary: d)
  case (Cons kv m)
  obtain k v where kv: "kv = (k, v)" by (cases kv)
  from Cons.prems kv have "AList.update k v d = d @ [(k, v)]" by (intro update_fresh) auto
  with Cons.IH [of "d @ [(k, v)]"] Cons.prems kv show ?case by auto
qed simp

lemma those_snd: "those (map (str_elem \<circ> snd) (map (apsnd JStr) m)) = Some (map snd m)"
  by (induction m) auto

lemma omit_map_step:
  assumes "r_DefaultHeaders r = []" "distinct (map fst m)"
  shows "set_members (omit_map ''defaultHeaders'' m) r = Some (r\<lparr>r_DefaultHeaders := m\<rparr>)"
proof -
  have "zip (map fst (map (apsnd JStr) m)) (map snd m) = m" by (induction m) auto
  moreover have "map_copy m [] = m" using map_copy_fresh [of m "[]"] assms(2) by simp
  moreover have "r\<lparr>r_DefaultHeaders := []\<rparr> = r" using assms(1) by (cases r) simp
  ultimately show ?thesis using assms(1) those_snd [of m]
    by (simp add: omit_map_def set_member_simps)
qed

lemma unmarshal_marshal_route:
  assumes "distinct (map fst (pr_DefaultHeaders r))"
  shows "unmarshal_route (marshal_route r) = Some (route_of r)"
proof -
  have "set_members [(''domain'', JStr (pr_Domain r)), (''injector'', JStr (pr_Injector r))] empty_Route =
      Some (empty_Route\<lparr>r_Domain := pr_Domain r, r_Injector := pr_Injector r\<rparr>)"
    by (simp add: set_member_simps)
  then show ?thesis
    unfolding marshal_route_def unmarshal_route.simps set_members_append
    by (simp add: omit_steps omit_map_step assms empty_Route_def route_of_def)
qed

lemma those_map: "(\<And>x. x \<in> set xs \<Longrightarrow> f x = Some (g x)) \<Longrightarrow> those (map f xs) = Some (map g xs)"
  by (induction xs) auto

lemma loaded_marshal:
  assumes "\<forall>r \<in> set routes. distinct (map fst (pr_DefaultHeaders r))"
  shows "LoadConfig (Some (Some (marshal_config routes))) = Inr \<lparr>Routes = map route_of routes\<rparr>"
proof -
  have "those (map unmarshal_route (map marshal_route routes)) = Some (map route_of routes)"
    unfolding map_map using assms by (intro those_map) (simp add: unmarshal_marshal_route)
  then show ?thesis by (simp add: LoadConfig_def marshal_config_def)
qed

text \<open>
  (C10) The operator and the proxy agree on the wire format: the table the operator marshals is
  loaded by the proxy as the same routes, field by field, with no injector attached yet.
\<close>

theorem LoadConfig_marshal:
  assumes "\<forall>r \<in> set routes. distinct (map fst (pr_DefaultHeaders r))"
  shows "LoadConfig (Some (Some (marshal_config routes))) = Inr \<lparr>Routes = map route_of routes\<rparr>"
  using assms by (rule loaded_marshal)

theorem LoadConfig_marshal_witness:
  "LoadConfig (Some (Some (marshal_config
      [empty_proxyRoute\<lparr>pr_Domain := ''a.com'', pr_Injector := ''none'', pr_DefaultHeaders := [(''A'', ''b'')]\<rparr>]))) =
   Inr \<lparr>Routes = [empty_Route\<lparr>r_Domain := ''a.com'', r_Injector := ''none'', r_DefaultHeaders := [(''A'', ''b'')]\<rparr>]\<rparr>"
  using LoadConfig_marshal [of "[empty_proxyRoute\<lparr>pr_Domain := ''a.com'', pr_Injector := ''none'',
      pr_DefaultHeaders := [(''A'', ''b'')]\<rparr>]"]
  by (simp add: route_of_def empty_proxyRoute_def empty_Route_def)

end
