(* ===== verification/Operator_Proxy.thy ===== *)
theory Operator_Proxy
  imports Route_Json
begin

section \<open>The contract between operator and proxy\<close>

text \<open>
  What the operator generates is what the proxy can serve. The lemmas lead from a resolved
  credential to the injector the proxy builds for its route, and from the operator's notion of a
  covered domain to the route the proxy picks.
\<close>

subsection \<open>Routes the proxy accepts\<close>

text \<open>The constraints the resource schema puts on a credential (enumerations and minimum lengths).\<close>

definition admitted :: "CredentialSpec \<Rightarrow> bool" where
  "admitted c \<longleftrightarrow>
     cs_Type c \<in> {CredentialTypeAPIKey, CredentialTypeBearer, CredentialTypeBasic, CredentialTypeGCP,
       CredentialTypePathToken, CredentialTypeOAuth2, CredentialTypeNone, CredentialTypeKubernetes} \<and>
     (case cs_APIKey c of Some a \<Rightarrow> apk_Header a \<noteq> [] | None \<Rightarrow> True) \<and>
     (case cs_Basic c of Some b \<Rightarrow> bac_Username b \<noteq> [] | None \<Rightarrow> True) \<and>
     (case cs_PathToken c of Some p \<Rightarrow> ptc_Prefix p \<noteq> [] | None \<Rightarrow> True) \<and>
     (case cs_OAuth2 c of Some a \<Rightarrow> oac_ClientID a \<noteq> [] \<and> oac_TokenURL a \<noteq> [] | None \<Rightarrow> True)"

text \<open>The fields each injector type insists on.\<close>

definition fields_present :: "proxyRoute \<Rightarrow> bool" where
  "fields_present r \<longleftrightarrow>
     (pr_Injector r = ''api_key'' \<and> pr_Header r \<noteq> [] \<and> pr_EnvVar r \<noteq> []) \<or>
     (pr_Injector r = ''bearer'' \<and> pr_EnvVar r \<noteq> []) \<or>
     (pr_Injector r = ''basic'' \<and> pr_EnvVar r \<noteq> [] \<and> pr_BasicUsername r \<noteq> []) \<or>
     (pr_Injector r = ''gcp'' \<and> pr_SAFilePath r \<noteq> []) \<or>
     pr_Injector r = ''none'' \<or>
     (pr_Injector r = ''path_token'' \<and> pr_EnvVar r \<noteq> [] \<and> pr_PathPrefix r \<noteq> []) \<or>
     (pr_Injector r = ''oauth2'' \<and> pr_EnvVar r \<noteq> [] \<and> pr_ClientID r \<noteq> [] \<and> pr_TokenURL r \<noteq> [])"

lemma fields_present_accepted: "fields_present r \<Longrightarrow> is_ok (NewInjector w (route_of r))"
  by (auto simp: fields_present_def NewInjector_def route_of_def NewAPIKeyInjector_def NewBearerInjector_def
    NewBasicInjector_def NewGCPInjector_def NewNoneInjector_def NewPathTokenInjector_def NewOAuth2Injector_def)

lemma credEnvVarName_not_Nil [simp]: "credEnvVarName n \<noteq> []"
  by (simp add: credEnvVarName_def)

lemma buildCredentialRoute_fields:
  assumes "admitted c" "validateCredentialTypeConfig c = None" "cs_Type c \<noteq> CredentialTypeKubernetes"
  shows "fields_present (buildCredentialRoute c)"
proof -
  from assms(1,3) consider "cs_Type c = CredentialTypeAPIKey" | "cs_Type c = CredentialTypeBearer"
    | "cs_Type c = CredentialTypeBasic" | "cs_Type c = CredentialTypeGCP" | "cs_Type c = CredentialTypePathToken"
    | "cs_Type c = CredentialTypeOAuth2" | "cs_Type c = CredentialTypeNone"
    by (auto simp: admitted_def)
  then show ?thesis
    by cases (use assms(1,2) in \<open>auto simp: buildCredentialRoute_def fields_present_def admitted_def
      validateCredentialTypeConfig_def empty_proxyRoute_def Let_def split: option.splits if_splits\<close>)
qed

lemma fields_present_update:
  "fields_present r \<Longrightarrow> fields_present (r\<lparr>pr_Domain := d, pr_AllowedPaths := ps, pr_DefaultHeaders := h\<rparr>)"
  by (simp add: fields_present_def)

lemma fields_present_gateway:
  "fields_present r \<Longrightarrow> p \<noteq> [] \<Longrightarrow> fields_present (r\<lparr>pr_PathPrefix := p, pr_Upstream := u\<rparr>)"
  by (auto simp: fields_present_def)

lemma webSearchRoute_fields: "webSearchRoute ws = Some r \<Longrightarrow> fields_present r"
proof -
  assume "webSearchRoute ws = Some r"
  then obtain p info where i: "map_of knownSearchProviders p = Some info"
      and r: "r = (let route = empty_proxyRoute\<lparr>pr_Domain := spi_Domain info, pr_Injector := spi_Injector info\<rparr>
               in if spi_Injector info = ''api_key''
                  then route\<lparr>pr_EnvVar := credEnvVarName webSearchCredPrefix, pr_Header := spi_Header info\<rparr>
                  else if spi_Injector info = ''bearer''
                  then route\<lparr>pr_EnvVar := credEnvVarName webSearchCredPrefix\<rparr>
                  else route)"
    by (auto simp: webSearchRoute_def Let_def split: option.splits)
  have "list_all (\<lambda>i. spi_Injector i = ''api_key'' \<and> spi_Header i \<noteq> [] \<or> spi_Injector i = ''bearer'' \<or>
      spi_Injector i = ''none'') (map snd knownSearchProviders)" by code_simp
  with i have "spi_Injector info = ''api_key'' \<and> spi_Header info \<noteq> [] \<or> spi_Injector info = ''bearer'' \<or>
      spi_Injector info = ''none''"
    by (auto simp: list_all_iff dest!: map_of_SomeD)
  then show "fields_present r" by (elim disjE) (simp_all add: r fields_present_def)
qed

lemma routes_of_fields:
  assumes "admitted (rc_Spec rc)" "validateCredentialTypeConfig (rc_Spec rc) = None"
    "cs_Type (rc_Spec rc) \<noteq> CredentialTypeKubernetes" "r \<in> set (routes_of rc)"
  shows "fields_present r"
proof -
  note b = buildCredentialRoute_fields [OF assms(1-3)]
  from assms(3,4) consider "r = credential_route (rc_Spec rc)" | "r \<in> set (generateCompanionRoutes (rc_Spec rc))"
    by (auto simp: routes_of_def Let_def split: if_splits)
  then show ?thesis
  proof cases
    case 1
    then show ?thesis using b by (simp add: credential_route_def Let_def fields_present_gateway)
  next
    case 2
    then have "pr_Injector r = ''none''"
      by (auto simp: generateCompanionRoutes_def split: if_splits option.splits)
    then show ?thesis by (simp add: fields_present_def)
  qed
qed

lemma credByName_member:
  "map_of (fold (\<lambda>rc m. AList.update (cs_Name (rc_Spec rc)) (rc_Spec rc) m) creds m0) n = Some c \<Longrightarrow>
     c \<in> rc_Spec ` set creds \<or> map_of m0 n = Some c"
proof (induction creds arbitrary: m0)
  case (Cons rc creds)
  from Cons.IH [of "AList.update (cs_Name (rc_Spec rc)) (rc_Spec rc) m0"] Cons.prems
  show ?case by (auto split: if_splits)
qed simp

lemma credByName_name:
  "map_of (fold (\<lambda>rc m. AList.update (cs_Name (rc_Spec rc)) (rc_Spec rc) m) creds m0) n = Some c \<Longrightarrow>
     cs_Name c = n \<or> map_of m0 n = Some c"
proof (induction creds arbitrary: m0)
  case (Cons rc creds)
  from Cons.IH [of "AList.update (cs_Name (rc_Spec rc)) (rc_Spec rc) m0"] Cons.prems
  show ?case by (auto split: if_splits)
qed simp

text \<open>What client-go hands the proxy for the bytes the operator validated.\<close>

definition proxy_view :: "api_config \<Rightarrow> kubeconfig" where
  "proxy_view cfg =
     \<lparr>kcfg_Clusters = map (apsnd (\<lambda>c. \<lparr>kc_Server = ac_Server c\<rparr>)) (acfg_Clusters cfg),
      kcfg_Contexts = map (apsnd (\<lambda>x. \<lparr>kx_Cluster = ax_Cluster x, kx_AuthInfo = ax_AuthInfo x\<rparr>)) (acfg_Contexts cfg),
      kcfg_AuthInfos = map (apsnd (\<lambda>a. \<lparr>ka_Token = aa_Token a\<rparr>)) (acfg_AuthInfos cfg)\<rparr>"

lemma context_tokens_ok:
  assumes "\<And>u a. map_of (kcfg_AuthInfos cfg) u = Some a \<Longrightarrow> ka_Token a \<noteq> []"
  shows "is_ok (context_tokens cfg ctxs tokens)"
proof (induction ctxs arbitrary: tokens)
  case (Cons c ctxs)
  obtain n ctx where c: "c = (n, ctx)" by (cases c)
  show ?case using Cons.IH assms by (auto simp: c Let_def split: option.split)
qed simp

text \<open>The file the proxy mounts for a kubernetes credential is the one the operator validated.\<close>

definition same_kubeconfigs :: "World \<Rightarrow> (string \<Rightarrow> api_config option) \<Rightarrow> resolvedCredential list \<Rightarrow> bool" where
  "same_kubeconfigs w load rs \<longleftrightarrow>
     (\<forall>rc \<in> set rs. \<forall>kd. rc_KubeConfig rc = Some kd \<longrightarrow>
        w_LoadKubeconfig w (''/etc/proxy/credentials/'' @ cs_Name (rc_Spec rc) @ ''/kubeconfig'') =
          map_option proxy_view (load (kd_RawBytes kd)))"

lemma kube_routes_accepted:
  assumes "credential_ok get load rc" "cs_Type (rc_Spec rc) = CredentialTypeKubernetes"
    "rc \<in> set rs" "same_kubeconfigs w load rs" "r \<in> set (routes_of rc)"
  shows "is_ok (NewInjector w (route_of r))"
proof -
  from assms(1,2) obtain kd data where kd: "rc_KubeConfig rc = Some kd" "parseAndValidateKubeconfig load data = Inr kd"
    by (auto simp: credential_ok_def Let_def split: option.splits)
  from kd(2) obtain cfg where cfg: "load data = Some cfg" "kd_RawBytes kd = data"
      "\<forall>(u, a) \<in> set (acfg_AuthInfos cfg). token_only a \<and> aa_Token a \<noteq> []"
    by (rule parse_kubeconfig_Inr)
  have load: "w_LoadKubeconfig w (''/etc/proxy/credentials/'' @ cs_Name (rc_Spec rc) @ ''/kubeconfig'') = Some (proxy_view cfg)"
    using assms(3,4) kd(1) cfg(1,2) by (auto simp: same_kubeconfigs_def)
  have "is_ok (context_tokens (proxy_view cfg) (kcfg_Contexts (proxy_view cfg)) [])"
  proof (rule context_tokens_ok)
    fix u a assume "map_of (kcfg_AuthInfos (proxy_view cfg)) u = Some a"
    then have "(u, a) \<in> set (kcfg_AuthInfos (proxy_view cfg))" by (rule map_of_SomeD)
    with cfg(3) show "ka_Token a \<noteq> []" by (auto simp: proxy_view_def)
  qed
  with load assms(2,5) kd(1) show ?thesis
    by (auto simp: routes_of_def kube_route_def route_of_def NewInjector_def NewKubernetesInjector_def
      is_ok_iff rbind_eq_Inr empty_proxyRoute_def Let_def)
qed

text \<open>Where a route of the generated table comes from.\<close>

lemma generated_route_cases:
  assumes "generateProxyConfig creds mcps ws builtins = Inr routes" "r \<in> set routes"
  obtains
    (builtin) "pr_Injector r = ''none''" "pr_Domain r \<notin> set (map (\<lambda>rc. ToLower (cs_Domain (rc_Spec rc))) creds)"
      "pr_Domain r \<in> bp_Domain ` set (case builtins of None \<Rightarrow> builtinPassthroughDomains | Some bs \<Rightarrow> bs)"
  | (search) "webSearchRoute ws = Some r"
      "\<not> domainCovered (ToLower (pr_Domain r)) (map (\<lambda>rc. ToLower (cs_Domain (rc_Spec rc))) creds)"
  | (mcp) m cred where "m \<in> set mcps" "mcp_domain (snd m) = Some (pr_Domain r)"
      "mcp_CredentialRef (snd m) \<noteq> []" "cred \<in> rc_Spec ` set creds"
      "map_of (fold (\<lambda>rc m. AList.update (cs_Name (rc_Spec rc)) (rc_Spec rc) m) creds []) (mcp_CredentialRef (snd m)) = Some cred"
      "r = (buildCredentialRoute cred)\<lparr>pr_Domain := pr_Domain r, pr_AllowedPaths := [], pr_DefaultHeaders := []\<rparr>"
      "\<not> domainCovered (pr_Domain r) (map (\<lambda>rc. ToLower (cs_Domain (rc_Spec rc))) creds)"
  | (passthrough) m where "pr_Injector r = ''none''" "m \<in> set mcps" "mcp_domain (snd m) = Some (pr_Domain r)"
      "\<not> domainCovered (pr_Domain r) (map (\<lambda>rc. ToLower (cs_Domain (rc_Spec rc))) creds)"
  | (credential) rc where "rc \<in> set creds" "r \<in> set (routes_of rc)"
proof -
  let ?c0 = "map (\<lambda>rc. ToLower (cs_Domain (rc_Spec rc))) creds"
  obtain bRoutes c1 wRoutes c2 mRoutes c3 cbn where
    b: "builtin_routes (case builtins of None \<Rightarrow> builtinPassthroughDomains | Some bs \<Rightarrow> bs) ?c0 = (bRoutes, c1)"
    and w: "web_search_routes ws c1 = (wRoutes, c2)"
    and cbn: "cbn = fold (\<lambda>rc m. AList.update (cs_Name (rc_Spec rc)) (rc_Spec rc) m) creds []"
    and m: "mcpCredentialRoutes mcps cbn c2 = Inr (mRoutes, c3)"
    and routes: "routes = SliceStable routeLess (bRoutes @ wRoutes @ mRoutes @ mcpPassthroughRoutes mcps c3 @ fst (credentialRoutes creds)) @
       SliceStable routeLess (snd (credentialRoutes creds))"
    by (rule generateProxyConfig_Inr [OF assms(1)])
  note bn = builtin_routes_new [OF b] and wn = web_search_routes_new [OF w] and mn = mcpCredentialRoutes_new [OF m]
  have mono: "\<not> domainCovered d c \<Longrightarrow> set c' \<subseteq> set c \<Longrightarrow> \<not> domainCovered d c'" for d c c'
    using domainCovered_mono by blast
  have sub: "set ?c0 \<subseteq> set c1" "set ?c0 \<subseteq> set c2" "set ?c0 \<subseteq> set c3"
    using bn wn mn by blast+
  from assms(2) routes consider "r \<in> set bRoutes" | "r \<in> set wRoutes" | "r \<in> set mRoutes"
    | "r \<in> set (mcpPassthroughRoutes mcps c3)" | "r \<in> set (fst (credentialRoutes creds)) \<union> set (snd (credentialRoutes creds))"
    by auto
  then show ?thesis
  proof cases
    case 1
    with bn builtin show ?thesis by blast
  next
    case 2
    with w have "webSearchRoute ws = Some r"
      by (auto simp: web_search_routes_def Let_def split: option.splits if_splits)
    moreover have "\<not> domainCovered (ToLower (pr_Domain r)) ?c0" using 2 wn mono sub(1) by blast
    ultimately show ?thesis by (rule search)
  next
    case 3
    with mn obtain m cred where "m \<in> set mcps" "mcp_domain (snd m) = Some (pr_Domain r)"
        "map_of cbn (mcp_CredentialRef (snd m)) = Some cred"
        "r = (buildCredentialRoute cred)\<lparr>pr_Domain := pr_Domain r, pr_AllowedPaths := [], pr_DefaultHeaders := []\<rparr>"
        "\<not> domainCovered (pr_Domain r) c2" "mcp_CredentialRef (snd m) \<noteq> []" unfolding from_mcp_def by blast
    moreover from this cbn have "cred \<in> rc_Spec ` set creds" using credByName_member [of creds "[]"] by fastforce
    ultimately show ?thesis using mcp cbn mono sub(2) by blast
  next
    case 4
    from mcpPassthroughRoutes_new [OF 4] show ?thesis using passthrough mono sub(3) by blast
  next
    case 5
    then show ?thesis using credential by (auto simp: credentialRoutes_def Let_def)
  qed
qed

lemma github_credentials_ok:
  assumes "c \<in> set (githubRepoAccessCredentials instance)"
  shows "admitted c \<and> validateCredentialTypeConfig c = None \<and> cs_Type c \<noteq> CredentialTypeKubernetes"
proof -
  from assms obtain sr ps where
    "c = empty_CredentialSpec\<lparr>cs_Name := ''github-api'', cs_Type := CredentialTypeBearer,
       cs_SecretRef := [sr], cs_Domain := ''api.github.com''\<rparr> \<or>
     c = empty_CredentialSpec\<lparr>cs_Name := ''github-git'', cs_Type := CredentialTypeBasic,
       cs_SecretRef := [sr], cs_Domain := ''github.com'', cs_Basic := Some \<lparr>bac_Username = ''x-access-token''\<rparr>,
       cs_AllowedPaths := ps\<rparr>"
    unfolding githubRepoAccessCredentials_def Let_def by (auto split: option.splits if_splits)
  then show ?thesis
    by (elim disjE) (simp_all add: admitted_def validateCredentialTypeConfig_def empty_CredentialSpec_def)
qed

text \<open>Every resolved credential is fit to be turned into a route.\<close>

lemma resolved_credential_fit:
  assumes "resolveCredentials get load instance = Inr rs"
    and "\<forall>c \<in> set (sp_Credentials (cl_Spec instance)). admitted c" and "rc \<in> set rs"
  shows "admitted (rc_Spec rc) \<and> validateCredentialTypeConfig (rc_Spec rc) = None \<and>
    (cs_Type (rc_Spec rc) = CredentialTypeKubernetes \<longrightarrow> credential_ok get load rc)"
proof -
  let ?creds = "sp_Credentials (cl_Spec instance)" and ?gh = "githubRepoAccessCredentials instance"
  note r = resolved_prefix [OF assms(1)]
  from assms(3) have "rc \<in> set (take (length ?creds) rs) \<or> rc \<in> set (drop (length ?creds) rs)"
    by (metis UnE append_take_drop_id set_append)
  then show ?thesis
  proof
    assume l: "rc \<in> set (take (length ?creds) rs)"
    have "rc_Spec ` set (take (length ?creds) rs) = set ?creds"
      using r by (metis append_eq_conv_conj set_map take_map)
    with l assms(2) have "admitted (rc_Spec rc)" by blast
    moreover have "credential_ok get load rc" using r l by (auto simp: list_all_iff)
    ultimately show ?thesis by (auto simp: credential_ok_def Let_def)
  next
    assume l: "rc \<in> set (drop (length ?creds) rs)"
    have "rc_Spec ` set (drop (length ?creds) rs) = set ?gh"
      using r by (metis append_eq_conv_conj drop_map set_map)
    with l have "rc_Spec rc \<in> set ?gh" by blast
    from github_credentials_ok [OF this] show ?thesis by simp
  qed
qed

end
