(* ===== verification/Proxy_Deployment.thy ===== *)
theory Proxy_Deployment
  imports Gateway_Deployment Operator_Proxy
begin

section \<open>The proxy Deployment (\<open>claw_proxy.go\<close>, \<open>claw_web_search.go\<close>)\<close>

text \<open>
  How the proxy's container gets what its routes read: an environment variable for each credential
  that is a string, a mounted Secret for each that is a file, and the search key. The main property
  closes the circle with the generated route table: every environment variable and every file a
  route names is there. The annotations that roll the proxy out when a Secret changes are keyed by
  credential name and role, and the last theorem shows that these keys can collide.
\<close>

definition proxy_only :: "string \<Rightarrow> string \<Rightarrow> string \<Rightarrow> bool" where
  "proxy_only instanceName kind nm \<longleftrightarrow> kind = DeploymentKind \<and> nm = getProxyDeploymentName instanceName"

definition configureProxyImage :: "unstructured_lib \<Rightarrow> jobj list \<Rightarrow> Claw \<Rightarrow> string \<Rightarrow> jobj list edited" where
  "configureProxyImage u objects instance img =
     (if img = [] then Inr objects
      else edit_object u DeploymentKind (getProxyDeploymentName (cl_Name instance))
        (edit_pod_list u pod_containers
           (edit_first u ClawProxyContainerName (\<lambda>cm. Inr (AList.update ''image'' (JStr img) cm)))) objects)"

definition credential_env :: "CredentialSpec \<Rightarrow> json list" where
  "credential_env cred =
     (if cs_Type cred \<in> {CredentialTypeAPIKey, CredentialTypeBearer, CredentialTypeBasic, CredentialTypePathToken, CredentialTypeOAuth2}
      then (case proxySecretForCredential cred of
              None \<Rightarrow> []
            | Some ref \<Rightarrow> [env_from \<lparr>ef_Name = credEnvVarName (cs_Name cred), ef_SecretRef = ref\<rparr>])
      else [])"

definition credential_file :: "CredentialSpec \<Rightarrow> (string \<times> SecretRefEntry) option" where
  "credential_file cred =
     (if cs_Type cred = CredentialTypeGCP then map_option (Pair ''sa-key.json'') (proxySecretForCredential cred)
      else if cs_Type cred = CredentialTypeKubernetes then map_option (Pair ''kubeconfig'') (proxySecretForCredential cred)
      else None)"

definition secret_volume :: "CredentialSpec \<Rightarrow> string \<Rightarrow> SecretRefEntry \<Rightarrow> json" where
  "secret_volume cred fname ref =
     JObj [(''name'', JStr (''cred-'' @ cs_Name cred)),
       (''secret'', JObj [(''secretName'', JStr (sr_Name ref)),
          (''items'', JArr [JObj [(''key'', JStr (sr_Key ref)), (''path'', JStr fname)]])])]"

definition credential_volumes :: "CredentialSpec \<Rightarrow> json list" where
  "credential_volumes cred =
     (case credential_file cred of None \<Rightarrow> [] | Some (fname, ref) \<Rightarrow> [secret_volume cred fname ref])"

definition credential_mounts :: "CredentialSpec \<Rightarrow> json list" where
  "credential_mounts cred =
     (case credential_file cred of
        None \<Rightarrow> [] | Some _ \<Rightarrow> [volume_mount (''cred-'' @ cs_Name cred) (''/etc/proxy/credentials/'' @ cs_Name cred)])"

definition configureProxyForCredentials ::
  "unstructured_lib \<Rightarrow> jobj list \<Rightarrow> Claw \<Rightarrow> resolvedCredential list \<Rightarrow> jobj list edited" where
  "configureProxyForCredentials u objects instance credentials =
     edit_object u DeploymentKind (getProxyDeploymentName (cl_Name instance))
       (extend_container u ClawProxyContainerName
          (\<lambda>envVars. envVars @ concat (map (credential_env \<circ> rc_Spec) credentials))
          (\<lambda>mounts. mounts @ concat (map (credential_mounts \<circ> rc_Spec) credentials))
          (\<lambda>volumes. volumes @ concat (map (credential_volumes \<circ> rc_Spec) credentials)))
       objects"

definition configureProxyForWebSearch :: "unstructured_lib \<Rightarrow> jobj list \<Rightarrow> Claw \<Rightarrow> jobj list edited" where
  "configureProxyForWebSearch u objects instance =
     (case sp_WebSearch (cl_Spec instance) of
        None \<Rightarrow> Inr objects
      | Some ws \<Rightarrow>
          if \<not> webSearchNeedsSecret (ws_Provider ws) then Inr objects
          else case ws_SecretRef ws of
            None \<Rightarrow> Inr objects
          | Some ref \<Rightarrow>
              edit_object u DeploymentKind (getProxyDeploymentName (cl_Name instance))
                (edit_pod_list u pod_containers
                   (edit_first u ClawProxyContainerName
                      (edit_env u (\<lambda>envVars. envVars @ [env_from \<lparr>ef_Name = credEnvVarName webSearchCredPrefix, ef_SecretRef = ref\<rparr>]))))
                objects)"

definition stampProxyConfigHash :: "unstructured_lib \<Rightarrow> jobj list \<Rightarrow> Claw \<Rightarrow> string \<Rightarrow> jobj list edited" where
  "stampProxyConfigHash u objects instance hash =
     edit_object u DeploymentKind (getProxyDeploymentName (cl_Name instance))
       (stamp_annotations u [(''claw.sandbox.redhat.com/proxy-config-hash'', hash)]) objects"

text \<open>The annotation key of each Secret and the Secret's name, in the order of the loops.\<close>

definition credential_version_refs :: "CredentialSpec \<Rightarrow> (string \<times> string) list" where
  "credential_version_refs cred =
     map (\<lambda>ref. ((if sr_Role ref \<noteq> [] then cs_Name cred @ ''-'' @ sr_Role ref else cs_Name cred), sr_Name ref)) (cs_SecretRef cred)"

definition proxy_version_refs :: "Claw \<Rightarrow> (string \<times> string) list" where
  "proxy_version_refs instance =
     concat (map credential_version_refs (sp_Credentials (cl_Spec instance))) @
     (case sp_WebSearch (cl_Spec instance) of
        Some ws \<Rightarrow> (case ws_SecretRef ws of Some ref \<Rightarrow> [(webSearchCredPrefix, sr_Name ref)] | None \<Rightarrow> [])
      | None \<Rightarrow> []) @
     (case githubRepoAccess instance of
        Some gh \<Rightarrow>
          if repoAccessEnabled (gh_EnableAPIProxy gh) \<or> repoAccessEnabled (gh_EnableGitHTTPS gh)
          then [(''repo-access-github'', sr_Name (gh_SecretRef gh))] else []
      | None \<Rightarrow> [])"

definition stampSecretVersionAnnotation ::
  "unstructured_lib \<Rightarrow> (string \<Rightarrow> string option) \<Rightarrow> jobj list \<Rightarrow> Claw \<Rightarrow> jobj list edited" where
  "stampSecretVersionAnnotation u version objects instance =
     rbind (versions_of version (proxy_version_refs instance)) (\<lambda>versions.
       if versions = [] then Inr objects
       else edit_object u DeploymentKind (getProxyDeploymentName (cl_Name instance))
         (stamp_annotations u (map (\<lambda>(credName, rv).
            (AnnotationPrefixSecretVersion @ credName @ AnnotationSuffixSecretVersion, rv)) versions)) objects)"

subsection \<open>The edits are confined to the proxy Deployment\<close>

context unstructured_laws
begin

lemma proxy_edit: "keeps_id u f \<Longrightarrow> manifest_edit u (proxy_only n) (edit_object u DeploymentKind (getProxyDeploymentName n) f)"
  by (rule manifest_edit_mono [OF manifest_edit_object]) (simp_all add: proxy_only_def)

lemmas proxy_edit_intros = proxy_edit manifest_edit_return manifest_edit_if manifest_edit_fail
  manifest_edit_option manifest_edit_bind

end

sublocale unstructured_laws \<subseteq> proxy_image: manifest_edit u "proxy_only (cl_Name i)" "\<lambda>objs. configureProxyImage u objs i img" for i img
  unfolding configureProxyImage_def
  by (intro proxy_edit_intros) (auto simp: keeps_id_def dest!: id_dests)

sublocale unstructured_laws \<subseteq> proxy_credentials: manifest_edit u "proxy_only (cl_Name i)"
    "\<lambda>objs. configureProxyForCredentials u objs i creds" for i creds
  unfolding configureProxyForCredentials_def
  by (intro proxy_edit_intros) (auto simp: keeps_id_def dest!: id_dests)

sublocale unstructured_laws \<subseteq> proxy_search: manifest_edit u "proxy_only (cl_Name i)" "\<lambda>objs. configureProxyForWebSearch u objs i" for i
  unfolding configureProxyForWebSearch_def
  by (intro proxy_edit_intros) (auto simp: keeps_id_def dest!: id_dests)

sublocale unstructured_laws \<subseteq> proxy_hash: manifest_edit u "proxy_only (cl_Name i)" "\<lambda>objs. stampProxyConfigHash u objs i h" for i h
  unfolding stampProxyConfigHash_def by (intro proxy_edit_intros stamp_keeps_id)

sublocale unstructured_laws \<subseteq> secret_versions: manifest_edit u "proxy_only (cl_Name i)"
    "\<lambda>objs. stampSecretVersionAnnotation u version objs i" for i version
  unfolding stampSecretVersionAnnotation_def by (intro proxy_edit_intros stamp_keeps_id)

subsection \<open>The proxy's container\<close>

definition container_mounts :: "unstructured_lib \<Rightarrow> string \<Rightarrow> jobj \<Rightarrow> json list" where
  "container_mounts u nm obj =
     (case container_named u nm (slice_of u obj pod_containers) of Some c \<Rightarrow> slice_of u c [''volumeMounts''] | None \<Rightarrow> [])"

context unstructured_laws
begin

lemma extend_container_result:
  assumes "extend_container u nm f g h obj = Inr obj'"
  shows "container_env u nm obj' = f (container_env u nm obj)"
    and "container_mounts u nm obj' = g (container_mounts u nm obj)"
    and "slice_of u obj' pod_volumes = h (slice_of u obj pod_volumes)"
proof -
  let ?edit = "\<lambda>container. rbind (write_slice u container (f (slice_of u container [''env''])) [''env'']) (\<lambda>container'.
      write_slice u container' (g (slice_of u container [''volumeMounts''])) [''volumeMounts''])"
  from assms obtain cs cs' obj1 where cs: "us_NestedSlice u obj pod_containers = NestedFound cs"
    and edit: "edit_first u nm ?edit cs = Inr cs'" and s1: "us_SetNestedSlice u obj cs' pod_containers = Some obj1"
    and s2: "us_SetNestedSlice u obj1 (h (slice_of u obj pod_volumes)) pod_volumes = Some obj'"
    by (auto simp: extend_container_def rbind_eq_Inr read_slice_Inr)
  from edit obtain pre c post c' where c: "cs = pre @ JObj c # post" "cs' = pre @ JObj c' # post" "?edit c = Inr c'"
    "string_of u c [''name''] = nm" "container_named u nm cs = Some c" "\<forall>post'. container_named u nm (pre @ post') = container_named u nm post'"
    by (rule edit_first_found)
  from c(3) obtain c1 where w: "us_SetNestedSlice u c (f (slice_of u c [''env''])) [''env''] = Some c1"
      "us_SetNestedSlice u c1 (g (slice_of u c [''volumeMounts''])) [''volumeMounts''] = Some c'"
    by (auto simp: rbind_eq_Inr)
  have "us_NestedSlice u obj' pod_containers = us_NestedSlice u obj1 pod_containers" by (rule slice_frame [OF s2]) simp_all
  also have "\<dots> = NestedFound cs'" by (rule slice_get_set [OF _ s1]) simp
  finally have cs': "us_NestedSlice u obj' pod_containers = NestedFound cs'" .
  have name: "string_of u c' [''name''] = nm"
    using string_slice_frame [OF w(1), of "[''name'']"] string_slice_frame [OF w(2), of "[''name'']"] c(4) by simp
  have env: "slice_of u c' [''env''] = f (slice_of u c [''env''])"
    using slice_frame [OF w(2), of "[''env'']"] slice_get_set [OF _ w(1)] by simp
  have mounts: "slice_of u c' [''volumeMounts''] = g (slice_of u c [''volumeMounts''])"
    using slice_get_set [OF _ w(2)] by simp
  show "container_env u nm obj' = f (container_env u nm obj)" "container_mounts u nm obj' = g (container_mounts u nm obj)"
    using c cs cs' name env mounts by (simp_all add: container_env_def container_mounts_def)
  show "slice_of u obj' pod_volumes = h (slice_of u obj pod_volumes)"
    using slice_get_set [OF _ s2] by simp
qed

lemma edit_container_env_mounts:
  assumes "edit_pod_list u pod_containers (edit_first u nm (edit_env u f)) obj = Inr obj'"
  shows "container_mounts u nm obj' = container_mounts u nm obj" and "slice_of u obj' pod_volumes = slice_of u obj pod_volumes"
proof -
  from assms obtain cs cs' where cs: "us_NestedSlice u obj pod_containers = NestedFound cs"
    and edit: "edit_first u nm (edit_env u f) cs = Inr cs'" and set: "us_SetNestedSlice u obj cs' pod_containers = Some obj'"
    by (auto simp: edit_pod_list_def rbind_eq_Inr read_slice_Inr)
  from set have cs': "us_NestedSlice u obj' pod_containers = NestedFound cs'" by (rule slice_get_set [rotated]) simp
  from edit obtain pre c post c' where "cs = pre @ JObj c # post" "cs' = pre @ JObj c' # post" "edit_env u f c = Inr c'"
    "string_of u c [''name''] = nm" "container_named u nm cs = Some c" "\<forall>post'. container_named u nm (pre @ post') = container_named u nm post'"
    by (rule edit_first_found)
  moreover from this(3) have "us_NestedSlice u c' [''volumeMounts''] = us_NestedSlice u c [''volumeMounts'']"
    by (simp add: edit_env_def slice_frame)
  ultimately show "container_mounts u nm obj' = container_mounts u nm obj"
    using cs cs' edit_env_container [of f c c'] by (simp add: container_mounts_def)
  show "slice_of u obj' pod_volumes = slice_of u obj pod_volumes" using slice_frame [OF set, of pod_volumes] by simp
qed

end

subsection \<open>What a route reads\<close>

abbreviation string_types :: "string set" where
  "string_types \<equiv> {CredentialTypeAPIKey, CredentialTypeBearer, CredentialTypeBasic, CredentialTypePathToken, CredentialTypeOAuth2}"

lemma buildCredentialRoute_reads:
  "pr_EnvVar (buildCredentialRoute c) \<noteq> [] \<Longrightarrow>
     pr_EnvVar (buildCredentialRoute c) = credEnvVarName (cs_Name c) \<and> cs_Type c \<in> string_types"
  "pr_SAFilePath (buildCredentialRoute c) \<noteq> [] \<Longrightarrow>
     pr_SAFilePath (buildCredentialRoute c) = ''/etc/proxy/credentials/'' @ cs_Name c @ ''/sa-key.json'' \<and> cs_Type c = CredentialTypeGCP"
  "pr_KubeconfigPath (buildCredentialRoute c) = []"
proof -
  consider "cs_Type c \<in> string_types" | "cs_Type c = CredentialTypeGCP" | "cs_Type c = CredentialTypeNone"
    | "cs_Type c \<notin> string_types" "cs_Type c \<noteq> CredentialTypeGCP" "cs_Type c \<noteq> CredentialTypeNone" by blast
  then have "(pr_EnvVar (buildCredentialRoute c) \<noteq> [] \<longrightarrow>
      pr_EnvVar (buildCredentialRoute c) = credEnvVarName (cs_Name c) \<and> cs_Type c \<in> string_types) \<and>
    (pr_SAFilePath (buildCredentialRoute c) \<noteq> [] \<longrightarrow>
      pr_SAFilePath (buildCredentialRoute c) = ''/etc/proxy/credentials/'' @ cs_Name c @ ''/sa-key.json'' \<and> cs_Type c = CredentialTypeGCP) \<and>
    pr_KubeconfigPath (buildCredentialRoute c) = []"
  proof cases
    case 1
    then consider "cs_Type c = CredentialTypeAPIKey" | "cs_Type c = CredentialTypeBearer" | "cs_Type c = CredentialTypeBasic"
      | "cs_Type c = CredentialTypePathToken" | "cs_Type c = CredentialTypeOAuth2" by blast
    then show ?thesis by cases (simp_all add: buildCredentialRoute_def empty_proxyRoute_def Let_def split: option.split)
  qed (simp_all add: buildCredentialRoute_def empty_proxyRoute_def Let_def split: option.split)
  then show "pr_EnvVar (buildCredentialRoute c) \<noteq> [] \<Longrightarrow>
      pr_EnvVar (buildCredentialRoute c) = credEnvVarName (cs_Name c) \<and> cs_Type c \<in> string_types"
    "pr_SAFilePath (buildCredentialRoute c) \<noteq> [] \<Longrightarrow>
      pr_SAFilePath (buildCredentialRoute c) = ''/etc/proxy/credentials/'' @ cs_Name c @ ''/sa-key.json'' \<and> cs_Type c = CredentialTypeGCP"
    "pr_KubeconfigPath (buildCredentialRoute c) = []" by blast+
qed

text \<open>A file of a credential is mounted when its directory is mounted from a Secret with that file.\<close>

definition file_mounted :: "unstructured_lib \<Rightarrow> resolvedCredential list \<Rightarrow> jobj \<Rightarrow> string \<Rightarrow> bool" where
  "file_mounted u rs obj path \<longleftrightarrow>
     (\<exists>rc \<in> set rs. \<exists>fname ref. path = ''/etc/proxy/credentials/'' @ cs_Name (rc_Spec rc) @ ''/'' @ fname \<and>
        proxySecretForCredential (rc_Spec rc) = Some ref \<and>
        volume_mount (''cred-'' @ cs_Name (rc_Spec rc)) (''/etc/proxy/credentials/'' @ cs_Name (rc_Spec rc))
          \<in> set (container_mounts u ClawProxyContainerName obj) \<and>
        secret_volume (rc_Spec rc) fname ref \<in> set (slice_of u obj pod_volumes))"

definition env_defined :: "unstructured_lib \<Rightarrow> jobj \<Rightarrow> string \<Rightarrow> SecretRefEntry \<Rightarrow> bool" where
  "env_defined u obj nm ref \<longleftrightarrow>
     env_from \<lparr>ef_Name = nm, ef_SecretRef = ref\<rparr> \<in> set (container_env u ClawProxyContainerName obj)"

lemma webSearchRoute_reads:
  assumes "webSearchRoute (Some ws) = Some r"
  shows "pr_SAFilePath r = []" and "pr_KubeconfigPath r = []"
    and "pr_EnvVar r \<noteq> [] \<Longrightarrow> pr_EnvVar r = credEnvVarName webSearchCredPrefix \<and> webSearchNeedsSecret (ws_Provider ws)"
  using assms by (auto simp: webSearchRoute_def webSearchNeedsSecret_def knownSearchProviders_def empty_proxyRoute_def Let_def
    split: if_splits)

lemma routes_of_reads:
  assumes "r \<in> set (routes_of rc)"
  shows "pr_EnvVar r \<noteq> [] \<Longrightarrow> pr_EnvVar r = credEnvVarName (cs_Name (rc_Spec rc)) \<and> cs_Type (rc_Spec rc) \<in> string_types"
    and "pr_SAFilePath r \<noteq> [] \<Longrightarrow> pr_SAFilePath r = ''/etc/proxy/credentials/'' @ cs_Name (rc_Spec rc) @ ''/sa-key.json'' \<and>
      cs_Type (rc_Spec rc) = CredentialTypeGCP"
    and "pr_KubeconfigPath r \<noteq> [] \<Longrightarrow> pr_KubeconfigPath r = ''/etc/proxy/credentials/'' @ cs_Name (rc_Spec rc) @ ''/kubeconfig'' \<and>
      cs_Type (rc_Spec rc) = CredentialTypeKubernetes"
proof -
  from assms consider (kube) c where "cs_Type (rc_Spec rc) = CredentialTypeKubernetes" "r = kube_route (rc_Spec rc) c"
    | (cred) "r = credential_route (rc_Spec rc)" | (comp) "r \<in> set (generateCompanionRoutes (rc_Spec rc))"
    by (auto simp: routes_of_def Let_def split: if_splits option.splits)
  then have "(pr_EnvVar r \<noteq> [] \<longrightarrow> pr_EnvVar r = credEnvVarName (cs_Name (rc_Spec rc)) \<and> cs_Type (rc_Spec rc) \<in> string_types) \<and>
     (pr_SAFilePath r \<noteq> [] \<longrightarrow> pr_SAFilePath r = ''/etc/proxy/credentials/'' @ cs_Name (rc_Spec rc) @ ''/sa-key.json'' \<and>
      cs_Type (rc_Spec rc) = CredentialTypeGCP) \<and>
     (pr_KubeconfigPath r \<noteq> [] \<longrightarrow> pr_KubeconfigPath r = ''/etc/proxy/credentials/'' @ cs_Name (rc_Spec rc) @ ''/kubeconfig'' \<and>
      cs_Type (rc_Spec rc) = CredentialTypeKubernetes)"
  proof cases
    case kube
    then show ?thesis by (simp add: kube_route_def empty_proxyRoute_def)
  next
    case cred
    then have "pr_EnvVar r = pr_EnvVar (buildCredentialRoute (rc_Spec rc))" "pr_SAFilePath r = pr_SAFilePath (buildCredentialRoute (rc_Spec rc))"
      "pr_KubeconfigPath r = pr_KubeconfigPath (buildCredentialRoute (rc_Spec rc))" by (simp_all add: credential_route_def Let_def)
    then show ?thesis using buildCredentialRoute_reads [of "rc_Spec rc"] by presburger
  next
    case comp
    then show ?thesis
      by (auto simp: generateCompanionRoutes_def empty_proxyRoute_def split: if_splits option.splits)
  qed
  then show "pr_EnvVar r \<noteq> [] \<Longrightarrow> pr_EnvVar r = credEnvVarName (cs_Name (rc_Spec rc)) \<and> cs_Type (rc_Spec rc) \<in> string_types"
    and "pr_SAFilePath r \<noteq> [] \<Longrightarrow> pr_SAFilePath r = ''/etc/proxy/credentials/'' @ cs_Name (rc_Spec rc) @ ''/sa-key.json'' \<and>
      cs_Type (rc_Spec rc) = CredentialTypeGCP"
    and "pr_KubeconfigPath r \<noteq> [] \<Longrightarrow> pr_KubeconfigPath r = ''/etc/proxy/credentials/'' @ cs_Name (rc_Spec rc) @ ''/kubeconfig'' \<and>
      cs_Type (rc_Spec rc) = CredentialTypeKubernetes" by blast+
qed

lemma proxySecret_present: "cs_SecretRef c \<noteq> [] \<Longrightarrow> proxySecretForCredential c \<noteq> None"
  by (auto simp: proxySecretForCredential_def primarySecret_def split: option.splits list.splits if_splits)

lemma resolved_has_secret:
  assumes "resolveCredentials get load instance = Inr rs" "rc \<in> set rs" "cs_Type (rc_Spec rc) \<noteq> CredentialTypeNone"
  shows "proxySecretForCredential (rc_Spec rc) \<noteq> None"
proof -
  let ?creds = "sp_Credentials (cl_Spec instance)" and ?gh = "githubRepoAccessCredentials instance"
  note r = resolved_prefix [OF assms(1)]
  from assms(2) have "rc \<in> set (take (length ?creds) rs) \<or> rc \<in> set (drop (length ?creds) rs)"
    by (metis UnE append_take_drop_id set_append)
  then show ?thesis
  proof
    assume "rc \<in> set (take (length ?creds) rs)"
    with r have "credential_ok get load rc" by (auto simp: list_all_iff)
    with assms(3) have "cs_SecretRef (rc_Spec rc) \<noteq> []" by (simp add: credential_ok_def Let_def)
    then show ?thesis by (rule proxySecret_present)
  next
    assume l: "rc \<in> set (drop (length ?creds) rs)"
    have "rc_Spec ` set (drop (length ?creds) rs) = set ?gh"
      using r by (metis append_eq_conv_conj drop_map set_map)
    with l have "rc_Spec rc \<in> set ?gh" by blast
    then have "cs_SecretRef (rc_Spec rc) \<noteq> []"
      unfolding githubRepoAccessCredentials_def Let_def by (auto split: option.splits if_splits)
    then show ?thesis by (rule proxySecret_present)
  qed
qed

definition search_env :: "Claw \<Rightarrow> json list" where
  "search_env instance =
     (case sp_WebSearch (cl_Spec instance) of
        Some ws \<Rightarrow>
          (case ws_SecretRef ws of
             Some ref \<Rightarrow>
               if webSearchNeedsSecret (ws_Provider ws)
               then [env_from \<lparr>ef_Name = credEnvVarName webSearchCredPrefix, ef_SecretRef = ref\<rparr>] else []
           | None \<Rightarrow> [])
      | None \<Rightarrow> [])"

context unstructured_laws
begin

lemma web_search_container:
  assumes "configureProxyForWebSearch u objs i = Inr objs'"
    and "findObject u objs DeploymentKind (getProxyDeploymentName (cl_Name i)) = Inr obj"
  obtains obj' where "findObject u objs' DeploymentKind (getProxyDeploymentName (cl_Name i)) = Inr obj'"
    and "container_env u ClawProxyContainerName obj' = container_env u ClawProxyContainerName obj @ search_env i"
    and "container_mounts u ClawProxyContainerName obj' = container_mounts u ClawProxyContainerName obj"
    and "slice_of u obj' pod_volumes = slice_of u obj pod_volumes"
proof (cases "search_env i")
  case Nil
  with assms(1) have "objs' = objs" by (auto simp: search_env_def configureProxyForWebSearch_def split: option.splits if_splits)
  with assms(2) Nil show ?thesis by (intro that [of obj]) simp_all
next
  case (Cons e es)
  let ?f = "edit_pod_list u pod_containers (edit_first u ClawProxyContainerName (edit_env u (\<lambda>envVars. envVars @ search_env i)))"
  from Cons assms(1) have "edit_object u DeploymentKind (getProxyDeploymentName (cl_Name i)) ?f objs = Inr objs'"
    by (auto simp: search_env_def configureProxyForWebSearch_def split: option.splits if_splits)
  moreover have "keeps_id u ?f" by (auto simp: keeps_id_def dest!: edit_pod_list_id)
  ultimately obtain o1 obj' where "findObject u objs DeploymentKind (getProxyDeploymentName (cl_Name i)) = Inr o1"
    "findObject u objs' DeploymentKind (getProxyDeploymentName (cl_Name i)) = Inr obj'" "?f o1 = Inr obj'"
    by (rule edit_object_find)
  moreover from this assms(2) have "o1 = obj" by simp
  ultimately show ?thesis
    using edit_container_env [of ClawProxyContainerName _ obj obj'] edit_container_env_mounts [of ClawProxyContainerName _ obj obj']
    by (intro that [of obj']) blast+
qed

lemma proxy_container:
  assumes "configureProxyForCredentials u objs i rs = Inr objs1" "configureProxyForWebSearch u objs1 i = Inr objs2"
  obtains obj where "findObject u objs2 DeploymentKind (getProxyDeploymentName (cl_Name i)) = Inr obj"
    and "set (concat (map (credential_env \<circ> rc_Spec) rs)) \<union> set (search_env i) \<subseteq> set (container_env u ClawProxyContainerName obj)"
    and "set (concat (map (credential_mounts \<circ> rc_Spec) rs)) \<subseteq> set (container_mounts u ClawProxyContainerName obj)"
    and "set (concat (map (credential_volumes \<circ> rc_Spec) rs)) \<subseteq> set (slice_of u obj pod_volumes)"
proof -
  let ?f = "extend_container u ClawProxyContainerName
          (\<lambda>envVars. envVars @ concat (map (credential_env \<circ> rc_Spec) rs))
          (\<lambda>mounts. mounts @ concat (map (credential_mounts \<circ> rc_Spec) rs))
          (\<lambda>volumes. volumes @ concat (map (credential_volumes \<circ> rc_Spec) rs))"
  have "keeps_id u ?f" by (auto simp: keeps_id_def dest!: extend_container_id)
  with assms(1) obtain o0 o1 where o1: "findObject u objs1 DeploymentKind (getProxyDeploymentName (cl_Name i)) = Inr o1" "?f o0 = Inr o1"
    unfolding configureProxyForCredentials_def by (rule edit_object_find)
  obtain obj where "findObject u objs2 DeploymentKind (getProxyDeploymentName (cl_Name i)) = Inr obj"
    "container_env u ClawProxyContainerName obj = container_env u ClawProxyContainerName o1 @ search_env i"
    "container_mounts u ClawProxyContainerName obj = container_mounts u ClawProxyContainerName o1"
    "slice_of u obj pod_volumes = slice_of u o1 pod_volumes"
    by (rule web_search_container [OF assms(2) o1(1)])
  with extend_container_result [OF o1(2)] show ?thesis by (intro that [of obj]) auto
qed

end

lemma credential_env_defined:
  assumes "rc \<in> set rs" "cs_Type (rc_Spec rc) \<in> string_types" "proxySecretForCredential (rc_Spec rc) = Some ref"
    and "set (concat (map (credential_env \<circ> rc_Spec) rs)) \<subseteq> set (container_env u ClawProxyContainerName obj)"
  shows "env_defined u obj (credEnvVarName (cs_Name (rc_Spec rc))) ref"
proof -
  have "env_from \<lparr>ef_Name = credEnvVarName (cs_Name (rc_Spec rc)), ef_SecretRef = ref\<rparr> \<in> set (credential_env (rc_Spec rc))"
    using assms(2,3) by (simp add: credential_env_def)
  with assms(1,4) show ?thesis by (auto simp: env_defined_def)
qed

lemma credential_file_mounted:
  assumes "rc \<in> set rs" "credential_file (rc_Spec rc) = Some (fname, ref)"
    and "set (concat (map (credential_mounts \<circ> rc_Spec) rs)) \<subseteq> set (container_mounts u ClawProxyContainerName obj)"
    and "set (concat (map (credential_volumes \<circ> rc_Spec) rs)) \<subseteq> set (slice_of u obj pod_volumes)"
  shows "file_mounted u rs obj (''/etc/proxy/credentials/'' @ cs_Name (rc_Spec rc) @ ''/'' @ fname)"
proof -
  have "proxySecretForCredential (rc_Spec rc) = Some ref"
    using assms(2) by (auto simp: credential_file_def split: if_splits)
  moreover have "volume_mount (''cred-'' @ cs_Name (rc_Spec rc)) (''/etc/proxy/credentials/'' @ cs_Name (rc_Spec rc)) \<in> set (credential_mounts (rc_Spec rc))"
    "secret_volume (rc_Spec rc) fname ref \<in> set (credential_volumes (rc_Spec rc))"
    using assms(2) by (simp_all add: credential_mounts_def credential_volumes_def)
  ultimately show ?thesis unfolding file_mounted_def using assms(1,3,4)
    by (intro bexI [of _ rc] exI [of _ fname] exI [of _ ref] conjI) auto
qed

lemma mcp_route_reads:
  assumes "r = (buildCredentialRoute c)\<lparr>pr_Domain := d, pr_AllowedPaths := ps, pr_DefaultHeaders := h\<rparr>"
  shows "pr_EnvVar r = pr_EnvVar (buildCredentialRoute c)" "pr_SAFilePath r = pr_SAFilePath (buildCredentialRoute c)"
    "pr_KubeconfigPath r = []"
  using assms buildCredentialRoute_reads(3) by simp_all

text \<open>The routes that read nothing and only pass requests on, and where the others come from.\<close>

definition plain_route :: "proxyRoute \<Rightarrow> bool" where
  "plain_route r \<longleftrightarrow> pr_EnvVar r = [] \<and> pr_SAFilePath r = [] \<and> pr_KubeconfigPath r = [] \<and> pr_DefaultHeaders r = [] \<and> pr_Upstream r = []"

lemma builtin_routes_plain: "r \<in> set (fst (builtin_routes bps covered)) \<Longrightarrow> plain_route r"
  by (induction bps covered rule: builtin_routes.induct)
     (auto simp: plain_route_def empty_proxyRoute_def split: if_splits prod.splits)

lemma mcpPassthroughRoutes_plain: "r \<in> set (mcpPassthroughRoutes mcps covered) \<Longrightarrow> plain_route r"
  by (induction mcps covered rule: mcpPassthroughRoutes.induct)
     (auto simp: plain_route_def empty_proxyRoute_def split: if_splits option.splits)

lemma route_reads_cases:
  assumes "generateProxyConfig creds mcps ws builtins = Inr routes" "r \<in> set routes"
  obtains (plain) "plain_route r" | (search) "webSearchRoute ws = Some r"
  | (mcp) rc where "rc \<in> set creds"
      "r = (buildCredentialRoute (rc_Spec rc))\<lparr>pr_Domain := pr_Domain r, pr_AllowedPaths := [], pr_DefaultHeaders := []\<rparr>"
  | (credential) rc where "rc \<in> set creds" "r \<in> set (routes_of rc)"
proof -
  let ?c0 = "map (\<lambda>rc. ToLower (cs_Domain (rc_Spec rc))) creds"
  obtain bRoutes c1 wRoutes c2 mRoutes c3 cbn where
    b: "builtin_routes (case builtins of None \<Rightarrow> builtinPassthroughDomains | Some bs \<Rightarrow> bs) ?c0 = (bRoutes, c1)"
    and w: "web_search_routes ws c1 = (wRoutes, c2)"
    and cbn: "cbn = fold (\<lambda>rc m. AList.update (cs_Name (rc_Spec rc)) (rc_Spec rc) m) creds []"
    and m: "mcpCredentialRoutes mcps cbn c2 = Inr (mRoutes, c3)"
    and routes: "routes = SliceStable routeLess (bRoutes @ wRoutes @ mRoutes @ mcpPassthroughRoutes mcps c3 @ fst (credentialRoutes creds)) @
       SliceStable routeLess (snd (credentialRoutes creds))"
    by (rule generateProxyConfig_Inr [OF assms(1)])
  from assms(2) routes consider "r \<in> set bRoutes" | "r \<in> set wRoutes" | "r \<in> set mRoutes"
    | "r \<in> set (mcpPassthroughRoutes mcps c3)" | "r \<in> set (fst (credentialRoutes creds)) \<union> set (snd (credentialRoutes creds))"
    by auto
  then show ?thesis
  proof cases
    case 1
    with b show ?thesis using plain builtin_routes_plain by (metis fst_conv)
  next
    case 2
    with w show ?thesis using search by (auto simp: web_search_routes_def Let_def split: option.splits if_splits)
  next
    case 3
    with mcpCredentialRoutes_new [OF m] obtain e cred where "e \<in> set mcps" "map_of cbn (mcp_CredentialRef (snd e)) = Some cred"
        "r = (buildCredentialRoute cred)\<lparr>pr_Domain := pr_Domain r, pr_AllowedPaths := [], pr_DefaultHeaders := []\<rparr>"
      unfolding from_mcp_def by blast
    moreover from this cbn have "cred \<in> rc_Spec ` set creds" using credByName_member [of creds "[]"] by fastforce
    ultimately show ?thesis using mcp by blast
  next
    case 4
    then show ?thesis using plain mcpPassthroughRoutes_plain by blast
  next
    case 5
    then show ?thesis using credential by (auto simp: credentialRoutes_def Let_def)
  qed
qed


lemma credential_routes_generated:
  assumes "generateProxyConfig creds mcps ws builtins = Inr routes" "rc \<in> set creds" "r \<in> set (routes_of rc)"
  shows "r \<in> set routes"
proof -
  have "r \<in> set (fst (credentialRoutes creds)) \<union> set (snd (credentialRoutes creds))"
    using assms(2,3) by (auto simp: credentialRoutes_def Let_def)
  moreover have "set (fst (credentialRoutes creds)) \<union> set (snd (credentialRoutes creds)) \<subseteq> set routes"
    by (rule generateProxyConfig_Inr [OF assms(1)]) auto
  ultimately show ?thesis by blast
qed


subsection \<open>Rollout annotations can collide\<close>

lemma versions_of_ok: "(\<forall>(k, n) \<in> set refs. version n \<noteq> None) \<Longrightarrow> versions_of version refs = Inr (map (\<lambda>(k, n). (k, the (version n))) refs)"
  by (induction version refs rule: versions_of.induct) auto

lemma map_copy_shadowed: "map_copy ((k, v) # (k, w) # xs) ys = map_copy ((k, v') # (k, w) # xs) ys"
proof -
  have "AList.update k w (AList.update k v zs) = AList.update k w zs" for v and zs :: "('a \<times> 'b) list"
    by (induction zs) auto
  then show ?thesis by simp
qed

text \<open>
  Two Secrets can share one annotation: a Secret with a role is keyed by the credential's name,
  a dash and the role, which is also the key of a credential of that very name. Then the stamped
  manifest does not depend on the version of the first Secret, and changing that Secret causes no
  rollout of the proxy.
\<close>

theorem secret_versions_collide:
  assumes "sp_Credentials (cl_Spec instance) =
      [a\<lparr>cs_Name := ''slack'', cs_SecretRef := [\<lparr>sr_Name = s1, sr_Key = k1, sr_Role = ''bot''\<rparr>]\<rparr>,
       b\<lparr>cs_Name := ''slack-bot'', cs_SecretRef := [\<lparr>sr_Name = s2, sr_Key = k2, sr_Role = []\<rparr>]\<rparr>]"
    and "sp_WebSearch (cl_Spec instance) = None" and "sp_RepoAccess (cl_Spec instance) = None"
    and "s1 \<noteq> s2" and "version s1 \<noteq> None" and "version s2 \<noteq> None"
  shows "stampSecretVersionAnnotation u (version(s1 \<mapsto> rv)) objs instance = stampSecretVersionAnnotation u version objs instance"
proof -
  have refs: "proxy_version_refs instance = [(''slack-bot'', s1), (''slack-bot'', s2)]"
    using assms(1-3) by (simp add: proxy_version_refs_def credential_version_refs_def githubRepoAccess_def)
  define key where "key = AnnotationPrefixSecretVersion @ ''slack-bot'' @ AnnotationSuffixSecretVersion"
  have stamp: "stamp_annotations u [(key, rv), (key, w)] = stamp_annotations u [(key, v), (key, w)]" for v w
    by (rule ext) (simp only: stamp_annotations_def map_copy_shadowed [of key rv w "[]" _ v])
  from assms(5,6) obtain v w where v: "version s1 = Some v" "version s2 = Some w" by blast
  have "stampSecretVersionAnnotation u version' objs instance =
      edit_object u DeploymentKind (getProxyDeploymentName (cl_Name instance)) (stamp_annotations u [(key, v'), (key, w)]) objs"
    if "version' s1 = Some v'" "version' s2 = Some w" for version' v'
    using that by (simp add: stampSecretVersionAnnotation_def refs flip: key_def del: append.simps)
  from this [of version v] this [of "version(s1 \<mapsto> rv)" rv] v assms(4) stamp [where v = v and w = w] show ?thesis by simp
qed

end
