(* ===== verification/Conditions.thy ===== *)
theory Conditions
  imports Api_Types
begin

section \<open>Status conditions\<close>

text \<open>
  The operator reports through conditions, which the apimachinery package \<open>meta\<close> stores: its three
  functions are the fields of the parameter \<open>conditions_lib\<close>, and the locale \<open>condition_laws\<close>
  states what their documentation promises. The transition time belongs to the library: two
  conditions are the same report when they agree on everything else. \<open>list_conditions\<close> is an
  instance. \<open>setCondition\<close> is from \<open>src/internal/controller/claw_status.go\<close>.
\<close>

record conditions_lib =
  meta_SetStatusCondition :: "Condition list \<Rightarrow> Condition \<Rightarrow> Condition list"
  meta_FindStatusCondition :: "Condition list \<Rightarrow> string \<Rightarrow> Condition option"
  meta_RemoveStatusCondition :: "Condition list \<Rightarrow> string \<Rightarrow> Condition list"

definition same_report :: "Condition \<Rightarrow> Condition \<Rightarrow> bool" where
  "same_report a b \<longleftrightarrow> a\<lparr>co_LastTransitionTime := 0\<rparr> = b\<lparr>co_LastTransitionTime := 0\<rparr>"

locale condition_laws =
  fixes m :: conditions_lib
  assumes find_set: "\<exists>c'. meta_FindStatusCondition m (meta_SetStatusCondition m cs c) (co_Type c) = Some c' \<and> same_report c c'"
    and find_set_other: "t \<noteq> co_Type c \<Longrightarrow> meta_FindStatusCondition m (meta_SetStatusCondition m cs c) t = meta_FindStatusCondition m cs t"
    and set_again: "meta_SetStatusCondition m (meta_SetStatusCondition m cs c) c = meta_SetStatusCondition m cs c"
    and find_remove: "meta_FindStatusCondition m (meta_RemoveStatusCondition m cs t) t = None"
    and find_remove_other: "t' \<noteq> t \<Longrightarrow> meta_FindStatusCondition m (meta_RemoveStatusCondition m cs t) t' = meta_FindStatusCondition m cs t'"

fun list_set :: "Condition list \<Rightarrow> Condition \<Rightarrow> Condition list" where
  "list_set [] c = [c]"
| "list_set (d # ds) c =
     (if co_Type d = co_Type c
      then (if co_Status d = co_Status c then c\<lparr>co_LastTransitionTime := co_LastTransitionTime d\<rparr> else c) # ds
      else d # list_set ds c)"

definition list_conditions :: conditions_lib where
  "list_conditions =
     \<lparr>meta_SetStatusCondition = list_set,
      meta_FindStatusCondition = (\<lambda>cs t. List.find (\<lambda>c. co_Type c = t) cs),
      meta_RemoveStatusCondition = (\<lambda>cs t. filter (\<lambda>c. co_Type c \<noteq> t) cs)\<rparr>"

interpretation list_conditions: condition_laws list_conditions
proof
  fix cs :: "Condition list" and c t t'
  show "\<exists>c'. meta_FindStatusCondition list_conditions (meta_SetStatusCondition list_conditions cs c) (co_Type c) = Some c' \<and> same_report c c'"
    by (induction cs) (auto simp: list_conditions_def same_report_def)
  show "t \<noteq> co_Type c \<Longrightarrow> meta_FindStatusCondition list_conditions (meta_SetStatusCondition list_conditions cs c) t =
      meta_FindStatusCondition list_conditions cs t"
    by (induction cs) (auto simp: list_conditions_def)
  show "meta_SetStatusCondition list_conditions (meta_SetStatusCondition list_conditions cs c) c = meta_SetStatusCondition list_conditions cs c"
    by (induction cs) (auto simp: list_conditions_def)
  show "meta_FindStatusCondition list_conditions (meta_RemoveStatusCondition list_conditions cs t) t = None"
    by (simp add: list_conditions_def find_None_iff)
  show "t' \<noteq> t \<Longrightarrow> meta_FindStatusCondition list_conditions (meta_RemoveStatusCondition list_conditions cs t) t' =
      meta_FindStatusCondition list_conditions cs t'"
    by (induction cs) (auto simp: list_conditions_def)
qed

abbreviation ConditionTrue :: string where "ConditionTrue \<equiv> ''True''"
abbreviation ConditionFalse :: string where "ConditionFalse \<equiv> ''False''"

definition with_conditions :: "(Condition list \<Rightarrow> Condition list) \<Rightarrow> Claw \<Rightarrow> Claw" where
  "with_conditions f instance =
     instance\<lparr>cl_Status := (cl_Status instance)\<lparr>st_Conditions := f (st_Conditions (cl_Status instance))\<rparr>\<rparr>"

definition setCondition :: "conditions_lib \<Rightarrow> string \<Rightarrow> string \<Rightarrow> string \<Rightarrow> string \<Rightarrow> Claw \<Rightarrow> Claw" where
  "setCondition m condType status reason message instance =
     with_conditions (\<lambda>cs. meta_SetStatusCondition m cs
       \<lparr>co_Type = condType, co_Status = status, co_ObservedGeneration = cl_Generation instance,
        co_LastTransitionTime = 0, co_Reason = reason, co_Message = message\<rparr>) instance"

definition removeCondition :: "conditions_lib \<Rightarrow> string \<Rightarrow> Claw \<Rightarrow> Claw" where
  "removeCondition m condType = with_conditions (\<lambda>cs. meta_RemoveStatusCondition m cs condType)"

definition condition_of :: "conditions_lib \<Rightarrow> Claw \<Rightarrow> string \<Rightarrow> Condition option" where
  "condition_of m instance condType = meta_FindStatusCondition m (st_Conditions (cl_Status instance)) condType"

text \<open>The report of a condition: its status, reason and generation.\<close>

definition reports :: "conditions_lib \<Rightarrow> Claw \<Rightarrow> string \<Rightarrow> (string \<times> string \<times> int) option" where
  "reports m instance condType =
     map_option (\<lambda>c. (co_Status c, co_Reason c, co_ObservedGeneration c)) (condition_of m instance condType)"

lemma with_conditions_simps [simp]:
  "cl_Name (with_conditions f i) = cl_Name i" "cl_Namespace (with_conditions f i) = cl_Namespace i"
  "cl_Generation (with_conditions f i) = cl_Generation i" "cl_Spec (with_conditions f i) = cl_Spec i"
  "cl_Annotations (with_conditions f i) = cl_Annotations i"
  "st_Image (cl_Status (with_conditions f i)) = st_Image (cl_Status i)"
  "st_URL (cl_Status (with_conditions f i)) = st_URL (cl_Status i)"
  "st_GatewayURL (cl_Status (with_conditions f i)) = st_GatewayURL (cl_Status i)"
  "st_LastDeployedVersion (cl_Status (with_conditions f i)) = st_LastDeployedVersion (cl_Status i)"
  "st_Migration (cl_Status (with_conditions f i)) = st_Migration (cl_Status i)"
  "st_GatewayTokenSecretRef (cl_Status (with_conditions f i)) = st_GatewayTokenSecretRef (cl_Status i)"
  "st_Conditions (cl_Status (with_conditions f i)) = f (st_Conditions (cl_Status i))"
  by (simp_all add: with_conditions_def)

lemma setCondition_simps [simp]:
  "cl_Name (setCondition m t s r msg i) = cl_Name i" "cl_Namespace (setCondition m t s r msg i) = cl_Namespace i"
  "cl_Generation (setCondition m t s r msg i) = cl_Generation i" "cl_Spec (setCondition m t s r msg i) = cl_Spec i"
  "cl_Annotations (setCondition m t s r msg i) = cl_Annotations i"
  "st_Image (cl_Status (setCondition m t s r msg i)) = st_Image (cl_Status i)"
  "st_URL (cl_Status (setCondition m t s r msg i)) = st_URL (cl_Status i)"
  "st_GatewayURL (cl_Status (setCondition m t s r msg i)) = st_GatewayURL (cl_Status i)"
  "st_LastDeployedVersion (cl_Status (setCondition m t s r msg i)) = st_LastDeployedVersion (cl_Status i)"
  "st_Migration (cl_Status (setCondition m t s r msg i)) = st_Migration (cl_Status i)"
  by (simp_all add: setCondition_def)

lemma removeCondition_simps [simp]:
  "cl_Name (removeCondition m t i) = cl_Name i" "cl_Namespace (removeCondition m t i) = cl_Namespace i"
  "cl_Generation (removeCondition m t i) = cl_Generation i" "cl_Spec (removeCondition m t i) = cl_Spec i"
  "cl_Annotations (removeCondition m t i) = cl_Annotations i"
  "st_Image (cl_Status (removeCondition m t i)) = st_Image (cl_Status i)"
  "st_URL (cl_Status (removeCondition m t i)) = st_URL (cl_Status i)"
  "st_GatewayURL (cl_Status (removeCondition m t i)) = st_GatewayURL (cl_Status i)"
  "st_LastDeployedVersion (cl_Status (removeCondition m t i)) = st_LastDeployedVersion (cl_Status i)"
  "st_Migration (cl_Status (removeCondition m t i)) = st_Migration (cl_Status i)"
  by (simp_all add: removeCondition_def)

context condition_laws
begin

lemma reports_set [simp]: "reports m (setCondition m t s r msg i) t = Some (s, r, cl_Generation i)"
proof -
  let ?c = "\<lparr>co_Type = t, co_Status = s, co_ObservedGeneration = cl_Generation i, co_LastTransitionTime = 0, co_Reason = r, co_Message = msg\<rparr>"
  obtain c' where c': "meta_FindStatusCondition m (meta_SetStatusCondition m (st_Conditions (cl_Status i)) ?c) (co_Type ?c) = Some c'"
    and "same_report ?c c'" using find_set by blast
  then have "(co_Status c', co_Reason c', co_ObservedGeneration c') = (s, r, cl_Generation i)"
    by (cases c') (simp add: same_report_def)
  with c' show ?thesis by (simp add: reports_def condition_of_def setCondition_def)
qed

lemma reports_set_other [simp]: "t' \<noteq> t \<Longrightarrow> reports m (setCondition m t s r msg i) t' = reports m i t'"
  by (simp add: reports_def condition_of_def setCondition_def find_set_other)

lemma reports_remove [simp]: "reports m (removeCondition m t i) t = None"
  by (simp add: reports_def condition_of_def removeCondition_def find_remove)

lemma reports_remove_other [simp]: "t' \<noteq> t \<Longrightarrow> reports m (removeCondition m t i) t' = reports m i t'"
  by (simp add: reports_def condition_of_def removeCondition_def find_remove_other)

end

end
