(* ===== verification/Manifests.thy ===== *)
theory Manifests
  imports Proxy_Deployment Conditions
begin

section \<open>Policies, configuration and the editing pipelines\<close>

text \<open>
  The remaining edits of the rendered manifests: instance labels
  (\<open>claw_resource_controller.go\<close>), the gateway's password, repository and telemetry environment
  (\<open>claw_auth.go\<close>, \<open>claw_repo_access.go\<close>, \<open>claw_diagnostics.go\<close>), the plugin init container
  (\<open>claw_plugins.go\<close>), the persona guard (\<open>claw_restrictions.go\<close>), the network policies
  (\<open>claw_egress.go\<close>), the metrics port (\<open>claw_metrics.go\<close>) and the files in the gateway's ConfigMap
  (\<open>claw_workspace.go\<close>); then the pipelines \<open>configureDeployments\<close> and
  \<open>enrichConfigAndNetworkPolicy\<close> that run them all.

  The properties say what a pipeline may touch, which network policy admits an in-cluster MCP
  server, and which Secrets cause a rollout when they change.
\<close>

subsection \<open>The gateway container\<close>

definition configureClawDeploymentForAuth :: "unstructured_lib \<Rightarrow> jobj list \<Rightarrow> Claw \<Rightarrow> jobj list edited" where
  "configureClawDeploymentForAuth u objects instance =
     (case sp_Auth (cl_Spec instance) of
        None \<Rightarrow> Inr objects
      | Some auth \<Rightarrow>
          if au_Mode auth \<noteq> ''password'' then Inr objects
          else case au_PasswordSecretRef auth of
            None \<Rightarrow> Inr objects
          | Some ref \<Rightarrow>
              edit_object u DeploymentKind (getClawDeploymentName (cl_Name instance))
                (edit_pod_list u pod_containers
                   (edit_first u ClawGatewayContainerName
                      (edit_env u (\<lambda>envVars. envVars @ [env_from \<lparr>ef_Name = ''OPENCLAW_GATEWAY_PASSWORD'', ef_SecretRef = ref\<rparr>]))))
                objects)"

definition validateRepoAccessSecrets :: "secret_reader \<Rightarrow> Claw \<Rightarrow> unit edited" where
  "validateRepoAccessSecrets get instance =
     (case githubRepoAccess instance of
        None \<Rightarrow> Inr ()
      | Some gh \<Rightarrow>
          (case get (sr_Name (gh_SecretRef gh)) of
             SecretData data \<Rightarrow>
               if has_key data (sr_Key (gh_SecretRef gh)) then Inr ()
               else Inl (SecretKeyMissing (sr_Name (gh_SecretRef gh)) (sr_Key (gh_SecretRef gh)))
           | _ \<Rightarrow> Inl (SecretUnavailable (sr_Name (gh_SecretRef gh)))))"

definition configureGatewayForRepoAccess :: "unstructured_lib \<Rightarrow> jobj list \<Rightarrow> Claw \<Rightarrow> jobj list edited" where
  "configureGatewayForRepoAccess u objects instance =
     (let desired = githubRepoAccessEnvFrom instance
      in if desired = [] then Inr objects
         else edit_object u DeploymentKind (getClawDeploymentName (cl_Name instance))
           (edit_pod_list u pod_containers
              (edit_first u ClawGatewayContainerName (edit_env u (\<lambda>envVars. mergeEnvFromIntoSlice u envVars desired))))
           objects)"

definition repoAccessAnnotationKey :: "(string \<Rightarrow> string) \<Rightarrow> string \<Rightarrow> string" where
  "repoAccessAnnotationKey sum256 nm = take 12 (sum256 (''repoAccess/'' @ nm))"

definition stampRepoAccessSecretVersionAnnotation ::
  "unstructured_lib \<Rightarrow> (string \<Rightarrow> string) \<Rightarrow> (string \<Rightarrow> string option) \<Rightarrow> jobj list \<Rightarrow> Claw \<Rightarrow> jobj list edited" where
  "stampRepoAccessSecretVersionAnnotation u sum256 version objects instance =
     (case githubRepoAccess instance of
        None \<Rightarrow> Inr objects
      | Some gh \<Rightarrow>
          if \<not> gh_ExposeEnv gh then Inr objects
          else case version (sr_Name (gh_SecretRef gh)) of
            None \<Rightarrow> Inl (SecretUnavailable (sr_Name (gh_SecretRef gh)))
          | Some rv \<Rightarrow>
              edit_object u DeploymentKind (getClawDeploymentName (cl_Name instance))
                (stamp_annotations u
                   [(AnnotationPrefixMcpSecretVersion @ repoAccessAnnotationKey sum256 ''github'' @ AnnotationSuffixSecretVersion, rv)])
                objects)"

fun appendToNoProxy :: "json list \<Rightarrow> string \<Rightarrow> string \<Rightarrow> json list" where
  "appendToNoProxy [] nm hostname = [env_value nm hostname]"
| "appendToNoProxy (e # es) nm hostname =
     (case as_obj e of
        None \<Rightarrow> e # appendToNoProxy es nm hostname
      | Some env \<Rightarrow>
          if map_of env ''name'' \<noteq> Some (JStr nm) then e # appendToNoProxy es nm hostname
          else
            let existing = str_at env ''value''
            in if list_ex (\<lambda>h. TrimSpace h = hostname) (SplitByte (CHR '','') existing) then e # es
               else JObj (AList.update ''value'' (JStr (if existing \<noteq> [] then existing @ '','' @ hostname else hostname)) env) # es)"

definition field_ref :: "string \<Rightarrow> json" where
  "field_ref fieldPath = JObj [(''fieldRef'', JObj [(''fieldPath'', JStr fieldPath)])]"

fun setOrAppendEnvDownwardAPI :: "json list \<Rightarrow> string \<Rightarrow> string \<Rightarrow> json list" where
  "setOrAppendEnvDownwardAPI [] nm fieldPath = [JObj [(''name'', JStr nm), (''valueFrom'', field_ref fieldPath)]]"
| "setOrAppendEnvDownwardAPI (e # es) nm fieldPath =
     (case as_obj e of
        None \<Rightarrow> e # setOrAppendEnvDownwardAPI es nm fieldPath
      | Some env \<Rightarrow>
          if map_of env ''name'' = Some (JStr nm)
          then JObj (AList.delete ''value'' (AList.update ''valueFrom'' (field_ref fieldPath) env)) # es
          else e # setOrAppendEnvDownwardAPI es nm fieldPath)"

definition otel_env :: "Claw \<Rightarrow> json list \<Rightarrow> json list" where
  "otel_env instance envVars =
     (let e1 = setOrAppendEnv envVars ''OTEL_SERVICE_NAME'' ''openclaw'';
          e2 = setOrAppendEnvDownwardAPI e1 ''POD_NAME'' ''metadata.name'';
          e3 = setOrAppendEnvDownwardAPI e2 ''POD_NAMESPACE'' ''metadata.namespace'';
          e4 = setOrAppendEnv e3 ''OTEL_RESOURCE_ATTRIBUTES''
                 ''service.instance.id=$(POD_NAME),k8s.namespace.name=$(POD_NAMESPACE)'';
          ep = otlpEndpoint instance;
          e5 = (if ep = [] then e4
                else
                  let s = setOrAppendEnv e4 ''OTEL_EXPORTER_OTLP_ENDPOINT'' ep
                  in case UrlParse ep of
                       Some v \<Rightarrow>
                         if Hostname v \<noteq> []
                         then appendToNoProxy (appendToNoProxy s ''NO_PROXY'' (Hostname v)) ''no_proxy'' (Hostname v) else s
                     | None \<Rightarrow> s)
      in if tracesEnabled instance
         then setOrAppendEnv (setOrAppendEnv e5 ''OTEL_TRACES_SAMPLER'' ''parentbased_traceidratio'')
                ''OTEL_TRACES_SAMPLER_ARG'' (tracesSamplingRatio instance)
         else e5)"

definition injectOTelEnvVars :: "unstructured_lib \<Rightarrow> jobj list \<Rightarrow> Claw \<Rightarrow> jobj list edited" where
  "injectOTelEnvVars u objects instance =
     edit_object u DeploymentKind (getClawDeploymentName (cl_Name instance))
       (edit_pod_list u pod_containers (edit_first u ClawGatewayContainerName (edit_env u (otel_env instance)))) objects"

definition pluginsNoProxy :: "Claw \<Rightarrow> string" where
  "pluginsNoProxy instance =
     ''localhost,127.0.0.1'' @ (if inClusterBypassEnabled instance then '',.svc,.svc.cluster.local'' else [])"

definition init_plugins :: "Claw \<Rightarrow> string \<Rightarrow> string list \<Rightarrow> bool \<Rightarrow> json" where
  "init_plugins instance gatewayImage plugins preserveUnmanaged =
     (let proxyHost = ''http://'' @ cl_Name instance @ ''-proxy:8080''
      in JObj [(''name'', JStr ''init-plugins''), (''image'', JStr gatewayImage), (''imagePullPolicy'', JStr ''IfNotPresent''),
           (''command'', JArr [JStr ''sh'', JStr ''-c'', JStr (generatePluginInstallScript plugins preserveUnmanaged)]),
           (''env'', JArr [env_value ''HOME'' ''/home/node'', env_value ''NPM_CONFIG_CACHE'' ''/home/node/.cache/npm'',
              env_value ''HTTP_PROXY'' proxyHost, env_value ''HTTPS_PROXY'' proxyHost,
              env_value ''NO_PROXY'' (pluginsNoProxy instance), env_value ''NODE_EXTRA_CA_CERTS'' ''/etc/proxy-ca/ca.crt'']),
           (''resources'', JObj [(''requests'', JObj [(''memory'', JStr ''128Mi''), (''cpu'', JStr ''100m'')]),
              (''limits'', JObj [(''memory'', JStr ''1Gi''), (''cpu'', JStr ''500m'')])]),
           (''securityContext'', JObj [(''allowPrivilegeEscalation'', JBool False),
              (''capabilities'', JObj [(''drop'', JArr [JStr ''ALL''])])]),
           (''volumeMounts'', JArr
              [JObj [(''name'', JStr ''claw-home''), (''mountPath'', JStr ''/home/node''), (''subPath'', JStr ''home'')],
               volume_mount ''proxy-ca'' ''/etc/proxy-ca'',
               JObj [(''name'', JStr ''tmp-volume''), (''mountPath'', JStr ''/tmp'')]])])"

definition configurePluginsInitContainer ::
  "unstructured_lib \<Rightarrow> jobj list \<Rightarrow> Claw \<Rightarrow> string list \<Rightarrow> bool \<Rightarrow> jobj list edited" where
  "configurePluginsInitContainer u objects instance plugins preserveUnmanaged =
     (if plugins = [] then Inr objects
      else edit_object u DeploymentKind (getClawDeploymentName (cl_Name instance))
        (\<lambda>obj.
          rbind (read_slice u obj pod_containers) (\<lambda>containers.
            let gatewayImage = (case container_named u ClawGatewayContainerName containers of
                                  Some cm \<Rightarrow> string_of u cm [''image''] | None \<Rightarrow> [])
            in if gatewayImage = [] then Inl (ContainerMissing ClawGatewayContainerName)
               else write_slice u obj
                      (slice_of u obj pod_initContainers @ [init_plugins instance gatewayImage plugins preserveUnmanaged])
                      pod_initContainers))
        objects)"

definition persona_mount :: "string \<Rightarrow> jobj" where
  "persona_mount key =
     [(''name'', JStr ''persona-guard''), (''mountPath'', JStr (workspaceDir @ ''/'' @ key)), (''subPath'', JStr key),
      (''readOnly'', JBool True)]"

definition configurePersonaGuard :: "unstructured_lib \<Rightarrow> jobj list \<Rightarrow> Claw \<Rightarrow> string list \<Rightarrow> jobj list edited" where
  "configurePersonaGuard u objects instance personaKeys =
     (case Option.bind (sp_Restrictions (cl_Spec instance)) rs_PersonaRef of
        None \<Rightarrow> Inr objects
      | Some ref \<Rightarrow>
          if personaKeys = [] then Inr objects
          else edit_object u DeploymentKind (getClawDeploymentName (cl_Name instance))
            (\<lambda>obj.
              rbind (write_slice u obj
                       (setOrAppendVolume (slice_of u obj pod_volumes)
                          [(''name'', JStr ''persona-guard''), (''configMap'', JObj [(''name'', JStr (per_Name ref))])]) pod_volumes)
                (edit_pod_list u pod_containers
                   (edit_all_named u ClawGatewayContainerName
                      (edit_mounts u (\<lambda>mounts. fold (\<lambda>key ms. setOrAppendVolumeMount ms (persona_mount key)) personaKeys mounts)))))
            objects)"

text \<open>A missing Deployment is no error here.\<close>

definition stampPersonaConfigHash ::
  "unstructured_lib \<Rightarrow> (string \<Rightarrow> string) \<Rightarrow> jobj list \<Rightarrow> Claw \<Rightarrow> (string, string) gomap \<Rightarrow> jobj list edited" where
  "stampPersonaConfigHash u sum256 objects instance personaData =
     (if personaData = [] then Inr objects
      else
        let text = concat (map (\<lambda>k. k @ ''='' @ lookup_str personaData k @ [CHR 0x0A]) (sortedPersonaKeys personaData))
        in case edit_object u DeploymentKind (getClawDeploymentName (cl_Name instance))
                  (stamp_annotations u [(''claw.sandbox.redhat.com/persona-config-hash'', sum256 text)]) objects of
             Inl (ObjectMissing _ _) \<Rightarrow> Inr objects
           | res \<Rightarrow> res)"

subsection \<open>Network policies and Services\<close>

abbreviation spec_egress :: "string list" where "spec_egress \<equiv> [''spec'', ''egress'']"
abbreviation spec_ingress :: "string list" where "spec_ingress \<equiv> [''spec'', ''ingress'']"

text \<open>Append to a list that may be missing but not broken.\<close>

definition append_slice :: "unstructured_lib \<Rightarrow> string list \<Rightarrow> json list \<Rightarrow> jobj \<Rightarrow> jobj edited" where
  "append_slice u p new obj = rbind (optional_slice u obj p) (\<lambda>xs. write_slice u obj (xs @ new) p)"

definition injectMcpGatewayEgressRules :: "unstructured_lib \<Rightarrow> jobj list \<Rightarrow> egressTarget list \<Rightarrow> string \<Rightarrow> jobj list edited" where
  "injectMcpGatewayEgressRules u objects targets instanceName =
     (let inCluster = filterInCluster targets
      in if inCluster = [] then Inr objects
         else edit_object u NetworkPolicyKind (getEgressNetworkPolicyName instanceName)
           (append_slice u spec_egress (map (JObj \<circ> buildInClusterEgressRule) inCluster)) objects)"

definition injectMcpProxyEgressRules :: "unstructured_lib \<Rightarrow> jobj list \<Rightarrow> egressTarget list \<Rightarrow> string \<Rightarrow> jobj list edited" where
  "injectMcpProxyEgressRules u objects targets instanceName =
     (let inCluster = filterInCluster targets
      in if inCluster = [] then Inr objects
         else edit_object u NetworkPolicyKind (getProxyEgressNetworkPolicyName instanceName)
           (append_slice u spec_egress (map (JObj \<circ> buildInClusterEgressRule) inCluster)) objects)"

definition tcp_port :: "int \<Rightarrow> json" where
  "tcp_port port = JObj [(''port'', JNum port), (''protocol'', JStr ''TCP'')]"

text \<open>Add ports to the first egress rule, the one for HTTPS.\<close>

definition edit_https_rule :: "unstructured_lib \<Rightarrow> (json list \<Rightarrow> json list edited) \<Rightarrow> jobj \<Rightarrow> jobj edited" where
  "edit_https_rule u f obj =
     rbind (optional_slice u obj spec_egress) (\<lambda>egress.
       case egress of
         [] \<Rightarrow> Inl (FieldMissing spec_egress)
       | rule # rules \<Rightarrow>
           (case as_obj rule of
              None \<Rightarrow> Inl (FieldBroken spec_egress)
            | Some httpsRule \<Rightarrow>
                rbind (f (slice_of u httpsRule [''ports''])) (\<lambda>ports.
                rbind (write_slice u httpsRule ports [''ports'']) (\<lambda>httpsRule'.
                  write_slice u obj (JObj httpsRule' # rules) spec_egress))))"

definition existing_ports :: "json list \<Rightarrow> int list" where
  "existing_ports ports =
     List.map_filter (\<lambda>p. case as_obj p of
       Some pm \<Rightarrow> (case map_of pm ''port'' of Some (JNum n) \<Rightarrow> Some n | _ \<Rightarrow> None) | None \<Rightarrow> None) ports"

definition injectMcpProxyEgressPorts :: "unstructured_lib \<Rightarrow> jobj list \<Rightarrow> egressTarget list \<Rightarrow> string \<Rightarrow> jobj list edited" where
  "injectMcpProxyEgressPorts u objects targets instanceName =
     (let uniquePorts = collectExternalNon443Ports targets
      in if uniquePorts = [] then Inr objects
         else edit_object u NetworkPolicyKind (getProxyEgressNetworkPolicyName instanceName)
           (edit_https_rule u (\<lambda>ports.
              Inr (ports @ map tcp_port (filter (\<lambda>p. p \<notin> set (existing_ports ports)) uniquePorts)))) objects)"

fun kube_ports :: "string list \<Rightarrow> int list edited" where
  "kube_ports [] = Inr []"
| "kube_ports (p # ps) =
     (case Atoi p of
        None \<Rightarrow> Inl (EgressFailed (UrlPortInvalid p))
      | Some n \<Rightarrow> rbind (kube_ports ps) (\<lambda>ns. Inr (n # ns)))"

definition injectKubePortsIntoNetworkPolicy ::
  "unstructured_lib \<Rightarrow> jobj list \<Rightarrow> resolvedCredential list \<Rightarrow> string \<Rightarrow> jobj list edited" where
  "injectKubePortsIntoNetworkPolicy u objects resolvedCreds instanceName =
     (let clusters = concat (map (\<lambda>rc. case rc_KubeConfig rc of Some kd \<Rightarrow> kd_Clusters kd | None \<Rightarrow> []) resolvedCreds);
          uniquePorts = dedup_by id [] (filter (\<lambda>p. p \<noteq> ''443'') (map kcl_Port clusters))
      in if uniquePorts = [] then Inr objects
         else edit_object u NetworkPolicyKind (getProxyEgressNetworkPolicyName instanceName)
           (edit_https_rule u (\<lambda>ports.
              rbind (kube_ports uniquePorts) (\<lambda>ns. Inr (ports @ map tcp_port (SliceStable (<) ns))))) objects)"

definition injectAdditionalEgress :: "unstructured_lib \<Rightarrow> jobj list \<Rightarrow> Claw \<Rightarrow> jobj list edited" where
  "injectAdditionalEgress u objects instance =
     (case sp_Network (cl_Spec instance) of
        None \<Rightarrow> Inr objects
      | Some net \<Rightarrow>
          if net_AdditionalEgress net = [] then Inr objects
          else edit_object u NetworkPolicyKind (getEgressNetworkPolicyName (cl_Name instance))
            (\<lambda>obj.
              rbind (optional_slice u obj spec_egress) (\<lambda>egress.
                if list_ex (\<lambda>rule. as_obj rule = None) (net_AdditionalEgress net) then Inl (RawInvalid ''additionalEgress'')
                else write_slice u obj (egress @ net_AdditionalEgress net) spec_egress))
            objects)"

definition telemetry_rule :: "egressTarget \<Rightarrow> json" where
  "telemetry_rule t =
     (if et_External t then JObj [(''ports'', JArr [tcp_port (et_Port t)])] else JObj (buildInClusterEgressRule t))"

definition injectTelemetryEgressRules :: "unstructured_lib \<Rightarrow> jobj list \<Rightarrow> Claw \<Rightarrow> jobj list edited" where
  "injectTelemetryEgressRules u objects instance =
     (case classifyTelemetryEndpoints instance of
        Inl e \<Rightarrow> Inl (EgressFailed e)
      | Inr targets \<Rightarrow>
          if targets = [] then Inr objects
          else edit_object u NetworkPolicyKind (getEgressNetworkPolicyName (cl_Name instance))
            (append_slice u spec_egress (map telemetry_rule targets)) objects)"

definition metricsPort :: "Claw \<Rightarrow> int" where
  "metricsPort instance = (case Option.bind (sp_Metrics (cl_Spec instance)) me_Port of Some p \<Rightarrow> p | None \<Rightarrow> 9464)"

definition serviceMonitorEnabled :: "Claw \<Rightarrow> bool" where
  "serviceMonitorEnabled instance =
     (metricsEnabled instance \<and>
      (case Option.bind (Option.bind (sp_Metrics (cl_Spec instance)) me_ServiceMonitor) smon_Enabled of Some b \<Rightarrow> b | None \<Rightarrow> True))"

definition serviceMonitorInterval :: "Claw \<Rightarrow> string" where
  "serviceMonitorInterval instance =
     (case Option.bind (sp_Metrics (cl_Spec instance)) me_ServiceMonitor of
        Some sm \<Rightarrow> if smon_Interval sm \<noteq> [] then smon_Interval sm else ''30s'' | None \<Rightarrow> ''30s'')"

definition addMetricsPortToService :: "unstructured_lib \<Rightarrow> jobj list \<Rightarrow> Claw \<Rightarrow> jobj list edited" where
  "addMetricsPortToService u objects instance =
     edit_object u ServiceKind (getServiceName (cl_Name instance))
       (append_slice u [''spec'', ''ports'']
          [JObj [(''name'', JStr ''metrics''), (''port'', JNum (metricsPort instance)), (''targetPort'', JNum (metricsPort instance)),
             (''protocol'', JStr ''TCP'')]]) objects"

definition addMetricsIngressRule :: "unstructured_lib \<Rightarrow> jobj list \<Rightarrow> Claw \<Rightarrow> jobj list edited" where
  "addMetricsIngressRule u objects instance =
     edit_object u NetworkPolicyKind (getIngressNetworkPolicyName (cl_Name instance))
       (append_slice u spec_ingress
          [JObj [(''from'', JArr [JObj [(''namespaceSelector'',
                    JObj [(''matchLabels'', JObj [(''network.openshift.io/policy-group'', JStr ''monitoring'')])])]]),
             (''ports'', JArr [tcp_port (metricsPort instance)])]]) objects"

definition injectObservabilityResources :: "unstructured_lib \<Rightarrow> jobj list \<Rightarrow> Claw \<Rightarrow> jobj list edited" where
  "injectObservabilityResources u objects instance =
     (if tracesEnabled instance \<and> tracesEndpoint instance = [] then Inl (RawInvalid ''spec.traces.endpoint'')
      else if logsEnabled instance \<and> logsEndpoint instance = [] then Inl (RawInvalid ''spec.logs.endpoint'')
      else if metricsEnabled instance \<and> otlpEndpoint instance = [] then Inl (RawInvalid ''spec.metrics'')
      else
        rbind (if metricsEnabled instance
               then rbind (addMetricsPortToService u objects instance) (\<lambda>objs. addMetricsIngressRule u objs instance)
               else Inr objects) (\<lambda>objs.
          if tracesEnabled instance \<or> logsEnabled instance then injectTelemetryEgressRules u objs instance else Inr objs))"

subsection \<open>Files in the gateway's ConfigMap\<close>

text \<open>
  What the code takes from outside while it renders manifests: the manifest library, the digest, the
  printing of a data value with \<open>%v\<close>, JSON text in and out, and the ConfigMaps of the namespace.
\<close>

record manifest_env =
  mv_lib :: unstructured_lib
  mv_sum256 :: "string \<Rightarrow> string"
  mv_render :: "json \<Rightarrow> string"
  mv_parse :: "string \<Rightarrow> json option"
  mv_indent :: "jobj \<Rightarrow> string"
  mv_compact :: "jobj \<Rightarrow> string"
  mv_configmap :: "string \<Rightarrow> (string, string) gomap option"

definition put_data :: "unstructured_lib \<Rightarrow> string \<Rightarrow> string \<Rightarrow> jobj \<Rightarrow> jobj edited" where
  "put_data u key content cm = write_field u cm (JStr content) [''data'', key]"

definition injectWorkspaceFiles :: "unstructured_lib \<Rightarrow> jobj list \<Rightarrow> Claw \<Rightarrow> jobj list edited" where
  "injectWorkspaceFiles u objects instance =
     (case sp_Workspace (cl_Spec instance) of
        None \<Rightarrow> Inr objects
      | Some ws \<Rightarrow>
          if wsp_Files ws = [] then Inr objects
          else case validateWorkspaceFiles (wsp_Files ws) of
            Inl e \<Rightarrow> Inl (WorkspaceFailed e)
          | Inr _ \<Rightarrow>
              edit_object u ConfigMapKind (getConfigMapName (cl_Name instance))
                (rfold (\<lambda>(p, content). put_data u (workspaceKeyPrefix @ encodeWorkspacePath p) content) (wsp_Files ws)) objects)"

definition injectSkillFiles :: "unstructured_lib \<Rightarrow> jobj list \<Rightarrow> Claw \<Rightarrow> jobj list edited" where
  "injectSkillFiles u objects instance =
     (case sp_Skills (cl_Spec instance) of
        None \<Rightarrow> Inr objects
      | Some skills \<Rightarrow>
          if sk_Content skills = [] then Inr objects
          else case validateSkillNames (sk_Content skills) of
            Inl e \<Rightarrow> Inl (WorkspaceFailed e)
          | Inr _ \<Rightarrow>
              edit_object u ConfigMapKind (getConfigMapName (cl_Name instance))
                (rfold (\<lambda>(nm, content). put_data u (skillKeyPrefix @ nm) content) (sk_Content skills)) objects)"

text \<open>One key of a referenced ConfigMap: the names claimed so far and the object under edit.\<close>

definition claim_skill ::
  "unstructured_lib \<Rightarrow> string \<Rightarrow> string \<times> string \<Rightarrow> (string, string) gomap \<times> jobj \<Rightarrow> ((string, string) gomap \<times> jobj) edited" where
  "claim_skill u ref entry st =
     (case entry of (nm, content) \<Rightarrow> case st of (claimed, cm) \<Rightarrow>
        case validateSkillName nm of
          Inl e \<Rightarrow> Inl (WorkspaceFailed e)
        | Inr _ \<Rightarrow>
            (case map_of claimed nm of
               Some source \<Rightarrow> Inl (SkillClash ref nm source)
             | None \<Rightarrow> rbind (put_data u (skillKeyPrefix @ nm) content cm) (\<lambda>cm'.
                 Inr (AList.update nm (''configMap '' @ [CHR 0x22] @ ref @ [CHR 0x22]) claimed, cm'))))"

definition claimed_names :: "SkillsSpec \<Rightarrow> (string, string) gomap" where
  "claimed_names skills =
     fold (\<lambda>si m. AList.update (si_Name si) ''spec.skills.images'' m) (sk_Images skills)
       (fold (\<lambda>nm m. AList.update nm ''spec.skills.content'' m) (map fst (sk_Content skills)) [])"

definition injectSkillConfigMapFiles :: "manifest_env \<Rightarrow> jobj list \<Rightarrow> Claw \<Rightarrow> jobj list edited" where
  "injectSkillConfigMapFiles env objects instance =
     (case sp_Skills (cl_Spec instance) of
        None \<Rightarrow> Inr objects
      | Some skills \<Rightarrow>
          if sk_ConfigMaps skills = [] then Inr objects
          else edit_object (mv_lib env) ConfigMapKind (getConfigMapName (cl_Name instance))
            (\<lambda>cm. rbind (rfold (\<lambda>ref st.
                     case mv_configmap env (scm_Name ref) of
                       None \<Rightarrow> Inl (ResourceUnavailable (scm_Name ref))
                     | Some data \<Rightarrow> rfold (claim_skill (mv_lib env) (scm_Name ref)) data st)
                   (sk_ConfigMaps skills) (claimed_names skills, cm))
                 (\<lambda>st. Inr (snd st)))
            objects)"

definition context_entry :: "kubeconfigContext \<Rightarrow> string" where
  "context_entry ctx =
     ''- `'' @ kct_Name ctx @ ''` (cluster: '' @ kct_Cluster ctx @
     (if kct_Namespace ctx \<noteq> [] then '', namespace: '' @ kct_Namespace ctx else []) @ '')'' @
     (if kct_Current ctx then '' [current]'' else [])"

definition skill_head :: "string list" where
  "skill_head =
     [''---'', ''name: kubernetes'',
      ''description: '' @ [CHR 0x22] @ ''Kubernetes/OpenShift cluster access. Use when the user asks about '' @
        ''deployments, pods, services, builds, routes, or any cluster resource.'' @ [CHR 0x22],
      ''---'', [], ''# Kubernetes Access'', [],
      ''You have access to Kubernetes/OpenShift clusters. Both `kubectl` and `oc` are'',
      ''available and your KUBECONFIG is pre-configured '' @ [CHR 0xE2, CHR 0x80, CHR 0x94] @ '' authentication is handled'',
      ''transparently by the proxy.'', [], ''## Available contexts'', []]"

definition skill_tail :: "string list" where
  "skill_tail =
     [[], ''## How to use'', [],
      ''Use kubectl/oc directly to help the user with deployments, pods, services,'',
      ''routes, builds, logs, or any cluster resource. Inspection commands (get,'',
      ''describe, logs, events) are always safe to run proactively.'', [],
      ''## Access scope'', [],
      ''Your access is governed by RBAC. The configured namespace(s) above are your'',
      ''primary workspace. Some cluster-scoped resources (e.g., StorageClasses, CRDs,'',
      ''ClusterRoles) may be readable. Other namespaces are not accessible.'', [],
      ''If a command fails with Forbidden, explain the limitation clearly and suggest'',
      ''alternatives within scope.'', [],
      ''## Rules'', [],
      ''- Confirm before destructive operations (delete, scale to zero, rollback).'',
      ''- Do not attempt to manage tokens, certificates, or kubeconfig yourself.'',
      ''- Do not try to escalate privileges or create ClusterRoleBindings.'']"

definition injectKubernetesSkill ::
  "unstructured_lib \<Rightarrow> jobj list \<Rightarrow> resolvedCredential list \<Rightarrow> string \<Rightarrow> jobj list edited" where
  "injectKubernetesSkill u objects resolvedCreds instanceName =
     (let allContexts = concat (map (\<lambda>rc. case rc_KubeConfig rc of Some kd \<Rightarrow> kd_Contexts kd | None \<Rightarrow> []) resolvedCreds)
      in if allContexts = [] then Inr objects
         else
           let sorted = SliceStable (\<lambda>a b. kct_Name a < kct_Name b) allContexts;
               text = concat (map (\<lambda>l. l @ [CHR 0x0A]) (skill_head @ map context_entry sorted @ skill_tail))
           in edit_object u ConfigMapKind (getConfigMapName instanceName) (put_data u ''KUBERNETES.md'' text) objects)"

definition doctorFixRequested :: "Claw \<Rightarrow> bool" where
  "doctorFixRequested instance = (case sp_Migration (cl_Spec instance) of Some m \<Rightarrow> mig_DoctorFix m | None \<Rightarrow> False)"

definition doctorFixComplete :: "Claw \<Rightarrow> bool" where
  "doctorFixComplete instance =
     (if doctorFixRequested instance
      then (case st_Migration (cl_Status instance) of
              Some m \<Rightarrow> mst_DoctorFixImage m = effectiveOpenClawImage instance | None \<Rightarrow> False)
      else lookup_str (cl_Annotations instance) ''claw.sandbox.redhat.com/config-generation'' = ''7.2'' \<and>
           sp_Image (cl_Spec instance) = [] \<and>
           st_LastDeployedVersion (cl_Status instance) = sp_Version (cl_Spec instance))"

definition writeGeneratedConfig :: "manifest_env \<Rightarrow> jobj \<Rightarrow> Claw \<Rightarrow> jobj \<Rightarrow> jobj edited" where
  "writeGeneratedConfig env config instance cm =
     rbind (put_data (mv_lib env) ''operator.json'' (mv_indent env (legacyOperatorJSON instance config)) cm) (\<lambda>cm1.
     rbind (put_data (mv_lib env) ''operator-7.2.json'' (mv_indent env config) cm1) (\<lambda>cm2.
       put_data (mv_lib env) ''migration.json''
         (mv_compact env [(''doctorFixComplete'', JBool (doctorFixComplete instance))]) cm2))"

subsection \<open>Instance labels\<close>

definition sanitizeLabelValue :: "(string \<Rightarrow> string) \<Rightarrow> string \<Rightarrow> string" where
  "sanitizeLabelValue sum256 nm = (if length nm \<le> 63 then nm else take 54 nm @ ''-'' @ take 8 (sum256 nm))"

abbreviation InstanceLabelKey :: string where "InstanceLabelKey \<equiv> ''claw.sandbox.redhat.com/instance''"

definition label_map :: "unstructured_lib \<Rightarrow> string list \<Rightarrow> string \<Rightarrow> string \<Rightarrow> jobj \<Rightarrow> jobj edited" where
  "label_map u p label v obj =
     (case us_NestedMap u obj p of
        NestedError \<Rightarrow> Inl (FieldBroken p)
      | NestedMissing \<Rightarrow> Inr obj
      | NestedFound m \<Rightarrow> write_map u obj (AList.update label (JStr v) m) p)"

definition injectDeploymentInstanceLabels :: "unstructured_lib \<Rightarrow> string \<Rightarrow> string \<Rightarrow> jobj \<Rightarrow> jobj edited" where
  "injectDeploymentInstanceLabels u label v obj =
     rbind (label_map u [''spec'', ''selector'', ''matchLabels''] label v obj)
       (label_map u [''spec'', ''template'', ''metadata'', ''labels''] label v)"

definition injectServiceInstanceLabels :: "unstructured_lib \<Rightarrow> string \<Rightarrow> string \<Rightarrow> jobj \<Rightarrow> jobj edited" where
  "injectServiceInstanceLabels u label v obj = label_map u [''spec'', ''selector''] label v obj"

text \<open>Peers of one rule, and the rules of a policy in one direction (\<open>to\<close> of egress, \<open>from\<close> of ingress).\<close>

definition label_peer :: "unstructured_lib \<Rightarrow> string \<Rightarrow> string \<Rightarrow> json \<Rightarrow> json edited" where
  "label_peer u label v peer =
     (case as_obj peer of
        None \<Rightarrow> Inr peer
      | Some peerMap \<Rightarrow> rbind (label_map u [''podSelector'', ''matchLabels''] label v peerMap) (\<lambda>m. Inr (JObj m)))"

definition label_rule :: "unstructured_lib \<Rightarrow> string \<Rightarrow> string \<Rightarrow> string \<Rightarrow> json \<Rightarrow> json edited" where
  "label_rule u field label v rule =
     (case as_obj rule of
        None \<Rightarrow> Inr rule
      | Some ruleMap \<Rightarrow>
          (case us_NestedSlice u ruleMap [field] of
             NestedError \<Rightarrow> Inl (FieldBroken [field])
           | NestedMissing \<Rightarrow> Inr rule
           | NestedFound peers \<Rightarrow>
               rbind (rmap (label_peer u label v) peers) (\<lambda>peers'. Inr (JObj (AList.update field (JArr peers') ruleMap)))))"

definition label_rules :: "unstructured_lib \<Rightarrow> string list \<Rightarrow> string \<Rightarrow> string \<Rightarrow> string \<Rightarrow> jobj \<Rightarrow> jobj edited" where
  "label_rules u p field label v obj =
     (case us_NestedSlice u obj p of
        NestedError \<Rightarrow> Inl (FieldBroken p)
      | NestedMissing \<Rightarrow> Inr obj
      | NestedFound rules \<Rightarrow> rbind (rmap (label_rule u field label v) rules) (\<lambda>rules'. write_slice u obj rules' p))"

definition injectNetworkPolicyEgressLabels :: "unstructured_lib \<Rightarrow> string \<Rightarrow> string \<Rightarrow> jobj \<Rightarrow> jobj edited" where
  "injectNetworkPolicyEgressLabels u = label_rules u spec_egress ''to''"

definition injectNetworkPolicyIngressLabels :: "unstructured_lib \<Rightarrow> string \<Rightarrow> string \<Rightarrow> jobj \<Rightarrow> jobj edited" where
  "injectNetworkPolicyIngressLabels u = label_rules u spec_ingress ''from''"

definition injectNetworkPolicyInstanceLabels :: "unstructured_lib \<Rightarrow> string \<Rightarrow> string \<Rightarrow> jobj \<Rightarrow> jobj edited" where
  "injectNetworkPolicyInstanceLabels u label v obj =
     rbind (label_map u [''spec'', ''podSelector'', ''matchLabels''] label v obj) (\<lambda>obj1.
     rbind (injectNetworkPolicyEgressLabels u label v obj1)
       (injectNetworkPolicyIngressLabels u label v))"

definition label_object :: "unstructured_lib \<Rightarrow> string \<Rightarrow> jobj \<Rightarrow> jobj edited" where
  "label_object u v obj =
     (let obj1 = us_SetLabels u obj (AList.update InstanceLabelKey v (us_GetLabels u obj))
      in if us_GetKind u obj1 = DeploymentKind then injectDeploymentInstanceLabels u InstanceLabelKey v obj1
         else if us_GetKind u obj1 = ServiceKind then injectServiceInstanceLabels u InstanceLabelKey v obj1
         else if us_GetKind u obj1 = NetworkPolicyKind then injectNetworkPolicyInstanceLabels u InstanceLabelKey v obj1
         else Inr obj1)"

definition injectInstanceLabels :: "unstructured_lib \<Rightarrow> (string \<Rightarrow> string) \<Rightarrow> jobj list \<Rightarrow> string \<Rightarrow> jobj list edited" where
  "injectInstanceLabels u sum256 objects instanceName =
     rmap (label_object u (sanitizeLabelValue sum256 instanceName)) objects"

subsection \<open>The pipelines\<close>

record reconciler_config =
  rf_ProxyImage :: string
  rf_KubectlImage :: string
  rf_ImagePullPolicy :: string
  rf_DisableUserConfigManagement :: bool

fun warning_text :: "compat_warning \<Rightarrow> string" where
  "warning_text (NotCalVer version) =
     ''cannot check plugin compatibility: spec.version '' @ [CHR 0x22] @ version @ [CHR 0x22] @ '' is not a valid CalVer string''"
| "warning_text (PluginTooNew plugin minimum version) =
     ''plugin '' @ plugin @ '' requires OpenClaw >= '' @ minimum @ '', but spec.version is '' @ version"

definition plugin_condition :: "conditions_lib \<Rightarrow> Claw \<Rightarrow> Claw" where
  "plugin_condition m instance =
     (case checkPluginCompatibility instance of
        None \<Rightarrow> removeCondition m ''PluginCompatibility'' instance
      | Some warning \<Rightarrow> setCondition m ''PluginCompatibility'' ConditionFalse ''Incompatible'' (warning_text warning) instance)"

definition plugins_to_install :: "Claw \<Rightarrow> string list" where
  "plugins_to_install instance =
     (if pluginInstallationDisabled instance then []
      else if userManagedConfig instance then operatorRequiredPlugins instance else effectivePlugins instance)"

definition deployment_edits ::
  "unstructured_lib \<Rightarrow> reconciler_config \<Rightarrow> Claw \<Rightarrow> resolvedCredential list \<Rightarrow> string list \<Rightarrow> (jobj list \<Rightarrow> jobj list edited) list" where
  "deployment_edits u r instance resolvedCreds personaKeys =
     [\<lambda>objs. configureClawImage u objs instance,
      \<lambda>objs. configureProxyImage u objs instance (rf_ProxyImage r),
      \<lambda>objs. configureProxyForCredentials u objs instance resolvedCreds,
      \<lambda>objs. configureProxyForWebSearch u objs instance,
      \<lambda>objs. configureClawDeploymentForVertex u objs resolvedCreds (cl_Name instance),
      \<lambda>objs. configureClawDeploymentForKubernetes u objs resolvedCreds
        (if rf_KubectlImage r = [] then ''quay.io/openshift/origin-cli:4.21'' else rf_KubectlImage r) (cl_Name instance),
      \<lambda>objs. configureClawDeploymentConfigMode u objs instance,
      \<lambda>objs. configureGatewayForMcpServers u objs instance,
      \<lambda>objs. configureGatewayForChannels u objs instance,
      \<lambda>objs. configureGatewayForRepoAccess u objs instance,
      \<lambda>objs. configureClawDeploymentForAuth u objs instance,
      \<lambda>objs. if tracesEnabled instance \<or> logsEnabled instance \<or> metricsEnabled instance
              then injectOTelEnvVars u objs instance else Inr objs,
      \<lambda>objs. configurePluginsInitContainer u objs instance (plugins_to_install instance) (userManagedConfig instance),
      \<lambda>objs. configureAgentFiles u objs instance,
      \<lambda>objs. configureSkillImages u objs instance,
      \<lambda>objs. configureGatewayContainer u objs instance,
      \<lambda>objs. configureUserManagedOpenClawFiles u objs instance,
      \<lambda>objs. configurePersonaGuard u objs instance personaKeys,
      \<lambda>objs. configureGatewayNoProxy u objs instance,
      \<lambda>objs. configureImagePullPolicy u objs (rf_ImagePullPolicy r),
      \<lambda>objs. configureClawDeploymentServiceAccount u objs instance]"

text \<open>
  The steps in order. The condition about plugins is set between them, and no step reads it.
\<close>

definition configureDeployments ::
  "unstructured_lib \<Rightarrow> conditions_lib \<Rightarrow> reconciler_config \<Rightarrow> Claw \<Rightarrow> jobj list \<Rightarrow> resolvedCredential list \<Rightarrow> string list \<Rightarrow>
     (jobj list \<times> Claw) edited" where
  "configureDeployments u m r instance objects resolvedCreds personaKeys =
     rbind (rfold (\<lambda>f. f) (deployment_edits u r instance resolvedCreds personaKeys) objects)
       (\<lambda>objs. Inr (objs, plugin_condition m instance))"

definition enrich_configmap :: "manifest_env \<Rightarrow> string \<Rightarrow> Claw \<Rightarrow> jobj \<Rightarrow> jobj edited" where
  "enrich_configmap env routeHost instance cm =
     (case us_NestedString (mv_lib env) cm [''data'', ''operator.json''] of
        NestedFound operatorJSON \<Rightarrow>
          (case unmarshal_obj (mv_parse env operatorJSON) of
             None \<Rightarrow> Inl (RawInvalid ''operator.json'')
           | Some template \<Rightarrow>
               (case enrich_config instance routeHost template of
                  Inl e \<Rightarrow> Inl (ConfigFailed e)
                | Inr config \<Rightarrow> writeGeneratedConfig env config instance cm))
      | _ \<Rightarrow> Inl (FieldMissing [''data'', ''operator.json'']))"

definition enrich_edits :: "manifest_env \<Rightarrow> string \<Rightarrow> Claw \<Rightarrow> resolvedCredential list \<Rightarrow> (jobj list \<Rightarrow> jobj list edited) list" where
  "enrich_edits env routeHost instance resolvedCreds =
     (let u = mv_lib env; n = cl_Name instance; mcpTargets = classifyMcpEgressTargets instance
      in [edit_object u ConfigMapKind (getConfigMapName n) (enrich_configmap env routeHost instance),
          \<lambda>objs. injectWorkspaceFiles u objs instance,
          \<lambda>objs. if userManagedConfig instance then Inr objs else injectSkillFiles u objs instance,
          \<lambda>objs. if userManagedConfig instance then Inr objs else injectSkillConfigMapFiles env objs instance,
          \<lambda>objs. if userManagedConfig instance then Inr objs else injectKubernetesSkill u objs resolvedCreds n,
          \<lambda>objs. injectObservabilityResources u objs instance,
          \<lambda>objs. injectKubePortsIntoNetworkPolicy u objs resolvedCreds n,
          \<lambda>objs. if inClusterBypassEnabled instance then injectMcpGatewayEgressRules u objs mcpTargets n
                  else injectMcpProxyEgressRules u objs mcpTargets n,
          \<lambda>objs. injectMcpProxyEgressPorts u objs mcpTargets n,
          \<lambda>objs. injectAdditionalEgress u objs instance,
          \<lambda>objs. stampGatewayConfigHash u (mv_sum256 env) (mv_render env) objs n
            (if userManagedConfig instance then operatorRequiredPlugins instance else effectivePlugins instance)])"

definition enrichConfigAndNetworkPolicy ::
  "manifest_env \<Rightarrow> jobj list \<Rightarrow> string \<Rightarrow> Claw \<Rightarrow> resolvedCredential list \<Rightarrow> jobj list edited" where
  "enrichConfigAndNetworkPolicy env objects routeHost instance resolvedCreds =
     rfold (\<lambda>f. f) (enrich_edits env routeHost instance resolvedCreds) objects"

subsection \<open>What the pipelines may touch\<close>

lemma manifest_edit_sum:
  "(\<And>e. x = Inl e \<Longrightarrow> manifest_edit u K (f e)) \<Longrightarrow> (\<And>y. x = Inr y \<Longrightarrow> manifest_edit u K (g y)) \<Longrightarrow>
     manifest_edit u K (\<lambda>objs. case x of Inl e \<Rightarrow> f e objs | Inr y \<Rightarrow> g y objs)"
  by (cases x) simp_all

context unstructured_laws
begin

lemma append_slice_id: "append_slice u (k # ks) new obj = Inr obj' \<Longrightarrow> k \<noteq> ''kind'' \<Longrightarrow> k \<noteq> ''metadata'' \<Longrightarrow> same_id u obj obj'"
  by (auto simp: append_slice_def rbind_eq_Inr intro: slice_keeps_id)

lemma edit_https_rule_id:
  assumes "edit_https_rule u f obj = Inr obj'"
  shows "same_id u obj obj'"
proof -
  from assms obtain egress where "optional_slice u obj spec_egress = Inr egress" by (auto simp: edit_https_rule_def rbind_eq_Inr)
  with assms show ?thesis
    by (cases egress; cases "as_obj (hd egress)") (auto simp: edit_https_rule_def rbind_eq_Inr intro: slice_keeps_id)
qed

lemma put_data_id: "put_data u key content cm = Inr cm' \<Longrightarrow> same_id u cm cm'"
  by (auto simp: put_data_def intro: set_keeps_id)

lemma rfold_id:
  assumes "\<And>x obj obj'. f x obj = Inr obj' \<Longrightarrow> same_id u obj obj'"
  shows "rfold f xs obj = Inr obj' \<Longrightarrow> same_id u obj obj'"
proof (induction xs arbitrary: obj)
  case (Cons x xs)
  then obtain mid where "f x obj = Inr mid" "rfold f xs mid = Inr obj'" by (auto simp: rbind_eq_Inr)
  then show ?case using assms Cons.IH same_id_trans by blast
qed simp

lemma claim_skill_id: "claim_skill u ref e st = Inr st' \<Longrightarrow> same_id u (snd st) (snd st')"
  by (auto simp: claim_skill_def rbind_eq_Inr split: prod.splits sum.splits option.splits dest: put_data_id)

lemma rfold_claim_id: "rfold (claim_skill u ref) es st = Inr st' \<Longrightarrow> same_id u (snd st) (snd st')"
  by (induction es arbitrary: st) (auto simp: rbind_eq_Inr intro: same_id_trans dest: claim_skill_id)

lemma object_edit: "keeps_id u f \<Longrightarrow> K kind nm \<Longrightarrow> manifest_edit u K (edit_object u kind nm f)"
  by (rule manifest_edit_mono [OF manifest_edit_object]) auto

lemma pipeline_edit: "(\<And>f. f \<in> set fs \<Longrightarrow> manifest_edit u K f) \<Longrightarrow> manifest_edit u K (rfold (\<lambda>f. f) fs)"
proof (induction fs)
  case (Cons f fs)
  have "manifest_edit u K (\<lambda>objs. rbind (f objs) (rfold (\<lambda>f. f) fs))"
    using Cons by (intro manifest_edit_seq) simp_all
  then show ?case by simp
qed (simp add: manifest_edit_def list_all2_refl)

lemmas edit_intros = object_edit manifest_edit_return manifest_edit_if manifest_edit_fail manifest_edit_option
  manifest_edit_bind stamp_keeps_id

lemmas all_id_dests = id_dests append_slice_id edit_https_rule_id put_data_id

end

sublocale unstructured_laws \<subseteq> password: manifest_edit u "gateway_only (cl_Name i)" "\<lambda>objs. configureClawDeploymentForAuth u objs i" for i
  unfolding configureClawDeploymentForAuth_def
  by (intro edit_intros) (auto simp: keeps_id_def gateway_only_def dest!: all_id_dests)

sublocale unstructured_laws \<subseteq> repo_access: manifest_edit u "gateway_only (cl_Name i)" "\<lambda>objs. configureGatewayForRepoAccess u objs i" for i
  unfolding configureGatewayForRepoAccess_def Let_def
  by (intro edit_intros) (auto simp: keeps_id_def gateway_only_def dest!: all_id_dests)

sublocale unstructured_laws \<subseteq> otel: manifest_edit u "gateway_only (cl_Name i)" "\<lambda>objs. injectOTelEnvVars u objs i" for i
  unfolding injectOTelEnvVars_def
  by (intro edit_intros) (auto simp: keeps_id_def gateway_only_def dest!: all_id_dests)

sublocale unstructured_laws \<subseteq> plugins_init: manifest_edit u "gateway_only (cl_Name i)"
    "\<lambda>objs. configurePluginsInitContainer u objs i ps b" for i ps b
  unfolding configurePluginsInitContainer_def
  by (intro edit_intros) (auto simp: keeps_id_def gateway_only_def rbind_eq_Inr Let_def split: if_splits dest!: all_id_dests)

sublocale unstructured_laws \<subseteq> persona_guard: manifest_edit u "gateway_only (cl_Name i)" "\<lambda>objs. configurePersonaGuard u objs i ks" for i ks
  unfolding configurePersonaGuard_def
  by (intro edit_intros) (auto simp: keeps_id_def gateway_only_def rbind_eq_Inr same_id_def dest!: all_id_dests)

definition network_only :: "string \<Rightarrow> string \<Rightarrow> string \<Rightarrow> bool" where
  "network_only n kind nm \<longleftrightarrow>
     kind = NetworkPolicyKind \<and> nm \<in> {getEgressNetworkPolicyName n, getProxyEgressNetworkPolicyName n, getIngressNetworkPolicyName n} \<or>
     kind = ServiceKind \<and> nm = getServiceName n"

definition files_only :: "string \<Rightarrow> string \<Rightarrow> string \<Rightarrow> bool" where
  "files_only n kind nm \<longleftrightarrow> kind = ConfigMapKind \<and> nm = getConfigMapName n"

sublocale unstructured_laws \<subseteq> gateway_egress: manifest_edit u "network_only n" "\<lambda>objs. injectMcpGatewayEgressRules u objs ts n" for ts n
  unfolding injectMcpGatewayEgressRules_def Let_def
  by (intro edit_intros) (auto simp: keeps_id_def network_only_def dest!: all_id_dests)

sublocale unstructured_laws \<subseteq> proxy_egress: manifest_edit u "network_only n" "\<lambda>objs. injectMcpProxyEgressRules u objs ts n" for ts n
  unfolding injectMcpProxyEgressRules_def Let_def
  by (intro edit_intros) (auto simp: keeps_id_def network_only_def dest!: all_id_dests)

sublocale unstructured_laws \<subseteq> proxy_ports: manifest_edit u "network_only n" "\<lambda>objs. injectMcpProxyEgressPorts u objs ts n" for ts n
  unfolding injectMcpProxyEgressPorts_def Let_def
  by (intro edit_intros) (auto simp: keeps_id_def network_only_def dest!: all_id_dests)

sublocale unstructured_laws \<subseteq> kube_ports: manifest_edit u "network_only n" "\<lambda>objs. injectKubePortsIntoNetworkPolicy u objs creds n" for creds n
  unfolding injectKubePortsIntoNetworkPolicy_def Let_def
  by (intro edit_intros) (auto simp: keeps_id_def network_only_def dest!: all_id_dests)

sublocale unstructured_laws \<subseteq> additional_egress: manifest_edit u "network_only (cl_Name i)" "\<lambda>objs. injectAdditionalEgress u objs i" for i
  unfolding injectAdditionalEgress_def
  by (intro edit_intros) (auto simp: keeps_id_def network_only_def rbind_eq_Inr split: if_splits dest!: all_id_dests)

sublocale unstructured_laws \<subseteq> observability: manifest_edit u "network_only (cl_Name i)" "\<lambda>objs. injectObservabilityResources u objs i" for i
proof -
  let ?K = "network_only (cl_Name i)"
  have service: "manifest_edit u ?K (\<lambda>objs. addMetricsPortToService u objs i)"
    unfolding addMetricsPortToService_def by (intro edit_intros) (auto simp: keeps_id_def network_only_def dest!: all_id_dests)
  have rule: "manifest_edit u ?K (\<lambda>objs. addMetricsIngressRule u objs i)"
    unfolding addMetricsIngressRule_def by (intro edit_intros) (auto simp: keeps_id_def network_only_def dest!: all_id_dests)
  have telemetry: "manifest_edit u ?K (\<lambda>objs. injectTelemetryEgressRules u objs i)"
    unfolding injectTelemetryEgressRules_def
    by (cases "classifyTelemetryEndpoints i")
       (auto intro!: edit_intros simp: keeps_id_def network_only_def dest!: all_id_dests)
  show "manifest_edit u ?K (\<lambda>objs. injectObservabilityResources u objs i)"
    unfolding injectObservabilityResources_def
    by (intro manifest_edit_if manifest_edit_fail manifest_edit_seq manifest_edit_return service rule telemetry)
qed

sublocale unstructured_laws \<subseteq> workspace_files: manifest_edit u "files_only (cl_Name i)" "\<lambda>objs. injectWorkspaceFiles u objs i" for i
proof -
  have "same_id u obj obj'" if "rfold (\<lambda>(p, content). put_data u (h p) content) fs obj = Inr obj'" for h fs obj obj'
    by (rule rfold_id [OF _ that]) (auto dest: put_data_id)
  then show "manifest_edit u (files_only (cl_Name i)) (\<lambda>objs. injectWorkspaceFiles u objs i)"
    unfolding injectWorkspaceFiles_def
    by (intro manifest_edit_option manifest_edit_if manifest_edit_sum manifest_edit_fail manifest_edit_return object_edit)
       (auto simp: keeps_id_def files_only_def)
qed

sublocale unstructured_laws \<subseteq> skill_files: manifest_edit u "files_only (cl_Name i)" "\<lambda>objs. injectSkillFiles u objs i" for i
proof -
  have "same_id u obj obj'" if "rfold (\<lambda>(p, content). put_data u (h p) content) fs obj = Inr obj'" for h fs obj obj'
    by (rule rfold_id [OF _ that]) (auto dest: put_data_id)
  then show "manifest_edit u (files_only (cl_Name i)) (\<lambda>objs. injectSkillFiles u objs i)"
    unfolding injectSkillFiles_def
    by (intro manifest_edit_option manifest_edit_if manifest_edit_sum manifest_edit_fail manifest_edit_return object_edit)
       (auto simp: keeps_id_def files_only_def)
qed

sublocale unstructured_laws \<subseteq> kubernetes_skill: manifest_edit u "files_only n" "\<lambda>objs. injectKubernetesSkill u objs creds n" for creds n
  unfolding injectKubernetesSkill_def Let_def
  by (intro edit_intros) (auto simp: keeps_id_def files_only_def dest!: all_id_dests)

context unstructured_laws
begin

lemma claim_all_id:
  assumes "rfold (\<lambda>ref st. case get ref of None \<Rightarrow> Inl (missing ref) | Some data \<Rightarrow> rfold (claim_skill u (nm ref)) data st) refs st = Inr st'"
  shows "same_id u (snd st) (snd st')"
  using assms
proof (induction refs arbitrary: st)
  case (Cons ref refs)
  from Cons.prems obtain data mid where "get ref = Some data" "rfold (claim_skill u (nm ref)) data st = Inr mid"
    and rest: "rfold (\<lambda>ref st. case get ref of None \<Rightarrow> Inl (missing ref) | Some data \<Rightarrow> rfold (claim_skill u (nm ref)) data st) refs mid = Inr st'"
    by (cases "get ref") (auto simp: rbind_eq_Inr)
  then show ?case using rfold_claim_id Cons.IH [OF rest] same_id_trans by blast
qed simp

lemma skill_configmaps_edit:
  assumes "mv_lib env = u"
  shows "manifest_edit u (files_only (cl_Name i)) (\<lambda>objs. injectSkillConfigMapFiles env objs i)"
  unfolding injectSkillConfigMapFiles_def assms
  by (intro manifest_edit_option manifest_edit_if manifest_edit_return object_edit)
     (auto simp: keeps_id_def files_only_def rbind_eq_Inr dest: claim_all_id)

lemma enrich_configmap_id:
  assumes "mv_lib env = u" "enrich_configmap env routeHost i cm = Inr cm'"
  shows "same_id u cm cm'"
proof -
  from assms obtain s where "us_NestedString u cm [''data'', ''operator.json''] = NestedFound s"
    by (cases "us_NestedString u cm [''data'', ''operator.json'']") (auto simp: enrich_configmap_def)
  with assms obtain config where "writeGeneratedConfig env config i cm = Inr cm'"
    by (auto simp: enrich_configmap_def split: option.splits sum.splits)
  then obtain cm1 cm2 where "put_data u ''operator.json'' (mv_indent env (legacyOperatorJSON i config)) cm = Inr cm1"
    "put_data u ''operator-7.2.json'' (mv_indent env config) cm1 = Inr cm2"
    "put_data u ''migration.json'' (mv_compact env [(''doctorFixComplete'', JBool (doctorFixComplete i))]) cm2 = Inr cm'"
    by (auto simp: writeGeneratedConfig_def rbind_eq_Inr assms(1))
  then show ?thesis by (blast dest: put_data_id intro: same_id_trans)
qed

lemma gateway_hash_edit: "manifest_edit u (gateway_only n) (\<lambda>objs. stampGatewayConfigHash u sum256 render objs n ps)"
proof
  fix objs objs'
  assume "stampGatewayConfigHash u sum256 render objs n ps = Inr objs'"
  then obtain cm where "findObject u objs ConfigMapKind (getConfigMapName n) = Inr cm"
    by (auto simp: stampGatewayConfigHash_def rbind_eq_Inr)
  with \<open>stampGatewayConfigHash u sum256 render objs n ps = Inr objs'\<close> obtain v where
    "edit_object u DeploymentKind (getClawDeploymentName n) (stamp_annotations u v) objs = Inr objs'"
    by (cases "us_NestedMap u cm [''data'']") (auto simp: stampGatewayConfigHash_def)
  from manifest_edit.frame [OF gateway_edit [OF stamp_keeps_id] this]
  show "list_all2 (\<lambda>obj obj'. same_id u obj obj' \<and> (gateway_only n (us_GetKind u obj) (us_GetName u obj) \<or> obj' = obj)) objs objs'" .
qed

lemmas deployment_framed =
  claw_image.manifest_edit_axioms proxy_image.manifest_edit_axioms proxy_credentials.manifest_edit_axioms
  proxy_search.manifest_edit_axioms vertex.manifest_edit_axioms kubernetes.manifest_edit_axioms
  config_mode.manifest_edit_axioms mcp_servers.manifest_edit_axioms channels.manifest_edit_axioms
  repo_access.manifest_edit_axioms password.manifest_edit_axioms otel.manifest_edit_axioms plugins_init.manifest_edit_axioms
  agent_files.manifest_edit_axioms skill_images.manifest_edit_axioms gateway_container.manifest_edit_axioms
  user_managed.manifest_edit_axioms persona_guard.manifest_edit_axioms no_proxy.manifest_edit_axioms
  pull_policy.manifest_edit_axioms service_account.manifest_edit_axioms

end

sublocale unstructured_laws \<subseteq> deployments: manifest_edit u "\<lambda>k n. k = DeploymentKind"
    "rfold (\<lambda>f. f) (deployment_edits u r i creds keys)" for r i creds keys
proof (rule pipeline_edit)
  fix f assume "f \<in> set (deployment_edits u r i creds keys)"
  then show "manifest_edit u (\<lambda>k n. k = DeploymentKind) f"
    unfolding deployment_edits_def
    by (auto intro!: manifest_edit_if manifest_edit_return deployment_framed [THEN manifest_edit_mono]
        simp: gateway_only_def proxy_only_def)
qed

definition enrichment_touches :: "string \<Rightarrow> string \<Rightarrow> string \<Rightarrow> bool" where
  "enrichment_touches n kind nm \<longleftrightarrow> files_only n kind nm \<or> network_only n kind nm \<or> gateway_only n kind nm"

context unstructured_laws
begin

lemmas deployments_framed = deployments.manifest_edit_axioms

lemmas enrich_framed = workspace_files.manifest_edit_axioms skill_files.manifest_edit_axioms
  kubernetes_skill.manifest_edit_axioms observability.manifest_edit_axioms kube_ports.manifest_edit_axioms
  gateway_egress.manifest_edit_axioms proxy_egress.manifest_edit_axioms proxy_ports.manifest_edit_axioms
  additional_egress.manifest_edit_axioms gateway_hash_edit skill_configmaps_edit

lemma enrich_edit:
  assumes env: "mv_lib env = u"
  shows "manifest_edit u (enrichment_touches (cl_Name i)) (\<lambda>objs. enrichConfigAndNetworkPolicy env objs host i creds)"
proof -
  have "manifest_edit u (enrichment_touches (cl_Name i)) f" if "f \<in> set (enrich_edits env host i creds)" for f
    using that unfolding enrich_edits_def Let_def env
    by (auto intro!: manifest_edit_if manifest_edit_return object_edit enrich_framed [THEN manifest_edit_mono] env
        simp: enrichment_touches_def files_only_def keeps_id_def dest: enrich_configmap_id [OF env])
  then show ?thesis unfolding enrichConfigAndNetworkPolicy_def by (rule pipeline_edit)
qed

end

text \<open>
  Configuring the Deployments of an instance keeps the number, order, kinds and names of the
  rendered objects, and changes nothing that is not a Deployment.
\<close>

theorem configureDeployments_confined:
  assumes "unstructured_laws u"
    and "configureDeployments u m r instance objects resolvedCreds personaKeys = Inr (objects', instance')"
  shows "map (\<lambda>obj. (us_GetKind u obj, us_GetName u obj)) objects' = map (\<lambda>obj. (us_GetKind u obj, us_GetName u obj)) objects \<and>
    (\<forall>k < length objects. us_GetKind u (objects ! k) \<noteq> DeploymentKind \<longrightarrow> objects' ! k = objects ! k)"
proof -
  from assms(2) have run: "rfold (\<lambda>f. f) (deployment_edits u r instance resolvedCreds personaKeys) objects = Inr objects'"
    by (auto simp: configureDeployments_def rbind_eq_Inr)
  note framed = unstructured_laws.deployments_framed [OF assms(1)]
  from manifest_edit.same_ids [OF framed run] manifest_edit.untouched [OF framed run] show ?thesis by blast
qed

text \<open>A small set of rendered objects, and an environment whose printed documents are empty.\<close>

definition sample_policy :: "string \<Rightarrow> jobj" where
  "sample_policy nm =
     [(''kind'', JStr NetworkPolicyKind), (''metadata'', JObj [(''name'', JStr nm)]), (''spec'', JObj [(''egress'', JArr [JObj []])])]"

definition sample_configmap :: "(string \<times> json) list \<Rightarrow> jobj" where
  "sample_configmap data = [(''kind'', JStr ConfigMapKind), (''metadata'', JObj [(''name'', JStr ''c-config'')]), (''data'', JObj data)]"

definition sample_manifests :: "(string \<times> json) list \<Rightarrow> jobj list" where
  "sample_manifests data =
     [sample_configmap data, sample_deployment ''c'' ''gateway'', sample_deployment ''c-proxy'' ''proxy'',
      sample_policy ''c-egress'', sample_policy ''c-proxy-egress'']"

definition sample_env :: manifest_env where
  "sample_env = \<lparr>mv_lib = tree_unstructured, mv_sum256 = id, mv_render = (\<lambda>_. []), mv_parse = (\<lambda>_. Some (JObj [])),
     mv_indent = (\<lambda>_. []), mv_compact = (\<lambda>_. []), mv_configmap = (\<lambda>_. None)\<rparr>"

definition sample_reconciler :: reconciler_config where
  "sample_reconciler = \<lparr>rf_ProxyImage = ''p'', rf_KubectlImage = ''k'', rf_ImagePullPolicy = ''Always'', rf_DisableUserConfigManagement = False\<rparr>"

definition sample_egress_claw :: Claw where
  "sample_egress_claw = \<lparr>cl_Name = ''c'', cl_Namespace = ''ns'', cl_Generation = 1, cl_Annotations = [],
     cl_Spec = empty_ClawSpec\<lparr>sp_Network := Some \<lparr>net_InClusterBypass = None,
       net_AdditionalEgress = [JObj [(''to'', JArr [])]], net_BuiltinPassthroughs = None\<rparr>\<rparr>, cl_Status = empty_ClawStatus\<rparr>"

theorem configureDeployments_confined_witness:
  "\<exists>objects' instance'. configureDeployments tree_unstructured list_conditions sample_reconciler sample_egress_claw (sample_manifests []) [] []
     = Inr (objects', instance') \<and> objects' ! 0 = sample_configmap []"
proof -
  have "is_ok (configureDeployments tree_unstructured list_conditions sample_reconciler sample_egress_claw (sample_manifests []) [] [])"
    by code_simp
  then obtain objects' instance' where
    run: "configureDeployments tree_unstructured list_conditions sample_reconciler sample_egress_claw (sample_manifests []) [] [] = Inr (objects', instance')"
    by (auto simp: is_ok_iff)
  have "us_GetKind tree_unstructured (sample_manifests [] ! 0) \<noteq> DeploymentKind" by code_simp
  then have "objects' ! 0 = sample_manifests [] ! 0"
    using configureDeployments_confined [OF tree.unstructured_laws_axioms run] by (simp add: sample_manifests_def)
  with run show ?thesis by (simp add: sample_manifests_def)
qed

subsection \<open>Egress rules\<close>

definition policy_rules :: "unstructured_lib \<Rightarrow> jobj list \<Rightarrow> string \<Rightarrow> json list" where
  "policy_rules u objects nm =
     (case findObject u objects NetworkPolicyKind nm of Inr obj \<Rightarrow> slice_of u obj spec_egress | Inl _ \<Rightarrow> [])"

definition in_cluster_rules :: "Claw \<Rightarrow> json list" where
  "in_cluster_rules i = map (JObj \<circ> buildInClusterEgressRule) (filterInCluster (classifyMcpEgressTargets i))"

definition telemetry_rules :: "Claw \<Rightarrow> json list" where
  "telemetry_rules i =
     (if tracesEnabled i \<or> logsEnabled i
      then (case classifyTelemetryEndpoints i of Inr targets \<Rightarrow> map telemetry_rule targets | Inl _ \<Rightarrow> []) else [])"

definition same_tail :: "json list \<Rightarrow> json list \<Rightarrow> bool" where
  "same_tail xs ys \<longleftrightarrow> (xs = [] \<longrightarrow> ys = []) \<and> (xs \<noteq> [] \<longrightarrow> ys \<noteq> []) \<and> tl ys = tl xs"

lemma find_framed:
  assumes "list_all2 (\<lambda>obj obj'. same_id u obj obj' \<and> (K (us_GetKind u obj) (us_GetName u obj) \<or> obj' = obj)) objs objs'" "\<not> K kind nm"
  shows "findObject u objs' kind nm = findObject u objs kind nm"
  using assms by (induction rule: list_all2_induct) (auto simp: same_id_def)

lemma rules_framed:
  assumes "manifest_edit u K f" "f objs = Inr objs'" "\<not> K NetworkPolicyKind nm"
  shows "policy_rules u objs' nm = policy_rules u objs nm"
  unfolding policy_rules_def find_framed [OF manifest_edit.frame [OF assms(1,2)] assms(3)] ..

lemma policy_names:
  "getProxyEgressNetworkPolicyName n \<noteq> getEgressNetworkPolicyName n" "getEgressNetworkPolicyName n \<noteq> getProxyEgressNetworkPolicyName n"
  "getProxyEgressNetworkPolicyName n \<noteq> getIngressNetworkPolicyName n" "getEgressNetworkPolicyName n \<noteq> getIngressNetworkPolicyName n"
  "getIngressNetworkPolicyName n \<noteq> getProxyEgressNetworkPolicyName n" "getIngressNetworkPolicyName n \<noteq> getEgressNetworkPolicyName n"
  by (simp_all add: getProxyEgressNetworkPolicyName_def getEgressNetworkPolicyName_def getIngressNetworkPolicyName_def)

lemma optional_slice_Inr: "optional_slice u obj p = Inr xs \<Longrightarrow> slice_of u obj p = xs"
  by (simp add: optional_slice_def split: nested.splits)

context unstructured_laws
begin

lemma append_rules:
  assumes "edit_object u NetworkPolicyKind nm (append_slice u spec_egress new) objs = Inr objs'"
  shows "policy_rules u objs' nm = policy_rules u objs nm @ new"
proof -
  have "keeps_id u (append_slice u spec_egress new)" by (auto simp: keeps_id_def dest: append_slice_id)
  with assms obtain obj obj' where "findObject u objs NetworkPolicyKind nm = Inr obj" "findObject u objs' NetworkPolicyKind nm = Inr obj'"
    "append_slice u spec_egress new obj = Inr obj'" by (rule edit_object_find)
  then show ?thesis by (auto simp: policy_rules_def append_slice_def rbind_eq_Inr slice_get_set dest!: optional_slice_Inr)
qed

lemma https_rules:
  assumes "edit_object u NetworkPolicyKind nm (edit_https_rule u f) objs = Inr objs'"
  shows "policy_rules u objs nm \<noteq> [] \<and> policy_rules u objs' nm \<noteq> [] \<and> tl (policy_rules u objs' nm) = tl (policy_rules u objs nm)"
proof -
  have "keeps_id u (edit_https_rule u f)" by (auto simp: keeps_id_def dest: edit_https_rule_id)
  with assms obtain obj obj' where find: "findObject u objs NetworkPolicyKind nm = Inr obj" "findObject u objs' NetworkPolicyKind nm = Inr obj'"
    and edit: "edit_https_rule u f obj = Inr obj'" by (rule edit_object_find)
  from edit obtain egress where egress: "optional_slice u obj spec_egress = Inr egress" by (auto simp: edit_https_rule_def rbind_eq_Inr)
  with edit obtain rule' where "us_SetNestedSlice u obj (rule' # tl egress) spec_egress = Some obj'" "egress \<noteq> []"
    by (cases egress; cases "as_obj (hd egress)") (auto simp: edit_https_rule_def rbind_eq_Inr)
  with find optional_slice_Inr [OF egress] show ?thesis by (auto simp: policy_rules_def slice_get_set)
qed

lemma additional_rules:
  assumes "injectAdditionalEgress u objs i = Inr objs'"
  shows "policy_rules u objs' (getEgressNetworkPolicyName (cl_Name i)) = policy_rules u objs (getEgressNetworkPolicyName (cl_Name i)) @
    (case sp_Network (cl_Spec i) of Some net \<Rightarrow> net_AdditionalEgress net | None \<Rightarrow> [])"
proof (cases "sp_Network (cl_Spec i)")
  case (Some net)
  let ?f = "\<lambda>obj. rbind (optional_slice u obj spec_egress) (\<lambda>egress.
                if list_ex (\<lambda>rule. as_obj rule = None) (net_AdditionalEgress net) then Inl (RawInvalid ''additionalEgress'')
                else write_slice u obj (egress @ net_AdditionalEgress net) spec_egress)"
  have "?f obj = Inr obj' \<Longrightarrow> append_slice u spec_egress (net_AdditionalEgress net) obj = Inr obj'" for obj obj'
    by (auto simp: append_slice_def rbind_eq_Inr split: if_splits)
  then have same: "edit_object u k nm ?f objs = Inr objs' \<Longrightarrow> edit_object u k nm (append_slice u spec_egress (net_AdditionalEgress net)) objs = Inr objs'"
    for k nm objs objs' by (induction objs arbitrary: objs') (auto simp: rbind_eq_Inr split: if_splits)
  show ?thesis
  proof (cases "net_AdditionalEgress net = []")
    case False
    with assms Some have "edit_object u NetworkPolicyKind (getEgressNetworkPolicyName (cl_Name i)) ?f objs = Inr objs'"
      by (simp add: injectAdditionalEgress_def)
    from append_rules [OF same [OF this]] Some show ?thesis by simp
  qed (use assms Some in \<open>simp add: injectAdditionalEgress_def\<close>)
qed (use assms in \<open>simp add: injectAdditionalEgress_def\<close>)

lemma gateway_mcp_rules:
  "injectMcpGatewayEgressRules u objs (classifyMcpEgressTargets i) n = Inr objs' \<Longrightarrow>
     policy_rules u objs' (getEgressNetworkPolicyName n) = policy_rules u objs (getEgressNetworkPolicyName n) @ in_cluster_rules i"
  unfolding injectMcpGatewayEgressRules_def in_cluster_rules_def Let_def
  by (auto split: if_splits dest: append_rules)

lemma proxy_mcp_rules:
  "injectMcpProxyEgressRules u objs (classifyMcpEgressTargets i) n = Inr objs' \<Longrightarrow>
     policy_rules u objs' (getProxyEgressNetworkPolicyName n) = policy_rules u objs (getProxyEgressNetworkPolicyName n) @ in_cluster_rules i"
  unfolding injectMcpProxyEgressRules_def in_cluster_rules_def Let_def
  by (auto split: if_splits dest: append_rules)

lemma telemetry_edit_rules:
  assumes "injectTelemetryEgressRules u objs i = Inr objs'"
  shows "policy_rules u objs' (getEgressNetworkPolicyName (cl_Name i)) = policy_rules u objs (getEgressNetworkPolicyName (cl_Name i)) @
      (case classifyTelemetryEndpoints i of Inr targets \<Rightarrow> map telemetry_rule targets | Inl _ \<Rightarrow> [])"
    and "policy_rules u objs' (getProxyEgressNetworkPolicyName (cl_Name i)) = policy_rules u objs (getProxyEgressNetworkPolicyName (cl_Name i))"
proof -
  from assms obtain targets where targets: "classifyTelemetryEndpoints i = Inr targets"
    by (cases "classifyTelemetryEndpoints i") (simp_all add: injectTelemetryEgressRules_def)
  show "policy_rules u objs' (getEgressNetworkPolicyName (cl_Name i)) = policy_rules u objs (getEgressNetworkPolicyName (cl_Name i)) @
      (case classifyTelemetryEndpoints i of Inr targets \<Rightarrow> map telemetry_rule targets | Inl _ \<Rightarrow> [])"
    using assms targets by (auto simp: injectTelemetryEgressRules_def split: if_splits dest: append_rules)
  have framed: "manifest_edit u (\<lambda>k n. k = NetworkPolicyKind \<and> n = getEgressNetworkPolicyName (cl_Name i)) (\<lambda>objs. injectTelemetryEgressRules u objs i)"
    unfolding injectTelemetryEgressRules_def targets sum.case
    by (intro manifest_edit_if manifest_edit_return manifest_edit_object) (auto simp: keeps_id_def dest: append_slice_id)
  show "policy_rules u objs' (getProxyEgressNetworkPolicyName (cl_Name i)) = policy_rules u objs (getProxyEgressNetworkPolicyName (cl_Name i))"
    by (rule rules_framed [OF framed assms]) (simp add: policy_names)
qed

lemma metrics_edit_rules:
  assumes "rbind (addMetricsPortToService u objs i) (\<lambda>objs. addMetricsIngressRule u objs i) = Inr objs'"
    and "nm = getEgressNetworkPolicyName (cl_Name i) \<or> nm = getProxyEgressNetworkPolicyName (cl_Name i)"
  shows "policy_rules u objs' nm = policy_rules u objs nm"
proof (rule rules_framed)
  show "manifest_edit u (\<lambda>k n. k = ServiceKind \<or> n = getIngressNetworkPolicyName (cl_Name i))
      (\<lambda>objs. rbind (addMetricsPortToService u objs i) (\<lambda>objs. addMetricsIngressRule u objs i))"
    unfolding addMetricsPortToService_def addMetricsIngressRule_def
    by (intro manifest_edit_seq object_edit) (auto simp: keeps_id_def dest: append_slice_id)
qed (use assms in \<open>auto simp: policy_names\<close>)

lemma observability_rules:
  assumes "injectObservabilityResources u objs i = Inr objs'"
  shows "policy_rules u objs' (getEgressNetworkPolicyName (cl_Name i)) = policy_rules u objs (getEgressNetworkPolicyName (cl_Name i)) @ telemetry_rules i"
    and "policy_rules u objs' (getProxyEgressNetworkPolicyName (cl_Name i)) = policy_rules u objs (getProxyEgressNetworkPolicyName (cl_Name i))"
proof -
  from assms obtain mid where mid: "(if metricsEnabled i
        then rbind (addMetricsPortToService u objs i) (\<lambda>objs. addMetricsIngressRule u objs i) else Inr objs) = Inr mid"
    and rest: "(if tracesEnabled i \<or> logsEnabled i then injectTelemetryEgressRules u mid i else Inr mid) = Inr objs'"
    by (auto simp: injectObservabilityResources_def rbind_eq_Inr split: if_splits)
  have same: "policy_rules u mid nm = policy_rules u objs nm"
    if "nm = getEgressNetworkPolicyName (cl_Name i) \<or> nm = getProxyEgressNetworkPolicyName (cl_Name i)" for nm
    using mid metrics_edit_rules that by (cases "metricsEnabled i") auto
  show "policy_rules u objs' (getEgressNetworkPolicyName (cl_Name i)) = policy_rules u objs (getEgressNetworkPolicyName (cl_Name i)) @ telemetry_rules i"
    using rest telemetry_edit_rules(1) same by (cases "tracesEnabled i \<or> logsEnabled i") (auto simp: telemetry_rules_def)
  show "policy_rules u objs' (getProxyEgressNetworkPolicyName (cl_Name i)) = policy_rules u objs (getProxyEgressNetworkPolicyName (cl_Name i))"
    using rest telemetry_edit_rules(2) same by (cases "tracesEnabled i \<or> logsEnabled i") auto
qed

lemma other_policy_rules:
  "edit_object u NetworkPolicyKind nm f objs = Inr objs' \<Longrightarrow> keeps_id u f \<Longrightarrow> nm' \<noteq> nm \<Longrightarrow> policy_rules u objs' nm' = policy_rules u objs nm'"
  by (rule rules_framed [OF manifest_edit_object]) auto

lemma append_keeps_id: "keeps_id u (append_slice u spec_egress new)"
  by (auto simp: keeps_id_def dest: append_slice_id)

lemma https_keeps_id: "keeps_id u (edit_https_rule u f)"
  by (auto simp: keeps_id_def dest: edit_https_rule_id)

lemma https_edit_rules:
  assumes "(if ps = [] then Inr objs else edit_object u NetworkPolicyKind (getProxyEgressNetworkPolicyName n) (edit_https_rule u f) objs) = Inr objs'"
  shows "policy_rules u objs' (getEgressNetworkPolicyName n) = policy_rules u objs (getEgressNetworkPolicyName n)"
    and "same_tail (policy_rules u objs (getProxyEgressNetworkPolicyName n)) (policy_rules u objs' (getProxyEgressNetworkPolicyName n))"
  using assms other_policy_rules [OF _ https_keeps_id] https_rules
  by (auto simp: same_tail_def policy_names split: if_splits)

lemma mcp_rules:
  assumes "(if inClusterBypassEnabled i then injectMcpGatewayEgressRules u objs (classifyMcpEgressTargets i) n
            else injectMcpProxyEgressRules u objs (classifyMcpEgressTargets i) n) = Inr objs'"
  shows "policy_rules u objs' (getEgressNetworkPolicyName n) = policy_rules u objs (getEgressNetworkPolicyName n) @
      (if inClusterBypassEnabled i then in_cluster_rules i else [])"
    and "policy_rules u objs' (getProxyEgressNetworkPolicyName n) = policy_rules u objs (getProxyEgressNetworkPolicyName n) @
      (if inClusterBypassEnabled i then [] else in_cluster_rules i)"
  using assms gateway_mcp_rules proxy_mcp_rules other_policy_rules [OF _ append_keeps_id]
  by (auto simp: injectMcpGatewayEgressRules_def injectMcpProxyEgressRules_def Let_def policy_names split: if_splits)

lemma additional_other_rules:
  assumes "injectAdditionalEgress u objs i = Inr objs'"
  shows "policy_rules u objs' (getProxyEgressNetworkPolicyName (cl_Name i)) = policy_rules u objs (getProxyEgressNetworkPolicyName (cl_Name i))"
proof -
  have "manifest_edit u (\<lambda>k nm. nm = getEgressNetworkPolicyName (cl_Name i)) (\<lambda>objs. injectAdditionalEgress u objs i)"
    unfolding injectAdditionalEgress_def
    by (intro edit_intros) (auto simp: keeps_id_def rbind_eq_Inr split: if_splits dest!: all_id_dests)
  from rules_framed [OF this assms] show ?thesis by (simp add: policy_names)
qed

lemma files_rules:
  assumes "manifest_edit u (files_only n) f" "f objs = Inr objs'"
  shows "policy_rules u objs' nm = policy_rules u objs nm"
  by (rule rules_framed [OF assms]) (simp add: files_only_def)

lemma gateway_stamp_rules:
  assumes "stampGatewayConfigHash u sum256 render objs n ps = Inr objs'"
  shows "policy_rules u objs' nm = policy_rules u objs nm"
  by (rule rules_framed [OF gateway_hash_edit assms]) (simp add: gateway_only_def)

text \<open>The steps that write files leave the policies alone; the others are followed one by one.\<close>

lemma enrichment_rules:
  assumes env: "mv_lib env = u" and run: "enrichConfigAndNetworkPolicy env objs host i creds = Inr objs'"
  defines "gw \<equiv> getEgressNetworkPolicyName (cl_Name i)" and "px \<equiv> getProxyEgressNetworkPolicyName (cl_Name i)"
  shows "policy_rules u objs' gw = policy_rules u objs gw @ telemetry_rules i @
      (if inClusterBypassEnabled i then in_cluster_rules i else []) @
      (case sp_Network (cl_Spec i) of Some net \<Rightarrow> net_AdditionalEgress net | None \<Rightarrow> [])"
    and "policy_rules u objs px \<noteq> [] \<longrightarrow>
      tl (policy_rules u objs' px) = tl (policy_rules u objs px) @ (if inClusterBypassEnabled i then [] else in_cluster_rules i)"
proof -
  from run obtain o1 o2 o3 o4 o5 o6 o7 o8 o9 o10 where
    s1: "edit_object u ConfigMapKind (getConfigMapName (cl_Name i)) (enrich_configmap env host i) objs = Inr o1"
    and s2: "injectWorkspaceFiles u o1 i = Inr o2"
    and s3: "(if userManagedConfig i then Inr o2 else injectSkillFiles u o2 i) = Inr o3"
    and s4: "(if userManagedConfig i then Inr o3 else injectSkillConfigMapFiles env o3 i) = Inr o4"
    and s5: "(if userManagedConfig i then Inr o4 else injectKubernetesSkill u o4 creds (cl_Name i)) = Inr o5"
    and s6: "injectObservabilityResources u o5 i = Inr o6"
    and s7: "injectKubePortsIntoNetworkPolicy u o6 creds (cl_Name i) = Inr o7"
    and s8: "(if inClusterBypassEnabled i then injectMcpGatewayEgressRules u o7 (classifyMcpEgressTargets i) (cl_Name i)
              else injectMcpProxyEgressRules u o7 (classifyMcpEgressTargets i) (cl_Name i)) = Inr o8"
    and s9: "injectMcpProxyEgressPorts u o8 (classifyMcpEgressTargets i) (cl_Name i) = Inr o9"
    and s10: "injectAdditionalEgress u o9 i = Inr o10"
    and s11: "stampGatewayConfigHash u (mv_sum256 env) (mv_render env) o10 (cl_Name i)
            (if userManagedConfig i then operatorRequiredPlugins i else effectivePlugins i) = Inr objs'"
    unfolding enrichConfigAndNetworkPolicy_def enrich_edits_def Let_def env by (auto simp: rbind_eq_Inr)
  have config: "manifest_edit u (files_only (cl_Name i)) (edit_object u ConfigMapKind (getConfigMapName (cl_Name i)) (enrich_configmap env host i))"
    by (rule object_edit) (auto simp: keeps_id_def files_only_def dest: enrich_configmap_id [OF env])
  have "policy_rules u o3 nm = policy_rules u o2 nm" for nm
    using s3 files_rules [OF skill_files.manifest_edit_axioms] by (auto split: if_splits)
  moreover have "policy_rules u o4 nm = policy_rules u o3 nm" for nm
    using s4 files_rules [OF skill_configmaps_edit [OF env]] by (auto split: if_splits)
  moreover have "policy_rules u o5 nm = policy_rules u o4 nm" for nm
    using s5 files_rules [OF kubernetes_skill.manifest_edit_axioms] by (auto split: if_splits)
  ultimately have files: "policy_rules u o5 nm = policy_rules u objs nm" for nm
    using files_rules [OF config s1] files_rules [OF workspace_files.manifest_edit_axioms s2] by simp
  note kube = https_edit_rules [OF s7 [unfolded injectKubePortsIntoNetworkPolicy_def Let_def]]
  note ports = https_edit_rules [OF s9 [unfolded injectMcpProxyEgressPorts_def Let_def]]
  note steps = observability_rules [OF s6] mcp_rules [OF s8] additional_rules [OF s10] additional_other_rules [OF s10] gateway_stamp_rules [OF s11]
  show "policy_rules u objs' gw = policy_rules u objs gw @ telemetry_rules i @
      (if inClusterBypassEnabled i then in_cluster_rules i else []) @
      (case sp_Network (cl_Spec i) of Some net \<Rightarrow> net_AdditionalEgress net | None \<Rightarrow> [])"
    unfolding gw_def using files kube(1) ports(1) steps by simp
  show "policy_rules u objs px \<noteq> [] \<longrightarrow>
      tl (policy_rules u objs' px) = tl (policy_rules u objs px) @ (if inClusterBypassEnabled i then [] else in_cluster_rules i)"
    unfolding px_def using files kube(2) ports(2) steps by (simp add: same_tail_def)
qed

end

text \<open>
  (C27) What the network policies of an instance admit. The gateway's policy admits the rules of
  the template, the telemetry endpoints (when traces or logs are on), the in-cluster MCP servers if
  the bypass is on, and the additional rules of the user, and nothing else. The proxy's policy
  keeps every rule of the template after the first and gets the in-cluster MCP servers when the
  bypass is off.
\<close>

theorem egress_rules_exact:
  assumes "unstructured_laws (mv_lib env)"
    and "enrichConfigAndNetworkPolicy env objects routeHost instance resolvedCreds = Inr objects'"
  shows "policy_rules (mv_lib env) objects' (getEgressNetworkPolicyName (cl_Name instance)) =
      policy_rules (mv_lib env) objects (getEgressNetworkPolicyName (cl_Name instance)) @ telemetry_rules instance @
      (if inClusterBypassEnabled instance then in_cluster_rules instance else []) @
      (case sp_Network (cl_Spec instance) of Some net \<Rightarrow> net_AdditionalEgress net | None \<Rightarrow> []) \<and>
    (policy_rules (mv_lib env) objects (getProxyEgressNetworkPolicyName (cl_Name instance)) \<noteq> [] \<longrightarrow>
      tl (policy_rules (mv_lib env) objects' (getProxyEgressNetworkPolicyName (cl_Name instance))) =
      tl (policy_rules (mv_lib env) objects (getProxyEgressNetworkPolicyName (cl_Name instance))) @
      (if inClusterBypassEnabled instance then [] else in_cluster_rules instance))"
  using unstructured_laws.enrichment_rules [OF assms(1) refl assms(2)] by blast

lemma sample_config_enriches: "\<exists>c. enrich_config sample_egress_claw ''h'' [] = Inr c"
proof -
  have "parseUserRawConfig sample_egress_claw = Inr []" by code_simp
  moreover have "sp_Credentials (cl_Spec sample_egress_claw) = []" "sp_CustomProviders (cl_Spec sample_egress_claw) = []"
    "sp_WebSearch (cl_Spec sample_egress_claw) = None" "sp_WebFetch (cl_Spec sample_egress_claw) = None"
    by (simp_all add: sample_egress_claw_def empty_ClawSpec_def)
  ultimately show ?thesis
    by (simp add: enrich_config_def injectProviders_def injectChannels_def validateUniqueChannels_def injectWebSearch_def Let_def)
qed

abbreviation sample_data :: "(string \<times> json) list" where
  "sample_data \<equiv> [(''operator.json'', JStr []), (''operator-7.2.json'', JStr []), (''migration.json'', JStr [])]"

lemma sample_configmap_enriches:
  "enrich_configmap sample_env ''h'' sample_egress_claw (sample_configmap [(''operator.json'', JStr ''{}'')]) = Inr (sample_configmap sample_data)"
proof -
  obtain c where "enrich_config sample_egress_claw ''h'' [] = Inr c" using sample_config_enriches by blast
  then show ?thesis
    by (simp add: enrich_configmap_def sample_env_def tree_unstructured_def sample_configmap_def unmarshal_obj_def
        writeGeneratedConfig_def put_data_def written_def)
qed

lemma sample_enrichment_run:
  "\<exists>objects'. enrichConfigAndNetworkPolicy sample_env (sample_manifests [(''operator.json'', JStr ''{}'')]) ''h'' sample_egress_claw [] = Inr objects'"
proof -
  have names: "getConfigMapName (cl_Name sample_egress_claw) = ''c-config''" "mv_lib sample_env = tree_unstructured"
    by (simp_all add: sample_egress_claw_def getConfigMapName_def sample_env_def)
  have first: "edit_object tree_unstructured ConfigMapKind ''c-config'' (enrich_configmap sample_env ''h'' sample_egress_claw)
      (sample_manifests [(''operator.json'', JStr ''{}'')]) = Inr (sample_manifests sample_data)"
    using sample_configmap_enriches by (simp add: sample_manifests_def sample_configmap_def tree_unstructured_def)
  have "is_ok (rfold (\<lambda>f. f) (tl (enrich_edits sample_env ''h'' sample_egress_claw [])) (sample_manifests sample_data))"
    by code_simp
  with first show ?thesis
    by (simp add: enrichConfigAndNetworkPolicy_def enrich_edits_def Let_def names is_ok_iff)
qed

theorem egress_rules_exact_witness:
  "\<exists>objects'. enrichConfigAndNetworkPolicy sample_env (sample_manifests [(''operator.json'', JStr ''{}'')]) ''h'' sample_egress_claw [] = Inr objects' \<and>
     policy_rules tree_unstructured objects' ''c-egress'' = [JObj [], JObj [(''to'', JArr [])]]"
proof -
  obtain objects' where run: "enrichConfigAndNetworkPolicy sample_env (sample_manifests [(''operator.json'', JStr ''{}'')]) ''h'' sample_egress_claw [] = Inr objects'"
    using sample_enrichment_run by blast
  have env: "mv_lib sample_env = tree_unstructured" by (simp add: sample_env_def)
  have "policy_rules tree_unstructured (sample_manifests [(''operator.json'', JStr ''{}'')]) ''c-egress'' = [JObj []]"
    "telemetry_rules sample_egress_claw = []" "in_cluster_rules sample_egress_claw = []" by code_simp+
  with egress_rules_exact [of sample_env, unfolded env, OF tree.unstructured_laws_axioms run] run
  show ?thesis by (simp add: getEgressNetworkPolicyName_def sample_egress_claw_def)
qed

end
