(* ===== verification/Normalize.thy ===== *)
theory Normalize
  imports Json
begin

section \<open>Deployment defaults (\<open>src/internal/controller/claw_normalize.go\<close>)\<close>

text \<open>
  The operator compares the Deployment it wants with the one the API server stores, after filling in
  the defaults the server would fill in. The records hold the fields that normalising reads; what it
  leaves alone is one opaque value per struct. A Go zero value of a string is the empty string and of
  a number zero, a nil pointer is \<^term>\<open>None\<close>.
\<close>

record FieldRef =
  fr_APIVersion :: string
  fr_FieldPath :: string

record EnvVar =
  ev_Name :: string
  ev_Value :: string
  ev_FieldRef :: "FieldRef option"
  ev_Rest :: json

record ContainerPort =
  po_Protocol :: string
  po_Rest :: json

record HTTPGetAction =
  hg_Scheme :: string
  hg_Rest :: json

record Probe =
  pb_TimeoutSeconds :: int
  pb_PeriodSeconds :: int
  pb_SuccessThreshold :: int
  pb_FailureThreshold :: int
  pb_HTTPGet :: "HTTPGetAction option"
  pb_Rest :: json

record Container =
  ct_Image :: string
  ct_Env :: "EnvVar list"
  ct_TerminationMessagePath :: string
  ct_TerminationMessagePolicy :: string
  ct_ImagePullPolicy :: string
  ct_Ports :: "ContainerPort list"
  ct_LivenessProbe :: "Probe option"
  ct_ReadinessProbe :: "Probe option"
  ct_StartupProbe :: "Probe option"
  ct_Rest :: json

text \<open>A volume source that is present has an optional mode.\<close>

record Volume =
  vo_ConfigMap :: "int option option"
  vo_Secret :: "int option option"
  vo_DownwardAPI :: "int option option"
  vo_Projected :: "int option option"
  vo_Rest :: json

record PodSpec =
  ps_RestartPolicy :: string
  ps_DNSPolicy :: string
  ps_SchedulerName :: string
  ps_TerminationGracePeriodSeconds :: "int option"
  ps_ServiceAccountName :: string
  ps_DeprecatedServiceAccount :: string
  ps_SecurityContext :: "json option"
  ps_EnableServiceLinks :: "bool option"
  ps_InitContainers :: "Container list"
  ps_Containers :: "Container list"
  ps_Volumes :: "Volume list"
  ps_Rest :: json

record Deployment =
  de_StrategyType :: string
  de_RollingUpdate :: "(string \<times> string) option"
  de_RevisionHistoryLimit :: "int option"
  de_ProgressDeadlineSeconds :: "int option"
  de_PodSpec :: PodSpec
  de_Rest :: json

text \<open>The two idioms: a default for a zero value, and one for a nil pointer.\<close>

definition or_str :: "string \<Rightarrow> string \<Rightarrow> string" where
  "or_str d s = (if s = [] then d else s)"

definition or_int :: "int \<Rightarrow> int \<Rightarrow> int" where
  "or_int d n = (if n = 0 then d else n)"

definition or_nil :: "'a \<Rightarrow> 'a option \<Rightarrow> 'a option" where
  "or_nil d v = (case v of None \<Rightarrow> Some d | Some x \<Rightarrow> Some x)"

definition imageHasLatestOrNoTag :: "string \<Rightarrow> bool" where
  "imageHasLatestOrNoTag img =
     (if HasSuffix img '':latest'' then True
      else
        let afterSlash = (case LastIndexByte img (CHR ''/'') of Some i \<Rightarrow> drop (i + 1) img | None \<Rightarrow> img)
        in CHR '':'' \<notin> set afterSlash)"

definition normalizeProbe :: "Probe option \<Rightarrow> Probe option" where
  "normalizeProbe p =
     map_option (\<lambda>p. p\<lparr>pb_TimeoutSeconds := or_int 1 (pb_TimeoutSeconds p),
       pb_PeriodSeconds := or_int 10 (pb_PeriodSeconds p),
       pb_SuccessThreshold := or_int 1 (pb_SuccessThreshold p),
       pb_FailureThreshold := or_int 3 (pb_FailureThreshold p),
       pb_HTTPGet := map_option (\<lambda>h. h\<lparr>hg_Scheme := or_str ''HTTP'' (hg_Scheme h)\<rparr>) (pb_HTTPGet p)\<rparr>) p"

definition normalize_env :: "EnvVar \<Rightarrow> EnvVar" where
  "normalize_env e =
     e\<lparr>ev_FieldRef := map_option (\<lambda>f. f\<lparr>fr_APIVersion := or_str ''v1'' (fr_APIVersion f)\<rparr>) (ev_FieldRef e)\<rparr>"

definition normalizeContainer :: "Container \<Rightarrow> Container" where
  "normalizeContainer c =
     c\<lparr>ct_Env := map normalize_env (ct_Env c),
       ct_TerminationMessagePath := or_str ''/dev/termination-log'' (ct_TerminationMessagePath c),
       ct_TerminationMessagePolicy := or_str ''File'' (ct_TerminationMessagePolicy c),
       ct_ImagePullPolicy := or_str (if imageHasLatestOrNoTag (ct_Image c) then ''Always'' else ''IfNotPresent'') (ct_ImagePullPolicy c),
       ct_Ports := map (\<lambda>p. p\<lparr>po_Protocol := or_str ''TCP'' (po_Protocol p)\<rparr>) (ct_Ports c),
       ct_LivenessProbe := normalizeProbe (ct_LivenessProbe c),
       ct_ReadinessProbe := normalizeProbe (ct_ReadinessProbe c),
       ct_StartupProbe := normalizeProbe (ct_StartupProbe c)\<rparr>"

definition defaultVolumeMode :: int where
  "defaultVolumeMode = 420"

definition normalizeVolume :: "Volume \<Rightarrow> Volume" where
  "normalizeVolume v =
     v\<lparr>vo_ConfigMap := map_option (or_nil defaultVolumeMode) (vo_ConfigMap v),
       vo_Secret := map_option (or_nil defaultVolumeMode) (vo_Secret v),
       vo_DownwardAPI := map_option (or_nil defaultVolumeMode) (vo_DownwardAPI v),
       vo_Projected := map_option (or_nil defaultVolumeMode) (vo_Projected v)\<rparr>"

definition normalizePodSpec :: "PodSpec \<Rightarrow> PodSpec" where
  "normalizePodSpec s =
     (let s = s\<lparr>ps_RestartPolicy := or_str ''Always'' (ps_RestartPolicy s),
            ps_DNSPolicy := or_str ''ClusterFirst'' (ps_DNSPolicy s),
            ps_SchedulerName := or_str ''default-scheduler'' (ps_SchedulerName s),
            ps_TerminationGracePeriodSeconds := or_nil 30 (ps_TerminationGracePeriodSeconds s),
            ps_ServiceAccountName := or_str ''default'' (ps_ServiceAccountName s)\<rparr>
      in s\<lparr>ps_DeprecatedServiceAccount := or_str (ps_ServiceAccountName s) (ps_DeprecatedServiceAccount s),
            ps_SecurityContext := or_nil (JObj []) (ps_SecurityContext s),
            ps_EnableServiceLinks := or_nil True (ps_EnableServiceLinks s),
            ps_InitContainers := map normalizeContainer (ps_InitContainers s),
            ps_Containers := map normalizeContainer (ps_Containers s),
            ps_Volumes := map normalizeVolume (ps_Volumes s)\<rparr>)"

definition normalizeDeploymentStrategy :: "Deployment \<Rightarrow> Deployment" where
  "normalizeDeploymentStrategy d =
     (let d = d\<lparr>de_StrategyType := or_str ''RollingUpdate'' (de_StrategyType d)\<rparr>
      in if de_StrategyType d = ''RollingUpdate''
         then d\<lparr>de_RollingUpdate := or_nil (''25%'', ''25%'') (de_RollingUpdate d)\<rparr> else d)"

definition NormalizeDeployment :: "Deployment \<Rightarrow> Deployment" where
  "NormalizeDeployment d0 =
     (let d = normalizeDeploymentStrategy d0
      in d\<lparr>de_RevisionHistoryLimit := or_nil 10 (de_RevisionHistoryLimit d),
           de_ProgressDeadlineSeconds := or_nil 600 (de_ProgressDeadlineSeconds d),
           de_PodSpec := normalizePodSpec (de_PodSpec d)\<rparr>)"

subsection \<open>Normal forms\<close>

lemma or_str_simps [simp]: "or_str d (or_str d s) = or_str d s" "d \<noteq> [] \<Longrightarrow> or_str d s \<noteq> []" "s \<noteq> [] \<Longrightarrow> or_str d s = s"
  by (simp_all add: or_str_def)

lemma or_int_idem [simp]: "or_int d (or_int d n) = or_int d n"
  by (simp add: or_int_def)

lemma or_nil_simps [simp]: "or_nil d (or_nil d v) = or_nil d v" "or_nil d (Some x) = Some x"
  by (simp_all add: or_nil_def split: option.split)

lemma or_nil_comp [simp]: "or_nil d \<circ> or_nil d = or_nil d"
  by (rule ext) simp

text \<open>
  The contract of a normaliser: applying it twice is applying it once, so that comparing normal
  forms decides whether two specifications agree up to defaults.
\<close>

locale normaliser =
  fixes norm :: "'a \<Rightarrow> 'a"
  assumes idem: "norm (norm x) = norm x"
begin

lemma fixpoint_iff: "norm x = x \<longleftrightarrow> (\<exists>y. x = norm y)"
  using idem by metis

lemma map_idem: "map norm (map norm xs) = map norm xs"
  by (simp add: idem)

lemma stored_agrees: "norm desired = norm stored \<longleftrightarrow> norm desired = norm (norm stored)"
  by (simp add: idem)

end

interpretation probe: normaliser normalizeProbe
  by unfold_locales (auto simp: normalizeProbe_def option.map_comp comp_def intro!: option.map_cong)

interpretation env: normaliser normalize_env
  by unfold_locales (simp add: normalize_env_def option.map_comp comp_def)

interpretation container: normaliser normalizeContainer
  by unfold_locales (simp add: normalizeContainer_def probe.idem env.idem)

interpretation volume: normaliser normalizeVolume
  by unfold_locales (simp add: normalizeVolume_def option.map_comp)

interpretation pod_spec: normaliser normalizePodSpec
  by unfold_locales (simp add: normalizePodSpec_def Let_def container.idem volume.idem or_str_def)

interpretation strategy: normaliser normalizeDeploymentStrategy
  by unfold_locales (simp add: normalizeDeploymentStrategy_def Let_def or_str_def)

interpretation deployment: normaliser NormalizeDeployment
  by unfold_locales
    (simp add: NormalizeDeployment_def normalizeDeploymentStrategy_def Let_def pod_spec.idem or_str_def)

subsection \<open>Applying a Deployment (\<open>applyDeployment\<close> in \<open>claw_resource_controller.go\<close>)\<close>

text \<open>
  The stored object: its labels, annotations, owner references and specification.
\<close>

record ObjectState =
  os_Labels :: "(string, string) gomap"
  os_Annotations :: "(string, string) gomap"
  os_OwnerReferences :: json
  os_Spec :: Deployment

datatype OperationResult = OperationResultNone | OperationResultCreated | OperationResultUpdated

text \<open>
  \<open>controllerutil.CreateOrUpdate\<close> belongs to the controller library and the conversion from the
  unstructured object to the apimachinery; both are parameters and may fail. The client's view of
  the cluster is the stored object, if there is one. The documented behaviour relied on is that a
  call that succeeds creates the mutated new object when none is stored, and otherwise mutates the
  stored object and writes only when that changed something.
\<close>

type_synonym CreateOrUpdate =
  "(ObjectState \<Rightarrow> ObjectState) \<Rightarrow> ObjectState \<Rightarrow> ObjectState option \<Rightarrow> (string, ObjectState \<times> OperationResult) result"

definition create_or_update :: "CreateOrUpdate \<Rightarrow> bool" where
  "create_or_update cou \<longleftrightarrow>
     (\<forall>f e r. cou f e None = Inr r \<longrightarrow> r = (f e, OperationResultCreated)) \<and>
     (\<forall>f e x r. cou f e (Some x) = Inr r \<longrightarrow>
        r = (f x, if f x = x then OperationResultNone else OperationResultUpdated))"

definition empty_Deployment :: Deployment where
  "empty_Deployment = \<lparr>de_StrategyType = [], de_RollingUpdate = None, de_RevisionHistoryLimit = None,
     de_ProgressDeadlineSeconds = None,
     de_PodSpec = \<lparr>ps_RestartPolicy = [], ps_DNSPolicy = [], ps_SchedulerName = [], ps_TerminationGracePeriodSeconds = None,
       ps_ServiceAccountName = [], ps_DeprecatedServiceAccount = [], ps_SecurityContext = None, ps_EnableServiceLinks = None,
       ps_InitContainers = [], ps_Containers = [], ps_Volumes = [], ps_Rest = JNull\<rparr>, de_Rest = JNull\<rparr>"

definition mutate_deployment :: "ObjectState \<Rightarrow> ObjectState \<Rightarrow> ObjectState" where
  "mutate_deployment desired existing =
     existing\<lparr>os_Labels := map_copy (os_Labels desired) (os_Labels existing),
       os_Annotations := map_copy (os_Annotations desired) (os_Annotations existing),
       os_Spec := os_Spec desired, os_OwnerReferences := os_OwnerReferences desired\<rparr>"

definition applyDeployment ::
  "('o \<Rightarrow> (string, ObjectState) result) \<Rightarrow> CreateOrUpdate \<Rightarrow> 'o \<Rightarrow> ObjectState option \<Rightarrow> (string, ObjectState \<times> bool) result" where
  "applyDeployment fromUnstructured createOrUpdate obj stored =
     rbind (fromUnstructured obj) (\<lambda>converted.
       let desired = converted\<lparr>os_Spec := NormalizeDeployment (os_Spec converted)\<rparr>;
           existing = \<lparr>os_Labels = [], os_Annotations = [], os_OwnerReferences = JNull, os_Spec = empty_Deployment\<rparr>
       in rbind (createOrUpdate (mutate_deployment desired) existing stored) (\<lambda>(stored', res).
            Inr (stored', res \<noteq> OperationResultNone)))"

lemma map_copy_idem:
  assumes "distinct (map fst xs)"
  shows "map_copy xs (map_copy xs ys) = map_copy xs ys"
proof -
  have upd: "AList.update k v zs = zs" if "map_of zs k = Some v" for k and v :: 'b and zs :: "('a \<times> 'b) list"
    using that by (induction zs) (auto split: if_splits)
  have "map_copy us zs = zs" if "\<And>k v. (k, v) \<in> set us \<Longrightarrow> map_of zs k = Some v" for us and zs :: "('a \<times> 'b) list"
    using that by (induction us) (auto simp: upd)
  moreover have "map_of (map_copy xs ys) k = Some v" if "(k, v) \<in> set xs" for k v
    using that assms by (simp add: map_of_map_copy)
  ultimately show ?thesis by blast
qed

lemma applyDeployment_result:
  assumes "create_or_update cou" and "applyDeployment conv cou obj stored = Inr (s, b)"
  obtains c e where "conv obj = Inr c"
    and "s = mutate_deployment (c\<lparr>os_Spec := NormalizeDeployment (os_Spec c)\<rparr>) e"
    and "\<forall>x. stored = Some x \<longrightarrow> e = x \<and> b = (s \<noteq> x)"
proof -
  from assms(2) obtain c e res where c: "conv obj = Inr c" and b: "b = (res \<noteq> OperationResultNone)"
    and s: "cou (mutate_deployment (c\<lparr>os_Spec := NormalizeDeployment (os_Spec c)\<rparr>)) e stored = Inr (s, res)"
    by (auto simp: applyDeployment_def Let_def rbind_eq_Inr)
  show ?thesis
  proof (cases stored)
    case None
    with s assms(1) have "s = mutate_deployment (c\<lparr>os_Spec := NormalizeDeployment (os_Spec c)\<rparr>) e"
      unfolding create_or_update_def by blast
    with None c show ?thesis by (intro that [of c e]) simp_all
  next
    case (Some x)
    with s assms(1) have "(s, res) = (let y = mutate_deployment (c\<lparr>os_Spec := NormalizeDeployment (os_Spec c)\<rparr>) x
        in (y, if y = x then OperationResultNone else OperationResultUpdated))"
      unfolding create_or_update_def Let_def by blast
    with Some c b show ?thesis by (intro that [of c x]) (simp_all add: Let_def)
  qed
qed


definition library_create_or_update :: CreateOrUpdate where
  "library_create_or_update f e stored =
     Inr (case stored of
        None \<Rightarrow> (f e, OperationResultCreated)
      | Some x \<Rightarrow> (f x, if f x = x then OperationResultNone else OperationResultUpdated))"

definition sample_object :: ObjectState where
  "sample_object = \<lparr>os_Labels = [(''app'', ''claw'')], os_Annotations = [], os_OwnerReferences = JNull,
     os_Spec = empty_Deployment\<rparr>"

definition sample_stored :: ObjectState where
  "sample_stored = sample_object\<lparr>os_Spec := NormalizeDeployment empty_Deployment\<rparr>"


end
