(* ===== verification/Cluster.thy ===== *)
theory Cluster
  imports Manifests Normalize Route_Json
begin

section \<open>The cluster as one pass of the controller sees it\<close>

text \<open>
  A pass of \<open>ClawResourceReconciler.Reconcile\<close> reads from the cluster, edits the instance it holds in
  memory and writes to the cluster. The API server, kustomize, the YAML and certificate libraries are
  outside the repository; the parameter \<open>cluster\<close> has what they answer: for every read the value that
  is found, and for every write whether it is refused. The Jobs are listed twice in a pass, and the
  lists may differ.

  The state of a pass is the instance in memory and the trace of what was done so far, in order. A
  write that is refused leaves no entry. The operations below return an error or a value
  together with the new state; an error ends the pass but what was done stays done.

  The locale \<open>pass_invariant\<close> has the operations that keep a property of the state whatever they
  return, with one rule for each way operations are composed.
\<close>

subsection \<open>What is read\<close>

datatype 'a fetched = Fetched 'a | FetchNotFound | FetchNoMatch | FetchFailed

text \<open>Of a Deployment: the desired replicas and the status.\<close>

record deployment_state =
  ds_Name :: string
  ds_Replicas :: "int option"
  ds_Conditions :: "(string \<times> string) list"
  ds_StatusReplicas :: int
  ds_ReadyReplicas :: int

text \<open>The status of an init container: terminated with exit code, reason and message, or waiting with reason and message.\<close>

record init_status =
  is_Name :: string
  is_Terminated :: "(int \<times> string \<times> string) option"
  is_Waiting :: "(string \<times> string) option"

record doctor_job =
  dj_Name :: string
  dj_Annotations :: "(string, string) gomap"
  dj_Conditions :: "(string \<times> string) list"
  dj_Succeeded :: int
  dj_Failed :: int

subsection \<open>What is written\<close>

text \<open>Objects are JSON trees, as in the manifests.\<close>

datatype api_write =
    UpdateStatus ClawStatus
  | ScaleToZero string
  | DeleteResource string string
  | PatchSecret string "(string, string) gomap"
  | PatchConfigMap string "(string, string) gomap"
  | ApplyDeployment jobj
  | ApplyObject jobj
  | CreateJob jobj

datatype pass_event = Wrote api_write | RecordedMetrics Claw | ClearedMetrics string string

datatype mcp_secret_error =
    McpSecretNotFound string string string
  | McpSecretUnreadable string string string
  | McpKeyMissing string string string string

datatype reconcile_error =
    ApiFailed string
  | UserConfigDisabled
  | DefaultsInvalid credential_error
  | CredentialsInvalid "credential_error list"
  | McpSecretsInvalid "mcp_secret_error list"
  | McpBypassConflict string string
  | SearchRefRequired string
  | SearchSecretMissing string
  | SearchKeyMissing string string
  | SearchCredentialMissing string string
  | SearchProviderUnknown string
  | RepoSecretInvalid manifest_error
  | GitSecretInvalid manifest_error
  | PathsInvalid workspace_error
  | SkillsInvalid workspace_error
  | PersonaMissing string
  | PersonaUnreadable string
  | PersonaEmpty string
  | PersonaKeysInvalid workspace_error
  | PasswordRefRequired
  | PasswordUnreadable string
  | PasswordKeyMissing string string
  | ProxyConfigInvalid proxy_config_error
  | GatewaySecretInvalid gateway_secret_error
  | KubeconfigInvalid kube_error
  | EditFailed manifest_error
  | DeploymentFailed string

record cluster =
  ck_conditions :: conditions_lib
  ck_text :: "reconcile_error \<Rightarrow> string"
  ck_manifests :: manifest_env
  ck_kubeconfig :: "string \<Rightarrow> api_config option"
  ck_printKubeconfig :: "api_config \<Rightarrow> string"
  ck_printJson :: "json \<Rightarrow> string"
  ck_kustomize :: "string \<Rightarrow> string \<Rightarrow> string option"
  ck_yaml :: "string \<Rightarrow> jobj option"
  ck_controlled :: "deployment_state \<Rightarrow> Claw \<Rightarrow> bool"
  ck_own :: "Claw \<Rightarrow> jobj \<Rightarrow> jobj option"
  ck_random :: "string option"
  ck_certificate :: "(string \<times> string) option"
  ck_claw :: "string \<Rightarrow> Claw fetched"
  ck_deployment :: "string \<Rightarrow> deployment_state fetched"
  ck_initStatuses :: "deployment_state \<Rightarrow> init_status list option"
  ck_route :: "string \<Rightarrow> jobj fetched"
  ck_secret :: secret_reader
  ck_userSecret :: secret_reader
  ck_userVersion :: "string \<Rightarrow> string option"
  ck_configMap :: "string \<Rightarrow> bool"
  ck_userConfigMap :: "string \<Rightarrow> (string, string) gomap fetched"
  ck_jobs :: "doctor_job list option"
  ck_jobsLater :: "doctor_job list option"
  ck_job :: "string \<Rightarrow> doctor_job fetched"
  ck_fromUnstructured :: "jobj \<Rightarrow> (string, ObjectState) result"
  ck_createOrUpdate :: CreateOrUpdate
  ck_storedDeployment :: "jobj \<Rightarrow> ObjectState option"
  ck_refused :: "api_write \<Rightarrow> unit fetched option"

subsection \<open>Passes\<close>

record pass_state =
  ps_instance :: Claw
  ps_trace :: "pass_event list"

type_synonym 'a pass = "pass_state \<Rightarrow> (reconcile_error, 'a) result \<times> pass_state"

definition pass_return :: "'a \<Rightarrow> 'a pass" where
  "pass_return x st = (Inr x, st)"

definition pass_fail :: "reconcile_error \<Rightarrow> 'a pass" where
  "pass_fail e st = (Inl e, st)"

definition pass_bind :: "'a pass \<Rightarrow> ('a \<Rightarrow> 'b pass) \<Rightarrow> 'b pass" where
  "pass_bind p f st = (case p st of (Inl e, st') \<Rightarrow> (Inl e, st') | (Inr x, st') \<Rightarrow> f x st')"

definition pass_catch :: "'a pass \<Rightarrow> (reconcile_error \<Rightarrow> 'a pass) \<Rightarrow> 'a pass" where
  "pass_catch p h st = (case p st of (Inl e, st') \<Rightarrow> h e st' | (Inr x, st') \<Rightarrow> (Inr x, st'))"

definition pass_lift :: "('e \<Rightarrow> reconcile_error) \<Rightarrow> ('e, 'a) result \<Rightarrow> 'a pass" where
  "pass_lift wrap r st = (case r of Inl e \<Rightarrow> (Inl (wrap e), st) | Inr x \<Rightarrow> (Inr x, st))"

definition get_instance :: "Claw pass" where
  "get_instance st = (Inr (ps_instance st), st)"

definition modify_instance :: "(Claw \<Rightarrow> Claw) \<Rightarrow> unit pass" where
  "modify_instance f st = (Inr (), st\<lparr>ps_instance := f (ps_instance st)\<rparr>)"

definition record_event :: "pass_event \<Rightarrow> unit pass" where
  "record_event e st = (Inr (), st\<lparr>ps_trace := ps_trace st @ [e]\<rparr>)"

text \<open>Try to write; the answer is \<^term>\<open>None\<close> when the server accepted.\<close>

definition try_write :: "cluster \<Rightarrow> api_write \<Rightarrow> unit fetched option pass" where
  "try_write k w st =
     (case ck_refused k w of
        None \<Rightarrow> (Inr None, st\<lparr>ps_trace := ps_trace st @ [Wrote w]\<rparr>)
      | Some why \<Rightarrow> (Inr (Some why), st))"

definition write_or_fail :: "cluster \<Rightarrow> string \<Rightarrow> api_write \<Rightarrow> unit pass" where
  "write_or_fail k what w =
     pass_bind (try_write k w) (\<lambda>refused. case refused of None \<Rightarrow> pass_return () | Some _ \<Rightarrow> pass_fail (ApiFailed what))"

definition write_status :: "cluster \<Rightarrow> unit fetched option pass" where
  "write_status k = pass_bind get_instance (\<lambda>i. try_write k (UpdateStatus (cl_Status i)))"

definition write_status_or_fail :: "cluster \<Rightarrow> string \<Rightarrow> unit pass" where
  "write_status_or_fail k what =
     pass_bind (write_status k) (\<lambda>refused. case refused of None \<Rightarrow> pass_return () | Some _ \<Rightarrow> pass_fail (ApiFailed what))"

text \<open>The idiom of the error paths: the status is written, and a refusal is only logged.\<close>

definition write_status_quietly :: "cluster \<Rightarrow> unit pass" where
  "write_status_quietly k = pass_bind (write_status k) (\<lambda>_. pass_return ())"

fun pass_each :: "('a \<Rightarrow> unit pass) \<Rightarrow> 'a list \<Rightarrow> unit pass" where
  "pass_each f [] = pass_return ()"
| "pass_each f (x # xs) = pass_bind (f x) (\<lambda>_. pass_each f xs)"

definition set_condition :: "cluster \<Rightarrow> string \<Rightarrow> string \<Rightarrow> string \<Rightarrow> string \<Rightarrow> unit pass" where
  "set_condition k condType status reason message = modify_instance (setCondition (ck_conditions k) condType status reason message)"

definition remove_condition :: "cluster \<Rightarrow> string \<Rightarrow> unit pass" where
  "remove_condition k condType = modify_instance (removeCondition (ck_conditions k) condType)"

lemmas pass_defs = pass_return_def pass_fail_def pass_bind_def pass_catch_def pass_lift_def get_instance_def
  modify_instance_def record_event_def try_write_def write_or_fail_def write_status_def write_status_or_fail_def
  write_status_quietly_def set_condition_def remove_condition_def

subsection \<open>Invariants of a pass\<close>

text \<open>An operation that keeps a property of the state whatever it returns.\<close>

locale pass_invariant =
  fixes I :: "pass_state \<Rightarrow> bool" and p :: "'a pass"
  assumes kept: "I st \<Longrightarrow> I (snd (p st))"
begin

lemma result: "I st \<Longrightarrow> p st = (r, st') \<Longrightarrow> I st'"
  by (metis kept snd_conv)

end

lemmas invariant_result = pass_invariant.result

lemma invariant_return: "pass_invariant I (pass_return x)"
  by (simp add: pass_invariant_def pass_return_def)

lemma invariant_fail: "pass_invariant I (pass_fail e)"
  by (simp add: pass_invariant_def pass_fail_def)

lemma invariant_get: "pass_invariant I get_instance"
  by (simp add: pass_invariant_def get_instance_def)

lemma invariant_lift: "pass_invariant I (pass_lift wrap r)"
  by (cases r) (simp_all add: pass_invariant_def pass_lift_def)

lemma invariant_bind: "pass_invariant I p \<Longrightarrow> (\<And>x. pass_invariant I (f x)) \<Longrightarrow> pass_invariant I (pass_bind p f)"
  unfolding pass_invariant_def pass_bind_def by (auto split: prod.splits sum.splits)

lemma invariant_catch: "pass_invariant I p \<Longrightarrow> (\<And>e. pass_invariant I (h e)) \<Longrightarrow> pass_invariant I (pass_catch p h)"
  unfolding pass_invariant_def pass_catch_def by (auto split: prod.splits sum.splits)

lemma invariant_modify: "(\<And>st. I st \<Longrightarrow> I (st\<lparr>ps_instance := f (ps_instance st)\<rparr>)) \<Longrightarrow> pass_invariant I (modify_instance f)"
  by (simp add: pass_invariant_def modify_instance_def)

lemma invariant_record: "(\<And>st. I st \<Longrightarrow> I (st\<lparr>ps_trace := ps_trace st @ [e]\<rparr>)) \<Longrightarrow> pass_invariant I (record_event e)"
  by (simp add: pass_invariant_def record_event_def)

lemma invariant_try: "(\<And>st. I st \<Longrightarrow> I (st\<lparr>ps_trace := ps_trace st @ [Wrote w]\<rparr>)) \<Longrightarrow> pass_invariant I (try_write k w)"
  by (simp add: pass_invariant_def try_write_def split: option.split)

lemma invariant_if: "(b \<Longrightarrow> pass_invariant I p) \<Longrightarrow> (\<not> b \<Longrightarrow> pass_invariant I q) \<Longrightarrow> pass_invariant I (if b then p else q)"
  by simp

lemma invariant_option:
  "(x = None \<Longrightarrow> pass_invariant I p) \<Longrightarrow> (\<And>y. x = Some y \<Longrightarrow> pass_invariant I (f y)) \<Longrightarrow> pass_invariant I (case x of None \<Rightarrow> p | Some y \<Rightarrow> f y)"
  by (cases x) simp_all

lemma invariant_sum:
  "(\<And>e. x = Inl e \<Longrightarrow> pass_invariant I (g e)) \<Longrightarrow> (\<And>y. x = Inr y \<Longrightarrow> pass_invariant I (f y)) \<Longrightarrow> pass_invariant I (case x of Inl e \<Rightarrow> g e | Inr y \<Rightarrow> f y)"
  by (cases x) simp_all

lemma invariant_prod: "(\<And>a b. x = (a, b) \<Longrightarrow> pass_invariant I (f a b)) \<Longrightarrow> pass_invariant I (case x of (a, b) \<Rightarrow> f a b)"
  by (cases x) simp_all

lemma invariant_fetched:
  "(\<And>y. x = Fetched y \<Longrightarrow> pass_invariant I (f y)) \<Longrightarrow> pass_invariant I p \<Longrightarrow> pass_invariant I q \<Longrightarrow> pass_invariant I r \<Longrightarrow>
     pass_invariant I (case x of Fetched y \<Rightarrow> f y | FetchNotFound \<Rightarrow> p | FetchNoMatch \<Rightarrow> q | FetchFailed \<Rightarrow> r)"
  by (cases x) simp_all

lemma invariant_each: "(\<And>x. x \<in> set xs \<Longrightarrow> pass_invariant I (f x)) \<Longrightarrow> pass_invariant I (pass_each f xs)"
  by (induction xs) (auto intro: invariant_return invariant_bind)

lemmas invariant_rules = invariant_return invariant_fail invariant_get invariant_lift invariant_bind invariant_catch
  invariant_if invariant_option invariant_sum invariant_prod invariant_fetched invariant_each

text \<open>Properties of the trace alone: editing the instance cannot break them.\<close>

definition only_events :: "(pass_event \<Rightarrow> bool) \<Rightarrow> pass_state \<Rightarrow> bool" where
  "only_events ok st \<longleftrightarrow> (\<forall>e \<in> set (ps_trace st). ok e)"

lemma only_modify: "pass_invariant (only_events ok) (modify_instance f)"
  by (rule invariant_modify) (simp add: only_events_def)

lemma only_record: "ok e \<Longrightarrow> pass_invariant (only_events ok) (record_event e)"
  by (rule invariant_record) (simp add: only_events_def)

lemma only_try: "ok (Wrote w) \<Longrightarrow> pass_invariant (only_events ok) (try_write k w)"
  by (rule invariant_try) (simp add: only_events_def)

lemma only_write: "ok (Wrote w) \<Longrightarrow> pass_invariant (only_events ok) (write_or_fail k what w)"
  unfolding write_or_fail_def by (intro invariant_rules only_try)

lemma only_status: "(\<And>s. ok (Wrote (UpdateStatus s))) \<Longrightarrow> pass_invariant (only_events ok) (write_status k)"
  unfolding write_status_def by (intro invariant_rules only_try)

lemma only_status_or_fail: "(\<And>s. ok (Wrote (UpdateStatus s))) \<Longrightarrow> pass_invariant (only_events ok) (write_status_or_fail k what)"
  unfolding write_status_or_fail_def by (intro invariant_rules only_status)

lemma only_status_quietly: "(\<And>s. ok (Wrote (UpdateStatus s))) \<Longrightarrow> pass_invariant (only_events ok) (write_status_quietly k)"
  unfolding write_status_quietly_def by (intro invariant_rules only_status)

lemma only_condition: "pass_invariant (only_events ok) (set_condition k t s r msg)" "pass_invariant (only_events ok) (remove_condition k t)"
  unfolding set_condition_def remove_condition_def by (rule only_modify)+

lemmas only_rules = invariant_rules only_modify only_record only_write only_status_or_fail only_status_quietly only_condition

end
