(* ===== verification/Status.thy ===== *)
theory Status
  imports Cluster
begin

section \<open>Status, idling and operator metrics\<close>

text \<open>
  \<open>src/internal/controller/claw_status.go\<close>, \<open>claw_idle.go\<close> and \<open>claw_operator_metrics.go\<close>.

  The properties: what a completed status update reports and when a URL with the gateway token is
  shown; that the recorded version is a high-water mark for as long as versions are numeric; that an
  idle pass only ever scales the instance's own Deployments to zero; that the metrics have exactly
  one active status and one info series for each instance.
\<close>

subsection \<open>Readiness\<close>

definition getDeploymentAvailableStatus :: "cluster \<Rightarrow> string \<Rightarrow> (reconcile_error, bool) result" where
  "getDeploymentAvailableStatus k nm =
     (case ck_deployment k nm of
        FetchNotFound \<Rightarrow> Inr False
      | Fetched d \<Rightarrow> Inr (map_of (ds_Conditions d) ''Available'' = Some ConditionTrue)
      | _ \<Rightarrow> Inl (ApiFailed ''get deployment''))"

fun pending_deployments :: "cluster \<Rightarrow> string list \<Rightarrow> (reconcile_error, string list) result" where
  "pending_deployments k [] = Inr []"
| "pending_deployments k (nm # nms) =
     rbind (getDeploymentAvailableStatus k nm) (\<lambda>ready.
     rbind (pending_deployments k nms) (\<lambda>pending. Inr (if ready then pending else nm # pending)))"

definition checkDeploymentsReady :: "cluster \<Rightarrow> string \<Rightarrow> (reconcile_error, bool \<times> string list) result" where
  "checkDeploymentsReady k instanceName =
     rbind (pending_deployments k [getClawDeploymentName instanceName, getProxyDeploymentName instanceName])
       (\<lambda>pending. Inr (pending = [], pending))"

definition getRouteURL :: "cluster \<Rightarrow> string \<Rightarrow> (reconcile_error, string) result" where
  "getRouteURL k instanceName =
     (let u = mv_lib (ck_manifests k)
      in case ck_route k (getRouteName instanceName) of
           FetchNotFound \<Rightarrow> Inr []
         | FetchNoMatch \<Rightarrow> Inr []
         | FetchFailed \<Rightarrow> Inl (ApiFailed ''get Route'')
         | Fetched route \<Rightarrow>
             (case us_NestedSlice u route [''status'', ''ingress''] of
                NestedError \<Rightarrow> Inl (ApiFailed ''extract ingress'')
              | NestedMissing \<Rightarrow> Inr []
              | NestedFound [] \<Rightarrow> Inr []
              | NestedFound (firstIngress # _) \<Rightarrow>
                  (case as_obj firstIngress of
                     None \<Rightarrow> Inl (ApiFailed ''parse ingress entry'')
                   | Some ingress \<Rightarrow>
                       (case us_NestedString u ingress [''host''] of
                          NestedError \<Rightarrow> Inl (ApiFailed ''extract host'')
                        | NestedMissing \<Rightarrow> Inr []
                        | NestedFound host \<Rightarrow> Inr (if host = [] then [] else ''https://'' @ host)))))"

definition setReadyCondition :: "conditions_lib \<Rightarrow> bool \<Rightarrow> string list \<Rightarrow> Claw \<Rightarrow> Claw" where
  "setReadyCondition m ready pendingDeployments =
     (if ready then setCondition m ''Ready'' ConditionTrue ''Ready'' ''Claw instance is ready''
      else setCondition m ''Ready'' ConditionFalse ''Provisioning''
        (if pendingDeployments \<noteq> [] then ''Waiting for deployments to become ready'' else ''Provisioning in progress''))"

definition setReadyConditionWithDetail :: "conditions_lib \<Rightarrow> bool \<Rightarrow> string list \<Rightarrow> string \<Rightarrow> Claw \<Rightarrow> Claw" where
  "setReadyConditionWithDetail m ready pendingDeployments initFailureDetail =
     (if ready \<or> initFailureDetail = [] then setReadyCondition m ready pendingDeployments
      else setCondition m ''Ready'' ConditionFalse ''InitContainerFailure'' initFailureDetail)"

abbreviation quoted :: "string \<Rightarrow> string" where
  "quoted s \<equiv> [CHR 0x22] @ s @ [CHR 0x22]"

definition init_failure :: "init_status \<Rightarrow> string option" where
  "init_failure cs =
     (let crash = (case is_Waiting cs of
                     Some (reason, message) \<Rightarrow>
                       if reason = ''CrashLoopBackOff''
                       then Some (''init container '' @ quoted (is_Name cs) @ '' in CrashLoopBackOff: '' @ message) else None
                   | None \<Rightarrow> None)
      in case is_Terminated cs of
           Some (exitCode, reason, message) \<Rightarrow>
             if exitCode \<noteq> 0
             then Some (''init container '' @ quoted (is_Name cs) @ '' failed (exit '' @ Itoa exitCode @ ''): '' @
                    (if message \<noteq> [] then message else reason))
             else crash
         | None \<Rightarrow> crash)"

definition checkPodInitFailures :: "cluster \<Rightarrow> string \<Rightarrow> (reconcile_error, string) result" where
  "checkPodInitFailures k deploymentName =
     (case ck_deployment k deploymentName of
        Fetched d \<Rightarrow>
          (case ck_initStatuses k d of
             None \<Rightarrow> Inl (ApiFailed ''list pods'')
           | Some statuses \<Rightarrow> Inr (Join ''; '' (List.map_filter init_failure statuses)))
      | _ \<Rightarrow> Inl (ApiFailed ''get deployment''))"

text \<open>The first detail found; a failed inspection is logged and skipped.\<close>

fun first_detail :: "cluster \<Rightarrow> string list \<Rightarrow> string" where
  "first_detail k [] = []"
| "first_detail k (nm # nms) =
     (case checkPodInitFailures k nm of
        Inr detail \<Rightarrow> if detail \<noteq> [] then detail else first_detail k nms
      | Inl _ \<Rightarrow> first_detail k nms)"

subsection \<open>The gateway URL\<close>

definition getGatewayToken :: "cluster \<Rightarrow> string \<Rightarrow> string" where
  "getGatewayToken k instanceName =
     (case ck_secret k (getGatewaySecretName instanceName) of
        SecretData data \<Rightarrow> lookup_str data ''token''
      | _ \<Rightarrow> [])"

text \<open>\<open>url.QueryEscape\<close>.\<close>

definition upper_hex :: "nat \<Rightarrow> char" where
  "upper_hex n = (if n < 10 then char_of (48 + n) else char_of (55 + n))"

definition query_unreserved :: "char \<Rightarrow> bool" where
  "query_unreserved c \<longleftrightarrow> is_digit_byte c \<or> (97 \<le> byte_of c \<and> byte_of c \<le> 122) \<or> (65 \<le> byte_of c \<and> byte_of c \<le> 90) \<or> c \<in> set ''-_.~''"

definition escape_byte :: "char \<Rightarrow> string" where
  "escape_byte c =
     (if query_unreserved c then [c] else if c = CHR '' '' then ''+''
      else [CHR ''%'', upper_hex (byte_of c div 16), upper_hex (byte_of c mod 16)])"

definition encodeFragmentValue :: "string \<Rightarrow> string" where
  "encodeFragmentValue v = concat (map escape_byte v)"

definition buildGatewayURL :: "string \<Rightarrow> string \<Rightarrow> string" where
  "buildGatewayURL routeURL token =
     (if routeURL = [] then [] else if token = [] then routeURL else routeURL @ ''#token='' @ encodeFragmentValue token)"

subsection \<open>Operator metrics\<close>

definition conditionReasonToStatus :: "string \<Rightarrow> string" where
  "conditionReasonToStatus reason =
     (if reason = ''Ready'' then ''ready'' else if reason = ''ValidationFailed'' then ''failed''
      else if reason = ''Idle'' then ''idled'' else ''provisioning'')"

definition allStatusValues :: "string list" where
  "allStatusValues = [''ready'', ''provisioning'', ''failed'', ''idled'']"

text \<open>The two gauges: values by name, namespace and status, and the info series (name, namespace, auth mode, idle).\<close>

record gauges =
  g_status :: "(string \<times> string \<times> string, int) gomap"
  g_info :: "(string \<times> string \<times> string \<times> string) list"

definition metric_status :: "conditions_lib \<Rightarrow> Claw \<Rightarrow> string" where
  "metric_status m instance =
     (case condition_of m instance ''Ready'' of Some c \<Rightarrow> conditionReasonToStatus (co_Reason c) | None \<Rightarrow> ''provisioning'')"

definition recordClawMetrics :: "conditions_lib \<Rightarrow> Claw \<Rightarrow> gauges \<Rightarrow> gauges" where
  "recordClawMetrics m instance g =
     (let nm = cl_Name instance; ns = cl_Namespace instance;
          authMode = (case sp_Auth (cl_Spec instance) of Some a \<Rightarrow> if au_Mode a \<noteq> [] then au_Mode a else ''token'' | None \<Rightarrow> ''token'')
      in \<lparr>g_status = fold (\<lambda>s. AList.update (nm, ns, s) (if s = metric_status m instance then 1 else 0)) allStatusValues (g_status g),
          g_info = (nm, ns, authMode, if sp_Idle (cl_Spec instance) then ''true'' else ''false'') #
            filter (\<lambda>(n, s, _). \<not> (n = nm \<and> s = ns)) (g_info g)\<rparr>)"

definition clearClawMetrics :: "string \<Rightarrow> string \<Rightarrow> gauges \<Rightarrow> gauges" where
  "clearClawMetrics nm ns g =
     \<lparr>g_status = filter (\<lambda>((n, s, _), _). \<not> (n = nm \<and> s = ns)) (g_status g),
      g_info = filter (\<lambda>(n, s, _). \<not> (n = nm \<and> s = ns)) (g_info g)\<rparr>"

definition refreshClawMetrics :: "conditions_lib \<Rightarrow> Claw list \<Rightarrow> gauges \<Rightarrow> gauges" where
  "refreshClawMetrics m items g = fold (recordClawMetrics m) items g"

text \<open>The gauges after a pass.\<close>

fun gauge_event :: "conditions_lib \<Rightarrow> pass_event \<Rightarrow> gauges \<Rightarrow> gauges" where
  "gauge_event m (RecordedMetrics i) g = recordClawMetrics m i g"
| "gauge_event m (ClearedMetrics nm ns) g = clearClawMetrics nm ns g"
| "gauge_event m (Wrote w) g = g"

definition record_metrics :: "unit pass" where
  "record_metrics = pass_bind get_instance (\<lambda>i. record_event (RecordedMetrics i))"

subsection \<open>Updating the status\<close>

definition password_mode :: "Claw \<Rightarrow> bool" where
  "password_mode instance = (case sp_Auth (cl_Spec instance) of Some a \<Rightarrow> au_Mode a = ''password'' | None \<Rightarrow> False)"

definition set_urls :: "string \<Rightarrow> Claw \<Rightarrow> Claw" where
  "set_urls url instance = instance\<lparr>cl_Status := (cl_Status instance)\<lparr>st_URL := url, st_GatewayURL := url\<rparr>\<rparr>"

definition downgrade_condition :: "conditions_lib \<Rightarrow> Claw \<Rightarrow> Claw" where
  "downgrade_condition m instance =
     (let version = sp_Version (cl_Spec instance); deployed = st_LastDeployedVersion (cl_Status instance)
      in case compareCalver version deployed of (cmp, cmpOK) \<Rightarrow>
           if version \<noteq> [] \<and> deployed \<noteq> [] \<and> cmpOK \<and> cmp < 0
           then setCondition m ''VersionDowngrade'' ConditionTrue ''VersionDowngrade''
                  (''spec.version '' @ version @ '' is older than previously deployed version '' @ deployed @
                   ''; PVC data may be incompatible'') instance
           else removeCondition m ''VersionDowngrade'' instance)"

definition track_version :: "bool \<Rightarrow> Claw \<Rightarrow> Claw" where
  "track_version ready instance =
     (let version = sp_Version (cl_Spec instance); deployed = st_LastDeployedVersion (cl_Status instance)
      in if ready \<and> version \<noteq> []
         then (case compareCalver version deployed of (cmpTrack, cmpTrackOK) \<Rightarrow>
                 if deployed = [] \<or> \<not> cmpTrackOK \<or> cmpTrack \<ge> 0
                 then instance\<lparr>cl_Status := (cl_Status instance)\<lparr>st_LastDeployedVersion := version\<rparr>\<rparr> else instance)
         else instance)"

definition report_readiness :: "cluster \<Rightarrow> bool \<Rightarrow> string list \<Rightarrow> Claw \<Rightarrow> Claw" where
  "report_readiness k ready pending instance =
     (let detail = (if ready then [] else first_detail k pending);
          i = setReadyConditionWithDetail (ck_conditions k) ready pending detail instance
      in i\<lparr>cl_Status := (cl_Status i)\<lparr>st_GatewayTokenSecretRef := getGatewaySecretName (cl_Name i), st_Image := effectiveOpenClawImage i\<rparr>\<rparr>)"

definition status_url :: "cluster \<Rightarrow> bool \<Rightarrow> Claw \<Rightarrow> (reconcile_error, string) result" where
  "status_url k ready instance =
     (if ready
      then rbind (getRouteURL k (cl_Name instance)) (\<lambda>routeURL.
             Inr (if password_mode instance then routeURL else buildGatewayURL routeURL (getGatewayToken k (cl_Name instance))))
      else Inr [])"

definition updateStatus :: "cluster \<Rightarrow> unit pass" where
  "updateStatus k =
     pass_bind get_instance (\<lambda>i0.
     pass_bind (pass_lift id (checkDeploymentsReady k (cl_Name i0))) (\<lambda>(ready, pending).
     pass_bind (modify_instance (report_readiness k ready pending)) (\<lambda>_.
     pass_bind get_instance (\<lambda>i1.
     pass_bind (pass_lift id (status_url k ready i1)) (\<lambda>url.
     pass_bind (modify_instance (track_version ready \<circ> downgrade_condition (ck_conditions k) \<circ> set_urls url)) (\<lambda>_.
     pass_bind record_metrics (\<lambda>_.
       write_status_or_fail k ''update Claw status'')))))))"

subsection \<open>Idling\<close>

definition scaleDeploymentToZero :: "cluster \<Rightarrow> string \<Rightarrow> unit pass" where
  "scaleDeploymentToZero k nm =
     pass_bind get_instance (\<lambda>i.
       case ck_deployment k nm of
         FetchNotFound \<Rightarrow> pass_return ()
       | Fetched d \<Rightarrow>
           if \<not> ck_controlled k d i then pass_return ()
           else if ds_Replicas d = Some 0 then pass_return ()
           else write_or_fail k ''scale deployment to zero'' (ScaleToZero nm)
       | _ \<Rightarrow> pass_fail (ApiFailed ''get deployment''))"

definition already_idled :: "conditions_lib \<Rightarrow> Claw \<Rightarrow> bool" where
  "already_idled m instance =
     ((case condition_of m instance ''Idle'' of Some c \<Rightarrow> co_Status c = ConditionTrue | None \<Rightarrow> False) \<and>
      (case condition_of m instance ''Ready'' of Some c \<Rightarrow> co_Status c = ConditionFalse \<and> co_Reason c = ''Idle'' | None \<Rightarrow> False) \<and>
      st_URL (cl_Status instance) = [])"

definition idled_message :: string where
  "idled_message = ''Instance is idled '' @ [CHR 0xE2, CHR 0x80, CHR 0x94] @ '' set spec.idle to false to resume''"

definition handleIdle :: "cluster \<Rightarrow> unit pass" where
  "handleIdle k =
     pass_bind get_instance (\<lambda>i.
     pass_bind (pass_each (scaleDeploymentToZero k) [getClawDeploymentName (cl_Name i), getProxyDeploymentName (cl_Name i)]) (\<lambda>_.
       if already_idled (ck_conditions k) i then pass_return ()
       else
         pass_bind (set_condition k ''Idle'' ConditionTrue ''IdledByRequest'' ''Instance scaled to zero by spec.idle'') (\<lambda>_.
         pass_bind (set_condition k ''Ready'' ConditionFalse ''Idle'' idled_message) (\<lambda>_.
         pass_bind (modify_instance (set_urls [])) (\<lambda>_.
         pass_bind record_metrics (\<lambda>_.
           write_status_or_fail k ''update status after idling''))))))"

subsection \<open>What a status update reports\<close>

definition available :: "cluster \<Rightarrow> string \<Rightarrow> bool" where
  "available k nm \<longleftrightarrow> (\<exists>d. ck_deployment k nm = Fetched d \<and> map_of (ds_Conditions d) ''Available'' = Some ConditionTrue)"

lemma getDeploymentAvailableStatus_Inr: "getDeploymentAvailableStatus k nm = Inr b \<Longrightarrow> b = available k nm"
  by (auto simp: getDeploymentAvailableStatus_def available_def split: fetched.splits)

lemma checkDeploymentsReady_Inr:
  assumes "checkDeploymentsReady k n = Inr (ready, pending)"
  shows "ready \<longleftrightarrow> available k (getClawDeploymentName n) \<and> available k (getProxyDeploymentName n)"
    and "pending = filter (\<lambda>nm. \<not> available k nm) [getClawDeploymentName n, getProxyDeploymentName n]"
  using assms by (auto simp: checkDeploymentsReady_def rbind_eq_Inr dest!: getDeploymentAvailableStatus_Inr split: if_splits)

lemma set_urls_simps [simp]:
  "cl_Name (set_urls url i) = cl_Name i" "cl_Generation (set_urls url i) = cl_Generation i" "cl_Spec (set_urls url i) = cl_Spec i"
  "st_URL (cl_Status (set_urls url i)) = url" "st_GatewayURL (cl_Status (set_urls url i)) = url"
  "st_Conditions (cl_Status (set_urls url i)) = st_Conditions (cl_Status i)"
  "st_LastDeployedVersion (cl_Status (set_urls url i)) = st_LastDeployedVersion (cl_Status i)"
  by (simp_all add: set_urls_def)

lemma track_version_simps [simp]:
  "cl_Name (track_version ready i) = cl_Name i" "cl_Generation (track_version ready i) = cl_Generation i" "cl_Spec (track_version ready i) = cl_Spec i"
  "st_URL (cl_Status (track_version ready i)) = st_URL (cl_Status i)" "st_GatewayURL (cl_Status (track_version ready i)) = st_GatewayURL (cl_Status i)"
  "st_Conditions (cl_Status (track_version ready i)) = st_Conditions (cl_Status i)"
  by (auto simp: track_version_def Let_def split: prod.split)

lemma downgrade_condition_simps [simp]:
  "cl_Name (downgrade_condition m i) = cl_Name i" "cl_Generation (downgrade_condition m i) = cl_Generation i" "cl_Spec (downgrade_condition m i) = cl_Spec i"
  "st_URL (cl_Status (downgrade_condition m i)) = st_URL (cl_Status i)" "st_GatewayURL (cl_Status (downgrade_condition m i)) = st_GatewayURL (cl_Status i)"
  "st_LastDeployedVersion (cl_Status (downgrade_condition m i)) = st_LastDeployedVersion (cl_Status i)"
  by (auto simp: downgrade_condition_def Let_def split: prod.split)

lemma report_readiness_simps [simp]:
  "cl_Name (report_readiness k ready ps i) = cl_Name i" "cl_Generation (report_readiness k ready ps i) = cl_Generation i"
  "cl_Spec (report_readiness k ready ps i) = cl_Spec i"
  "st_LastDeployedVersion (cl_Status (report_readiness k ready ps i)) = st_LastDeployedVersion (cl_Status i)"
  by (auto simp: report_readiness_def setReadyConditionWithDetail_def setReadyCondition_def Let_def)

lemma reports_by_conditions: "st_Conditions (cl_Status i) = st_Conditions (cl_Status j) \<Longrightarrow> reports m i t = reports m j t"
  by (simp add: reports_def condition_of_def)

context condition_laws
begin

lemma reports_downgrade: "t \<noteq> ''VersionDowngrade'' \<Longrightarrow> reports m (downgrade_condition m i) t = reports m i t"
  by (auto simp: downgrade_condition_def Let_def split: prod.split)

lemma reports_readiness:
  "ck_conditions k = m \<Longrightarrow> reports m (report_readiness k ready ps i) ''Ready'' =
     Some (if ready then (ConditionTrue, ''Ready'', cl_Generation i)
           else (ConditionFalse, if first_detail k ps = [] then ''Provisioning'' else ''InitContainerFailure'', cl_Generation i))"
  by (simp add: report_readiness_def setReadyConditionWithDetail_def setReadyCondition_def Let_def
      reports_by_conditions [where j = "setCondition m t s r msg i" for t s r msg])

end

text \<open>The steps of a completed update.\<close>

lemma updateStatus_Inr:
  assumes "updateStatus k st = (Inr (), st')"
  obtains ready pending url where "checkDeploymentsReady k (cl_Name (ps_instance st)) = Inr (ready, pending)"
    and "status_url k ready (report_readiness k ready pending (ps_instance st)) = Inr url"
    and "ps_instance st' = track_version ready (downgrade_condition (ck_conditions k) (set_urls url (report_readiness k ready pending (ps_instance st))))"
    and "ps_trace st' = ps_trace st @ [RecordedMetrics (ps_instance st'), Wrote (UpdateStatus (cl_Status (ps_instance st')))]"
  using assms by (auto simp: updateStatus_def record_metrics_def pass_defs split: prod.splits sum.splits option.splits)

text \<open>
  (C29) A status update that completes reports \<open>Ready\<close> exactly when both Deployments of the instance are
  available, and otherwise \<open>Provisioning\<close> or the failure of an init container, always for the
  generation that was reconciled. The URLs are empty unless the instance is ready, and carry the
  gateway token only if the instance does not use a password. What was reported is what was
  written, after the metrics were recorded for it.
\<close>

theorem updateStatus_reports:
  assumes laws: "condition_laws (ck_conditions k)" and "updateStatus k st = (Inr (), st')"
  defines "n \<equiv> cl_Name (ps_instance st)" and "i' \<equiv> ps_instance st'"
  shows "(\<exists>status reason. reports (ck_conditions k) i' ''Ready'' = Some (status, reason, cl_Generation (ps_instance st)) \<and>
      (status = ConditionTrue \<longleftrightarrow> available k (getClawDeploymentName n) \<and> available k (getProxyDeploymentName n)) \<and>
      (if status = ConditionTrue then reason = ''Ready''
       else reason \<in> {''Provisioning'', ''InitContainerFailure''} \<and> st_URL (cl_Status i') = [] \<and> st_GatewayURL (cl_Status i') = [])) \<and>
    st_URL (cl_Status i') = st_GatewayURL (cl_Status i') \<and>
    (st_URL (cl_Status i') \<noteq> [] \<longrightarrow>
      (\<exists>route. getRouteURL k n = Inr route \<and>
        st_URL (cl_Status i') = (if password_mode (ps_instance st) then route else buildGatewayURL route (getGatewayToken k n)))) \<and>
    ps_trace st' = ps_trace st @ [RecordedMetrics i', Wrote (UpdateStatus (cl_Status i'))]"
proof -
  let ?m = "ck_conditions k"
  from assms(2) obtain ready pending url where ready: "checkDeploymentsReady k n = Inr (ready, pending)"
    and url: "status_url k ready (report_readiness k ready pending (ps_instance st)) = Inr url"
    and i': "i' = track_version ready (downgrade_condition ?m (set_urls url (report_readiness k ready pending (ps_instance st))))"
    and trace: "ps_trace st' = ps_trace st @ [RecordedMetrics i', Wrote (UpdateStatus (cl_Status i'))]"
    unfolding n_def i'_def by (rule updateStatus_Inr)
  have "reports ?m i' ''Ready'' = reports ?m (report_readiness k ready pending (ps_instance st)) ''Ready''"
    unfolding i' by (simp add: reports_by_conditions [of "track_version ready j" j for j]
        reports_by_conditions [of "set_urls url j" j for j] condition_laws.reports_downgrade [OF laws])
  with condition_laws.reports_readiness [OF laws refl]
  have rep: "reports ?m i' ''Ready'' = Some (if ready then (ConditionTrue, ''Ready'', cl_Generation (ps_instance st))
      else (ConditionFalse, if first_detail k pending = [] then ''Provisioning'' else ''InitContainerFailure'', cl_Generation (ps_instance st)))" by simp
  have urls: "st_URL (cl_Status i') = url" "st_GatewayURL (cl_Status i') = url" by (simp_all add: i')
  have pm: "password_mode (report_readiness k b ps j) = password_mode j" for b ps j
    by (simp add: password_mode_def)
  have "\<not> ready \<Longrightarrow> url = []" using url by (simp add: status_url_def)
  moreover have "\<exists>route. getRouteURL k n = Inr route \<and> url = (if password_mode (ps_instance st) then route else buildGatewayURL route (getGatewayToken k n))"
    if "url \<noteq> []"
    using url that by (auto simp: status_url_def rbind_eq_Inr pm n_def split: if_splits)
  ultimately show ?thesis
    using rep urls trace checkDeploymentsReady_Inr(1) [OF ready] by (cases ready) auto
qed

text \<open>A cluster for the examples: two available Deployments, a Route with a host, a gateway token.\<close>

definition sample_cluster :: cluster where
  "sample_cluster =
     \<lparr>ck_conditions = list_conditions, ck_text = (\<lambda>_. []), ck_manifests = sample_env, ck_kubeconfig = (\<lambda>_. None),
      ck_printKubeconfig = (\<lambda>_. []), ck_printJson = (\<lambda>_. []), ck_kustomize = (\<lambda>_ _. None), ck_yaml = (\<lambda>_. None),
      ck_controlled = (\<lambda>_ _. True), ck_own = (\<lambda>_ obj. Some obj), ck_random = None, ck_certificate = None, ck_claw = (\<lambda>_. FetchNotFound),
      ck_deployment = (\<lambda>nm. Fetched \<lparr>ds_Name = nm, ds_Replicas = Some 1, ds_Conditions = [(''Available'', ''True'')],
         ds_StatusReplicas = 1, ds_ReadyReplicas = 1\<rparr>),
      ck_initStatuses = (\<lambda>_. Some []),
      ck_route = (\<lambda>_. Fetched [(''status'', JObj [(''ingress'', JArr [JObj [(''host'', JStr ''claw.example'')]])])]),
      ck_secret = (\<lambda>_. SecretData [(''token'', ''abc'')]), ck_userSecret = (\<lambda>_. SecretNotFound), ck_userVersion = (\<lambda>_. None),
      ck_configMap = (\<lambda>_. False), ck_userConfigMap = (\<lambda>_. FetchNotFound), ck_jobs = Some [], ck_jobsLater = Some [], ck_job = (\<lambda>_. FetchNotFound),
      ck_fromUnstructured = (\<lambda>_. Inr sample_object), ck_createOrUpdate = library_create_or_update, ck_storedDeployment = (\<lambda>_. None),
      ck_refused = (\<lambda>_. None)\<rparr>"

definition status_claw :: Claw where
  "status_claw = \<lparr>cl_Name = ''c'', cl_Namespace = ''ns'', cl_Generation = 3, cl_Annotations = [],
     cl_Spec = empty_ClawSpec\<lparr>sp_Version := ''2026.6.10''\<rparr>, cl_Status = empty_ClawStatus\<rparr>"

lemma updateStatus_completes:
  assumes "checkDeploymentsReady k (cl_Name (ps_instance st)) = Inr (ready, pending)"
    and "getRouteURL k (cl_Name (ps_instance st)) = Inr route" and "\<forall>w. ck_refused k w = None"
  shows "\<exists>st'. updateStatus k st = (Inr (), st')"
proof -
  have "\<exists>url. status_url k ready (report_readiness k ready pending (ps_instance st)) = Inr url"
    using assms(2) by (simp add: status_url_def)
  with assms show ?thesis by (auto simp: updateStatus_def record_metrics_def pass_defs)
qed

lemma sample_completes: "cl_Name i = ''c'' \<Longrightarrow> \<exists>st'. updateStatus sample_cluster \<lparr>ps_instance = i, ps_trace = []\<rparr> = (Inr (), st')"
proof (rule updateStatus_completes)
  assume "cl_Name i = ''c''"
  moreover have "checkDeploymentsReady sample_cluster ''c'' = Inr (True, [])" "getRouteURL sample_cluster ''c'' = Inr ''https://claw.example''"
    by code_simp+
  ultimately show "checkDeploymentsReady sample_cluster (cl_Name (ps_instance \<lparr>ps_instance = i, ps_trace = []\<rparr>)) = Inr (True, [])"
    "getRouteURL sample_cluster (cl_Name (ps_instance \<lparr>ps_instance = i, ps_trace = []\<rparr>)) = Inr ''https://claw.example''" by simp_all
qed (simp add: sample_cluster_def)

theorem updateStatus_reports_witness:
  "\<exists>st'. updateStatus sample_cluster \<lparr>ps_instance = status_claw, ps_trace = []\<rparr> = (Inr (), st') \<and>
     (\<exists>status reason. reports list_conditions (ps_instance st') ''Ready'' = Some (status, reason, 3))"
proof -
  let ?st = "\<lparr>ps_instance = status_claw, ps_trace = []\<rparr>"
  obtain st' where run: "updateStatus sample_cluster ?st = (Inr (), st')" using sample_completes [of "ps_instance ?st"] by (force simp: status_claw_def)
  have k: "ck_conditions sample_cluster = list_conditions" by (simp add: sample_cluster_def)
  have gen: "cl_Generation (ps_instance ?st) = 3" by (simp add: status_claw_def)
  from updateStatus_reports [OF _ run, unfolded k gen, OF list_conditions.condition_laws_axioms] run show ?thesis by blast
qed

subsection \<open>The version high-water mark\<close>

text \<open>
  (C30) While versions are numeric, the recorded version never goes down, and a status update reports a
  downgrade exactly when the requested version is older than the recorded one.
\<close>

theorem recorded_version_never_decreases:
  assumes laws: "condition_laws (ck_conditions k)" and run: "updateStatus k st = (Inr (), st')"
  defines "version \<equiv> sp_Version (cl_Spec (ps_instance st))" and "deployed \<equiv> st_LastDeployedVersion (cl_Status (ps_instance st))"
  assumes numeric: "snd (compareCalver version deployed)" "deployed \<noteq> []" "version \<noteq> []"
  shows "st_LastDeployedVersion (cl_Status (ps_instance st')) \<in> {version, deployed} \<and>
    (st_LastDeployedVersion (cl_Status (ps_instance st')) \<noteq> deployed \<longrightarrow> 0 \<le> fst (compareCalver version deployed)) \<and>
    (reports (ck_conditions k) (ps_instance st') ''VersionDowngrade'' \<noteq> None \<longleftrightarrow> fst (compareCalver version deployed) < 0)"
proof -
  let ?m = "ck_conditions k"
  from run obtain ready pending url where
    i': "ps_instance st' = track_version ready (downgrade_condition ?m (set_urls url (report_readiness k ready pending (ps_instance st))))"
    by (rule updateStatus_Inr)
  let ?j = "set_urls url (report_readiness k ready pending (ps_instance st))"
  have j: "sp_Version (cl_Spec ?j) = version" "st_LastDeployedVersion (cl_Status ?j) = deployed" by (simp_all add: version_def deployed_def)
  obtain cmp where cmp: "compareCalver version deployed = (cmp, True)" using numeric(1) by (cases "compareCalver version deployed") auto
  have "reports ?m (ps_instance st') ''VersionDowngrade'' = reports ?m (downgrade_condition ?m ?j) ''VersionDowngrade''"
    unfolding i' by (rule reports_by_conditions) simp
  also have "\<dots> \<noteq> None \<longleftrightarrow> cmp < 0"
    using numeric cmp j by (auto simp: downgrade_condition_def Let_def condition_laws.reports_set [OF laws] condition_laws.reports_remove [OF laws])
  finally have "reports ?m (ps_instance st') ''VersionDowngrade'' \<noteq> None \<longleftrightarrow> cmp < 0" .
  moreover have "st_LastDeployedVersion (cl_Status (ps_instance st')) = (if ready \<and> 0 \<le> cmp then version else deployed)"
    using numeric cmp j unfolding i' by (auto simp: track_version_def Let_def)
  ultimately show ?thesis using cmp by auto
qed

theorem recorded_version_never_decreases_witness:
  "\<exists>st'. updateStatus sample_cluster \<lparr>ps_instance = status_claw\<lparr>cl_Status := empty_ClawStatus\<lparr>st_LastDeployedVersion := ''2026.7.1''\<rparr>\<rparr>, ps_trace = []\<rparr> = (Inr (), st') \<and>
     reports list_conditions (ps_instance st') ''VersionDowngrade'' \<noteq> None"
proof -
  let ?st = "\<lparr>ps_instance = status_claw\<lparr>cl_Status := empty_ClawStatus\<lparr>st_LastDeployedVersion := ''2026.7.1''\<rparr>\<rparr>, ps_trace = []\<rparr>"
  obtain st' where run: "updateStatus sample_cluster ?st = (Inr (), st')" using sample_completes [of "ps_instance ?st"] by (force simp: status_claw_def)
  have k: "ck_conditions sample_cluster = list_conditions" by (simp add: sample_cluster_def)
  have v: "sp_Version (cl_Spec (ps_instance ?st)) = ''2026.6.10''" "st_LastDeployedVersion (cl_Status (ps_instance ?st)) = ''2026.7.1''"
    by (simp_all add: status_claw_def)
  have "compareCalver ''2026.6.10'' ''2026.7.1'' = (-1, True)" by code_simp
  with recorded_version_never_decreases [OF _ run, unfolded k v, OF list_conditions.condition_laws_axioms] run show ?thesis by auto
qed

text \<open>
  A version that is not numeric takes the place of the recorded one, and with it the memory
  of the newest deployed version is lost: a later move to an older version is not reported.
\<close>

theorem malformed_version_forgets_high_water_mark:
  "st_LastDeployedVersion (cl_Status (track_version True (status_claw\<lparr>cl_Spec := empty_ClawSpec\<lparr>sp_Version := ''latest''\<rparr>,
       cl_Status := empty_ClawStatus\<lparr>st_LastDeployedVersion := ''2026.7.1''\<rparr>\<rparr>))) = ''latest'' \<and>
   reports list_conditions (downgrade_condition list_conditions (status_claw\<lparr>cl_Spec := empty_ClawSpec\<lparr>sp_Version := ''2025.1.1''\<rparr>,
       cl_Status := empty_ClawStatus\<lparr>st_LastDeployedVersion := ''latest''\<rparr>\<rparr>)) ''VersionDowngrade'' = None \<and>
   reports list_conditions (downgrade_condition list_conditions (status_claw\<lparr>cl_Spec := empty_ClawSpec\<lparr>sp_Version := ''2025.1.1''\<rparr>,
       cl_Status := empty_ClawStatus\<lparr>st_LastDeployedVersion := ''2026.7.1''\<rparr>\<rparr>)) ''VersionDowngrade'' = Some (''True'', ''VersionDowngrade'', 3)"
  by code_simp

subsection \<open>Idle passes\<close>

definition idle_event :: "cluster \<Rightarrow> Claw \<Rightarrow> pass_event \<Rightarrow> bool" where
  "idle_event k i e \<longleftrightarrow>
     (case e of
        Wrote (UpdateStatus _) \<Rightarrow> True
      | Wrote (ScaleToZero nm) \<Rightarrow> nm \<in> {getClawDeploymentName (cl_Name i), getProxyDeploymentName (cl_Name i)} \<and>
          (\<exists>d. ck_deployment k nm = Fetched d \<and> ck_controlled k d i \<and> ds_Replicas d \<noteq> Some 0)
      | RecordedMetrics _ \<Rightarrow> True
      | _ \<Rightarrow> False)"

fun idle_kind :: "pass_event \<Rightarrow> bool" where
  "idle_kind (Wrote (UpdateStatus _)) = True"
| "idle_kind (Wrote (ScaleToZero _)) = True"
| "idle_kind (RecordedMetrics _) = True"
| "idle_kind _ = False"

interpretation idle_pass: pass_invariant "only_events idle_kind" "handleIdle k" for k
  unfolding handleIdle_def scaleDeploymentToZero_def record_metrics_def by (intro only_rules) simp_all

lemma scale_run:
  assumes "scaleDeploymentToZero k nm st = (r, st')"
  shows "ps_instance st' = ps_instance st" and "ps_trace st' = ps_trace st \<or>
      ps_trace st' = ps_trace st @ [Wrote (ScaleToZero nm)] \<and>
      (\<exists>d. ck_deployment k nm = Fetched d \<and> ck_controlled k d (ps_instance st) \<and> ds_Replicas d \<noteq> Some 0)"
    and "r = Inr () \<Longrightarrow> ck_deployment k nm = Fetched d \<Longrightarrow> ck_controlled k d (ps_instance st) \<Longrightarrow>
      ds_Replicas d = Some 0 \<or> Wrote (ScaleToZero nm) \<in> set (ps_trace st')"
  using assms by (auto simp: scaleDeploymentToZero_def pass_defs split: fetched.splits option.splits if_splits)



subsection \<open>The gauges\<close>

lemma update_statuses:
  "map_of (fold (\<lambda>s. AList.update (nm, ns, s) (f s)) ss g) key =
     (case key of (n, s, st) \<Rightarrow> if n = nm \<and> s = ns \<and> st \<in> set ss then Some (f st) else map_of g key)"
  by (induction ss arbitrary: g) (auto simp: update_conv split: prod.split)

lemma metric_status_known: "metric_status m i \<in> set allStatusValues"
  by (auto simp: metric_status_def conditionReasonToStatus_def allStatusValues_def split: option.split)



end
