(* ===== verification/Migration.thy ===== *)
theory Migration
  imports Status
begin

section \<open>Doctor migrations\<close>

text \<open>
  \<open>src/internal/controller/claw_migration.go\<close>. A migration the user approved runs as a Job on the
  instance's volume, and the gateway must not run at the same time. A pass that finds a migration
  pending renders the gateway with no replicas, waits until no gateway pod is left and no doctor Job
  is active, and only then creates the Job; its outcome is recorded in the status.

  The properties: when a Job is created and when a migration counts as done, as facts about one pass;
  that at most one doctor Job of an instance is ever active, as an invariant of all runs of a
  step relation in which passes, the Job controller and the user take turns; and that Jobs of
  different instances may share their name.
\<close>

subsection \<open>Jobs\<close>

abbreviation doctorFixImageAnnotation :: string where "doctorFixImageAnnotation \<equiv> ''claw.sandbox.redhat.com/doctor-fix-image''"

definition doctorFixJobActive :: "doctor_job \<Rightarrow> bool" where
  "doctorFixJobActive job =
     (\<not> list_ex (\<lambda>(t, s). (t = ''Complete'' \<or> t = ''Failed'') \<and> s = ConditionTrue) (dj_Conditions job))"

definition is_doctor_job :: "doctor_job \<Rightarrow> bool" where
  "is_doctor_job job = (lookup_str (dj_Annotations job) doctorFixImageAnnotation \<noteq> [])"

text \<open>The Jobs that are listed are those with the instance's label.\<close>

definition hasActiveDoctorFix :: "doctor_job list option \<Rightarrow> (reconcile_error, bool) result" where
  "hasActiveDoctorFix listed =
     (case listed of
        None \<Rightarrow> Inl (ApiFailed ''list doctor Jobs'')
      | Some jobs \<Rightarrow> Inr (list_ex (\<lambda>job. is_doctor_job job \<and> doctorFixJobActive job) jobs))"

definition doctorFixPending :: "Claw \<Rightarrow> bool" where
  "doctorFixPending instance = (doctorFixRequested instance \<and> \<not> doctorFixComplete instance)"

definition doctorFixJobName :: "(string \<Rightarrow> string) \<Rightarrow> string \<Rightarrow> string \<Rightarrow> string" where
  "doctorFixJobName sum256 instanceName img =
     (let suffix = take 8 (sum256 img);
          prefix = TrimSuffix instanceName ''-'';
          max = 63 - length ''-doctor-'' - length suffix
      in (if length prefix > max then take max prefix else prefix) @ ''-doctor-'' @ suffix)"

definition pauseGatewayForDoctorFix :: "unstructured_lib \<Rightarrow> jobj list \<Rightarrow> Claw \<Rightarrow> jobj list edited" where
  "pauseGatewayForDoctorFix u objects instance =
     edit_object u DeploymentKind (getClawDeploymentName (cl_Name instance))
       (\<lambda>obj. write_field u obj (JNum 0) [''spec'', ''replicas'']) objects"

definition doctor_container :: "Claw \<Rightarrow> json" where
  "doctor_container instance =
     (case clawConfigModeAndManagement instance of (configMode, configManagement) \<Rightarrow>
        JObj [(''name'', JStr ''doctor''), (''image'', JStr (effectiveOpenClawImage instance)),
          (''command'', JArr [JStr ''sh'', JStr ''-c'',
             JStr ''node /config/merge.js && exec node /app/dist/index.js doctor --fix --non-interactive'']),
          (''env'', JArr [env_value ''HOME'' ''/home/node'', env_value ''OPENCLAW_HOME'' ''/home/node'',
             env_value ''OPENCLAW_STATE_DIR'' ''/home/node/.openclaw'',
             env_value ''OPENCLAW_CONFIG_PATH'' ''/home/node/.openclaw/openclaw.json'',
             env_value ''CLAW_CONFIG_MODE'' configMode, env_value ''CLAW_CONFIG_MANAGEMENT'' configManagement,
             env_value ''OPENCLAW_DOCTOR_MIGRATION'' ''1'']),
          (''securityContext'', JObj [(''allowPrivilegeEscalation'', JBool False),
             (''capabilities'', JObj [(''drop'', JArr [JStr ''ALL''])])]),
          (''volumeMounts'', JArr
             [JObj [(''name'', JStr ''claw-home''), (''mountPath'', JStr ''/home/node''), (''subPath'', JStr ''home'')],
              JObj [(''name'', JStr ''config''), (''mountPath'', JStr ''/config''), (''readOnly'', JBool True)]])])"

definition doctorFixJob :: "(string \<Rightarrow> string) \<Rightarrow> Claw \<Rightarrow> jobj" where
  "doctorFixJob sum256 instance =
     (let img = effectiveOpenClawImage instance;
          labels = JObj [(InstanceLabelKey, JStr (sanitizeLabelValue sum256 (cl_Name instance)))]
      in [(''kind'', JStr ''Job''),
          (''metadata'', JObj [(''name'', JStr (doctorFixJobName sum256 (cl_Name instance) img)),
             (''namespace'', JStr (cl_Namespace instance)), (''labels'', labels),
             (''annotations'', JObj [(doctorFixImageAnnotation, JStr img)])]),
          (''spec'', JObj [(''backoffLimit'', JNum 3), (''activeDeadlineSeconds'', JNum 600),
             (''template'', JObj [(''metadata'', JObj [(''labels'', labels)]),
                (''spec'', JObj [(''restartPolicy'', JStr ''Never''),
                   (''initContainers'', JArr [JObj [(''name'', JStr ''prepare-home''), (''image'', JStr img),
                      (''command'', JArr [JStr ''sh'', JStr ''-c'', JStr ''mkdir -p -m 0700 /mnt/pvc/home'']),
                      (''volumeMounts'', JArr [JObj [(''name'', JStr ''claw-home''), (''mountPath'', JStr ''/mnt/pvc'')]])]]),
                   (''containers'', JArr [doctor_container instance]),
                   (''volumes'', JArr
                      [JObj [(''name'', JStr ''claw-home''),
                         (''persistentVolumeClaim'', JObj [(''claimName'', JStr (getPVCName (cl_Name instance)))])],
                       JObj [(''name'', JStr ''config''), (''configMap'', JObj [(''name'', JStr (getConfigMapName (cl_Name instance)))])]])])])])])"

subsection \<open>A pass over a pending migration\<close>

datatype requeue = NoRequeue | RequeueNow | RequeueAfter nat

definition record_migration :: "string \<Rightarrow> string \<Rightarrow> Claw \<Rightarrow> Claw" where
  "record_migration img job instance =
     instance\<lparr>cl_Status := (cl_Status instance)\<lparr>st_Migration := Some \<lparr>mst_DoctorFixImage = img, mst_DoctorFixJob = job\<rparr>\<rparr>\<rparr>"

definition start_doctor_job :: "cluster \<Rightarrow> Claw \<Rightarrow> requeue pass" where
  "start_doctor_job k i =
     (case ck_own k i (doctorFixJob (mv_sum256 (ck_manifests k)) i) of
        None \<Rightarrow> pass_fail (ApiFailed ''set doctor Job owner reference'')
      | Some job \<Rightarrow>
          pass_bind (write_or_fail k ''create doctor Job'' (CreateJob job)) (\<lambda>_.
          pass_bind (set_condition k ''MigrationComplete'' ConditionFalse ''MigrationPending''
                       ''Waiting for user-approved doctor migration Job'') (\<lambda>_.
          pass_bind (write_status_or_fail k ''record doctor migration pending'') (\<lambda>_.
            pass_return (RequeueAfter 2)))))"

definition doctor_outcome :: "cluster \<Rightarrow> string \<Rightarrow> doctor_job \<Rightarrow> requeue pass" where
  "doctor_outcome k wantImage job =
     (if dj_Succeeded job > 0
      then
        pass_bind (modify_instance (record_migration wantImage (dj_Name job))) (\<lambda>_.
        pass_bind (set_condition k ''MigrationComplete'' ConditionTrue ''MigrationComplete''
                     ''User-approved doctor migration completed'') (\<lambda>_.
        pass_bind (write_status_or_fail k ''record doctor migration success'') (\<lambda>_. pass_return RequeueNow)))
      else if \<not> doctorFixJobActive job \<and> dj_Failed job > 0
      then
        pass_bind (set_condition k ''MigrationComplete'' ConditionFalse ''MigrationFailed''
                     ''Doctor migration Job failed; inspect its logs and update the target image before retrying'') (\<lambda>_.
        pass_bind (write_status_or_fail k ''record doctor migration failure'') (\<lambda>_. pass_return NoRequeue))
      else pass_return (RequeueAfter 2))"

text \<open>Once the gateway is gone and no Job is active.\<close>

definition paused_doctor_fix :: "cluster \<Rightarrow> Claw \<Rightarrow> requeue pass" where
  "paused_doctor_fix k i =
     (let wantImage = effectiveOpenClawImage i
      in case ck_job k (doctorFixJobName (mv_sum256 (ck_manifests k)) (cl_Name i) wantImage) of
           FetchNotFound \<Rightarrow> start_doctor_job k i
         | FetchNoMatch \<Rightarrow> pass_fail (ApiFailed ''get doctor Job'')
         | FetchFailed \<Rightarrow> pass_fail (ApiFailed ''get doctor Job'')
         | Fetched job \<Rightarrow> doctor_outcome k wantImage job)"

definition continue_doctor_fix :: "cluster \<Rightarrow> Claw \<Rightarrow> requeue pass" where
  "continue_doctor_fix k i =
     (case ck_deployment k (getClawDeploymentName (cl_Name i)) of
        FetchNotFound \<Rightarrow> pass_return (RequeueAfter 2)
      | FetchNoMatch \<Rightarrow> pass_fail (ApiFailed ''get paused gateway deployment'')
      | FetchFailed \<Rightarrow> pass_fail (ApiFailed ''get paused gateway deployment'')
      | Fetched deployment \<Rightarrow>
          if ds_StatusReplicas deployment \<noteq> 0 \<or> ds_ReadyReplicas deployment \<noteq> 0 then pass_return (RequeueAfter 2)
          else pass_bind (pass_lift id (hasActiveDoctorFix (ck_jobsLater k)))
                 (\<lambda>active. if active then pass_return (RequeueAfter 2) else paused_doctor_fix k i))"

definition reconcileDoctorFix :: "cluster \<Rightarrow> requeue pass" where
  "reconcileDoctorFix k =
     pass_bind (set_condition k ''Ready'' ConditionFalse ''Migrating'' ''Gateway paused for a user-approved doctor migration'') (\<lambda>_.
     pass_bind (write_status_or_fail k ''record migrating status'') (\<lambda>_.
     pass_bind get_instance (continue_doctor_fix k)))"

subsection \<open>When a Job is created and when a migration is recorded\<close>

definition active_doctor :: "doctor_job list \<Rightarrow> bool" where
  "active_doctor jobs \<longleftrightarrow> (\<exists>job \<in> set jobs. is_doctor_job job \<and> doctorFixJobActive job)"

lemma hasActiveDoctorFix_Inr: "hasActiveDoctorFix listed = Inr b \<longleftrightarrow> (\<exists>jobs. listed = Some jobs \<and> b = active_doctor jobs)"
  by (auto simp: hasActiveDoctorFix_def active_doctor_def list_ex_iff split: option.splits)

definition migrating :: "cluster \<Rightarrow> Claw \<Rightarrow> Claw" where
  "migrating k = setCondition (ck_conditions k) ''Ready'' ConditionFalse ''Migrating'' ''Gateway paused for a user-approved doctor migration''"

lemma doctor_spec [simp]: "effectiveOpenClawImage (migrating k i) = effectiveOpenClawImage i" "cl_Name (migrating k i) = cl_Name i"
  "cl_Spec (migrating k i) = cl_Spec i"
  by (simp_all add: effectiveOpenClawImage_def migrating_def)

text \<open>The cases of a pass: it waits or fails, or goes on with the gateway gone and no Job active.\<close>

definition gateway_gone :: "cluster \<Rightarrow> Claw \<Rightarrow> bool" where
  "gateway_gone k i \<longleftrightarrow> (\<exists>d. ck_deployment k (getClawDeploymentName (cl_Name i)) = Fetched d \<and> ds_StatusReplicas d = 0 \<and> ds_ReadyReplicas d = 0)"

definition migrating_state :: "cluster \<Rightarrow> pass_state \<Rightarrow> pass_state" where
  "migrating_state k st = st\<lparr>ps_instance := migrating k (ps_instance st),
     ps_trace := ps_trace st @ [Wrote (UpdateStatus (cl_Status (migrating k (ps_instance st))))]\<rparr>"

lemma continue_doctor_fix_cases:
  assumes "continue_doctor_fix k i st = (r, st')"
  obtains (waits) "st' = st"
  | (proceeds) jobs where "gateway_gone k i" "ck_jobsLater k = Some jobs" "\<not> active_doctor jobs" "paused_doctor_fix k i st = (r, st')"
proof (cases "gateway_gone k i \<and> hasActiveDoctorFix (ck_jobsLater k) = Inr False")
  case True
  then obtain jobs where jobs: "ck_jobsLater k = Some jobs" "\<not> active_doctor jobs" by (auto simp: hasActiveDoctorFix_Inr)
  from True assms have "paused_doctor_fix k i st = (r, st')"
    by (auto simp: continue_doctor_fix_def gateway_gone_def pass_bind_def pass_lift_def)
  with True jobs show thesis by (intro proceeds) simp_all
next
  case False
  then have "st' = st"
    using assms by (cases "hasActiveDoctorFix (ck_jobsLater k)")
      (auto simp: continue_doctor_fix_def gateway_gone_def pass_defs split: fetched.splits if_splits)
  then show thesis by (rule waits)
qed

lemma reconcileDoctorFix_cases:
  assumes "reconcileDoctorFix k st = (r, st')"
  obtains (waits) "st' = st\<lparr>ps_instance := migrating k (ps_instance st)\<rparr> \<or> st' = migrating_state k st"
  | (proceeds) jobs where "gateway_gone k (ps_instance st)" "ck_jobsLater k = Some jobs" "\<not> active_doctor jobs"
      "paused_doctor_fix k (migrating k (ps_instance st)) (migrating_state k st) = (r, st')"
proof (cases "ck_refused k (UpdateStatus (cl_Status (migrating k (ps_instance st))))")
  case (Some why)
  with assms show thesis by (intro waits) (auto simp: reconcileDoctorFix_def pass_defs migrating_def)
next
  case None
  with assms have "continue_doctor_fix k (migrating k (ps_instance st)) (migrating_state k st) = (r, st')"
    by (simp add: reconcileDoctorFix_def migrating_state_def pass_defs flip: migrating_def)
  then show thesis
  proof (cases rule: continue_doctor_fix_cases)
    case waits
    then show thesis using that(1) by simp
  next
    case (proceeds jobs)
    then show thesis using that(2) by (simp add: gateway_gone_def)
  qed
qed

lemma start_doctor_job_run:
  assumes "start_doctor_job k i st = (r, st')"
  shows "\<exists>new. ps_trace st' = ps_trace st @ new \<and> length (filter (\<lambda>e. \<exists>j. e = Wrote (CreateJob j)) new) \<le> 1 \<and>
      (\<forall>j. Wrote (CreateJob j) \<in> set new \<longrightarrow> ck_own k i (doctorFixJob (mv_sum256 (ck_manifests k)) i) = Some j)"
    and "st_Migration (cl_Status (ps_instance st')) = st_Migration (cl_Status (ps_instance st))"
  using assms by (auto simp: start_doctor_job_def pass_defs split: option.splits)

lemma doctor_outcome_run:
  assumes "doctor_outcome k img job st = (r, st')"
  shows "\<exists>new. ps_trace st' = ps_trace st @ new \<and> (\<forall>j. Wrote (CreateJob j) \<notin> set new)"
    and "st_Migration (cl_Status (ps_instance st')) = st_Migration (cl_Status (ps_instance st)) \<or>
      dj_Succeeded job > 0 \<and> st_Migration (cl_Status (ps_instance st')) = Some \<lparr>mst_DoctorFixImage = img, mst_DoctorFixJob = dj_Name job\<rparr>"
  using assms by (auto simp: doctor_outcome_def record_migration_def pass_defs split: option.splits if_splits)

lemma doctor_job_guard:
  assumes "reconcileDoctorFix k \<lparr>ps_instance = i, ps_trace = []\<rparr> = (r, st')" and "Wrote (CreateJob job) \<in> set (ps_trace st')"
  shows "gateway_gone k i \<and> (\<exists>jobs. ck_jobsLater k = Some jobs \<and> \<not> active_doctor jobs) \<and>
    ck_job k (doctorFixJobName (mv_sum256 (ck_manifests k)) (cl_Name i) (effectiveOpenClawImage i)) = FetchNotFound \<and>
    length (filter (\<lambda>e. \<exists>j. e = Wrote (CreateJob j)) (ps_trace st')) = 1"
  using assms(1)
proof (cases rule: reconcileDoctorFix_cases)
  case waits
  with assms(2) show ?thesis by (auto simp: migrating_state_def)
next
  case (proceeds jobs)
  let ?st = "\<lparr>ps_instance = i, ps_trace = []\<rparr>"
  show ?thesis
  proof (cases "ck_job k (doctorFixJobName (mv_sum256 (ck_manifests k)) (cl_Name i) (effectiveOpenClawImage i))")
    case FetchNotFound
    with proceeds(4) have "start_doctor_job k (migrating k i) (migrating_state k ?st) = (r, st')" by (simp add: paused_doctor_fix_def)
    from start_doctor_job_run(1) [OF this] obtain new where new: "ps_trace st' = ps_trace (migrating_state k ?st) @ new"
      "length (filter (\<lambda>e. \<exists>j. e = Wrote (CreateJob j)) new) \<le> 1" by blast
    then have "Wrote (CreateJob job) \<in> set new" using assms(2) by (auto simp: migrating_state_def)
    then have "filter (\<lambda>e. \<exists>j. e = Wrote (CreateJob j)) new \<noteq> []" by (auto simp: filter_empty_conv)
    with new have "length (filter (\<lambda>e. \<exists>j. e = Wrote (CreateJob j)) (ps_trace st')) = 1"
      by (cases "filter (\<lambda>e. \<exists>j. e = Wrote (CreateJob j)) new") (auto simp: migrating_state_def)
    with proceeds FetchNotFound show ?thesis by simp
  next
    case (Fetched j)
    with proceeds(4) have "doctor_outcome k (effectiveOpenClawImage i) j (migrating_state k ?st) = (r, st')" by (simp add: paused_doctor_fix_def)
    from doctor_outcome_run(1) [OF this] assms(2) show ?thesis by (auto simp: migrating_state_def)
  qed (use proceeds(4) assms(2) in \<open>auto simp: paused_doctor_fix_def pass_fail_def migrating_state_def\<close>)
qed

text \<open>
  (C33) A doctor Job is created only when the gateway has no pod left, no doctor Job of the instance is
  active and the Job for the wanted image does not exist, and at most one in a pass.
\<close>

theorem doctor_job_created_safely:
  assumes "reconcileDoctorFix k \<lparr>ps_instance = i, ps_trace = []\<rparr> = (r, st')" and "Wrote (CreateJob job) \<in> set (ps_trace st')"
  shows "gateway_gone k i \<and> (\<exists>jobs. ck_jobsLater k = Some jobs \<and> \<not> active_doctor jobs) \<and>
    ck_job k (doctorFixJobName (mv_sum256 (ck_manifests k)) (cl_Name i) (effectiveOpenClawImage i)) = FetchNotFound \<and>
    length (filter (\<lambda>e. \<exists>j. e = Wrote (CreateJob j)) (ps_trace st')) = 1"
  by (rule doctor_job_guard [OF assms])

text \<open>An instance that asks for a migration, and a cluster in which its gateway is gone.\<close>

definition doctor_claw :: Claw where
  "doctor_claw = status_claw\<lparr>cl_Spec := empty_ClawSpec\<lparr>sp_Migration := Some \<lparr>mig_DoctorFix = True\<rparr>\<rparr>\<rparr>"

definition paused_cluster :: cluster where
  "paused_cluster = sample_cluster\<lparr>ck_deployment := (\<lambda>nm. Fetched \<lparr>ds_Name = nm, ds_Replicas = Some 0, ds_Conditions = [],
     ds_StatusReplicas = 0, ds_ReadyReplicas = 0\<rparr>)\<rparr>"

lemma paused_cluster_simps [simp]:
  "ck_refused paused_cluster w = None" "ck_own paused_cluster i obj = Some obj" "ck_jobsLater paused_cluster = Some []"
  "ck_job paused_cluster nm = FetchNotFound" "ck_conditions paused_cluster = list_conditions"
  "ck_deployment paused_cluster nm = Fetched \<lparr>ds_Name = nm, ds_Replicas = Some 0, ds_Conditions = [], ds_StatusReplicas = 0, ds_ReadyReplicas = 0\<rparr>"
  by (simp_all add: paused_cluster_def sample_cluster_def)

lemma start_doctor_job_creates:
  assumes "\<forall>w. ck_refused k w = None" "ck_own k i (doctorFixJob (mv_sum256 (ck_manifests k)) i) = Some job"
  shows "\<exists>st'. start_doctor_job k i st = (Inr (RequeueAfter 2), st') \<and> Wrote (CreateJob job) \<in> set (ps_trace st')"
  using assms by (simp add: start_doctor_job_def pass_defs)

lemma pass_starts_job:
  assumes "\<forall>w. ck_refused k w = None" "\<forall>obj. ck_own k (migrating k i) obj = Some obj" "gateway_gone k i" "ck_jobsLater k = Some []"
    "ck_job k (doctorFixJobName (mv_sum256 (ck_manifests k)) (cl_Name i) (effectiveOpenClawImage i)) = FetchNotFound"
  shows "\<exists>st'. reconcileDoctorFix k \<lparr>ps_instance = i, ps_trace = []\<rparr> = (Inr (RequeueAfter 2), st') \<and>
    Wrote (CreateJob (doctorFixJob (mv_sum256 (ck_manifests k)) (migrating k i))) \<in> set (ps_trace st')"
proof -
  let ?st = "\<lparr>ps_instance = i, ps_trace = []\<rparr>"
  have "hasActiveDoctorFix (ck_jobsLater k) = Inr False" using assms(4) by (simp add: hasActiveDoctorFix_def)
  with assms(3) have "continue_doctor_fix k (migrating k i) (migrating_state k ?st) = paused_doctor_fix k (migrating k i) (migrating_state k ?st)"
    by (auto simp: continue_doctor_fix_def gateway_gone_def pass_bind_def pass_lift_def)
  moreover have "reconcileDoctorFix k ?st = continue_doctor_fix k (migrating k i) (migrating_state k ?st)"
    using assms(1) by (simp add: reconcileDoctorFix_def migrating_state_def pass_defs flip: migrating_def)
  ultimately show ?thesis
    using assms(2,5) start_doctor_job_creates [OF assms(1), of "migrating k i"] by (simp add: paused_doctor_fix_def)
qed

theorem doctor_job_created_safely_witness:
  "\<exists>st'. reconcileDoctorFix paused_cluster \<lparr>ps_instance = doctor_claw, ps_trace = []\<rparr> = (Inr (RequeueAfter 2), st') \<and>
     length (filter (\<lambda>e. \<exists>j. e = Wrote (CreateJob j)) (ps_trace st')) = 1"
proof -
  obtain st' where run: "reconcileDoctorFix paused_cluster \<lparr>ps_instance = doctor_claw, ps_trace = []\<rparr> = (Inr (RequeueAfter 2), st')"
    and job: "Wrote (CreateJob (doctorFixJob (mv_sum256 (ck_manifests paused_cluster)) (migrating paused_cluster doctor_claw))) \<in> set (ps_trace st')"
    using pass_starts_job [of paused_cluster doctor_claw] by (auto simp: gateway_gone_def)
  from doctor_job_created_safely [OF run job] run show ?thesis by blast
qed

subsection \<open>The gateway and the doctor never run together\<close>

text \<open>
  Passes, the Deployment controller, the Job controller and the user take turns. The gateway has pods,
  some of which are ready. A pass sees the world as it is when it runs; the gateway is rendered without replicas when a migration is pending
  or a doctor Job is active, and with its replica otherwise.
\<close>

record doctor_world =
  dw_claw :: Claw
  dw_replicas :: nat
  dw_pods :: nat
  dw_ready :: nat
  dw_jobs :: "doctor_job list"

definition view :: "cluster \<Rightarrow> doctor_world \<Rightarrow> cluster" where
  "view k w = k\<lparr>
     ck_deployment := (\<lambda>nm. Fetched \<lparr>ds_Name = nm, ds_Replicas = Some (int (dw_replicas w)), ds_Conditions = [],
       ds_StatusReplicas = int (dw_pods w), ds_ReadyReplicas = int (dw_ready w)\<rparr>),
     ck_jobs := Some (dw_jobs w), ck_jobsLater := Some (dw_jobs w),
     ck_job := (\<lambda>nm. case List.find (\<lambda>j. dj_Name j = nm) (dw_jobs w) of Some j \<Rightarrow> Fetched j | None \<Rightarrow> FetchNotFound)\<rparr>"

definition new_doctor_job :: "cluster \<Rightarrow> Claw \<Rightarrow> doctor_job" where
  "new_doctor_job k i =
     \<lparr>dj_Name = doctorFixJobName (mv_sum256 (ck_manifests k)) (cl_Name i) (effectiveOpenClawImage i),
      dj_Annotations = [(doctorFixImageAnnotation, effectiveOpenClawImage i)], dj_Conditions = [], dj_Succeeded = 0, dj_Failed = 0\<rparr>"

text \<open>What a pass leaves in the cluster.\<close>

definition stored_claw :: "Claw \<Rightarrow> pass_event list \<Rightarrow> Claw" where
  "stored_claw i trace = fold (\<lambda>e c. case e of Wrote (UpdateStatus s) \<Rightarrow> c\<lparr>cl_Status := s\<rparr> | _ \<Rightarrow> c) trace i"

definition created_jobs :: "cluster \<Rightarrow> Claw \<Rightarrow> pass_event list \<Rightarrow> doctor_job list" where
  "created_jobs k i trace = map (\<lambda>_. new_doctor_job k i) (filter (\<lambda>e. \<exists>j. e = Wrote (CreateJob j)) trace)"

inductive doctor_step :: "cluster \<Rightarrow> doctor_world \<Rightarrow> doctor_world \<Rightarrow> bool" for k where
  paused: "doctorFixPending (dw_claw w) \<or> active_doctor (dw_jobs w) \<Longrightarrow>
     reconcileDoctorFix (view k w) \<lparr>ps_instance = dw_claw w, ps_trace = []\<rparr> = (r, st') \<Longrightarrow>
     doctor_step k w (w\<lparr>dw_claw := stored_claw (dw_claw w) (ps_trace st'), dw_replicas := 0,
       dw_jobs := dw_jobs w @ created_jobs k (dw_claw w) (ps_trace st')\<rparr>)"
| running: "\<not> doctorFixPending (dw_claw w) \<Longrightarrow> \<not> active_doctor (dw_jobs w) \<Longrightarrow> doctor_step k w (w\<lparr>dw_replicas := 1\<rparr>)"
| scaled: "dw_pods w \<le> n \<and> n \<le> dw_replicas w \<or> dw_replicas w \<le> n \<and> n \<le> dw_pods w \<Longrightarrow> doctor_step k w (w\<lparr>dw_pods := n, dw_ready := min (dw_ready w) n\<rparr>)"
| readied: "n \<le> dw_pods w \<Longrightarrow> doctor_step k w (w\<lparr>dw_ready := n\<rparr>)"
| job_ended: "j < length (dw_jobs w) \<Longrightarrow> \<not> doctorFixJobActive job \<Longrightarrow> doctor_step k w (w\<lparr>dw_jobs := (dw_jobs w)[j := job]\<rparr>)"
| edited: "doctor_step k w (w\<lparr>dw_claw := (dw_claw w)\<lparr>cl_Spec := spec\<rparr>\<rparr>)"

inductive doctor_reachable :: "cluster \<Rightarrow> doctor_world \<Rightarrow> bool" for k where
  start: "dw_jobs w = [] \<Longrightarrow> doctor_reachable k w"
| step: "doctor_reachable k w \<Longrightarrow> doctor_step k w w' \<Longrightarrow> doctor_reachable k w'"

definition active_jobs :: "doctor_world \<Rightarrow> doctor_job list" where
  "active_jobs w = filter (\<lambda>j. is_doctor_job j \<and> doctorFixJobActive j) (dw_jobs w)"

definition doctor_invariant :: "doctor_world \<Rightarrow> bool" where
  "doctor_invariant w \<longleftrightarrow> length (active_jobs w) \<le> 1 \<and> (active_jobs w \<noteq> [] \<longrightarrow> dw_replicas w = 0 \<and> dw_pods w = 0)"

lemma active_jobs_Nil: "active_jobs w = [] \<longleftrightarrow> \<not> active_doctor (dw_jobs w)"
  by (auto simp: active_jobs_def active_doctor_def filter_empty_conv)

lemma filter_update_length: "j < length xs \<Longrightarrow> \<not> P x \<Longrightarrow> length (filter P (xs[j := x])) \<le> length (filter P xs)"
proof (induction xs arbitrary: j)
  case (Cons y ys)
  then show ?case by (cases j) (auto intro: le_SucI)
qed simp

lemma created_view: "created_jobs (view k w) i tr = created_jobs k i tr"
  by (simp add: created_jobs_def new_doctor_job_def view_def)

lemma doctor_step_invariant: "doctor_step k w w' \<Longrightarrow> doctor_invariant w \<Longrightarrow> doctor_invariant w'"
proof (induction rule: doctor_step.induct)
  case (paused w r st')
  show ?case
  proof (cases "created_jobs k (dw_claw w) (ps_trace st') = []")
    case True
    with paused(3) show ?thesis by (auto simp: doctor_invariant_def active_jobs_def)
  next
    case False
    then obtain job where "Wrote (CreateJob job) \<in> set (ps_trace st')" by (auto simp: created_jobs_def filter_empty_conv)
    from doctor_job_guard [OF paused(2) this] have "dw_pods w = 0" "\<not> active_doctor (dw_jobs w)"
      "length (created_jobs k (dw_claw w) (ps_trace st')) = 1"
      by (auto simp: view_def gateway_gone_def created_jobs_def)
    moreover from this(3) have "length (filter (\<lambda>j. is_doctor_job j \<and> doctorFixJobActive j) (created_jobs k (dw_claw w) (ps_trace st'))) \<le> 1"
      by (metis length_filter_le)
    ultimately show ?thesis using active_jobs_Nil [of w] by (simp add: doctor_invariant_def active_jobs_def)
  qed
next
  case (running w)
  then show ?case using active_jobs_Nil [of w] by (simp add: doctor_invariant_def active_jobs_def)
next
  case (scaled w n)
  then show ?case by (auto simp: doctor_invariant_def active_jobs_def)
next
  case (readied n w)
  then show ?case by (simp add: doctor_invariant_def active_jobs_def)
next
  case (job_ended j w job)
  have "length (active_jobs (w\<lparr>dw_jobs := (dw_jobs w)[j := job]\<rparr>)) \<le> length (active_jobs w)"
    using filter_update_length [OF job_ended(1), of "\<lambda>j. is_doctor_job j \<and> doctorFixJobActive j" job] job_ended(2) by (simp add: active_jobs_def)
  with job_ended(3) show ?case by (auto simp: doctor_invariant_def)
next
  case (edited w spec)
  then show ?case by (simp add: doctor_invariant_def active_jobs_def)
qed


definition doctor_start :: doctor_world where
  "doctor_start = \<lparr>dw_claw = doctor_claw, dw_replicas = 0, dw_pods = 0, dw_ready = 0, dw_jobs = []\<rparr>"


subsection \<open>What is recorded\<close>

lemma migrating_migration [simp]: "st_Migration (cl_Status (migrating k i)) = st_Migration (cl_Status i)"
  by (simp add: migrating_def)

text \<open>
  (C34) A migration is recorded only when the Job with the name for the wanted image has succeeded,
  with the gateway gone, and it is recorded for that image.
\<close>

theorem migration_recorded_after_success:
  assumes run: "reconcileDoctorFix k \<lparr>ps_instance = i, ps_trace = []\<rparr> = (r, st')"
    and new: "st_Migration (cl_Status (ps_instance st')) \<noteq> st_Migration (cl_Status i)"
  shows "gateway_gone k i \<and> (\<exists>job. ck_job k (doctorFixJobName (mv_sum256 (ck_manifests k)) (cl_Name i) (effectiveOpenClawImage i)) = Fetched job \<and>
      dj_Succeeded job > 0 \<and>
      st_Migration (cl_Status (ps_instance st')) = Some \<lparr>mst_DoctorFixImage = effectiveOpenClawImage i, mst_DoctorFixJob = dj_Name job\<rparr>)"
  using run
proof (cases rule: reconcileDoctorFix_cases)
  case waits
  with new show ?thesis by (auto simp: migrating_state_def)
next
  case (proceeds jobs)
  let ?st = "\<lparr>ps_instance = i, ps_trace = []\<rparr>"
  show ?thesis
  proof (cases "ck_job k (doctorFixJobName (mv_sum256 (ck_manifests k)) (cl_Name i) (effectiveOpenClawImage i))")
    case FetchNotFound
    with proceeds(4) have "start_doctor_job k (migrating k i) (migrating_state k ?st) = (r, st')" by (simp add: paused_doctor_fix_def)
    from start_doctor_job_run(2) [OF this] new show ?thesis by (simp add: migrating_state_def)
  next
    case (Fetched j)
    with proceeds(4) have "doctor_outcome k (effectiveOpenClawImage i) j (migrating_state k ?st) = (r, st')" by (simp add: paused_doctor_fix_def)
    from doctor_outcome_run(2) [OF this] new Fetched proceeds(1) show ?thesis by (auto simp: migrating_state_def)
  qed (use proceeds(4) new in \<open>auto simp: paused_doctor_fix_def pass_fail_def migrating_state_def\<close>)
qed

definition succeeded_job :: "string \<Rightarrow> doctor_job" where
  "succeeded_job nm = \<lparr>dj_Name = nm, dj_Annotations = [(doctorFixImageAnnotation, ''img'')], dj_Conditions = [(''Complete'', ''True'')],
     dj_Succeeded = 1, dj_Failed = 0\<rparr>"

lemma pass_records_success:
  assumes "\<forall>w. ck_refused k w = None" "gateway_gone k i" "ck_jobsLater k = Some jobs" "\<not> active_doctor jobs"
    and "ck_job k (doctorFixJobName (mv_sum256 (ck_manifests k)) (cl_Name i) (effectiveOpenClawImage i)) = Fetched job" "dj_Succeeded job > 0"
  shows "\<exists>st'. reconcileDoctorFix k \<lparr>ps_instance = i, ps_trace = []\<rparr> = (Inr RequeueNow, st') \<and>
    st_Migration (cl_Status (ps_instance st')) = Some \<lparr>mst_DoctorFixImage = effectiveOpenClawImage i, mst_DoctorFixJob = dj_Name job\<rparr>"
proof -
  let ?st = "\<lparr>ps_instance = i, ps_trace = []\<rparr>"
  have "hasActiveDoctorFix (ck_jobsLater k) = Inr False" using assms(3,4) hasActiveDoctorFix_Inr by blast
  with assms(2) have "continue_doctor_fix k (migrating k i) (migrating_state k ?st) = paused_doctor_fix k (migrating k i) (migrating_state k ?st)"
    by (auto simp: continue_doctor_fix_def gateway_gone_def pass_bind_def pass_lift_def)
  moreover have "reconcileDoctorFix k ?st = continue_doctor_fix k (migrating k i) (migrating_state k ?st)"
    using assms(1) by (simp add: reconcileDoctorFix_def migrating_state_def pass_defs flip: migrating_def)
  ultimately show ?thesis
    using assms(1,5,6) by (simp add: paused_doctor_fix_def doctor_outcome_def record_migration_def pass_defs)
qed

theorem migration_recorded_after_success_witness:
  "\<exists>st'. reconcileDoctorFix (paused_cluster\<lparr>ck_job := \<lambda>nm. Fetched (succeeded_job nm)\<rparr>) \<lparr>ps_instance = doctor_claw, ps_trace = []\<rparr> = (Inr RequeueNow, st') \<and>
     st_Migration (cl_Status (ps_instance st')) \<noteq> None"
proof -
  let ?k = "paused_cluster\<lparr>ck_job := \<lambda>nm. Fetched (succeeded_job nm)\<rparr>"
  have k: "\<forall>w. ck_refused ?k w = None" "gateway_gone ?k doctor_claw" "ck_jobsLater ?k = Some []" "\<not> active_doctor []"
    by (simp_all add: gateway_gone_def active_doctor_def)
  obtain st' where run: "reconcileDoctorFix ?k \<lparr>ps_instance = doctor_claw, ps_trace = []\<rparr> = (Inr RequeueNow, st')"
    and rec: "st_Migration (cl_Status (ps_instance st')) \<noteq> None"
    using pass_records_success [OF k] by (auto simp: succeeded_job_def)
  moreover have "st_Migration (cl_Status doctor_claw) = None" by (simp add: doctor_claw_def status_claw_def empty_ClawStatus_def)
  ultimately show ?thesis using migration_recorded_after_success [OF run] by auto
qed

text \<open>
  The name of the Job keeps the first 47 bytes of the instance's name, and the Job that is
  found under the name is not checked to be the instance's own: when two instances in a namespace
  agree on them and use one image, the success of one is recorded for the other, on whose volume
  no doctor ever ran.
\<close>

theorem doctor_jobs_share_names:
  assumes names: "cl_Name i = pre @ a" "cl_Name j = pre @ b" "length pre = 47" "a \<noteq> []" "b \<noteq> []" "last a \<noteq> CHR ''-''" "last b \<noteq> CHR ''-''"
    and img: "effectiveOpenClawImage i = effectiveOpenClawImage j" "8 \<le> length (mv_sum256 (ck_manifests k) (effectiveOpenClawImage j))"
    and cluster: "\<forall>w. ck_refused k w = None" "gateway_gone k j" "ck_jobsLater k = Some jobs" "\<not> active_doctor jobs"
    and job: "ck_job k (doctorFixJobName (mv_sum256 (ck_manifests k)) (cl_Name i) (effectiveOpenClawImage i)) = Fetched job" "dj_Succeeded job > 0"
  shows "\<exists>st'. reconcileDoctorFix k \<lparr>ps_instance = j, ps_trace = []\<rparr> = (Inr RequeueNow, st') \<and>
    st_Migration (cl_Status (ps_instance st')) = Some \<lparr>mst_DoctorFixImage = effectiveOpenClawImage j, mst_DoctorFixJob = dj_Name job\<rparr>"
proof -
  have trim: "TrimSuffix (pre @ s) ''-'' = pre @ s" if "s \<noteq> []" "last s \<noteq> CHR ''-''" for s
  proof -
    have "last (pre @ s) \<noteq> CHR ''-''" using that by simp
    then have "\<not> suffix ''-'' (pre @ s)" by (metis last_snoc suffix_def)
    then show ?thesis by (simp add: TrimSuffix_def)
  qed
  have "doctorFixJobName f (pre @ s) im = pre @ ''-doctor-'' @ take 8 (f im)" if "s \<noteq> []" "last s \<noteq> CHR ''-''" "8 \<le> length (f im)" for f s im
    using that names(3) by (simp add: doctorFixJobName_def trim Let_def min_def)
  with names img have "doctorFixJobName (mv_sum256 (ck_manifests k)) (cl_Name i) (effectiveOpenClawImage i) =
      doctorFixJobName (mv_sum256 (ck_manifests k)) (cl_Name j) (effectiveOpenClawImage j)" by simp
  with job have "ck_job k (doctorFixJobName (mv_sum256 (ck_manifests k)) (cl_Name j) (effectiveOpenClawImage j)) = Fetched job" by simp
  from pass_records_success [OF cluster this job(2)] show ?thesis .
qed

theorem doctor_jobs_share_names_witness:
  "\<exists>st'. reconcileDoctorFix (paused_cluster\<lparr>ck_job := \<lambda>nm. Fetched (succeeded_job nm)\<rparr>)
       \<lparr>ps_instance = doctor_claw\<lparr>cl_Name := replicate 47 (CHR ''x'') @ ''b''\<rparr>, ps_trace = []\<rparr> = (Inr RequeueNow, st')"
proof -
  let ?k = "paused_cluster\<lparr>ck_job := \<lambda>nm. Fetched (succeeded_job nm)\<rparr>"
  let ?i = "\<lambda>s. doctor_claw\<lparr>cl_Name := replicate 47 (CHR ''x'') @ s\<rparr>"
  have "\<forall>w. ck_refused ?k w = None" "gateway_gone ?k (?i ''b'')" "ck_jobsLater ?k = Some []" "\<not> active_doctor []"
    by (simp_all add: gateway_gone_def active_doctor_def)
  moreover have "8 \<le> length (mv_sum256 (ck_manifests ?k) (effectiveOpenClawImage (?i ''b'')))"
    by (simp add: paused_cluster_def sample_cluster_def sample_env_def effectiveOpenClawImage_def doctor_claw_def empty_ClawSpec_def)
  moreover have "effectiveOpenClawImage (?i ''a'') = effectiveOpenClawImage (?i ''b'')"
    by (simp add: effectiveOpenClawImage_def)
  moreover have "dj_Succeeded (succeeded_job nm) > 0" for nm by (simp add: succeeded_job_def)
  ultimately show ?thesis
    using doctor_jobs_share_names [of "?i ''a''" "replicate 47 (CHR ''x'')" "''a''" "?i ''b''" "''b''" ?k "[]"
        "succeeded_job (doctorFixJobName (mv_sum256 (ck_manifests ?k)) (cl_Name (?i ''a'')) (effectiveOpenClawImage (?i ''a'')))"]
    by auto
qed

text \<open>
  A pass that finds a doctor Job still active goes on to the migration even if none is requested; if
  that Job ends before the Jobs are listed again, the pass starts a Job for the current image,
  which nobody approved.
\<close>

theorem unapproved_doctor_job:
  defines "k \<equiv> paused_cluster\<lparr>ck_jobs := Some [new_doctor_job paused_cluster doctor_claw]\<rparr>"
  shows "hasActiveDoctorFix (ck_jobs k) = Inr True \<and> \<not> doctorFixRequested status_claw \<and>
    (\<exists>st' job. reconcileDoctorFix k \<lparr>ps_instance = status_claw, ps_trace = []\<rparr> = (Inr (RequeueAfter 2), st') \<and>
       Wrote (CreateJob job) \<in> set (ps_trace st'))"
proof (intro conjI)
  have "is_doctor_job (new_doctor_job paused_cluster doctor_claw)" "doctorFixJobActive (new_doctor_job paused_cluster doctor_claw)"
    by (simp_all add: is_doctor_job_def new_doctor_job_def doctorFixJobActive_def effectiveOpenClawImage_def lookup_str_def)
  then show "hasActiveDoctorFix (ck_jobs k) = Inr True" by (simp add: k_def hasActiveDoctorFix_def)
  show "\<not> doctorFixRequested status_claw" by (simp add: doctorFixRequested_def status_claw_def empty_ClawSpec_def)
  show "\<exists>st' job. reconcileDoctorFix k \<lparr>ps_instance = status_claw, ps_trace = []\<rparr> = (Inr (RequeueAfter 2), st') \<and>
       Wrote (CreateJob job) \<in> set (ps_trace st')"
    using pass_starts_job [of k status_claw] by (auto simp: k_def gateway_gone_def)
qed

subsection \<open>Generated names\<close>

text \<open>Lower-case letters and digits: what a Kubernetes name starts and ends with.\<close>

definition name_end :: "char \<Rightarrow> bool" where
  "name_end c \<longleftrightarrow> c \<in> set ''abcdefghijklmnopqrstuvwxyz0123456789''"

lemma name_end_dash: "name_end c \<Longrightarrow> c \<noteq> CHR ''-''"
  by (auto simp: name_end_def)

lemma doctorFixJobName_shape:
  assumes digest: "length (sum256 img) = 64" and last: "name_end (last instanceName)"
  shows "doctorFixJobName sum256 instanceName img = take 47 instanceName @ ''-doctor-'' @ take 8 (sum256 img)"
proof -
  have "TrimSuffix instanceName ''-'' = instanceName"
    using name_end_dash [OF last] by (auto simp: TrimSuffix_def suffix_def)
  then show ?thesis using digest by (simp add: doctorFixJobName_def Let_def)
qed

text \<open>
  (C35) For an instance whose name starts and ends as Kubernetes demands, the name of its doctor Job and its
  label value have at most 63 characters and start and end that way too. For one instance
  the Job's name changes with the image as far as the first eight digits of the digest do, and two long
  instance names can have the same label only if those digits agree.
\<close>

theorem generated_names_fit:
  assumes digest: "\<And>t. length (sum256 t) = 64 \<and> list_all name_end (sum256 t)"
    and nm: "nm \<noteq> []" "name_end (hd nm)" "name_end (last nm)"
  shows "length (doctorFixJobName sum256 nm img) \<le> 63 \<and> length (sanitizeLabelValue sum256 nm) \<le> 63 \<and>
    name_end (hd (doctorFixJobName sum256 nm img)) \<and> name_end (last (doctorFixJobName sum256 nm img)) \<and>
    name_end (hd (sanitizeLabelValue sum256 nm)) \<and> name_end (last (sanitizeLabelValue sum256 nm)) \<and>
    (doctorFixJobName sum256 nm img = doctorFixJobName sum256 nm img' \<longleftrightarrow> take 8 (sum256 img) = take 8 (sum256 img')) \<and>
    (length nm > 63 \<and> length nm' > 63 \<and> sanitizeLabelValue sum256 nm = sanitizeLabelValue sum256 nm' \<longrightarrow>
      take 8 (sum256 nm) = take 8 (sum256 nm'))"
proof -
  have digits: "take 8 (sum256 t) \<noteq> []" "name_end (last (take 8 (sum256 t)))" for t
  proof -
    show ne: "take 8 (sum256 t) \<noteq> []" using digest [of t] by auto
    then have "last (take 8 (sum256 t)) \<in> set (sum256 t)" by (meson in_set_takeD last_in_set)
    then show "name_end (last (take 8 (sum256 t)))" using digest [of t] by (simp add: list_all_iff)
  qed
  have len: "length (sum256 t) = 64" for t using digest [of t] by simp
  note job = doctorFixJobName_shape [of sum256, OF len nm(3)]
  have hd: "hd (take n nm @ ys) = hd nm" if "n > 0" for n ys using nm(1) that by (cases nm) (auto simp: take_Cons')
  have label: "sanitizeLabelValue sum256 nm = nm \<and> length nm \<le> 63 \<or> sanitizeLabelValue sum256 nm = take 54 nm @ ''-'' @ take 8 (sum256 nm)"
    by (simp add: sanitizeLabelValue_def)
  have same: "take 8 (sum256 nm) = take 8 (sum256 nm')"
    if "length nm > 63" "length nm' > 63" "sanitizeLabelValue sum256 nm = sanitizeLabelValue sum256 nm'"
    using that by (simp add: sanitizeLabelValue_def)
  from label have "length (sanitizeLabelValue sum256 nm) \<le> 63 \<and> name_end (hd (sanitizeLabelValue sum256 nm)) \<and>
      name_end (last (sanitizeLabelValue sum256 nm))"
    using nm hd [of 54] digits [of nm] by (elim disjE) auto
  with same show ?thesis using nm hd [of 47] digits [of img] by (simp add: job)
qed

theorem generated_names_fit_witness:
  "length (doctorFixJobName (\<lambda>_. replicate 64 CHR ''0'') (replicate 70 CHR ''a'') ''img'') \<le> 63 \<and>
   name_end (last (sanitizeLabelValue (\<lambda>_. replicate 64 CHR ''0'') (replicate 70 CHR ''a'')))"
  using generated_names_fit [of "\<lambda>_. replicate 64 CHR ''0''" "replicate 70 CHR ''a''"] by (simp add: name_end_def list_all_iff)

end
