(* ===== verification/Validation.thy ===== *)
theory Validation
  imports Migration
begin

section \<open>Validation of an instance\<close>

text \<open>
  The first half of a pass: \<open>rejectValidation\<close> and \<open>resolveAndApplyCredentials\<close> of
  \<open>src/internal/controller/claw_resource_controller.go\<close>, the checks of \<open>claw_mcp.go\<close>, \<open>claw_web_search.go\<close>,
  \<open>claw_restrictions.go\<close>, \<open>claw_auth.go\<close>, the condition of \<open>claw_memory_stack.go\<close>, and the Secrets and
  ConfigMaps the controller writes itself (\<open>claw_credentials.go\<close>, \<open>claw_proxy.go\<close>, \<open>claw_deployment.go\<close>).

  Each check has a pure part, which says what is wrong with an instance, and the operation of the pass
  that reports it. The lemmas: what the success of an operation says about the pure part, which
  events it leaves, and that a rejection is the last thing in the trace.
\<close>

subsection \<open>Rejections\<close>

definition report_failure :: "cluster \<Rightarrow> string \<Rightarrow> string list \<Rightarrow> reconcile_error \<Rightarrow> 'a pass" where
  "report_failure k reason condTypes e =
     pass_bind (pass_each (\<lambda>t. set_condition k t ConditionFalse reason (ck_text k e)) (condTypes @ [''Ready''])) (\<lambda>_.
     pass_bind (write_status_quietly k) (\<lambda>_. pass_fail e))"

definition rejectValidation :: "cluster \<Rightarrow> reconcile_error \<Rightarrow> string list \<Rightarrow> 'a pass" where
  "rejectValidation k e extraConditionTypes = report_failure k ''ValidationFailed'' extraConditionTypes e"

text \<open>The idiom \<open>if err := check; err != nil { return rejectValidation(...) }\<close>.\<close>

definition or_reject :: "cluster \<Rightarrow> ('e \<Rightarrow> reconcile_error) \<Rightarrow> string list \<Rightarrow> ('e, 'a) result \<Rightarrow> 'a pass" where
  "or_reject k wrap condTypes r =
     (case r of Inl e \<Rightarrow> rejectValidation k (wrap e) condTypes | Inr x \<Rightarrow> pass_return x)"

subsection \<open>Secrets and ConfigMaps of the controller\<close>

text \<open>
  A Secret or ConfigMap the controller writes: named, in the instance's namespace, with the instance's
  label and the instance as its controller.
\<close>

definition labelled :: "cluster \<Rightarrow> Claw \<Rightarrow> string \<Rightarrow> string \<Rightarrow> jobj" where
  "labelled k i kind nm =
     [(''kind'', JStr kind),
      (''metadata'', JObj [(''name'', JStr nm), (''namespace'', JStr (cl_Namespace i)),
         (''labels'', JObj [(InstanceLabelKey, JStr (sanitizeLabelValue (mv_sum256 (ck_manifests k)) (cl_Name i)))])])]"

definition apply_secret :: "cluster \<Rightarrow> string \<Rightarrow> string \<Rightarrow> (string, string) gomap \<Rightarrow> unit pass" where
  "apply_secret k what nm data =
     pass_bind get_instance (\<lambda>i.
       case ck_own k i (labelled k i ''Secret'' nm) of
         None \<Rightarrow> pass_fail (ApiFailed what)
       | Some _ \<Rightarrow> write_or_fail k what (PatchSecret nm data))"

definition apply_configmap :: "cluster \<Rightarrow> string \<Rightarrow> string \<Rightarrow> (string, string) gomap \<Rightarrow> unit pass" where
  "apply_configmap k what nm data =
     pass_bind get_instance (\<lambda>i.
       case ck_own k i (labelled k i ''ConfigMap'' nm) of
         None \<Rightarrow> pass_fail (ApiFailed what)
       | Some _ \<Rightarrow> write_or_fail k what (PatchConfigMap nm data))"

definition delete_orphan :: "cluster \<Rightarrow> string \<Rightarrow> unit pass" where
  "delete_orphan k nm =
     (if ck_configMap k nm then write_or_fail k ''delete ConfigMap'' (DeleteResource ConfigMapKind nm) else pass_return ())"

definition apply_gateway_secret :: "cluster \<Rightarrow> unit pass" where
  "apply_gateway_secret k =
     pass_bind get_instance (\<lambda>i.
     pass_bind (pass_lift GatewaySecretInvalid
                  (Credentials.applyGatewaySecret (ck_secret k (getGatewaySecretName (cl_Name i))) (ck_random k))) (\<lambda>data.
       apply_secret k ''apply gateway secret'' (getGatewaySecretName (cl_Name i)) data))"

definition applyProxyCA :: "cluster \<Rightarrow> string pass" where
  "applyProxyCA k =
     pass_bind get_instance (\<lambda>i.
       let secretName = getProxyCAConfigMapName (cl_Name i);
           generate =
             (case ck_certificate k of
                None \<Rightarrow> pass_fail (ApiFailed ''generate proxy CA'')
              | Some (certPEM, keyPEM) \<Rightarrow>
                  pass_bind (apply_secret k ''apply proxy CA secret'' secretName [(''ca.crt'', certPEM), (''ca.key'', keyPEM)])
                    (\<lambda>_. pass_return certPEM))
       in case ck_secret k secretName of
            SecretData data \<Rightarrow>
              if lookup_str data ''ca.crt'' \<noteq> [] \<and> lookup_str data ''ca.key'' \<noteq> []
              then pass_return (lookup_str data ''ca.crt'') else generate
          | SecretNotFound \<Rightarrow> generate
          | SecretReadError \<Rightarrow> pass_fail (ApiFailed ''check for existing proxy CA secret''))"

definition first_kubeconfig :: "resolvedCredential list \<Rightarrow> kubeconfigData option" where
  "first_kubeconfig creds = Option.bind (find (\<lambda>rc. rc_KubeConfig rc \<noteq> None) creds) rc_KubeConfig"

definition applySanitizedKubeconfig :: "cluster \<Rightarrow> resolvedCredential list \<Rightarrow> string \<Rightarrow> unit pass" where
  "applySanitizedKubeconfig k resolvedCreds proxyCACert =
     pass_bind get_instance (\<lambda>i.
       let configMapName = getKubeConfigMapName (cl_Name i)
       in case first_kubeconfig resolvedCreds of
            None \<Rightarrow> delete_orphan k configMapName
          | Some kd \<Rightarrow>
              pass_bind (pass_lift KubeconfigInvalid (sanitizeKubeconfig (ck_kubeconfig k) (kd_RawBytes kd) proxyCACert)) (\<lambda>sanitized.
                apply_configmap k ''apply kubeconfig ConfigMap'' configMapName [(''config'', ck_printKubeconfig k sanitized)]))"

definition adc_document :: string where
  "adc_document =
     (let q = [CHR 0x22]; f = (\<lambda>a b. q @ a @ q @ '':'' @ q @ b @ q)
      in ''{'' @ f ''type'' ''authorized_user'' @ '','' @ f ''client_id'' ''stub.apps.googleusercontent.com'' @ '','' @
         f ''client_secret'' ''stub'' @ '','' @ f ''refresh_token'' ''proxy-managed-token'' @ ''}'')"

definition applyVertexADCConfigMap :: "cluster \<Rightarrow> resolvedCredential list \<Rightarrow> unit pass" where
  "applyVertexADCConfigMap k resolvedCreds =
     pass_bind get_instance (\<lambda>i.
       let configMapName = getVertexADCConfigMapName (cl_Name i)
       in if \<not> hasVertexSDKCredentials resolvedCreds then delete_orphan k configMapName
          else apply_configmap k ''apply vertex ADC config'' configMapName [(''adc.json'', adc_document)])"

definition applyProxyConfigMap :: "cluster \<Rightarrow> string \<Rightarrow> unit pass" where
  "applyProxyConfigMap k configJSON =
     pass_bind get_instance (\<lambda>i.
       apply_configmap k ''apply proxy config'' (getProxyConfigMapName (cl_Name i)) [(''proxy-config.json'', configJSON)])"

subsection \<open>Credentials\<close>

definition default_credential :: "CredentialSpec \<Rightarrow> (credential_error, CredentialSpec) result" where
  "default_credential cred = (if cs_Channel cred \<noteq> [] then resolveChannelDefaults cred else resolveProviderDefaults cred)"

text \<open>
  The loop fills the entries in place and stops at the first that fails; entries before it are
  already filled. The failing entry is left as it was: nothing reads it before the pass ends.
\<close>

fun default_credentials :: "CredentialSpec list \<Rightarrow> CredentialSpec list \<times> credential_error option" where
  "default_credentials [] = ([], None)"
| "default_credentials (c # cs) =
     (case default_credential c of
        Inl e \<Rightarrow> (c # cs, Some e)
      | Inr c' \<Rightarrow> (case default_credentials cs of (cs', failed) \<Rightarrow> (c' # cs', failed)))"

definition with_credentials :: "CredentialSpec list \<Rightarrow> Claw \<Rightarrow> Claw" where
  "with_credentials cs instance = instance\<lparr>cl_Spec := (cl_Spec instance)\<lparr>sp_Credentials := cs\<rparr>\<rparr>"

definition defaulted :: "Claw \<Rightarrow> Claw" where
  "defaulted instance = with_credentials (fst (default_credentials (sp_Credentials (cl_Spec instance)))) instance"

definition apply_credentials :: "cluster \<Rightarrow> resolvedCredential list \<Rightarrow> resolvedCredential list pass" where
  "apply_credentials k resolvedCreds =
     pass_bind (set_condition k ''CredentialsResolved'' ConditionTrue ''Resolved'' ''All credential Secrets are valid'') (\<lambda>_.
     pass_bind (applyProxyCA k) (\<lambda>proxyCACert.
     pass_bind (applySanitizedKubeconfig k resolvedCreds proxyCACert) (\<lambda>_.
       pass_return resolvedCreds)))"

definition default_check :: "Claw \<Rightarrow> (credential_error, unit) result" where
  "default_check instance =
     (case snd (default_credentials (sp_Credentials (cl_Spec instance))) of Some e \<Rightarrow> Inl e | None \<Rightarrow> Inr ())"

definition resolveAndApplyCredentials :: "cluster \<Rightarrow> resolvedCredential list pass" where
  "resolveAndApplyCredentials k =
     pass_bind get_instance (\<lambda>i0.
     pass_bind (modify_instance defaulted) (\<lambda>_.
     pass_bind (or_reject k DefaultsInvalid [''CredentialsResolved''] (default_check i0)) (\<lambda>_.
     pass_bind get_instance (\<lambda>i.
     pass_bind (or_reject k CredentialsInvalid [''CredentialsResolved''] (resolveCredentials (ck_userSecret k) (ck_kubeconfig k) i))
       (apply_credentials k)))))"

subsection \<open>MCP servers and web search\<close>

definition check_env_secret :: "secret_reader \<Rightarrow> string \<Rightarrow> McpEnvFromSecret \<Rightarrow> mcp_secret_error list" where
  "check_env_secret get serverName ef =
     (let nm = sr_Name (ef_SecretRef ef)
      in case get nm of
           SecretNotFound \<Rightarrow> [McpSecretNotFound serverName (ef_Name ef) nm]
         | SecretReadError \<Rightarrow> [McpSecretUnreadable serverName (ef_Name ef) nm]
         | SecretData data \<Rightarrow>
             if has_key data (sr_Key (ef_SecretRef ef)) then []
             else [McpKeyMissing serverName (ef_Name ef) (sr_Key (ef_SecretRef ef)) nm])"

definition validateMcpServerSecrets :: "secret_reader \<Rightarrow> Claw \<Rightarrow> (mcp_secret_error list, unit) result" where
  "validateMcpServerSecrets get instance =
     (let errs = concat (map (\<lambda>(serverName, spec). concat (map (check_env_secret get serverName) (mcp_EnvFrom spec)))
                   (sp_McpServers (cl_Spec instance)))
      in if errs = [] then Inr () else Inl errs)"

definition bypass_check :: "Claw \<Rightarrow> (string \<times> string, unit) result" where
  "bypass_check instance = (case validateMcpCredentialRefBypass instance of None \<Rightarrow> Inr () | Some w \<Rightarrow> Inl w)"

text \<open>The message of the condition, or what is wrong; no web search is no message.\<close>

definition check_web_search :: "secret_reader \<Rightarrow> Claw \<Rightarrow> (reconcile_error, string option) result" where
  "check_web_search get instance =
     (case sp_WebSearch (cl_Spec instance) of
        None \<Rightarrow> Inr None
      | Some ws \<Rightarrow>
          let provider = ws_Provider ws; configured = ''web search provider '' @ quoted provider @ '' configured''
          in case map_of knownSearchProviders provider of
               Some info \<Rightarrow>
                 if spi_Injector info = ''none'' then Inr (Some configured)
                 else (case ws_SecretRef ws of
                         None \<Rightarrow> Inl (SearchRefRequired provider)
                       | Some ref \<Rightarrow>
                           (case get (sr_Name ref) of
                              SecretData data \<Rightarrow>
                                if has_key data (sr_Key ref) then Inr (Some configured)
                                else Inl (SearchKeyMissing (sr_Key ref) (sr_Name ref))
                            | _ \<Rightarrow> Inl (SearchSecretMissing (sr_Name ref))))
             | None \<Rightarrow>
                 (case map_of llmAsSearchProviders provider of
                    Some required \<Rightarrow>
                      if list_ex (\<lambda>c. cs_Provider c = required) (sp_Credentials (cl_Spec instance))
                      then Inr (Some (configured @ '' (using '' @ quoted required @ '' credential)''))
                      else Inl (SearchCredentialMissing provider required)
                  | None \<Rightarrow> Inl (SearchProviderUnknown provider)))"

text \<open>The check sets both conditions; its caller writes the status and returns the error.\<close>

definition validateWebSearchConfig :: "cluster \<Rightarrow> unit pass" where
  "validateWebSearchConfig k =
     pass_bind get_instance (\<lambda>i.
       case check_web_search (ck_userSecret k) i of
         Inl e \<Rightarrow> rejectValidation k e [''WebSearchConfigured'']
       | Inr None \<Rightarrow> remove_condition k ''WebSearchConfigured''
       | Inr (Some message) \<Rightarrow> set_condition k ''WebSearchConfigured'' ConditionTrue ''Configured'' message)"

subsection \<open>Restrictions and authentication\<close>

definition read_only_paths :: "Claw \<Rightarrow> string list" where
  "read_only_paths instance = (case sp_AgentFiles (cl_Spec instance) of None \<Rightarrow> [] | Some af \<Rightarrow> af_ReadOnly af)"

definition persona_ref :: "Claw \<Rightarrow> string option" where
  "persona_ref instance = map_option per_Name (Option.bind (sp_Restrictions (cl_Spec instance)) rs_PersonaRef)"

definition persona_data :: "(string \<Rightarrow> (string, string) gomap fetched) \<Rightarrow> Claw \<Rightarrow> (reconcile_error, (string, string) gomap) result" where
  "persona_data get instance =
     (case persona_ref instance of
        None \<Rightarrow> Inr []
      | Some nm \<Rightarrow>
          (case get nm of
             FetchNotFound \<Rightarrow> Inl (PersonaMissing nm)
           | Fetched data \<Rightarrow>
               if data = [] then Inl (PersonaEmpty nm)
               else (case validatePersonaKeys (sortedPersonaKeys data) of
                       Inl e \<Rightarrow> Inl (PersonaKeysInvalid e)
                     | Inr _ \<Rightarrow> Inr data)
           | _ \<Rightarrow> Inl (PersonaUnreadable nm)))"

definition persona_message :: "cluster \<Rightarrow> reconcile_error \<Rightarrow> string option" where
  "persona_message k e =
     (case e of
        PersonaMissing nm \<Rightarrow> Some (''persona ConfigMap '' @ quoted nm @ '' not found'')
      | PersonaEmpty nm \<Rightarrow> Some (''persona ConfigMap '' @ quoted nm @ '' has no data keys'')
      | PersonaKeysInvalid _ \<Rightarrow> Some (ck_text k e)
      | _ \<Rightarrow> None)"

text \<open>The sorted keys and the data. A failure to read the ConfigMap leaves the condition as it was.\<close>

definition resolvePersonaRef :: "cluster \<Rightarrow> (string list \<times> (string, string) gomap) pass" where
  "resolvePersonaRef k =
     pass_bind get_instance (\<lambda>i.
       case persona_data (ck_userConfigMap k) i of
         Inl e \<Rightarrow>
           pass_bind (case persona_message k e of
                        Some msg \<Rightarrow> set_condition k ''RestrictionsEnforced'' ConditionFalse ''ValidationFailed'' msg
                      | None \<Rightarrow> pass_return ()) (\<lambda>_. rejectValidation k e [])
       | Inr data \<Rightarrow>
           pass_bind (if persona_ref i = None then pass_return ()
                      else set_condition k ''RestrictionsEnforced'' ConditionTrue ''Configured''
                             (''persona guard active: '' @ Join '', '' (sortedPersonaKeys data)))
             (\<lambda>_. pass_return (sortedPersonaKeys data, data)))"

definition restrictions_condition :: "cluster \<Rightarrow> string list \<Rightarrow> unit pass" where
  "restrictions_condition k personaKeys =
     pass_bind get_instance (\<lambda>i.
       let readOnly = read_only_paths i
       in if personaKeys = [] \<and> readOnly = [] then remove_condition k ''RestrictionsEnforced''
          else set_condition k ''RestrictionsEnforced'' ConditionTrue ''Configured''
            (Join ''; ''
              ((if readOnly \<noteq> [] then [''read-only files active: '' @ Join '', '' readOnly] else []) @
               (if personaKeys \<noteq> [] then [''persona guard active: '' @ Join '', '' personaKeys] else []))))"

definition resolveAuthPassword :: "secret_reader \<Rightarrow> Claw \<Rightarrow> (reconcile_error, string) result" where
  "resolveAuthPassword get instance =
     (if \<not> password_mode instance then Inr []
      else case Option.bind (sp_Auth (cl_Spec instance)) au_PasswordSecretRef of
        None \<Rightarrow> Inl PasswordRefRequired
      | Some ref \<Rightarrow>
          (case get (sr_Name ref) of
             SecretData data \<Rightarrow>
               if lookup_str data (sr_Key ref) = [] then Inl (PasswordKeyMissing (sr_Key ref) (sr_Name ref))
               else Inr (lookup_str data (sr_Key ref))
           | _ \<Rightarrow> Inl (PasswordUnreadable (sr_Name ref))))"

definition check_password :: "cluster \<Rightarrow> unit pass" where
  "check_password k =
     pass_bind get_instance (\<lambda>i.
       case resolveAuthPassword (ck_userSecret k) i of
         Inl e \<Rightarrow> pass_bind (modify_instance (set_urls [])) (\<lambda>_. rejectValidation k e [])
       | Inr _ \<Rightarrow> pass_return ())"

definition setMemoryStackCondition :: "cluster \<Rightarrow> unit pass" where
  "setMemoryStackCondition k =
     pass_bind get_instance (\<lambda>i.
       if \<not> memoryStackEnabled i then remove_condition k ''MemoryStack''
       else if userConfiguredMemoryStack i
       then set_condition k ''MemoryStack'' ConditionFalse ''UserManaged''
              (''spec.memory requests memory layers but plugins.slots.contextEngine in spec.config.raw '' @
               ''takes precedence; the operator is not managing the memory layers'')
       else if userConfiguredMemorySearch i
       then set_condition k ''MemoryStack'' ConditionTrue ''Enabled''
              (''Memory layers enabled ('' @ enabledMemoryLayers i @ ''); vector recall follows your spec.config.raw memory.search setting'')
       else if firstEmbeddingProvider i \<noteq> None
       then set_condition k ''MemoryStack'' ConditionTrue ''Enabled'' (''Memory layers enabled ('' @ enabledMemoryLayers i @ '') with vector recall'')
       else set_condition k ''MemoryStack'' ConditionTrue ''EnabledNoVectors''
              (''Memory layers enabled ('' @ enabledMemoryLayers i @ '') without vector recall, no embedding-capable credential''))"

end
