(* ===== verification/Reconciler.thy ===== *)
theory Reconciler
  imports Validation
begin

section \<open>A pass of the controller\<close>

text \<open>
  \<open>Reconcile\<close> of \<open>src/internal/controller/claw_resource_controller.go\<close> with the functions it calls
  directly: rendering the manifests, applying objects, the ServiceMonitor of \<open>claw_metrics.go\<close> and the
  removal of what older versions deployed. A pass waits for the first refresh of the metrics; the wait
  has no effect on what it does and is left out, as are the log lines.

  The definitions follow the order of the code: what is checked before anything of the instance is
  rendered, rendering, the annotations that trigger rollouts, the Route, and what is applied at the
  end. The theory \<open>Admission\<close> has the properties of a pass.
\<close>

subsection \<open>Rendering the manifests\<close>

text \<open>\<open>bytes.SplitSeq\<close>: the counter skips the rest of a separator that was found.\<close>

fun split_on :: "string \<Rightarrow> nat \<Rightarrow> string \<Rightarrow> string \<Rightarrow> string list" where
  "split_on sep n acc [] = [rev acc]"
| "split_on sep n acc (c # cs) =
     (if n > 0 then split_on sep (n - 1) acc cs
      else if prefix sep (c # cs) then rev acc # split_on sep (length sep - 1) [] cs
      else split_on sep 0 (c # acc) cs)"

definition document_separator :: string where
  "document_separator = [CHR 0x0A] @ ''---'' @ [CHR 0x0A]"

definition parseYAMLToObjects :: "(string \<Rightarrow> jobj option) \<Rightarrow> string \<Rightarrow> (reconcile_error, jobj list) result" where
  "parseYAMLToObjects yaml yamlData =
     rbind (rmap (\<lambda>doc. case yaml doc of None \<Rightarrow> Inl (ApiFailed ''parse YAML'') | Some obj \<Rightarrow> Inr obj)
              (filter (\<lambda>doc. doc \<noteq> []) (map TrimSpace (split_on document_separator 0 [] yamlData))))
       (\<lambda>objects. Inr (filter (\<lambda>obj. obj \<noteq> []) objects))"

definition buildKustomizeFromPath :: "cluster \<Rightarrow> string \<Rightarrow> string \<Rightarrow> (reconcile_error, jobj list) result" where
  "buildKustomizeFromPath k instanceName componentPath =
     (case ck_kustomize k instanceName componentPath of
        None \<Rightarrow> Inl (ApiFailed ''kustomize build'')
      | Some resources \<Rightarrow> parseYAMLToObjects (ck_yaml k) resources)"

text \<open>The files are embedded; kustomize sees them with the instance's name put in for the placeholder.\<close>

definition buildKustomizedObjects :: "cluster \<Rightarrow> Claw \<Rightarrow> (reconcile_error, jobj list) result" where
  "buildKustomizedObjects k instance =
     rbind (buildKustomizeFromPath k (cl_Name instance) ''manifests/claw'') (\<lambda>clawObjects.
     rbind (buildKustomizeFromPath k (cl_Name instance) ''manifests/claw-proxy'') (\<lambda>proxyObjects.
       case injectInstanceLabels (mv_lib (ck_manifests k)) (mv_sum256 (ck_manifests k)) (clawObjects @ proxyObjects) (cl_Name instance) of
         Inl e \<Rightarrow> Inl (EditFailed e)
       | Inr objects \<Rightarrow> Inr objects))"

subsection \<open>Applying objects\<close>

definition with_namespace :: "unstructured_lib \<Rightarrow> string \<Rightarrow> jobj \<Rightarrow> jobj" where
  "with_namespace u ns obj = (case us_SetNestedField u obj (JStr ns) [''metadata'', ''namespace''] of Some obj' \<Rightarrow> obj' | None \<Rightarrow> obj)"

definition own_object :: "cluster \<Rightarrow> Claw \<Rightarrow> jobj \<Rightarrow> (reconcile_error, jobj) result" where
  "own_object k instance obj =
     (case ck_own k instance (with_namespace (mv_lib (ck_manifests k)) (cl_Namespace instance) obj) of
        None \<Rightarrow> Inl (ApiFailed ''set controller reference'')
      | Some obj' \<Rightarrow> Inr obj')"

text \<open>An update that changes nothing is no write.\<close>

definition apply_deployment :: "cluster \<Rightarrow> jobj \<Rightarrow> bool pass" where
  "apply_deployment k obj =
     (case applyDeployment (ck_fromUnstructured k) (ck_createOrUpdate k) obj (ck_storedDeployment k obj) of
        Inl e \<Rightarrow> pass_fail (DeploymentFailed e)
      | Inr (_, changed) \<Rightarrow>
          if changed then pass_bind (record_event (Wrote (ApplyDeployment obj))) (\<lambda>_. pass_return True)
          else pass_return False)"

definition apply_object :: "cluster \<Rightarrow> jobj \<Rightarrow> bool pass" where
  "apply_object k obj =
     (if us_GetKind (mv_lib (ck_manifests k)) obj = DeploymentKind then apply_deployment k obj
      else pass_bind (try_write k (ApplyObject obj)) (\<lambda>refused.
        case refused of
          None \<Rightarrow> pass_return True
        | Some FetchNoMatch \<Rightarrow> pass_return False
        | Some _ \<Rightarrow> pass_fail (ApiFailed ''apply resource'')))"

fun applyResources :: "cluster \<Rightarrow> jobj list \<Rightarrow> nat pass" where
  "applyResources k [] = pass_return 0"
| "applyResources k (obj # objs) =
     pass_bind (apply_object k obj) (\<lambda>applied.
     pass_bind (applyResources k objs) (\<lambda>n. pass_return ((if applied then 1 else 0) + n)))"

definition applyRouteByName :: "cluster \<Rightarrow> jobj list \<Rightarrow> string \<Rightarrow> nat pass" where
  "applyRouteByName k objects routeName =
     (if objects = [] then pass_return 0
      else
        let u = mv_lib (ck_manifests k);
            routes = filter (\<lambda>obj. us_GetKind u obj = RouteKind \<and> us_GetName u obj = routeName) objects
        in if routes = [] then pass_fail (ApiFailed ''expected Route missing in rendered manifests'')
           else pass_bind get_instance (\<lambda>i.
             pass_bind (pass_lift id (rmap (own_object k i) routes)) (applyResources k)))"

definition delete_quietly :: "cluster \<Rightarrow> string \<Rightarrow> string \<Rightarrow> string \<Rightarrow> unit pass" where
  "delete_quietly k what kind nm =
     pass_bind (try_write k (DeleteResource kind nm)) (\<lambda>refused.
       case refused of
         None \<Rightarrow> pass_return ()
       | Some FetchNotFound \<Rightarrow> pass_return ()
       | Some FetchNoMatch \<Rightarrow> pass_return ()
       | Some _ \<Rightarrow> pass_fail (ApiFailed what))"

definition cleanupDevicePairingResources :: "cluster \<Rightarrow> unit pass" where
  "cleanupDevicePairingResources k =
     pass_bind get_instance (\<lambda>i.
       pass_each (\<lambda>kind. delete_quietly k ''delete device-pairing resource'' kind (cl_Name i @ ''-device-pairing''))
         [''Deployment'', ''Service'', ''ServiceAccount'', RouteKind, ''RoleBinding'', ''Role'', ''ClusterRole''])"

definition getServiceMonitorName :: "string \<Rightarrow> string" where
  "getServiceMonitorName instanceName = instanceName @ ''-metrics''"

definition service_monitor :: "cluster \<Rightarrow> Claw \<Rightarrow> jobj" where
  "service_monitor k i =
     (let lbl = JStr (sanitizeLabelValue (mv_sum256 (ck_manifests k)) (cl_Name i))
      in [(''kind'', JStr ''ServiceMonitor''),
          (''metadata'', JObj [(''name'', JStr (getServiceMonitorName (cl_Name i))), (''namespace'', JStr (cl_Namespace i)),
             (''labels'', JObj [(''app.kubernetes.io/name'', JStr ''claw''), (InstanceLabelKey, lbl)])]),
          (''spec'', JObj
             [(''selector'', JObj [(''matchLabels'', JObj [(''app'', JStr ''claw''), (InstanceLabelKey, lbl)])]),
              (''endpoints'', JArr [JObj [(''port'', JStr ''metrics''), (''interval'', JStr (serviceMonitorInterval i)), (''path'', JStr ''/metrics'')]]),
              (''namespaceSelector'', JObj [(''matchNames'', JArr [JStr (cl_Namespace i)])]),
              (''targetLabels'', JArr [JStr InstanceLabelKey])])])"

definition deleteServiceMonitorIfExists :: "cluster \<Rightarrow> string \<Rightarrow> unit pass" where
  "deleteServiceMonitorIfExists k nm = delete_quietly k ''delete ServiceMonitor'' ''ServiceMonitor'' nm"

definition reconcileServiceMonitor :: "cluster \<Rightarrow> unit pass" where
  "reconcileServiceMonitor k =
     pass_bind get_instance (\<lambda>i.
       if \<not> serviceMonitorEnabled i then deleteServiceMonitorIfExists k (getServiceMonitorName (cl_Name i))
       else case ck_own k i (service_monitor k i) of
         None \<Rightarrow> pass_fail (ApiFailed ''set controller reference on ServiceMonitor'')
       | Some sm \<Rightarrow>
           pass_bind (try_write k (ApplyObject sm)) (\<lambda>refused.
             case refused of
               None \<Rightarrow> pass_return ()
             | Some FetchNoMatch \<Rightarrow> pass_return ()
             | Some _ \<Rightarrow> pass_fail (ApiFailed ''apply ServiceMonitor'')))"

subsection \<open>The proxy's configuration\<close>

definition builtin_passthroughs :: "Claw \<Rightarrow> builtinPassthrough list" where
  "builtin_passthroughs instance =
     fst (filterBuiltinPassthroughs (Option.bind (sp_Network (cl_Spec instance)) net_BuiltinPassthroughs))"

definition applyProxyResources :: "cluster \<Rightarrow> resolvedCredential list \<Rightarrow> string pass" where
  "applyProxyResources k resolvedCreds =
     pass_bind get_instance (\<lambda>i.
       case generateProxyConfig resolvedCreds (sp_McpServers (cl_Spec i)) (sp_WebSearch (cl_Spec i)) (Some (builtin_passthroughs i)) of
         Inl e \<Rightarrow> report_failure k ''ConfigFailed'' [''ProxyConfigured''] (ProxyConfigInvalid e)
       | Inr routes \<Rightarrow>
           let proxyConfigJSON = ck_printJson k (marshal_config routes)
           in pass_bind (pass_catch (applyProxyConfigMap k proxyConfigJSON) (report_failure k ''ConfigFailed'' [''ProxyConfigured''])) (\<lambda>_.
              pass_bind (pass_catch (applyVertexADCConfigMap k resolvedCreds) (report_failure k ''ConfigFailed'' [''ProxyConfigured''])) (\<lambda>_.
              pass_bind (set_condition k ''ProxyConfigured'' ConditionTrue ''Configured'' ''Proxy config generated successfully'') (\<lambda>_.
                pass_return proxyConfigJSON))))"

subsection \<open>Checks before anything is rendered\<close>

definition check_read_only :: "Claw \<Rightarrow> (workspace_error, unit) result" where
  "check_read_only i = (if read_only_paths i = [] then Inr () else validateReadOnlyPaths (read_only_paths i))"

definition validate_instance :: "cluster \<Rightarrow> resolvedCredential list pass" where
  "validate_instance k =
     pass_bind (resolveAndApplyCredentials k) (\<lambda>resolvedCreds.
     pass_bind get_instance (\<lambda>i.
     pass_bind (or_reject k McpSecretsInvalid [''McpServersConfigured''] (validateMcpServerSecrets (ck_userSecret k) i)) (\<lambda>_.
     pass_bind (or_reject k (case_prod McpBypassConflict) [''McpServersConfigured''] (bypass_check i)) (\<lambda>_.
     pass_bind (validateWebSearchConfig k) (\<lambda>_.
     pass_bind (or_reject k RepoSecretInvalid [] (validateRepoAccessSecrets (ck_userSecret k) i)) (\<lambda>_.
     pass_bind (or_reject k PathsInvalid [''RestrictionsEnforced''] (check_read_only i)) (\<lambda>_.
     pass_bind (or_reject k GitSecretInvalid [] (validateGitSecretRef (ck_userSecret k) i)) (\<lambda>_.
     pass_bind (or_reject k SkillsInvalid [] (validateSkills i)) (\<lambda>_.
       pass_return resolvedCreds)))))))))"

subsection \<open>Rendering and annotating\<close>

definition doctor_due :: "bool \<Rightarrow> Claw \<Rightarrow> bool" where
  "doctor_due doctorFixActive i \<longleftrightarrow> doctorFixPending i \<or> doctorFixActive"

definition stamp_edits ::
  "cluster \<Rightarrow> Claw \<Rightarrow> string \<Rightarrow> (string, string) gomap \<Rightarrow> (jobj list \<Rightarrow> jobj list edited) list" where
  "stamp_edits k i proxyConfigJSON personaData =
     (let u = mv_lib (ck_manifests k); sum256 = mv_sum256 (ck_manifests k); version = ck_userVersion k
      in [\<lambda>objs. stampProxyConfigHash u objs i (sum256 proxyConfigJSON),
          \<lambda>objs. stampSecretVersionAnnotation u version objs i,
          \<lambda>objs. stampMcpSecretVersionAnnotation u sum256 version objs i,
          \<lambda>objs. stampRepoAccessSecretVersionAnnotation u sum256 version objs i,
          \<lambda>objs. stampChannelSecretVersionAnnotation u sum256 version objs i,
          \<lambda>objs. stampPersonaConfigHash u sum256 objs i personaData,
          \<lambda>objs. stampGitSecretVersion u version objs i])"

text \<open>The rendered objects and whether a doctor Job is active.\<close>

definition configure ::
  "cluster \<Rightarrow> reconciler_config \<Rightarrow> resolvedCredential list \<Rightarrow> string \<Rightarrow> jobj list \<Rightarrow> string list \<Rightarrow> (string, string) gomap \<Rightarrow>
     (jobj list \<times> bool) pass" where
  "configure k r resolvedCreds proxyConfigJSON objects personaKeys personaData =
     pass_bind get_instance (\<lambda>i1.
     pass_bind (pass_lift EditFailed (configureDeployments (mv_lib (ck_manifests k)) (ck_conditions k) r i1 objects resolvedCreds personaKeys))
       (\<lambda>(configured, i2).
     pass_bind (modify_instance (\<lambda>_. i2)) (\<lambda>_.
     pass_bind (pass_lift id (hasActiveDoctorFix (ck_jobs k))) (\<lambda>doctorFixActive.
     pass_bind (pass_lift EditFailed
        (if doctor_due doctorFixActive i2 then pauseGatewayForDoctorFix (mv_lib (ck_manifests k)) configured i2 else Inr configured)) (\<lambda>paused.
     pass_bind (pass_lift EditFailed (rfold (\<lambda>f. f) (stamp_edits k i2 proxyConfigJSON personaData) paused)) (\<lambda>stamped.
       pass_return (stamped, doctorFixActive)))))))"

definition render :: "cluster \<Rightarrow> reconciler_config \<Rightarrow> resolvedCredential list \<Rightarrow> (jobj list \<times> bool) pass" where
  "render k r resolvedCreds =
     pass_bind (applyProxyResources k resolvedCreds) (\<lambda>proxyConfigJSON.
     pass_bind get_instance (\<lambda>i.
     pass_bind (pass_lift id (buildKustomizedObjects k i)) (\<lambda>objects.
     pass_bind (resolvePersonaRef k) (\<lambda>(personaKeys, personaData).
     pass_bind (restrictions_condition k personaKeys) (\<lambda>_.
       configure k r resolvedCreds proxyConfigJSON objects personaKeys personaData)))))"

subsection \<open>The Route\<close>

text \<open>The host, or \<^term>\<open>None\<close> when the Route has none yet; without the Route's API there is an empty host.\<close>

definition await_route :: "cluster \<Rightarrow> jobj list \<Rightarrow> string option pass" where
  "await_route k objects =
     pass_bind get_instance (\<lambda>i.
     pass_bind (applyRouteByName k objects (getRouteName (cl_Name i))) (\<lambda>applied.
       if applied = 0 then pass_return (Some [])
       else pass_bind (pass_lift id (getRouteURL k (cl_Name i))) (\<lambda>routeHost.
         pass_return (if routeHost = [] then None else Some routeHost))))"

subsection \<open>The rest of the objects and the status\<close>

definition mcp_condition :: "cluster \<Rightarrow> unit pass" where
  "mcp_condition k =
     pass_bind get_instance (\<lambda>i.
       if sp_McpServers (cl_Spec i) \<noteq> []
       then set_condition k ''McpServersConfigured'' ConditionTrue ''Configured'' ''MCP server configuration injected''
       else remove_condition k ''McpServersConfigured'')"

definition remaining_objects :: "unstructured_lib \<Rightarrow> string \<Rightarrow> jobj list \<Rightarrow> jobj list" where
  "remaining_objects u instanceName objects =
     filter (\<lambda>obj. us_GetKind u obj \<noteq> RouteKind \<and>
       \<not> (us_GetKind u obj = ConfigMapKind \<and> us_GetName u obj = getProxyConfigMapName instanceName)) objects"

definition enrich :: "cluster \<Rightarrow> jobj list \<Rightarrow> string \<Rightarrow> resolvedCredential list \<Rightarrow> jobj list pass" where
  "enrich k objects routeHost resolvedCreds =
     pass_bind get_instance (\<lambda>i.
     pass_bind (pass_lift EditFailed (enrichConfigAndNetworkPolicy (ck_manifests k) objects routeHost i resolvedCreds)) (\<lambda>enriched.
     pass_bind (mcp_condition k) (\<lambda>_.
     pass_bind (setMemoryStackCondition k) (\<lambda>_.
       pass_lift id (rmap (own_object k i) (remaining_objects (mv_lib (ck_manifests k)) (cl_Name i) enriched))))))"

definition finish_pass :: "cluster \<Rightarrow> bool \<Rightarrow> jobj list \<Rightarrow> requeue pass" where
  "finish_pass k doctorFixActive objects =
     pass_bind (applyResources k objects) (\<lambda>_.
     pass_bind get_instance (\<lambda>i.
       if doctor_due doctorFixActive i then reconcileDoctorFix k
       else pass_bind (reconcileServiceMonitor k) (\<lambda>_.
            pass_bind (updateStatus k) (\<lambda>_. pass_return NoRequeue))))"

subsection \<open>Reconcile\<close>

definition clear_idle :: "cluster \<Rightarrow> unit pass" where
  "clear_idle k =
     pass_bind get_instance (\<lambda>i.
       if condition_of (ck_conditions k) i ''Idle'' = None then pass_return ()
       else pass_bind (remove_condition k ''Idle'') (\<lambda>_. write_status_or_fail k ''persist Idle condition removal''))"

text \<open>
  Everything up to the check of the password: the credentials, the rendered objects, whether a
  doctor Job is active, and the Route's host if it is known.
\<close>

definition prepare :: "cluster \<Rightarrow> reconciler_config \<Rightarrow> (resolvedCredential list \<times> jobj list \<times> bool \<times> string option) pass" where
  "prepare k r =
     pass_bind (clear_idle k) (\<lambda>_.
     pass_bind (cleanupDevicePairingResources k) (\<lambda>_.
     pass_bind (apply_gateway_secret k) (\<lambda>_.
     pass_bind (validate_instance k) (\<lambda>resolvedCreds.
     pass_bind (render k r resolvedCreds) (\<lambda>(objects, doctorFixActive).
     pass_bind (await_route k objects) (\<lambda>routeHost.
       pass_return (resolvedCreds, objects, doctorFixActive, routeHost)))))))"

definition reconcile_active :: "cluster \<Rightarrow> reconciler_config \<Rightarrow> requeue pass" where
  "reconcile_active k r =
     pass_bind (prepare k r) (\<lambda>(resolvedCreds, objects, doctorFixActive, routeHost).
       case routeHost of
         None \<Rightarrow> pass_return (RequeueAfter 5)
       | Some host \<Rightarrow>
           pass_bind (check_password k) (\<lambda>_.
           pass_bind (enrich k objects host resolvedCreds) (\<lambda>remaining.
             finish_pass k doctorFixActive remaining)))"

definition default_version :: "Claw \<Rightarrow> Claw" where
  "default_version instance =
     (if sp_Version (cl_Spec instance) = [] then instance\<lparr>cl_Spec := (cl_Spec instance)\<lparr>sp_Version := ''2026.6.10''\<rparr>\<rparr> else instance)"

definition Reconcile :: "cluster \<Rightarrow> reconciler_config \<Rightarrow> string \<Rightarrow> string \<Rightarrow> requeue pass" where
  "Reconcile k r nm ns =
     (case ck_claw k nm of
        FetchNotFound \<Rightarrow> pass_bind (record_event (ClearedMetrics nm ns)) (\<lambda>_. pass_return NoRequeue)
      | Fetched stored \<Rightarrow>
          pass_bind (modify_instance (\<lambda>_. default_version stored)) (\<lambda>_.
          pass_bind get_instance (\<lambda>i.
            if rf_DisableUserConfigManagement r \<and> userManagedConfig i then rejectValidation k UserConfigDisabled []
            else if sp_Idle (cl_Spec i) then pass_bind (handleIdle k) (\<lambda>_. pass_return NoRequeue)
            else reconcile_active k r))
      | _ \<Rightarrow> pass_fail (ApiFailed ''get Claw''))"

end
