(* ===== verification/Admission.thy ===== *)
theory Admission
  imports Reconciler
begin

section \<open>What a pass does before an instance is admitted\<close>

text \<open>
  The properties of \<open>Reconcile\<close>. The locale \<open>calm_pass\<close> has the operations of the first half of a pass: they
  change nothing of the instance but its status, write no workload and record no metric. It is
  interpreted twice, once to follow the instance's spec through the checks and once to follow its
  generation through the reports.
\<close>

subsection \<open>Workloads\<close>

text \<open>A workload is anything a pass applies but the Route: Deployments, Jobs, policies, services.\<close>

fun workload :: "unstructured_lib \<Rightarrow> api_write \<Rightarrow> bool" where
  "workload u (ApplyDeployment obj) = True"
| "workload u (CreateJob obj) = True"
| "workload u (ApplyObject obj) = (us_GetKind u obj \<noteq> RouteKind)"
| "workload u (UpdateStatus s) = False"
| "workload u (ScaleToZero nm) = False"
| "workload u (DeleteResource kind nm) = False"
| "workload u (PatchSecret nm data) = False"
| "workload u (PatchConfigMap nm data) = False"

fun harmless :: "unstructured_lib \<Rightarrow> pass_event \<Rightarrow> bool" where
  "harmless u (Wrote w) = (\<not> workload u w)"
| "harmless u (RecordedMetrics i) = False"
| "harmless u (ClearedMetrics nm ns) = True"

definition calm :: "unstructured_lib \<Rightarrow> (Claw \<Rightarrow> bool) \<Rightarrow> pass_state \<Rightarrow> bool" where
  "calm u J st \<longleftrightarrow> J (ps_instance st) \<and> only_events (harmless u) st"

text \<open>Setting the owner of an object leaves its kind alone.\<close>

definition owner_keeps_kind :: "cluster \<Rightarrow> bool" where
  "owner_keeps_kind k \<longleftrightarrow>
     (\<forall>i obj obj'. ck_own k i obj = Some obj' \<longrightarrow> us_GetKind (mv_lib (ck_manifests k)) obj' = us_GetKind (mv_lib (ck_manifests k)) obj)"

lemma pass_bind_Inr: "pass_bind p f st = (Inr y, st'') \<longleftrightarrow> (\<exists>x st'. p st = (Inr x, st') \<and> f x st' = (Inr y, st''))"
  by (auto simp: pass_bind_def split: prod.splits sum.splits)

lemma pass_lift_Inr [simp]: "pass_lift wrap r st = (Inr x, st') \<longleftrightarrow> r = Inr x \<and> st' = st"
  by (auto simp: pass_lift_def split: sum.split)

lemma invariant_lift_bind: "(\<And>x. r = Inr x \<Longrightarrow> pass_invariant I (f x)) \<Longrightarrow> pass_invariant I (pass_bind (pass_lift wrap r) f)"
  by (cases r) (simp_all add: pass_invariant_def pass_bind_def pass_lift_def)

lemma list_all2_in_right: "list_all2 P xs ys \<Longrightarrow> y \<in> set ys \<Longrightarrow> \<exists>x \<in> set xs. P x y"
  by (induction rule: list_all2_induct) auto

lemma invariant_secret:
  "pass_invariant I p \<Longrightarrow> pass_invariant I q \<Longrightarrow> (\<And>d. x = SecretData d \<Longrightarrow> pass_invariant I (f d)) \<Longrightarrow>
     pass_invariant I (case x of SecretNotFound \<Rightarrow> p | SecretReadError \<Rightarrow> q | SecretData d \<Rightarrow> f d)"
  by (cases x) simp_all

context unstructured_laws
begin

lemma kind_with_namespace: "us_GetKind u (with_namespace u ns obj) = us_GetKind u obj"
  by (auto simp: with_namespace_def kind set_frame split: option.split)

end

lemma own_object_kind:
  assumes "unstructured_laws (mv_lib (ck_manifests k))" "owner_keeps_kind k" "own_object k i obj = Inr obj'"
  shows "us_GetKind (mv_lib (ck_manifests k)) obj' = us_GetKind (mv_lib (ck_manifests k)) obj"
  using assms unstructured_laws.kind_with_namespace [OF assms(1)]
  by (auto simp: own_object_def owner_keeps_kind_def split: option.splits)

subsection \<open>Calm operations\<close>

locale calm_pass =
  fixes u :: unstructured_lib and J :: "Claw \<Rightarrow> bool"
  assumes J_status: "J i \<Longrightarrow> J (i\<lparr>cl_Status := s\<rparr>)"
begin

lemma calm_conditions:
  "pass_invariant (calm u J) (set_condition k t s r msg)" "pass_invariant (calm u J) (remove_condition k t)"
  unfolding set_condition_def remove_condition_def
  by (rule invariant_modify; simp add: calm_def only_events_def setCondition_def removeCondition_def with_conditions_def J_status)+

lemma calm_urls: "pass_invariant (calm u J) (modify_instance (set_urls url))"
  by (rule invariant_modify) (simp add: calm_def only_events_def set_urls_def J_status)

lemma calm_try: "\<not> workload u w \<Longrightarrow> pass_invariant (calm u J) (try_write k w)"
  by (rule invariant_try) (simp add: calm_def only_events_def)

lemma calm_write: "\<not> workload u w \<Longrightarrow> pass_invariant (calm u J) (write_or_fail k what w)"
  unfolding write_or_fail_def by (intro invariant_rules calm_try)

lemma calm_status:
  "pass_invariant (calm u J) (write_status_or_fail k what)" "pass_invariant (calm u J) (write_status_quietly k)"
  unfolding write_status_or_fail_def write_status_quietly_def write_status_def
  by (intro invariant_rules calm_try; simp)+

lemmas calm_rules = invariant_rules invariant_secret calm_conditions calm_urls calm_status

lemma calm_failure: "pass_invariant (calm u J) (report_failure k reason ts e)"
  unfolding report_failure_def by (intro calm_rules)

lemma calm_reject: "pass_invariant (calm u J) (rejectValidation k e ts)"
  unfolding rejectValidation_def by (rule calm_failure)

lemma calm_or_reject: "pass_invariant (calm u J) (or_reject k wrap ts r)"
  unfolding or_reject_def by (intro calm_rules calm_reject)

lemma calm_apply: "pass_invariant (calm u J) (apply_secret k what nm data)" "pass_invariant (calm u J) (apply_configmap k what nm data)"
  unfolding apply_secret_def apply_configmap_def by (intro calm_rules calm_write; simp)+

lemma calm_orphan: "pass_invariant (calm u J) (delete_orphan k nm)"
  unfolding delete_orphan_def by (intro calm_rules calm_write) simp

lemma calm_delete: "pass_invariant (calm u J) (delete_quietly k what kind nm)"
  unfolding delete_quietly_def by (intro calm_rules calm_try) simp

lemma calm_cleanup: "pass_invariant (calm u J) (cleanupDevicePairingResources k)"
  unfolding cleanupDevicePairingResources_def by (intro calm_rules calm_delete)

lemma calm_gateway_secret: "pass_invariant (calm u J) (apply_gateway_secret k)"
  unfolding apply_gateway_secret_def by (intro calm_rules calm_apply)

lemma calm_proxy_ca: "pass_invariant (calm u J) (applyProxyCA k)"
  unfolding applyProxyCA_def Let_def by (intro calm_rules calm_apply)

lemma calm_kubeconfig: "pass_invariant (calm u J) (applySanitizedKubeconfig k creds cert)"
  unfolding applySanitizedKubeconfig_def Let_def by (intro calm_rules calm_apply calm_orphan)

lemma calm_apply_credentials: "pass_invariant (calm u J) (apply_credentials k creds)"
  unfolding apply_credentials_def by (intro calm_rules calm_proxy_ca calm_kubeconfig)

lemma calm_proxy_config: "pass_invariant (calm u J) (applyProxyConfigMap k json)" "pass_invariant (calm u J) (applyVertexADCConfigMap k creds)"
  unfolding applyProxyConfigMap_def applyVertexADCConfigMap_def Let_def by (intro calm_rules calm_apply calm_orphan)+

lemma calm_proxy_resources: "pass_invariant (calm u J) (applyProxyResources k creds)"
  unfolding applyProxyResources_def Let_def by (intro calm_rules calm_proxy_config calm_failure)

lemma calm_web_search: "pass_invariant (calm u J) (validateWebSearchConfig k)"
  unfolding validateWebSearchConfig_def by (intro calm_rules calm_reject)

lemma calm_persona: "pass_invariant (calm u J) (resolvePersonaRef k)"
  unfolding resolvePersonaRef_def by (intro calm_rules calm_reject)

lemma calm_restrictions: "pass_invariant (calm u J) (restrictions_condition k keys)"
  unfolding restrictions_condition_def Let_def by (intro calm_rules)

lemma calm_password: "pass_invariant (calm u J) (check_password k)"
  unfolding check_password_def by (intro calm_rules calm_reject)

lemma calm_clear_idle: "pass_invariant (calm u J) (clear_idle k)"
  unfolding clear_idle_def by (intro calm_rules)

lemma calm_get_bind: "(\<And>i. J i \<Longrightarrow> pass_invariant (calm u J) (f i)) \<Longrightarrow> pass_invariant (calm u J) (pass_bind get_instance f)"
  by (auto simp: pass_invariant_def pass_bind_def get_instance_def calm_def)

lemma calm_replace: "J i \<Longrightarrow> pass_invariant (calm u J) (modify_instance (\<lambda>_. i))"
  by (rule invariant_modify) (simp add: calm_def only_events_def)

lemma plugin_condition_J: "J i \<Longrightarrow> J (plugin_condition m i)"
  by (auto simp: plugin_condition_def setCondition_def removeCondition_def with_conditions_def J_status split: option.split)

lemma calm_configure: "pass_invariant (calm u J) (configure k r creds json objects keys data)"
  unfolding configure_def
proof (rule calm_get_bind, rule invariant_lift_bind, rule invariant_prod, intro calm_rules calm_replace)
  fix i x configured i2
  assume "J i" "configureDeployments (mv_lib (ck_manifests k)) (ck_conditions k) r i objects creds keys = Inr x" "x = (configured, i2)"
  then show "J i2" by (auto simp: configureDeployments_def rbind_eq_Inr intro: plugin_condition_J)
qed

lemma calm_render: "pass_invariant (calm u J) (render k r creds)"
  unfolding render_def by (intro calm_rules calm_proxy_resources calm_persona calm_restrictions calm_configure)

lemma calm_routes:
  assumes u: "u = mv_lib (ck_manifests k)" and routes: "\<forall>obj \<in> set objs. us_GetKind u obj = RouteKind"
  shows "pass_invariant (calm u J) (applyResources k objs)"
  using routes
proof (induction objs)
  case (Cons obj objs)
  then have "\<not> workload u (ApplyObject obj)" "us_GetKind (mv_lib (ck_manifests k)) obj \<noteq> DeploymentKind" using u by simp_all
  then have "pass_invariant (calm u J) (apply_object k obj)"
    by (auto simp: apply_object_def intro!: calm_rules invariant_fetched calm_try)
  with Cons show ?case by (auto intro!: calm_rules)
qed (simp add: invariant_return)

lemma calm_await_route:
  assumes u: "u = mv_lib (ck_manifests k)" and laws: "unstructured_laws u" and own: "owner_keeps_kind k"
  shows "pass_invariant (calm u J) (await_route k objects)"
proof -
  have "us_GetKind u obj' = RouteKind"
    if "rmap (own_object k i) (filter (\<lambda>obj. us_GetKind u obj = RouteKind \<and> us_GetName u obj = nm) objects) = Inr objs'" "obj' \<in> set objs'"
    for objs' obj' i nm
  proof -
    from that obtain obj where "us_GetKind u obj = RouteKind" "own_object k i obj = Inr obj'"
      unfolding rmap_Inr_list_all2 by (auto dest!: list_all2_in_right)
    with own_object_kind [OF laws [unfolded u] own] u show ?thesis by simp
  qed
  then have kinds: "\<forall>obj' \<in> set objs'. us_GetKind u obj' = RouteKind"
    if "rmap (own_object k i) (filter (\<lambda>obj. us_GetKind u obj = RouteKind \<and> us_GetName u obj = nm) objects) = Inr objs'" for objs' i nm
    using that by blast
  have routes: "pass_invariant (calm u J) (pass_bind (pass_lift id (rmap (own_object k i) (filter (\<lambda>obj. us_GetKind u obj = RouteKind \<and> us_GetName u obj = nm) objects)))
      (applyResources k))" for i nm
    by (rule invariant_lift_bind, rule calm_routes [OF u], rule kinds)
  have "pass_invariant (calm u J) (applyRouteByName k objects nm)" for nm
    unfolding applyRouteByName_def Let_def u [symmetric]
    by (intro invariant_if invariant_return invariant_fail invariant_bind [OF invariant_get] routes)
  then show ?thesis unfolding await_route_def by (intro calm_rules)
qed

end

locale default_calm = calm_pass +
  assumes J_defaulted: "J i \<Longrightarrow> J (defaulted i)"
begin

lemma calm_defaulted: "pass_invariant (calm u J) (modify_instance defaulted)"
  by (rule invariant_modify) (simp add: calm_def only_events_def J_defaulted)

lemma calm_credentials: "pass_invariant (calm u J) (resolveAndApplyCredentials k)"
  unfolding resolveAndApplyCredentials_def
  by (intro calm_rules calm_defaulted calm_or_reject calm_apply_credentials)

lemma calm_validate: "pass_invariant (calm u J) (validate_instance k)"
  unfolding validate_instance_def by (intro calm_rules calm_credentials calm_or_reject calm_web_search)

lemma calm_prepare:
  assumes "u = mv_lib (ck_manifests k)" "unstructured_laws u" "owner_keeps_kind k"
  shows "pass_invariant (calm u J) (prepare k r)"
  unfolding prepare_def
  by (intro calm_rules calm_clear_idle calm_cleanup calm_gateway_secret calm_validate calm_render calm_await_route [OF assms])

end

interpretation any_claw: default_calm u "\<lambda>_. True" for u
  by unfold_locales simp_all

interpretation generation: default_calm u "\<lambda>i. cl_Generation i = g" for u g
  by unfold_locales (simp_all add: defaulted_def default_check_def with_credentials_def)

interpretation same_spec: calm_pass u "\<lambda>j. \<exists>s. j = i\<lparr>cl_Status := s\<rparr>" for u i
  by unfold_locales auto

subsection \<open>Admission\<close>

text \<open>
  What the code checks, as one predicate of the stored instance: the policy of the operator on
  user-managed configuration, the defaults and the Secrets of the credentials, and
  everything the spec refers to.
\<close>

definition valid_spec :: "cluster \<Rightarrow> Claw \<Rightarrow> bool" where
  "valid_spec k i \<longleftrightarrow>
     is_ok (default_check i) \<and>
     is_ok (resolveCredentials (ck_userSecret k) (ck_kubeconfig k) (defaulted i)) \<and>
     is_ok (validateMcpServerSecrets (ck_userSecret k) (defaulted i)) \<and>
     is_ok (bypass_check (defaulted i)) \<and>
     is_ok (check_web_search (ck_userSecret k) (defaulted i)) \<and>
     is_ok (validateRepoAccessSecrets (ck_userSecret k) (defaulted i)) \<and>
     is_ok (check_read_only (defaulted i)) \<and>
     is_ok (validateGitSecretRef (ck_userSecret k) (defaulted i)) \<and>
     is_ok (validateSkills (defaulted i))"

definition admissible :: "cluster \<Rightarrow> reconciler_config \<Rightarrow> Claw \<Rightarrow> bool" where
  "admissible k r i \<longleftrightarrow>
     \<not> (rf_DisableUserConfigManagement r \<and> userManagedConfig i) \<and> valid_spec k i \<and>
     is_ok (persona_data (ck_userConfigMap k) (defaulted i)) \<and> is_ok (resolveAuthPassword (ck_userSecret k) (defaulted i))"

text \<open>The checks do not read the status.\<close>

lemma status_blind [simp]:
  "defaulted (i\<lparr>cl_Status := s\<rparr>) = (defaulted i)\<lparr>cl_Status := s\<rparr>"
  "default_check (i\<lparr>cl_Status := s\<rparr>) = default_check i"
  "resolveCredentials get load (i\<lparr>cl_Status := s\<rparr>) = resolveCredentials get load i"
  "validateMcpServerSecrets get (i\<lparr>cl_Status := s\<rparr>) = validateMcpServerSecrets get i"
  "bypass_check (i\<lparr>cl_Status := s\<rparr>) = bypass_check i"
  "check_web_search get (i\<lparr>cl_Status := s\<rparr>) = check_web_search get i"
  "validateRepoAccessSecrets get (i\<lparr>cl_Status := s\<rparr>) = validateRepoAccessSecrets get i"
  "check_read_only (i\<lparr>cl_Status := s\<rparr>) = check_read_only i"
  "validateGitSecretRef get (i\<lparr>cl_Status := s\<rparr>) = validateGitSecretRef get i"
  "validateSkills (i\<lparr>cl_Status := s\<rparr>) = validateSkills i"
  "persona_data getcm (i\<lparr>cl_Status := s\<rparr>) = persona_data getcm i"
  "resolveAuthPassword get (i\<lparr>cl_Status := s\<rparr>) = resolveAuthPassword get i"
  by (simp_all add: defaulted_def default_check_def with_credentials_def resolveCredentials_def githubRepoAccessCredentials_def githubRepoAccess_def
      validateMcpServerSecrets_def bypass_check_def validateMcpCredentialRefBypass_def inClusterBypassEnabled_def check_web_search_def
      validateRepoAccessSecrets_def check_read_only_def read_only_paths_def validateGitSecretRef_def git_secret_def validateSkills_def
      persona_data_def persona_ref_def resolveAuthPassword_def password_mode_def cong: option.case_cong)

lemma each_condition:
  "pass_each (\<lambda>t. set_condition k t s r msg) ts st = (Inr (), st\<lparr>ps_instance := fold (\<lambda>t. setCondition (ck_conditions k) t s r msg) ts (ps_instance st)\<rparr>)"
  by (induction ts arbitrary: st) (simp_all add: pass_return_def pass_bind_def set_condition_def modify_instance_def)

definition failed_claw :: "cluster \<Rightarrow> string \<Rightarrow> string list \<Rightarrow> reconcile_error \<Rightarrow> Claw \<Rightarrow> Claw" where
  "failed_claw k reason ts e i =
     setCondition (ck_conditions k) ''Ready'' ConditionFalse reason (ck_text k e)
       (fold (\<lambda>t. setCondition (ck_conditions k) t ConditionFalse reason (ck_text k e)) ts i)"

lemma report_failure_run:
  "report_failure k reason ts e st =
     (Inl e, st\<lparr>ps_instance := failed_claw k reason ts e (ps_instance st),
        ps_trace := ps_trace st @ (if ck_refused k (UpdateStatus (cl_Status (failed_claw k reason ts e (ps_instance st)))) = None
          then [Wrote (UpdateStatus (cl_Status (failed_claw k reason ts e (ps_instance st))))] else [])\<rparr>)"
  unfolding report_failure_def failed_claw_def
  by (simp add: pass_bind_def each_condition write_status_quietly_def write_status_def get_instance_def try_write_def pass_return_def
      pass_fail_def split: option.split)

lemma rejection_fails [simp]: "report_failure k reason ts e st \<noteq> (Inr x, st')" "rejectValidation k e ts st \<noteq> (Inr x, st')"
  by (simp_all add: rejectValidation_def report_failure_run)

lemma or_reject_Inr [simp]: "or_reject k wrap ts r st = (Inr x, st') \<longleftrightarrow> r = Inr x \<and> st' = st"
  by (auto simp: or_reject_def pass_return_def split: sum.split)

lemma validateWebSearchConfig_Inr:
  "validateWebSearchConfig k st = (Inr x, st') \<Longrightarrow> is_ok (check_web_search (ck_userSecret k) (ps_instance st))"
  by (auto simp: validateWebSearchConfig_def pass_bind_Inr get_instance_def split: sum.splits)

lemma resolvePersonaRef_Inr:
  "resolvePersonaRef k st = (Inr x, st') \<Longrightarrow> is_ok (persona_data (ck_userConfigMap k) (ps_instance st))"
  by (auto simp: resolvePersonaRef_def pass_bind_Inr get_instance_def split: sum.splits)

lemma check_password_Inr:
  "check_password k st = (Inr x, st') \<Longrightarrow> is_ok (resolveAuthPassword (ck_userSecret k) (ps_instance st)) \<and> st' = st"
  by (auto simp: check_password_def pass_bind_Inr get_instance_def pass_return_def split: sum.splits)

text \<open>A state in which the instance has the given spec and nothing but harmless events happened.\<close>

definition follows :: "unstructured_lib \<Rightarrow> Claw \<Rightarrow> pass_state \<Rightarrow> bool" where
  "follows u i = calm u (\<lambda>j. \<exists>s. j = i\<lparr>cl_Status := s\<rparr>)"

lemma follows_instance: "follows u i st \<Longrightarrow> \<exists>s. ps_instance st = i\<lparr>cl_Status := s\<rparr>"
  by (simp add: follows_def calm_def)

text \<open>The operations that keep to the spec they follow.\<close>

lemmas follows_rules = same_spec.calm_apply_credentials same_spec.calm_web_search same_spec.calm_persona same_spec.calm_proxy_resources
  same_spec.calm_render same_spec.calm_clear_idle same_spec.calm_cleanup same_spec.calm_gateway_secret same_spec.calm_await_route

lemma follows_kept: "pass_invariant (calm u (\<lambda>j. \<exists>s. j = i\<lparr>cl_Status := s\<rparr>)) p \<Longrightarrow> follows u i st \<Longrightarrow> p st = (x, st') \<Longrightarrow> follows u i st'"
  unfolding follows_def by (rule invariant_result)

lemma resolveAndApplyCredentials_Inr:
  assumes "follows u i st" "resolveAndApplyCredentials k st = (Inr creds, st')"
  shows "is_ok (default_check i) \<and> is_ok (resolveCredentials (ck_userSecret k) (ck_kubeconfig k) (defaulted i)) \<and> follows u (defaulted i) st'"
proof -
  let ?st1 = "st\<lparr>ps_instance := defaulted (ps_instance st)\<rparr>"
  have st1: "follows u (defaulted i) ?st1" using assms(1) by (auto simp: follows_def calm_def only_events_def)
  obtain rs where "default_check (ps_instance st) = Inr ()" "resolveCredentials (ck_userSecret k) (ck_kubeconfig k) (defaulted (ps_instance st)) = Inr rs"
    "apply_credentials k rs ?st1 = (Inr creds, st')"
    using assms(2) by (auto simp: resolveAndApplyCredentials_def pass_bind_Inr get_instance_def modify_instance_def)
  with follows_instance [OF assms(1)] follows_kept [OF follows_rules(1) st1] show ?thesis by (auto simp: is_ok_iff)
qed

lemma validate_instance_Inr:
  assumes "follows u i st" "validate_instance k st = (Inr creds, st')"
  shows "valid_spec k i \<and> follows u (defaulted i) st'"
proof -
  obtain st1 where creds: "resolveAndApplyCredentials k st = (Inr creds, st1)"
    and search: "validateWebSearchConfig k st1 = (Inr (), st')"
    and checks: "validateMcpServerSecrets (ck_userSecret k) (ps_instance st1) = Inr ()" "bypass_check (ps_instance st1) = Inr ()"
      "validateRepoAccessSecrets (ck_userSecret k) (ps_instance st1) = Inr ()" "check_read_only (ps_instance st1) = Inr ()"
      "validateGitSecretRef (ck_userSecret k) (ps_instance st1) = Inr ()" "validateSkills (ps_instance st1) = Inr ()"
    using assms(2) by (auto simp: validate_instance_def pass_bind_Inr get_instance_def pass_return_def)
  note resolved = resolveAndApplyCredentials_Inr [OF assms(1) creds]
  with follows_instance obtain s where "ps_instance st1 = (defaulted i)\<lparr>cl_Status := s\<rparr>" by blast
  with checks resolved validateWebSearchConfig_Inr [OF search] follows_kept [OF follows_rules(2) _ search, of u "defaulted i"] show ?thesis
    by (simp add: valid_spec_def is_ok_iff)
qed

lemma prepare_Inr:
  assumes start: "follows u i st" and run: "prepare k r st = (Inr (creds, objects, active, host), st')"
    and u: "u = mv_lib (ck_manifests k)" "unstructured_laws u" "owner_keeps_kind k"
  shows "valid_spec k i \<and> is_ok (persona_data (ck_userConfigMap k) (defaulted i)) \<and> follows u (defaulted i) st'"
proof -
  obtain st1 st2 st3 st4 st5 where "clear_idle k st = (Inr (), st1)" "cleanupDevicePairingResources k st1 = (Inr (), st2)"
    "apply_gateway_secret k st2 = (Inr (), st3)" and valid: "validate_instance k st3 = (Inr creds, st4)"
    and render: "render k r creds st4 = (Inr (objects, active), st5)" and route: "await_route k objects st5 = (Inr host, st')"
    using run by (auto simp: prepare_def pass_bind_Inr pass_return_def)
  then have "follows u i st3" using start by (meson follows_kept follows_rules)
  note st4 = validate_instance_Inr [OF this valid]
  obtain json st6 where "applyProxyResources k creds st4 = (Inr json, st6)" and persona: "\<exists>x st7. resolvePersonaRef k st6 = (Inr x, st7)"
    using render by (auto simp: render_def pass_bind_Inr get_instance_def)
  then have "follows u (defaulted i) st6" using st4 by (meson follows_kept follows_rules)
  then obtain s where "ps_instance st6 = (defaulted i)\<lparr>cl_Status := s\<rparr>" using follows_instance by blast
  with persona have "is_ok (persona_data (ck_userConfigMap k) (defaulted i))" using resolvePersonaRef_Inr by fastforce
  moreover have "follows u (defaulted i) st'"
    using follows_kept [OF same_spec.calm_await_route [OF u]] route follows_kept [OF follows_rules(5) _ render] st4 by blast
  ultimately show ?thesis using st4 by simp
qed

lemma Reconcile_stored:
  assumes "ck_claw k nm = Fetched stored"
  shows "Reconcile k r nm ns st =
    (let i = default_version stored; st' = st\<lparr>ps_instance := i\<rparr>
     in if rf_DisableUserConfigManagement r \<and> userManagedConfig i then rejectValidation k UserConfigDisabled [] st'
        else if sp_Idle (cl_Spec stored) then pass_bind (handleIdle k) (\<lambda>_. pass_return NoRequeue) st'
        else reconcile_active k r st')"
proof -
  have "sp_Idle (cl_Spec (default_version stored)) = sp_Idle (cl_Spec stored)" by (simp add: default_version_def)
  with assms show ?thesis by (simp add: Reconcile_def pass_bind_def [of "modify_instance _"] pass_bind_def [of get_instance] modify_instance_def get_instance_def Let_def)
qed

text \<open>The ways a pass over an active instance can end before the password was checked.\<close>

lemma reconcile_active_cases:
  assumes "reconcile_active k r st = (res, st')"
  obtains (prepare) e where "prepare k r st = (Inl e, st')" "res = Inl e"
  | (waiting) creds objects act where "prepare k r st = (Inr (creds, objects, act, None), st')" "res = Inr (RequeueAfter 5)"
  | (password) creds objects act host st1 e where "prepare k r st = (Inr (creds, objects, act, Some host), st1)"
      "check_password k st1 = (Inl e, st')" "res = Inl e"
  | (admitted) creds objects act host st1 where "prepare k r st = (Inr (creds, objects, act, Some host), st1)"
      "check_password k st1 = (Inr (), st1)"
      "pass_bind (enrich k objects host creds) (finish_pass k act) st1 = (res, st')"
proof -
  obtain res1 st1 where prep: "prepare k r st = (res1, st1)" by fastforce
  obtain res2 st2 where pw: "check_password k st1 = (res2, st2)" by fastforce
  show thesis
  proof (cases res1)
    case (Inl e)
    with assms prep that(1) show thesis by (auto simp: reconcile_active_def pass_bind_def)
  next
    case (Inr x)
    obtain creds objects act host where x: "x = (creds, objects, act, host)" by (cases x)
    with assms prep Inr have rest: "(case host of None \<Rightarrow> pass_return (RequeueAfter 5) | Some h \<Rightarrow>
        pass_bind (check_password k) (\<lambda>_. pass_bind (enrich k objects h creds) (finish_pass k act))) st1 = (res, st')"
      by (simp add: reconcile_active_def pass_bind_def [of "prepare k r"])
    show thesis
    proof (cases host)
      case None
      with rest prep Inr x that(2) show thesis by (simp add: pass_return_def)
    next
      case (Some h)
      with rest prep Inr x pw that(3,4) show thesis
        by (cases res2) (auto simp: pass_bind_def [of "check_password k"] dest: check_password_Inr)
    qed
  qed
qed

text \<open>
  (C5) An instance that fails a check gets no workload: whatever state the cluster is in, a pass over it
  applies no Deployment, Job, policy, service or other object but the Route, and ends in an error or
  waits for the Route.
\<close>

theorem inadmissible_claw_gets_no_workload:
  assumes lib: "unstructured_laws (mv_lib (ck_manifests k))" "owner_keeps_kind k"
    and stored: "ck_claw k nm = Fetched stored" "\<not> sp_Idle (cl_Spec stored)" and bad: "\<not> admissible k r (default_version stored)"
    and run: "Reconcile k r nm ns \<lparr>ps_instance = i0, ps_trace = []\<rparr> = (res, st)"
  shows "(\<forall>w. workload (mv_lib (ck_manifests k)) w \<longrightarrow> Wrote w \<notin> set (ps_trace st)) \<and> (res = Inr (RequeueAfter 5) \<or> (\<exists>e. res = Inl e))"
proof -
  let ?u = "mv_lib (ck_manifests k)" and ?i = "default_version stored"
  let ?st = "\<lparr>ps_instance = ?i, ps_trace = []\<rparr>"
  have start: "calm ?u (\<lambda>_. True) ?st" "follows ?u ?i ?st"
    by (auto simp: calm_def follows_def only_events_def intro: exI [of _ "cl_Status ?i"])
  note prepare_calm = invariant_result [OF any_claw.calm_prepare [OF refl lib] start(1)]
  have "calm ?u (\<lambda>_. True) st \<and> (res = Inr (RequeueAfter 5) \<or> (\<exists>e. res = Inl e))"
  proof (cases "rf_DisableUserConfigManagement r \<and> userManagedConfig ?i")
    case True
    then have "rejectValidation k UserConfigDisabled [] ?st = (res, st)" using run by (simp add: Reconcile_stored [OF stored(1)])
    with invariant_result [OF any_claw.calm_reject start(1)] show ?thesis by (auto simp: rejectValidation_def report_failure_run)
  next
    case False
    then have "reconcile_active k r ?st = (res, st)" using run stored(2) by (auto simp: Reconcile_stored [OF stored(1)] Let_def split: if_splits)
    then show ?thesis
    proof (cases rule: reconcile_active_cases)
      case (password creds objects act host st1 e)
      with invariant_result [OF any_claw.calm_password prepare_calm] show ?thesis by auto
    next
      case (admitted creds objects act host st1)
      note adm = prepare_Inr [OF start(2) admitted(1) refl lib]
      then obtain s where "ps_instance st1 = (defaulted ?i)\<lparr>cl_Status := s\<rparr>" using follows_instance by blast
      with check_password_Inr [OF admitted(2)] adm bad False show ?thesis by (auto simp: admissible_def)
    qed (use prepare_calm in auto)
  qed
  then show ?thesis by (fastforce simp: calm_def only_events_def)
qed

text \<open>A Claw whose web search provider needs a Secret that does not exist.\<close>

definition search_claw :: Claw where
  "search_claw = status_claw\<lparr>cl_Spec := (cl_Spec status_claw)\<lparr>sp_WebSearch := Some
     \<lparr>ws_Provider = ''brave'', ws_SecretRef = Some \<lparr>sr_Name = ''s'', sr_Key = ''k'', sr_Role = []\<rparr>, ws_Config = None\<rparr>\<rparr>\<rparr>"

definition search_cluster :: cluster where
  "search_cluster = sample_cluster\<lparr>ck_claw := \<lambda>_. Fetched search_claw, ck_certificate := Some (''crt'', ''key'')\<rparr>"

lemma sample_cluster_libraries:
  "unstructured_laws (mv_lib (ck_manifests search_cluster))" "owner_keeps_kind search_cluster" "condition_laws (ck_conditions search_cluster)"
  using tree.unstructured_laws_axioms list_conditions.condition_laws_axioms
  by (simp_all add: search_cluster_def sample_cluster_def sample_env_def owner_keeps_kind_def)

lemma search_claw_rejected: "\<not> admissible search_cluster sample_reconciler (default_version search_claw)"
  by (simp add: admissible_def valid_spec_def check_web_search_def knownSearchProviders_def search_cluster_def sample_cluster_def
      search_claw_def status_claw_def default_version_def defaulted_def with_credentials_def)

theorem inadmissible_claw_gets_no_workload_witness:
  "\<exists>res st. Reconcile search_cluster sample_reconciler ''c'' ''ns'' \<lparr>ps_instance = search_claw, ps_trace = []\<rparr> = (res, st) \<and>
     Wrote (ApplyDeployment []) \<notin> set (ps_trace st)"
proof -
  obtain res st where run: "Reconcile search_cluster sample_reconciler ''c'' ''ns'' \<lparr>ps_instance = search_claw, ps_trace = []\<rparr> = (res, st)"
    by fastforce
  have "ck_claw search_cluster ''c'' = Fetched search_claw" "\<not> sp_Idle (cl_Spec search_claw)"
    by (simp_all add: search_cluster_def search_claw_def status_claw_def empty_ClawSpec_def)
  from inadmissible_claw_gets_no_workload [OF sample_cluster_libraries(1,2) this search_claw_rejected run] run show ?thesis by auto
qed

subsection \<open>Rejections are reported\<close>

text \<open>The errors that say something is wrong with the instance.\<close>

fun rejected :: "reconcile_error \<Rightarrow> bool" where
  "rejected (ApiFailed what) = False"
| "rejected (ProxyConfigInvalid e) = False"
| "rejected (GatewaySecretInvalid e) = False"
| "rejected (KubeconfigInvalid e) = False"
| "rejected (EditFailed e) = False"
| "rejected (DeploymentFailed e) = False"
| "rejected UserConfigDisabled = True"
| "rejected (DefaultsInvalid e) = True"
| "rejected (CredentialsInvalid es) = True"
| "rejected (McpSecretsInvalid es) = True"
| "rejected (McpBypassConflict a b) = True"
| "rejected (SearchRefRequired a) = True"
| "rejected (SearchSecretMissing a) = True"
| "rejected (SearchKeyMissing a b) = True"
| "rejected (SearchCredentialMissing a b) = True"
| "rejected (SearchProviderUnknown a) = True"
| "rejected (RepoSecretInvalid e) = True"
| "rejected (GitSecretInvalid e) = True"
| "rejected (PathsInvalid e) = True"
| "rejected (SkillsInvalid e) = True"
| "rejected (PersonaMissing a) = True"
| "rejected (PersonaUnreadable a) = True"
| "rejected (PersonaEmpty a) = True"
| "rejected (PersonaKeysInvalid e) = True"
| "rejected PasswordRefRequired = True"
| "rejected (PasswordUnreadable a) = True"
| "rejected (PasswordKeyMissing a b) = True"

text \<open>Operations whose errors are never rejections.\<close>

definition quiet :: "'a pass \<Rightarrow> bool" where
  "quiet p \<longleftrightarrow> (\<forall>st e st'. p st = (Inl e, st') \<longrightarrow> \<not> rejected e)"

lemma quiet_basic:
  "quiet (pass_return x)" "quiet get_instance" "quiet (modify_instance f)" "quiet (record_event ev)" "quiet (try_write k w)"
  "quiet (set_condition k t s r msg)" "quiet (remove_condition k t)"
  by (simp_all add: quiet_def pass_return_def get_instance_def modify_instance_def record_event_def try_write_def set_condition_def
      remove_condition_def split: option.split)

lemma quiet_fail: "\<not> rejected e \<Longrightarrow> quiet (pass_fail e)"
  by (simp add: quiet_def pass_fail_def)

lemma quiet_lift: "(\<And>e. r = Inl e \<Longrightarrow> \<not> rejected (wrap e)) \<Longrightarrow> quiet (pass_lift wrap r)"
  by (simp add: quiet_def pass_lift_def split: sum.split)

lemma quiet_bind: "quiet p \<Longrightarrow> (\<And>x. quiet (f x)) \<Longrightarrow> quiet (pass_bind p f)"
  unfolding quiet_def pass_bind_def by (auto split: prod.splits sum.splits)

lemma quiet_catch: "quiet p \<Longrightarrow> (\<And>e. \<not> rejected e \<Longrightarrow> quiet (h e)) \<Longrightarrow> quiet (pass_catch p h)"
  unfolding quiet_def pass_catch_def by (auto split: prod.splits sum.splits) blast

lemma quiet_if: "(b \<Longrightarrow> quiet p) \<Longrightarrow> (\<not> b \<Longrightarrow> quiet q) \<Longrightarrow> quiet (if b then p else q)"
  by simp

lemma quiet_option: "quiet p \<Longrightarrow> (\<And>y. quiet (f y)) \<Longrightarrow> quiet (case x of None \<Rightarrow> p | Some y \<Rightarrow> f y)"
  by (cases x) simp_all

lemma quiet_sum: "(\<And>e. quiet (g e)) \<Longrightarrow> (\<And>y. quiet (f y)) \<Longrightarrow> quiet (case x of Inl e \<Rightarrow> g e | Inr y \<Rightarrow> f y)"
  by (cases x) simp_all

lemma quiet_prod: "(\<And>a b. quiet (f a b)) \<Longrightarrow> quiet (case x of (a, b) \<Rightarrow> f a b)"
  by (cases x) simp_all

lemma quiet_fetched:
  "(\<And>y. quiet (f y)) \<Longrightarrow> quiet p \<Longrightarrow> quiet q \<Longrightarrow> quiet r \<Longrightarrow>
     quiet (case x of Fetched y \<Rightarrow> f y | FetchNotFound \<Rightarrow> p | FetchNoMatch \<Rightarrow> q | FetchFailed \<Rightarrow> r)"
  by (cases x) simp_all

lemma quiet_secret:
  "quiet p \<Longrightarrow> quiet q \<Longrightarrow> (\<And>d. quiet (f d)) \<Longrightarrow> quiet (case x of SecretNotFound \<Rightarrow> p | SecretReadError \<Rightarrow> q | SecretData d \<Rightarrow> f d)"
  by (cases x) simp_all

lemma quiet_each: "(\<And>x. quiet (f x)) \<Longrightarrow> quiet (pass_each f xs)"
  by (induction xs) (auto intro: quiet_basic quiet_bind)

lemma quiet_failure: "\<not> rejected e \<Longrightarrow> quiet (report_failure k reason ts e)"
  by (simp add: quiet_def report_failure_run)

lemmas quiet_rules = quiet_basic quiet_bind quiet_catch quiet_if quiet_option quiet_sum quiet_prod quiet_fetched quiet_secret quiet_each

lemma quiet_writes: "quiet (write_or_fail k what w)" "quiet (write_status_or_fail k what)"
  unfolding write_or_fail_def write_status_or_fail_def write_status_def by (intro quiet_rules quiet_fail; simp)+

text \<open>The pure functions whose errors a pass hands on: all are failures of the API server or of the manifests.\<close>

lemma handed_on:
  "buildKustomizedObjects k i = Inl e \<Longrightarrow> \<not> rejected e"
  "hasActiveDoctorFix listed = Inl e \<Longrightarrow> \<not> rejected e"
  "getRouteURL k nm = Inl e \<Longrightarrow> \<not> rejected e"
  "checkDeploymentsReady k nm = Inl e \<Longrightarrow> \<not> rejected e"
  "status_url k ready i = Inl e \<Longrightarrow> \<not> rejected e"
  "rmap (own_object k i) objs = Inl e \<Longrightarrow> \<not> rejected e"
proof -
  have parse: "\<not> rejected e" if "parseYAMLToObjects yaml src = Inl e" for yaml src
  proof -
    have "\<not> rejected e" if "rmap (\<lambda>doc. case yaml doc of None \<Rightarrow> Inl (ApiFailed ''parse YAML'') | Some obj \<Rightarrow> Inr obj) docs = Inl e" for docs
      using that by (induction docs) (auto simp: rbind_eq_Inl split: option.splits)
    with that show ?thesis by (auto simp: parseYAMLToObjects_def rbind_eq_Inl)
  qed
  then have "\<not> rejected e" if "buildKustomizeFromPath k inst path = Inl e" for inst path
    using that by (auto simp: buildKustomizeFromPath_def split: option.splits)
  moreover have "(case x of Inl a \<Rightarrow> Inl (EditFailed a) | Inr b \<Rightarrow> Inr b) = Inl e \<Longrightarrow> \<not> rejected e" for x :: "jobj list edited"
    by (cases x) auto
  ultimately show "buildKustomizedObjects k i = Inl e \<Longrightarrow> \<not> rejected e"
    unfolding buildKustomizedObjects_def rbind_eq_Inl by blast
  show "hasActiveDoctorFix listed = Inl e \<Longrightarrow> \<not> rejected e"
    by (auto simp: hasActiveDoctorFix_def split: option.splits)
  show route: "getRouteURL k nm = Inl e \<Longrightarrow> \<not> rejected e" for nm
    by (auto simp: getRouteURL_def Let_def split: fetched.splits nested.splits list.splits option.splits if_splits)
  have "\<not> rejected e" if "pending_deployments k nms = Inl e" for nms
    using that by (induction nms) (auto simp: rbind_eq_Inl getDeploymentAvailableStatus_def split: fetched.splits)
  then show "checkDeploymentsReady k nm = Inl e \<Longrightarrow> \<not> rejected e"
    by (auto simp: checkDeploymentsReady_def rbind_eq_Inl simp del: pending_deployments.simps)
  show "status_url k ready i = Inl e \<Longrightarrow> \<not> rejected e"
    using route by (auto simp: status_url_def rbind_eq_Inl split: if_splits)
  show "rmap (own_object k i) objs = Inl e \<Longrightarrow> \<not> rejected e"
    by (induction objs) (auto simp: rbind_eq_Inl own_object_def split: option.splits)
qed

lemma quiet_handed_on:
  "quiet (pass_lift id (buildKustomizedObjects k i))" "quiet (pass_lift id (hasActiveDoctorFix listed))"
  "quiet (pass_lift id (getRouteURL k nm))" "quiet (pass_lift id (checkDeploymentsReady k nm))"
  "quiet (pass_lift id (status_url k ready i))" "quiet (pass_lift id (rmap (own_object k i) objs))"
  "quiet (pass_lift EditFailed er)" "quiet (pass_lift GatewaySecretInvalid gr)" "quiet (pass_lift KubeconfigInvalid kr)"
  by (rule quiet_lift; simp add: handed_on)+

lemmas quiet_steps = quiet_rules quiet_fail quiet_writes quiet_handed_on

lemma quiet_resources: "quiet (applyResources k objs)"
proof (induction objs)
  case (Cons obj objs)
  have "quiet (apply_object k obj)"
    unfolding apply_object_def apply_deployment_def by (intro quiet_steps; simp)
  with Cons show ?case by (auto intro!: quiet_steps)
qed (simp add: quiet_basic)

lemma quiet_prepare:
  "quiet (clear_idle k)" "quiet (cleanupDevicePairingResources k)" "quiet (apply_gateway_secret k)"
  "quiet (apply_credentials k creds)" "quiet (applyProxyResources k creds)" "quiet (restrictions_condition k keys)"
  "quiet (configure k r creds json objects keys data)" "quiet (await_route k objects)"
proof -
  have applied: "quiet (apply_secret k what nm data)" "quiet (apply_configmap k what nm data)" for what nm data
    unfolding apply_secret_def apply_configmap_def by (intro quiet_steps; simp)+
  have orphan: "quiet (delete_orphan k nm)" for nm unfolding delete_orphan_def by (intro quiet_steps)
  show "quiet (clear_idle k)" unfolding clear_idle_def by (intro quiet_steps)
  show "quiet (cleanupDevicePairingResources k)"
    unfolding cleanupDevicePairingResources_def delete_quietly_def by (intro quiet_steps; simp)
  show "quiet (apply_gateway_secret k)" unfolding apply_gateway_secret_def by (intro quiet_steps applied)
  show "quiet (apply_credentials k creds)"
    unfolding apply_credentials_def applyProxyCA_def applySanitizedKubeconfig_def Let_def by (intro quiet_steps applied orphan; simp)
  show "quiet (applyProxyResources k creds)"
    unfolding applyProxyResources_def applyProxyConfigMap_def applyVertexADCConfigMap_def Let_def
    by (intro quiet_steps applied orphan quiet_failure; simp)
  show "quiet (restrictions_condition k keys)" unfolding restrictions_condition_def Let_def by (intro quiet_steps)
  show "quiet (configure k r creds json objects keys data)" unfolding configure_def by (intro quiet_steps)
  show "quiet (await_route k objects)"
    unfolding await_route_def applyRouteByName_def Let_def by (intro quiet_steps quiet_resources; simp)
qed

text \<open>The last thing that happened is a status that reports the instance as invalid at a generation.\<close>

definition reported :: "cluster \<Rightarrow> int \<Rightarrow> pass_state \<Rightarrow> bool" where
  "reported k g st \<longleftrightarrow>
     (\<exists>es. ps_trace st = es @ [Wrote (UpdateStatus (cl_Status (ps_instance st)))]) \<and>
     reports (ck_conditions k) (ps_instance st) ''Ready'' = Some (ConditionFalse, ''ValidationFailed'', g)"

lemma generation_fold [simp]: "cl_Generation (fold (\<lambda>t. setCondition m t s r msg) ts i) = cl_Generation i"
  by (induction ts arbitrary: i) simp_all

definition reporting :: "cluster \<Rightarrow> unstructured_lib \<Rightarrow> int \<Rightarrow> 'a pass \<Rightarrow> bool" where
  "reporting k u g p \<longleftrightarrow> (\<forall>st e st'. calm u (\<lambda>i. cl_Generation i = g) st \<longrightarrow> p st = (Inl e, st') \<longrightarrow> rejected e \<longrightarrow> reported k g st')"

text \<open>A cluster that stores every status, with a condition library that keeps its promises.\<close>

locale storing_cluster =
  fixes k :: cluster and u :: unstructured_lib and g :: int
  assumes conditions: "condition_laws (ck_conditions k)" and stores: "ck_refused k (UpdateStatus s) = None"
    and library: "u = mv_lib (ck_manifests k)" "unstructured_laws u" "owner_keeps_kind k"
begin

lemma reporting_quiet: "quiet p \<Longrightarrow> reporting k u g p"
  by (auto simp: reporting_def quiet_def)

lemma reporting_reject: "reporting k u g (rejectValidation k e ts)"
  by (auto simp: reporting_def rejectValidation_def report_failure_run reported_def stores failed_claw_def calm_def
      condition_laws.reports_set [OF conditions])

lemma reporting_bind:
  "reporting k u g p \<Longrightarrow> pass_invariant (calm u (\<lambda>i. cl_Generation i = g)) p \<Longrightarrow> (\<And>x. reporting k u g (f x)) \<Longrightarrow> reporting k u g (pass_bind p f)"
  unfolding reporting_def by (auto simp: pass_bind_def split: prod.splits sum.splits dest: invariant_result)

lemma reporting_cases:
  "reporting k u g p \<Longrightarrow> reporting k u g q \<Longrightarrow> reporting k u g (if b then p else q)"
  "reporting k u g p \<Longrightarrow> (\<And>y. reporting k u g (f y)) \<Longrightarrow> reporting k u g (case x of None \<Rightarrow> p | Some y \<Rightarrow> f y)"
  "(\<And>e. reporting k u g (h e)) \<Longrightarrow> (\<And>z. reporting k u g (l z)) \<Longrightarrow> reporting k u g (case w of Inl e \<Rightarrow> h e | Inr z \<Rightarrow> l z)"
  "(\<And>a b. reporting k u g (m a b)) \<Longrightarrow> reporting k u g (case v of (a, b) \<Rightarrow> m a b)"
  by (simp_all split: option.split sum.split prod.split)

lemmas reporting_rules = reporting_bind reporting_cases reporting_reject quiet_basic [THEN reporting_quiet]
  invariant_get invariant_lift generation.calm_conditions generation.calm_urls

lemma reporting_or_reject: "reporting k u g (or_reject k wrap ts r)"
  unfolding or_reject_def by (intro reporting_rules)

lemma reporting_checks: "reporting k u g (validateWebSearchConfig k)" "reporting k u g (resolvePersonaRef k)" "reporting k u g (check_password k)"
  unfolding validateWebSearchConfig_def resolvePersonaRef_def check_password_def
  by (intro reporting_rules generation.calm_rules generation.calm_reject)+

lemma reporting_validate: "reporting k u g (validate_instance k)"
proof -
  have "reporting k u g (resolveAndApplyCredentials k)"
    unfolding resolveAndApplyCredentials_def
    by (intro reporting_rules reporting_or_reject generation.calm_or_reject generation.calm_defaulted reporting_quiet [OF quiet_prepare(4)])
  then show ?thesis
    unfolding validate_instance_def
    by (intro reporting_rules reporting_or_reject reporting_checks generation.calm_or_reject generation.calm_web_search generation.calm_credentials)
qed

lemma reporting_prepare: "reporting k u g (prepare k r)"
proof -
  have "reporting k u g (render k r creds)" for creds
    unfolding render_def
    by (intro reporting_rules reporting_checks quiet_prepare [THEN reporting_quiet] quiet_handed_on [THEN reporting_quiet]
        generation.calm_proxy_resources generation.calm_persona generation.calm_restrictions)
  then show ?thesis
    unfolding prepare_def
    by (intro reporting_rules reporting_validate quiet_prepare [THEN reporting_quiet] generation.calm_clear_idle generation.calm_cleanup
        generation.calm_gateway_secret generation.calm_validate generation.calm_render generation.calm_await_route [OF library])
qed

end

interpretation search_cluster: storing_cluster search_cluster "mv_lib (ck_manifests search_cluster)" g for g
  unfolding storing_cluster_def using sample_cluster_libraries by (simp, simp add: search_cluster_def sample_cluster_def)

lemma quiet_finish: "quiet (enrich k objects host creds)" "quiet (finish_pass k act objs)" "quiet (handleIdle k)"
proof -
  have doctor: "quiet (reconcileDoctorFix k)"
    unfolding reconcileDoctorFix_def continue_doctor_fix_def paused_doctor_fix_def start_doctor_job_def doctor_outcome_def Let_def
    by (intro quiet_steps; simp)
  have monitor: "quiet (reconcileServiceMonitor k)"
    unfolding reconcileServiceMonitor_def deleteServiceMonitorIfExists_def delete_quietly_def by (intro quiet_steps; simp)
  have status: "quiet (updateStatus k)" unfolding updateStatus_def record_metrics_def by (intro quiet_steps)
  show "quiet (enrich k objects host creds)"
    unfolding enrich_def mcp_condition_def setMemoryStackCondition_def by (intro quiet_steps)
  show "quiet (finish_pass k act objs)" unfolding finish_pass_def by (intro quiet_steps quiet_resources doctor monitor status)
  show "quiet (handleIdle k)"
    unfolding handleIdle_def scaleDeploymentToZero_def record_metrics_def by (intro quiet_steps; simp)
qed


text \<open>A Claw with user-managed configuration, and an operator that does not allow it.\<close>

definition managed_claw :: Claw where
  "managed_claw = status_claw\<lparr>cl_Spec := (cl_Spec status_claw)\<lparr>sp_Config := Some \<lparr>cfs_Raw = None, cfs_MergeMode = [], cfs_Management = ''user''\<rparr>\<rparr>\<rparr>"

interpretation managed_cluster: storing_cluster "sample_cluster\<lparr>ck_claw := \<lambda>_. Fetched managed_claw\<rparr>" "mv_lib (ck_manifests sample_cluster)" g for g
  unfolding storing_cluster_def using sample_cluster_libraries by (simp add: search_cluster_def sample_cluster_def owner_keeps_kind_def)


subsection \<open>Idle and deleted instances\<close>

text \<open>
  A pass over an idle instance scales Deployments to zero and updates the status, whether it
  completes or not; a pass over a Claw that is gone only clears its metrics.
\<close>

lemma idle_pass_is_confined:
  assumes stored: "ck_claw k nm = Fetched stored" "sp_Idle (cl_Spec stored)"
    and run: "Reconcile k r nm ns \<lparr>ps_instance = i0, ps_trace = []\<rparr> = (res, st)"
  shows "list_all idle_kind (ps_trace st)"
proof -
  let ?st = "\<lparr>ps_instance = default_version stored, ps_trace = []\<rparr>"
  have start: "only_events idle_kind ?st" by (simp add: only_events_def)
  have "pass_invariant (only_events idle_kind) (rejectValidation k UserConfigDisabled [] :: requeue pass)"
    unfolding rejectValidation_def report_failure_def by (intro only_rules) simp_all
  moreover have "pass_invariant (only_events idle_kind) (pass_bind (handleIdle k) (\<lambda>_. pass_return NoRequeue))"
    by (intro invariant_bind invariant_return idle_pass.pass_invariant_axioms)
  ultimately have "only_events idle_kind st"
    using run start by (auto simp: Reconcile_stored [OF stored(1)] stored(2) Let_def split: if_splits dest: invariant_result)
  then show ?thesis by (simp add: only_events_def list_all_iff)
qed

lemma deleted_pass_clears_metrics:
  "ck_claw k nm = FetchNotFound \<Longrightarrow> Reconcile k r nm ns st = (Inr NoRequeue, st\<lparr>ps_trace := ps_trace st @ [ClearedMetrics nm ns]\<rparr>)"
  by (simp add: Reconcile_def pass_bind_def record_event_def pass_return_def)

end
