(* ===== verification/Proxy_Main.thy ===== *)
theory Proxy_Main
  imports Operator_Proxy Proxy_Deployment
begin

section \<open>The proxy binary\<close>

text \<open>
  The start of \<open>src/cmd/proxy/main.go\<close>: the configuration and the CA are read, and the server is built; the
  first failure ends the process with exit code 1. Flags, listening and shutting down are left out.
  The lemmas say what is enough for the server to be built, and that tables of the operator have it.
\<close>

datatype proxy_exit = ConfigRejected load_error | CertUnreadable | KeyUnreadable | ServerRejected server_error

definition proxy_main ::
  "World \<Rightarrow> pki \<Rightarrow> json option option \<Rightarrow> string option \<Rightarrow> string option \<Rightarrow> (proxy_exit, Server) result" where
  "proxy_main w pk configFile certFile keyFile =
     (case LoadConfig configFile of
        Inl e \<Rightarrow> Inl (ConfigRejected e)
      | Inr cfg \<Rightarrow>
          (case certFile of
             None \<Rightarrow> Inl CertUnreadable
           | Some caCert \<Rightarrow>
               (case keyFile of
                  None \<Rightarrow> Inl KeyUnreadable
                | Some caKey \<Rightarrow>
                    (case NewServer w pk cfg caCert caKey of
                       Inl e \<Rightarrow> Inl (ServerRejected e)
                     | Inr srv \<Rightarrow> Inr srv))))"

subsection \<open>When a server is built\<close>

lemma attach_injectors_ok:
  assumes "\<forall>r \<in> set rs. is_ok (NewInjector w r)"
  shows "\<exists>rs' heap'. attach_injectors w rs heap = Inr (rs', heap') \<and> (\<forall>r' \<in> set rs'. \<exists>r \<in> set rs. \<exists>n. r' = r\<lparr>r_injector := n\<rparr>)"
  using assms
proof (induction rs arbitrary: heap)
  case (Cons r rs)
  then obtain ij where ij: "NewInjector w r = Inr ij" by (auto simp: is_ok_iff)
  from Cons obtain rs' heap' where "attach_injectors w rs (heap @ [ij]) = Inr (rs', heap')"
    "\<forall>r' \<in> set rs'. \<exists>r \<in> set rs. \<exists>n. r' = r\<lparr>r_injector := n\<rparr>" by fastforce
  with ij show ?case by (fastforce simp: rbind_def)
qed simp

lemma register_gateways_ok:
  assumes "\<forall>r \<in> set rs. r_Upstream r = [] \<or> UrlParse (r_Upstream r) \<noteq> None"
  shows "is_ok (rfold register_gateway rs gws)"
  using assms
proof (induction rs arbitrary: gws)
  case (Cons r rs)
  then have "is_ok (register_gateway r gws)" by (auto simp: register_gateway_def split: option.split)
  then obtain gws' where "register_gateway r gws = Inr gws'" by (auto simp: is_ok_iff)
  with Cons show ?case by simp
qed (simp add: is_ok_iff)

lemma NewServer_ok:
  assumes "is_ok (parseCA pk cert key)" "\<forall>r \<in> set routes. is_ok (NewInjector w r)"
    "\<forall>r \<in> set routes. r_Upstream r = [] \<or> UrlParse (r_Upstream r) \<noteq> None"
  shows "is_ok (NewServer w pk \<lparr>Routes = routes\<rparr> cert key)"
proof -
  obtain rs heap where a: "attach_injectors w routes [] = Inr (rs, heap)" "\<forall>r' \<in> set rs. \<exists>r \<in> set routes. \<exists>n. r' = r\<lparr>r_injector := n\<rparr>"
    using attach_injectors_ok [OF assms(2)] by blast
  then have "is_ok (rfold register_gateway rs [])" using assms(3) by (intro register_gateways_ok) fastforce
  with a(1) assms(1) show ?thesis by (auto simp: NewServer_def is_ok_iff)
qed

lemma attached_routes:
  "attach_injectors w rs heap = Inr (rs', heap') \<Longrightarrow> map (\<lambda>r. r\<lparr>r_injector := None\<rparr>) rs' = map (\<lambda>r. r\<lparr>r_injector := None\<rparr>) rs"
  by (induction rs arbitrary: heap rs' heap') (auto simp: rbind_eq_Inr split: sum.splits)

lemma NewServer_routes:
  "NewServer w pk cfg cert key = Inr srv \<Longrightarrow> map (\<lambda>r. r\<lparr>r_injector := None\<rparr>) (Routes (srv_cfg srv)) = map (\<lambda>r. r\<lparr>r_injector := None\<rparr>) (Routes cfg)"
  by (auto simp: NewServer_def rbind_eq_Inr dest: attached_routes)

subsection \<open>Headers and upstreams of generated routes\<close>

lemma buildCredentialRoute_frame:
  "pr_DefaultHeaders (buildCredentialRoute c) = cs_DefaultHeaders c" "pr_Upstream (buildCredentialRoute c) = []"
  by (auto simp: buildCredentialRoute_def empty_proxyRoute_def Let_def split: option.split)

lemma webSearchRoute_frame: "webSearchRoute ws = Some r \<Longrightarrow> pr_DefaultHeaders r = [] \<and> pr_Upstream r = []"
  by (auto simp: webSearchRoute_def empty_proxyRoute_def Let_def split: option.splits if_splits)

lemma routes_of_frame:
  assumes "r \<in> set (routes_of rc)"
  shows "pr_DefaultHeaders r \<in> {[], cs_DefaultHeaders (rc_Spec rc)} \<and> pr_Upstream r \<in> {[], pi_Upstream (resolveProviderInfo (rc_Spec rc))}"
  using assms
  by (auto simp: routes_of_def credential_route_def kube_route_def generateCompanionRoutes_def buildCredentialRoute_frame
      empty_proxyRoute_def Let_def split: option.splits if_splits)

lemma generated_route_frame:
  assumes "generateProxyConfig creds mcps ws builtins = Inr routes" "r \<in> set routes"
  shows "(pr_DefaultHeaders r = [] \<or> (\<exists>rc \<in> set creds. pr_DefaultHeaders r = cs_DefaultHeaders (rc_Spec rc))) \<and>
    (pr_Upstream r = [] \<or> (\<exists>rc \<in> set creds. pr_Upstream r = pi_Upstream (resolveProviderInfo (rc_Spec rc))))"
  using assms
proof (cases rule: route_reads_cases)
  case plain
  then show ?thesis by (simp add: plain_route_def)
next
  case search
  with webSearchRoute_frame show ?thesis by blast
next
  case (mcp rc)
  then obtain d where "r = (buildCredentialRoute (rc_Spec rc))\<lparr>pr_Domain := d, pr_AllowedPaths := [], pr_DefaultHeaders := []\<rparr>" by blast
  then show ?thesis by (simp add: buildCredentialRoute_frame)
next
  case (credential rc)
  with routes_of_frame [OF credential(2)] show ?thesis by auto
qed

end
