(* ===== verification/Schema.thy ===== *)
theory Schema
  imports Operator_Proxy Validation
begin

section \<open>The resource schema\<close>

text \<open>
  The validation markers of \<open>src/api/v1alpha1/claw_types.go\<close>: lengths, enumerations, patterns and the CEL
  rules. The API server checks them before the operator sees a Claw, on the submitted document, where
  \<open>has(self.x)\<close> asks whether a key is there. The decoded Go value does not show a key whose value is empty,
  so the predicates take the list of keys besides the value; a value that is not empty comes from a
  key that is there. Values the server fills in are in the decoded value.

  The property is that of a type system. A Claw that satisfies the schema does not run into the checks of the
  operator that repeat it, and what defaulting makes of its credentials has the shape on which the
  proxy's injectors rely.
\<close>

subsection \<open>Values\<close>

definition min_length :: "string \<Rightarrow> bool" where
  "min_length s \<longleftrightarrow> s \<noteq> []"

text \<open>Lengths count characters: in UTF-8, bytes that do not continue one.\<close>

definition character_count :: "string \<Rightarrow> nat" where
  "character_count s = length (filter (\<lambda>c. \<not> (128 \<le> byte_of c \<and> byte_of c < 192)) s)"

definition one_of :: "string list \<Rightarrow> string \<Rightarrow> bool" where
  "one_of vs s \<longleftrightarrow> s \<in> set vs"

text \<open>An optional field of an enumeration: a value that is empty was not submitted.\<close>

definition enum_or_absent :: "string list \<Rightarrow> string \<Rightarrow> bool" where
  "enum_or_absent vs s \<longleftrightarrow> s = [] \<or> one_of vs s"

definition word_pattern :: "(char \<Rightarrow> bool) \<Rightarrow> (char \<Rightarrow> bool) \<Rightarrow> string \<Rightarrow> bool" where
  "word_pattern first rest s \<longleftrightarrow> (case s of [] \<Rightarrow> False | c # cs \<Rightarrow> first c \<and> list_all rest cs)"

definition credential_types :: "string list" where
  "credential_types = [CredentialTypeAPIKey, CredentialTypeBearer, CredentialTypeBasic, CredentialTypeGCP,
     CredentialTypePathToken, CredentialTypeOAuth2, CredentialTypeNone, CredentialTypeKubernetes]"

subsection \<open>Credentials\<close>

definition schema_secret_ref :: "SecretRefEntry \<Rightarrow> bool" where
  "schema_secret_ref r \<longleftrightarrow> min_length (sr_Name r) \<and> min_length (sr_Key r) \<and> character_count (sr_Role r) \<le> 63"

definition schema_api_key :: "APIKeyConfig \<Rightarrow> bool" where
  "schema_api_key a \<longleftrightarrow> min_length (apk_Header a)"

definition schema_basic :: "BasicAuthConfig \<Rightarrow> bool" where
  "schema_basic b \<longleftrightarrow> min_length (bac_Username b)"

definition schema_gcp :: "GCPConfig \<Rightarrow> bool" where
  "schema_gcp g \<longleftrightarrow> min_length (gcp_Project g) \<and> min_length (gcp_Location g)"

definition schema_path_token :: "PathTokenConfig \<Rightarrow> bool" where
  "schema_path_token p \<longleftrightarrow> min_length (ptc_Prefix p)"

definition schema_oauth2 :: "OAuth2Config \<Rightarrow> bool" where
  "schema_oauth2 a \<longleftrightarrow> min_length (oac_ClientID a) \<and> min_length (oac_TokenURL a)"

definition inferred_providers :: "string list" where
  "inferred_providers = [''google'', ''anthropic'', ''openai'', ''xai'', ''openrouter'']"

text \<open>The eight rules, in their order; \<open>has\<close> is membership in the keys.\<close>

definition credential_rules :: "string list \<Rightarrow> CredentialSpec \<Rightarrow> bool list" where
  "credential_rules keys c =
     (let has = (\<lambda>key. key \<in> set keys); tp = cs_Type c; pv = cs_Provider c
      in [has ''type'' \<or> has ''channel'' \<or> has ''provider'' \<and> one_of inferred_providers pv,
          \<not> has ''provider'' \<or> \<not> has ''channel'',
          has ''channel'' \<or> has ''type'' \<and> tp = CredentialTypeNone \<or> has ''secretRef'',
          \<not> has ''type'' \<or> tp \<noteq> CredentialTypeAPIKey \<or> has ''apiKey'' \<or>
            has ''provider'' \<and> one_of [''google'', ''anthropic''] pv \<or> has ''channel'',
          \<not> has ''type'' \<or> tp \<noteq> CredentialTypeBasic \<or> has ''basic'',
          \<not> has ''type'' \<or> tp \<noteq> CredentialTypeGCP \<or> has ''gcp'' \<or> has ''channel'',
          \<not> has ''type'' \<or> tp \<noteq> CredentialTypePathToken \<or> has ''pathToken'' \<or> has ''channel'',
          \<not> has ''type'' \<or> tp \<noteq> CredentialTypeOAuth2 \<or> has ''oauth2'' \<or> has ''channel''])"

text \<open>What decoding guarantees: a value that is not empty has its key, and an object that has its key is there.\<close>

definition decoded_credential :: "string list \<Rightarrow> CredentialSpec \<Rightarrow> bool" where
  "decoded_credential keys c \<longleftrightarrow>
     (cs_Type c \<noteq> [] \<longrightarrow> ''type'' \<in> set keys) \<and> (cs_Provider c \<noteq> [] \<longrightarrow> ''provider'' \<in> set keys) \<and>
     (cs_Channel c \<noteq> [] \<longrightarrow> ''channel'' \<in> set keys) \<and> (cs_SecretRef c \<noteq> [] \<longrightarrow> ''secretRef'' \<in> set keys) \<and>
     (cs_APIKey c \<noteq> None \<longleftrightarrow> ''apiKey'' \<in> set keys) \<and> (cs_Basic c \<noteq> None \<longleftrightarrow> ''basic'' \<in> set keys) \<and>
     (cs_GCP c \<noteq> None \<longleftrightarrow> ''gcp'' \<in> set keys) \<and> (cs_PathToken c \<noteq> None \<longleftrightarrow> ''pathToken'' \<in> set keys) \<and>
     (cs_OAuth2 c \<noteq> None \<longleftrightarrow> ''oauth2'' \<in> set keys)"

definition schema_credential :: "string list \<Rightarrow> CredentialSpec \<Rightarrow> bool" where
  "schema_credential keys c \<longleftrightarrow>
     min_length (cs_Name c) \<and> (''type'' \<in> set keys \<longrightarrow> one_of credential_types (cs_Type c)) \<and>
     list_all schema_secret_ref (cs_SecretRef c) \<and>
     pred_option schema_api_key (cs_APIKey c) \<and> pred_option schema_basic (cs_Basic c) \<and> pred_option schema_gcp (cs_GCP c) \<and>
     pred_option schema_path_token (cs_PathToken c) \<and> pred_option schema_oauth2 (cs_OAuth2 c) \<and>
     list_all id (credential_rules keys c)"

subsection \<open>MCP servers, search and authentication\<close>

definition schema_env_from :: "McpEnvFromSecret \<Rightarrow> bool" where
  "schema_env_from ef \<longleftrightarrow> min_length (ef_Name ef) \<and> schema_secret_ref (ef_SecretRef ef)"

definition schema_mcp_server :: "string list \<Rightarrow> McpServerSpec \<Rightarrow> bool" where
  "schema_mcp_server keys m \<longleftrightarrow>
     (let has = (\<lambda>key. key \<in> set keys)
      in (has ''transport'' \<longrightarrow> one_of [''streamable-http'', ''sse''] (mcp_Transport m)) \<and>
         list_all schema_env_from (mcp_EnvFrom m) \<and>
         (has ''command'' \<or> has ''url'') \<and> (\<not> has ''command'' \<or> \<not> has ''url'') \<and>
         (\<not> has ''url'' \<or> \<not> has ''envFrom'' \<or> mcp_EnvFrom m = []) \<and>
         (\<not> has ''transport'' \<or> has ''url'') \<and> (\<not> has ''credentialRef'' \<or> has ''url''))"

definition decoded_mcp_server :: "string list \<Rightarrow> McpServerSpec \<Rightarrow> bool" where
  "decoded_mcp_server keys m \<longleftrightarrow>
     (mcp_Command m \<noteq> [] \<longrightarrow> ''command'' \<in> set keys) \<and> (mcp_URL m \<noteq> [] \<longrightarrow> ''url'' \<in> set keys) \<and>
     (mcp_Transport m \<noteq> [] \<longrightarrow> ''transport'' \<in> set keys) \<and> (mcp_EnvFrom m \<noteq> [] \<longrightarrow> ''envFrom'' \<in> set keys) \<and>
     (mcp_CredentialRef m \<noteq> [] \<longrightarrow> ''credentialRef'' \<in> set keys)"

definition schema_web_search :: "WebSearchSpec \<Rightarrow> bool" where
  "schema_web_search ws \<longleftrightarrow> min_length (ws_Provider ws) \<and> pred_option schema_secret_ref (ws_SecretRef ws) \<and>
     (one_of [''duckduckgo'', ''gemini''] (ws_Provider ws) \<or> ws_SecretRef ws \<noteq> None)"

definition schema_auth :: "AuthSpec \<Rightarrow> bool" where
  "schema_auth au \<longleftrightarrow> enum_or_absent [''token'', ''password''] (au_Mode au) \<and> pred_option schema_secret_ref (au_PasswordSecretRef au) \<and>
     (au_Mode au \<noteq> ''password'' \<or> au_PasswordSecretRef au \<noteq> None)"

subsection \<open>The other parts of a spec\<close>

definition schema_config :: "ConfigSpec \<Rightarrow> bool" where
  "schema_config cf \<longleftrightarrow> enum_or_absent [''merge'', ''overwrite''] (cfs_MergeMode cf) \<and> enum_or_absent [''operator'', ''user''] (cfs_Management cf)"

definition schema_agent_files :: "AgentFilesSpec \<Rightarrow> bool" where
  "schema_agent_files af \<longleftrightarrow>
     enum_or_absent [''IfMissing'', ''Always''] (af_ApplyPolicy af) \<and>
     pred_option (\<lambda>cm. min_length (afc_Name cm)) (af_ConfigMapRef af) \<and>
     pred_option (\<lambda>g. HasPrefix (afg_URL g) ''https://'' \<and> pred_option (\<lambda>r. min_length (gsr_Name r)) (afg_SecretRef g)) (af_Git af) \<and>
     (af_ConfigMapRef af \<noteq> None \<or> af_Git af \<noteq> None) \<and> \<not> (af_ConfigMapRef af \<noteq> None \<and> af_Git af \<noteq> None)"

definition schema_wiki :: "WikiSpec \<Rightarrow> bool" where
  "schema_wiki wk \<longleftrightarrow> enum_or_absent [''bridge'', ''isolated''] (wk_Mode wk)"

definition schema_metrics :: "MetricsSpec \<Rightarrow> bool" where
  "schema_metrics me \<longleftrightarrow> pred_option (\<lambda>n. 1 \<le> n \<and> n \<le> 65535) (me_Port me)"

definition schema_custom_provider :: "CustomProviderSpec \<Rightarrow> bool" where
  "schema_custom_provider cp \<longleftrightarrow>
     word_pattern is_lower_byte (\<lambda>c. is_lower_byte c \<or> is_digit_byte c \<or> c = CHR ''-'') (cp_Name cp) \<and>
     (HasPrefix (cp_BaseUrl cp) ''http://'' \<or> HasPrefix (cp_BaseUrl cp) ''https://'') \<and>
     enum_or_absent [''openai-completions'', ''openai-responses'', ''anthropic-messages'', ''ollama''] (cp_API cp) \<and>
     min_length (cp_CredentialRef cp) \<and> cp_Models cp \<noteq> [] \<and> list_all (\<lambda>mo. min_length (cm_Name mo)) (cp_Models cp)"

definition schema_skill_image :: "SkillImageSpec \<Rightarrow> bool" where
  "schema_skill_image si \<longleftrightarrow>
     word_pattern (\<lambda>c. is_lower_byte c \<or> is_upper_byte c \<or> is_digit_byte c)
       (\<lambda>c. is_lower_byte c \<or> is_upper_byte c \<or> is_digit_byte c \<or> c \<in> set ''._-'') (si_Name si) \<and>
     min_length (si_Image si) \<and> enum_or_absent [''Always'', ''IfNotPresent'', ''Never''] (si_PullPolicy si) \<and> distinct (si_ImagePullSecrets si)"

definition schema_version :: "string \<Rightarrow> bool" where
  "schema_version v \<longleftrightarrow> v = [] \<or> word_pattern (\<lambda>c. is_lower_byte c \<or> is_digit_byte c) (\<lambda>c. is_lower_byte c \<or> is_digit_byte c \<or> c \<in> set ''._-'') v"

text \<open>The sampling ratio is \<open>0\<close> or \<open>1\<close>, or one of them followed by a dot and digits, which after \<open>1\<close> are zeros.\<close>

definition fraction :: "(char \<Rightarrow> bool) \<Rightarrow> string \<Rightarrow> bool" where
  "fraction digit s \<longleftrightarrow> s = [] \<or> (hd s = CHR ''.'' \<and> tl s \<noteq> [] \<and> list_all digit (tl s))"

definition schema_ratio :: "string \<Rightarrow> bool" where
  "schema_ratio s \<longleftrightarrow> s \<noteq> [] \<and>
     (hd s = CHR ''0'' \<and> fraction is_digit_byte (tl s) \<or> hd s = CHR ''1'' \<and> fraction (\<lambda>c. c = CHR ''0'') (tl s))"

definition schema_traces :: "TracesSpec \<Rightarrow> bool" where
  "schema_traces t \<longleftrightarrow> tr_SamplingRatio t = [] \<or> schema_ratio (tr_SamplingRatio t)"

text \<open>The keys of every credential and of every MCP server of a submitted Claw.\<close>

record submitted_keys =
  sk_credentials :: "string list list"
  sk_server :: "string \<Rightarrow> string list"

definition schema_claw :: "submitted_keys \<Rightarrow> ClawSpec \<Rightarrow> bool" where
  "schema_claw p sp \<longleftrightarrow>
     list_all2 (\<lambda>keys c. schema_credential keys c \<and> decoded_credential keys c) (sk_credentials p) (sp_Credentials sp) \<and>
     list_all (\<lambda>(nm, m). schema_mcp_server (sk_server p nm) m \<and> decoded_mcp_server (sk_server p nm) m) (sp_McpServers sp) \<and>
     pred_option schema_web_search (sp_WebSearch sp) \<and> pred_option schema_auth (sp_Auth sp) \<and> pred_option schema_config (sp_Config sp) \<and>
     pred_option schema_agent_files (sp_AgentFiles sp) \<and> pred_option (\<lambda>me. pred_option schema_wiki (mem_Wiki me)) (sp_Memory sp) \<and>
     pred_option schema_metrics (sp_Metrics sp) \<and> pred_option schema_traces (sp_Traces sp) \<and>
     list_all schema_custom_provider (sp_CustomProviders sp) \<and> distinct (map cp_Name (sp_CustomProviders sp)) \<and>
     pred_option (\<lambda>s. list_all schema_skill_image (sk_Images s) \<and> distinct (map si_Name (sk_Images s)) \<and> list_all (\<lambda>r. min_length (scm_Name r)) (sk_ConfigMaps s)) (sp_Skills sp) \<and>
     pred_option (\<lambda>ra. pred_option (\<lambda>gh. schema_secret_ref (gh_SecretRef gh)) (ra_GitHub ra)) (sp_RepoAccess sp) \<and>
     pred_option (\<lambda>rs. pred_option (\<lambda>pr. min_length (per_Name pr)) (rs_PersonaRef rs)) (sp_Restrictions sp) \<and>
     schema_version (sp_Version sp)"

subsection \<open>Defaults of a valid credential\<close>

lemma one_of_simps [simp]: "one_of [] s \<longleftrightarrow> False" "one_of (v # vs) s \<longleftrightarrow> s = v \<or> one_of vs s"
  by (auto simp: one_of_def)

lemma provider_table_types:
  "list_all (\<lambda>(p, d). pd_CredType d \<in> {[], CredentialTypeAPIKey, CredentialTypeBearer} \<and>
      (pd_CredType d = CredentialTypeAPIKey \<longrightarrow> pd_Header d \<noteq> [] \<and> pd_Domain d \<noteq> [])) knownProviders"
  by code_simp

lemma provider_defaults_types:
  "pd_CredType (provider_defaults p) \<in> {[], CredentialTypeAPIKey, CredentialTypeBearer} \<and>
    (pd_CredType (provider_defaults p) = CredentialTypeAPIKey \<longrightarrow>
       pd_Header (provider_defaults p) \<noteq> [] \<and> pd_Domain (provider_defaults p) \<noteq> [])"
  using provider_table_types
  by (auto simp: provider_defaults_def no_defaults_def list_all_iff split: option.splits dest!: map_of_SomeD)

lemma inferred_provider_types:
  "one_of inferred_providers p \<Longrightarrow> canonicalProviderID p = p \<and> pd_CredType (provider_defaults p) \<noteq> []"
  by (auto simp: one_of_def inferred_providers_def canonicalProviderID_def provider_defaults_def knownProviders_def no_defaults_def)

lemma apikey_provider_types:
  "one_of [''google'', ''anthropic''] p \<Longrightarrow> canonicalProviderID p = p \<and> pd_Header (provider_defaults p) \<noteq> [] \<and> pd_Domain (provider_defaults p) \<noteq> []"
  by (auto simp: one_of_def canonicalProviderID_def provider_defaults_def knownProviders_def no_defaults_def)

lemma channel_table_types:
  "list_all (\<lambda>(ch, d). cd_Type d \<in> set credential_types \<and> pred_option schema_api_key (cd_APIKey d) \<and>
      pred_option schema_path_token (cd_PathToken d)) knownChannels"
  by (simp add: knownChannels_def credential_types_def schema_api_key_def schema_path_token_def min_length_def)

lemma channel_defaults_types:
  "map_of knownChannels ch = Some d \<Longrightarrow>
     cd_Type d \<in> set credential_types \<and> pred_option schema_api_key (cd_APIKey d) \<and> pred_option schema_path_token (cd_PathToken d)"
  using channel_table_types by (auto simp only: list_all_iff dest!: map_of_SomeD bspec)

lemmas schema_objects =
  schema_api_key_def schema_basic_def schema_gcp_def schema_path_token_def schema_oauth2_def min_length_def

lemma admitted_iff:
  "admitted c \<longleftrightarrow> one_of credential_types (cs_Type c) \<and> pred_option schema_api_key (cs_APIKey c) \<and>
     pred_option schema_basic (cs_Basic c) \<and> pred_option schema_path_token (cs_PathToken c) \<and> pred_option schema_oauth2 (cs_OAuth2 c)"
  by (auto simp: admitted_def one_of_def credential_types_def schema_objects split: option.splits)

text \<open>A credential without a channel: the type is known, and only the domain may be missing.\<close>

lemma schema_provider_typed:
  assumes "schema_credential keys c" "decoded_credential keys c" "''channel'' \<notin> set keys"
  shows "infer_type (c\<lparr>cs_Provider := canonicalProviderID (cs_Provider c)\<rparr>) =
    Inr (c\<lparr>cs_Provider := canonicalProviderID (cs_Provider c),
       cs_Type := (if cs_Type c \<noteq> [] then cs_Type c else pd_CredType (provider_defaults (canonicalProviderID (cs_Provider c))))\<rparr>)"
proof (cases "cs_Type c = []")
  case True
  with assms have "one_of inferred_providers (cs_Provider c)"
    by (auto simp: schema_credential_def credential_rules_def credential_types_def Let_def)
  from inferred_provider_types [OF this] True show ?thesis by (simp add: infer_type_def)
qed (simp add: infer_type_def)

lemma schema_provider_error:
  assumes "schema_credential keys c" "decoded_credential keys c" "''channel'' \<notin> set keys"
    "resolveProviderDefaults c = Inl e"
  shows "\<exists>pv t. e = DomainRequired (cs_Name c) pv t"
proof -
  let ?pv = "canonicalProviderID (cs_Provider c)"
  define c1 where "c1 = c\<lparr>cs_Provider := ?pv,
    cs_Type := (if cs_Type c \<noteq> [] then cs_Type c else pd_CredType (provider_defaults ?pv))\<rparr>"
  have "cs_APIKey (default_fields c1) \<noteq> None" if "cs_Type c1 = CredentialTypeAPIKey"
  proof -
    have t: "cs_APIKey c \<noteq> None \<or> pd_Header (provider_defaults ?pv) \<noteq> [] \<and> pd_Domain (provider_defaults ?pv) \<noteq> []"
    proof (cases "cs_Type c = []")
      case True
      with that provider_defaults_types [of ?pv] show ?thesis by (simp add: c1_def)
    next
      case False
      with that assms(1-3) have "cs_APIKey c \<noteq> None \<or> one_of [''google'', ''anthropic''] (cs_Provider c)"
        by (simp add: c1_def schema_credential_def credential_rules_def decoded_credential_def Let_def) blast
      then show ?thesis using apikey_provider_types by auto
    qed
    with that show ?thesis by (auto simp: c1_def default_fields_def default_domain_def default_header_def Let_def)
  qed
  moreover have "check_fields (default_fields c1) = Inl e"
    using assms(4) schema_provider_typed [OF assms(1-3)] by (simp add: resolveProviderDefaults_def c1_def)
  moreover have "cs_Name (default_fields c1) = cs_Name c"
    by (simp add: c1_def default_fields_def default_domain_def default_header_def Let_def)
  ultimately show ?thesis by (auto simp: check_fields_def split: if_splits)
qed

lemma default_fields_api_key:
  "pred_option schema_api_key (cs_APIKey c) \<Longrightarrow> pred_option schema_api_key (cs_APIKey (default_fields c))"
  by (simp add: default_fields_def default_domain_def default_header_def Let_def schema_api_key_def min_length_def)

lemma default_fields_rest [simp]:
  "cs_Basic (default_fields c) = cs_Basic c" "cs_GCP (default_fields c) = cs_GCP c"
  "cs_PathToken (default_fields c) = cs_PathToken c" "cs_OAuth2 (default_fields c) = cs_OAuth2 c"
  by (simp_all add: default_fields_def default_domain_def default_header_def Let_def)

lemma schema_provider_admitted:
  assumes c: "schema_credential keys c" "decoded_credential keys c" "''channel'' \<notin> set keys"
    and r: "resolveProviderDefaults c = Inr c'"
  shows "admitted c' \<and> validateCredentialTypeConfig c' = None"
proof -
  let ?pv = "canonicalProviderID (cs_Provider c)"
  define t where "t = (if cs_Type c \<noteq> [] then cs_Type c else pd_CredType (provider_defaults ?pv))"
  have c': "c' = default_fields (c\<lparr>cs_Provider := ?pv, cs_Type := t\<rparr>)"
    and k: "t = CredentialTypeAPIKey \<Longrightarrow> cs_APIKey c' \<noteq> None"
    using r schema_provider_typed [OF c] by (auto simp: resolveProviderDefaults_def t_def check_fields_Inr)
  have sc: "pred_option schema_api_key (cs_APIKey c)" "pred_option schema_basic (cs_Basic c)" "pred_option schema_path_token (cs_PathToken c)"
    "pred_option schema_oauth2 (cs_OAuth2 c)" "list_all id (credential_rules keys c)" "''type'' \<in> set keys \<Longrightarrow> one_of credential_types (cs_Type c)"
    using c(1) by (auto simp: schema_credential_def)
  have ty: "cs_Type c = [] \<Longrightarrow> t = CredentialTypeAPIKey \<or> t = CredentialTypeBearer"
    using resolveProviderDefaults_Inr [OF r] provider_defaults_types [of ?pv] by (auto simp: c' t_def)
  have tk: "cs_Type c \<noteq> [] \<Longrightarrow> t = cs_Type c \<and> ''type'' \<in> set keys"
    using c(2) by (auto simp: t_def decoded_credential_def)
  have "one_of credential_types t"
    using ty tk sc(6) by (cases "cs_Type c = []") (auto simp: credential_types_def)
  then have "admitted c'"
    using sc by (simp add: admitted_iff c' default_fields_api_key)
  moreover have "cs_Basic c \<noteq> None" if "t = CredentialTypeBasic"
    using that ty tk sc(5) c(2) by (cases "cs_Type c = []") (auto simp: credential_rules_def Let_def decoded_credential_def)
  moreover have "cs_GCP c \<noteq> None" if "t = CredentialTypeGCP"
    using that ty tk sc(5) c(2,3) by (cases "cs_Type c = []") (auto simp: credential_rules_def Let_def decoded_credential_def)
  moreover have "cs_PathToken c \<noteq> None" if "t = CredentialTypePathToken"
    using that ty tk sc(5) c(2,3) by (cases "cs_Type c = []") (auto simp: credential_rules_def Let_def decoded_credential_def)
  moreover have "cs_OAuth2 c \<noteq> None" if "t = CredentialTypeOAuth2"
    using that ty tk sc(5) c(2,3) by (cases "cs_Type c = []") (auto simp: credential_rules_def Let_def decoded_credential_def)
  ultimately show ?thesis using k by (auto simp: validateCredentialTypeConfig_def c')
qed

lemma schema_channel_admitted:
  assumes "schema_credential keys c" "decoded_credential keys c" "resolveChannelDefaults c = Inr c'"
  shows "admitted c'"
proof -
  from assms(3) obtain d where d: "map_of knownChannels (cs_Channel c) = Some d"
      and c': "c' = c\<lparr>cs_Type := (if cs_Type c = [] then cd_Type d else cs_Type c),
        cs_Domain := (if cs_Domain c = [] then cd_Domain d else cs_Domain c),
        cs_PathToken := (if cs_PathToken c = None then cd_PathToken d else cs_PathToken c),
        cs_APIKey := (if cs_APIKey c = None then cd_APIKey d else cs_APIKey c)\<rparr>"
    by (auto simp: resolveChannelDefaults_def split: option.splits)
  have "one_of credential_types (cs_Type c')"
    using assms(1,2) channel_defaults_types [OF d]
    by (cases "cs_Type c = []") (simp_all add: c' schema_credential_def decoded_credential_def one_of_def)
  with assms(1) channel_defaults_types [OF d] show ?thesis
    by (simp add: admitted_iff c' schema_credential_def)
qed

subsection \<open>A valid Claw\<close>

text \<open>An empty channel name passes the rules, which look at the key, and is no channel for the operator.\<close>

definition channel_named :: "string list \<Rightarrow> CredentialSpec \<Rightarrow> bool" where
  "channel_named keys c \<longleftrightarrow> ''channel'' \<in> set keys \<longrightarrow> cs_Channel c \<noteq> []"

lemma schema_credential_error:
  assumes "schema_credential keys c" "decoded_credential keys c" "channel_named keys c" "default_credential c = Inl e"
  shows "(\<exists>pv t. e = DomainRequired (cs_Name c) pv t) \<or> e = UnknownChannel (cs_Name c) (cs_Channel c)"
proof (cases "cs_Channel c = []")
  case True
  with assms show ?thesis
    using schema_provider_error [of keys c e] by (simp add: default_credential_def channel_named_def)
next
  case False
  with assms(4) show ?thesis by (auto simp: default_credential_def resolveChannelDefaults_def split: option.splits)
qed

definition typed_credential :: "CredentialSpec \<Rightarrow> CredentialSpec \<Rightarrow> bool" where
  "typed_credential c c' \<longleftrightarrow> admitted c' \<and> (cs_Channel c = [] \<longrightarrow> validateCredentialTypeConfig c' = None)"

lemma schema_credential_typed:
  assumes "schema_credential keys c" "decoded_credential keys c" "channel_named keys c" "default_credential c = Inr c'"
  shows "typed_credential c c'"
  using assms schema_provider_admitted [of keys c c'] schema_channel_admitted [of keys c c']
  by (simp add: typed_credential_def default_credential_def channel_named_def split: if_splits)

lemma schema_credentials_typed:
  assumes "list_all2 (\<lambda>keys c. schema_credential keys c \<and> decoded_credential keys c) kss cs" "list_all2 channel_named kss cs"
  shows "(case snd (default_credentials cs) of
      Some e \<Rightarrow> \<exists>c \<in> set cs. (\<exists>pv t. e = DomainRequired (cs_Name c) pv t) \<or> e = UnknownChannel (cs_Name c) (cs_Channel c)
    | None \<Rightarrow> list_all2 typed_credential cs (fst (default_credentials cs)))"
  using assms
proof (induction kss cs rule: list_all2_induct)
  case (Cons keys kss c cs)
  then have IH: "case snd (default_credentials cs) of
      Some e \<Rightarrow> \<exists>c \<in> set cs. (\<exists>pv t. e = DomainRequired (cs_Name c) pv t) \<or> e = UnknownChannel (cs_Name c) (cs_Channel c)
    | None \<Rightarrow> list_all2 typed_credential cs (fst (default_credentials cs))" by simp
  from Cons have v: "schema_credential keys c" "decoded_credential keys c" "channel_named keys c" by simp_all
  show ?case
  proof (cases "default_credential c")
    case (Inl e)
    with schema_credential_error [OF v] show ?thesis by auto
  next
    case (Inr c')
    with IH schema_credential_typed [OF v] show ?thesis by (auto split: prod.splits option.splits)
  qed
qed simp

lemma schema_search_ref: "schema_web_search ws \<Longrightarrow> map_of knownSearchProviders (ws_Provider ws) = Some info \<Longrightarrow>
    spi_Injector info \<noteq> ''none'' \<Longrightarrow> ws_SecretRef ws \<noteq> None"
  by (auto simp: schema_web_search_def knownSearchProviders_def split: if_splits)

lemma custom_provider_duplicate:
  "CustomProviderDuplicate n \<in> set (custom_provider_errors names seenp seen cps) \<Longrightarrow>
     \<not> distinct (map cp_Name cps) \<or> set seen \<inter> cp_Name ` set cps \<noteq> {}"
proof (induction cps arbitrary: seen)
  case (Cons cp cps)
  from Cons.IH [of "cp_Name cp # seen"] Cons.prems show ?case by (auto split: if_splits option.splits)
qed simp

lemma resolve_errors_credential:
  assumes "fold (resolve_one get load) cs (errs, rs, seen) = (errs', rs', seen')" "CustomProviderDuplicate n \<in> set errs'"
  shows "CustomProviderDuplicate n \<in> set errs"
proof -
  have refs: "CustomProviderDuplicate n \<notin> set (fst (check_refs get load c refs kc))" for c refs kc
    by (induction refs arbitrary: kc) (auto split: secret_read.splits option.splits sum.splits)
  have one: "CustomProviderDuplicate n \<in> set (fst st)" if "CustomProviderDuplicate n \<in> set (fst (resolve_one get load c st))" for c st
    using that refs [of c "cs_SecretRef c" None]
    by (auto simp: resolve_one_def Let_def provider_errors_def opt_list_def validateCredentialTypeConfig_def
      split: prod.splits if_splits option.splits)
  have "CustomProviderDuplicate n \<in> set (fst (fold (resolve_one get load) cs st)) \<Longrightarrow> CustomProviderDuplicate n \<in> set (fst st)" for st
  proof (induction cs arbitrary: st)
    case (Cons c cs)
    from Cons.prems have "CustomProviderDuplicate n \<in> set (fst (fold (resolve_one get load) cs (resolve_one get load c st)))" by simp
    then show ?case by (rule one [OF Cons.IH])
  qed simp
  from this [of "(errs, rs, seen)"] assms show ?thesis by simp
qed

lemma resolve_no_duplicate_provider:
  assumes "distinct (map cp_Name (sp_CustomProviders (cl_Spec i)))" "resolveCredentials get load i = Inl errs"
  shows "CustomProviderDuplicate n \<notin> set errs"
proof
  assume n: "CustomProviderDuplicate n \<in> set errs"
  obtain errs1 rs seen where f: "fold (resolve_one get load) (sp_Credentials (cl_Spec i)) ([], [], []) = (errs1, rs, seen)"
    by (metis prod_cases3)
  have "CustomProviderDuplicate n \<notin> set errs1" using resolve_errors_credential [OF f] by auto
  moreover have "CustomProviderDuplicate n \<notin> set (duplicate_names seen cs)" for seen cs
    by (induction cs arbitrary: seen) auto
  moreover have "CustomProviderDuplicate n \<notin> set (custom_provider_errors names seen [] (sp_CustomProviders (cl_Spec i)))" for names
    using custom_provider_duplicate [of n names seen "[]"] assms(1) by auto
  ultimately show False using n assms(2) f by (auto simp: resolveCredentials_def Let_def split: if_splits)
qed

text \<open>
  (C11) The schema is a type system for the operator. Take a Claw that the API server admits and whose
  channels have names. Completing its credentials fails only on a missing domain or on a channel that does
  not exist; every other check of the completion repeats the schema. After completion every credential has
  a known type and no empty field among those the proxy's injectors insist on, and the settings its type
  needs are there, except where a channel supplies them. The checks for a missing password reference, a missing search key reference
  and a custom provider declared twice are never the reason of a rejection, and the trace sampling ratio that reaches
  the gateway is one the pattern allows.
\<close>

theorem schema_types_claw:
  assumes "schema_claw p (cl_Spec i)" "list_all2 channel_named (sk_credentials p) (sp_Credentials (cl_Spec i))"
  shows "(case default_check i of
       Inl e \<Rightarrow> \<exists>c \<in> set (sp_Credentials (cl_Spec i)).
         (\<exists>pv t. e = DomainRequired (cs_Name c) pv t) \<or> e = UnknownChannel (cs_Name c) (cs_Channel c)
     | Inr _ \<Rightarrow> list_all2 typed_credential (sp_Credentials (cl_Spec i)) (sp_Credentials (cl_Spec (defaulted i)))) \<and>
    resolveAuthPassword get i \<noteq> Inl PasswordRefRequired \<and>
    check_web_search get i \<noteq> Inl (SearchRefRequired pv) \<and>
    (\<forall>errs. resolveCredentials get load i = Inl errs \<longrightarrow> CustomProviderDuplicate n \<notin> set errs) \<and>
    schema_ratio (tracesSamplingRatio i)"
proof (intro conjI allI impI)
  show "case default_check i of
       Inl e \<Rightarrow> \<exists>c \<in> set (sp_Credentials (cl_Spec i)).
         (\<exists>pv t. e = DomainRequired (cs_Name c) pv t) \<or> e = UnknownChannel (cs_Name c) (cs_Channel c)
     | Inr _ \<Rightarrow> list_all2 typed_credential (sp_Credentials (cl_Spec i)) (sp_Credentials (cl_Spec (defaulted i)))"
    using schema_credentials_typed [OF _ assms(2)] assms(1)
    by (simp add: schema_claw_def default_check_def defaulted_def with_credentials_def split: option.splits)
  show "resolveAuthPassword get i \<noteq> Inl PasswordRefRequired"
    using assms(1) by (auto simp: schema_claw_def schema_auth_def resolveAuthPassword_def password_mode_def
      split: option.splits secret_read.splits if_splits)
  show "check_web_search get i \<noteq> Inl (SearchRefRequired pv)"
    using assms(1)
    by (auto simp: schema_claw_def check_web_search_def Let_def dest: schema_search_ref
      split: option.splits secret_read.splits if_splits)
  show "CustomProviderDuplicate n \<notin> set errs" if "resolveCredentials get load i = Inl errs" for errs
    by (rule resolve_no_duplicate_provider [OF _ that]) (use assms(1) in \<open>simp add: schema_claw_def\<close>)
  show "schema_ratio (tracesSamplingRatio i)"
    using assms(1) by (auto simp: schema_claw_def schema_traces_def tracesSamplingRatio_def schema_ratio_def fraction_def split: option.splits)
qed

definition sample_keys :: submitted_keys where
  "sample_keys = \<lparr>sk_credentials = [[''name'', ''type'', ''provider'', ''domain'', ''secretRef''], [''name'', ''type'', ''secretRef'']],
     sk_server = (\<lambda>_. [])\<rparr>"

lemma sample_claw_schema:
  "schema_claw sample_keys (cl_Spec sample_claw)" "list_all2 channel_named (sk_credentials sample_keys) (sp_Credentials (cl_Spec sample_claw))"
  by (simp_all add: schema_claw_def sample_keys_def sample_claw_def empty_ClawSpec_def empty_CredentialSpec_def schema_credential_def
      decoded_credential_def credential_rules_def credential_types_def schema_secret_ref_def character_count_def min_length_def schema_version_def channel_named_def)

theorem schema_types_claw_witness:
  "list_all2 typed_credential (sp_Credentials (cl_Spec sample_claw)) (sp_Credentials (cl_Spec (defaulted sample_claw)))"
proof -
  have "default_check sample_claw = Inr ()" by code_simp
  with schema_types_claw [OF sample_claw_schema] show ?thesis by simp
qed

text \<open>
  The condition on channel names is needed: an empty name satisfies every rule that asks whether the key is there, and the operator, for
  which it is no channel, finds neither type nor Secret.
\<close>

lemma empty_channel_escapes_schema:
  defines "c \<equiv> empty_CredentialSpec\<lparr>cs_Name := ''x''\<rparr>" and "keys \<equiv> [''name'', ''channel'']"
  shows "schema_credential keys c \<and> decoded_credential keys c \<and> default_credential c = Inl (TypeRequired ''x'' [])"
proof -
  have "default_credential c = Inl (TypeRequired ''x'' [])" unfolding c_def by code_simp
  then show ?thesis
    by (simp add: c_def keys_def schema_credential_def decoded_credential_def credential_rules_def min_length_def empty_CredentialSpec_def)
qed

end
