(* ===== verification/Delivery.thy ===== *)
theory Delivery
  imports Admission Proxy_Main Schema
begin

section \<open>From a stored Claw to a running proxy\<close>

text \<open>
  The whole way of a route table: a Claw passes the schema, a pass of the operator completes and
  resolves its credentials, generates the table and writes it to a ConfigMap, and the proxy binary reads
  that document and builds its server. The theory joins \<open>Schema\<close>, \<open>Admission\<close> and \<open>Proxy_Main\<close>: rules for
  operations of a pass with different postconditions for results and errors, what a pass may write under the
  name of the proxy's ConfigMap, and that the proxy starts on it.
\<close>

subsection \<open>Tables the proxy accepts\<close>

text \<open>
  Every route the operator generates from resolved credentials is one the proxy can build an
  injector for, when the credentials satisfied the resource schema and
  resolution, the mounted kubeconfigs are the validated ones, and no MCP server refers to a
  kubernetes credential.
\<close>

lemma generated_routes_accepted:
  assumes res: "resolveCredentials get load instance = Inr rs"
    and adm: "\<forall>c \<in> set (sp_Credentials (cl_Spec instance)). admitted c"
    and gen: "generateProxyConfig rs (sp_McpServers (cl_Spec instance)) (sp_WebSearch (cl_Spec instance)) builtins = Inr routes"
    and kube: "same_kubeconfigs w load rs"
    and mcp: "\<forall>rc \<in> set rs. cs_Type (rc_Spec rc) = CredentialTypeKubernetes \<longrightarrow>
      cs_Name (rc_Spec rc) \<notin> (mcp_CredentialRef \<circ> snd) ` set (sp_McpServers (cl_Spec instance))"
  shows "\<forall>r \<in> set routes. is_ok (NewInjector w (route_of r))"
proof
  fix r assume "r \<in> set routes"
  with gen show "is_ok (NewInjector w (route_of r))"
  proof (cases rule: generated_route_cases)
    case builtin
    then show ?thesis by (intro fields_present_accepted) (simp add: fields_present_def)
  next
    case search
    then show ?thesis by (intro fields_present_accepted webSearchRoute_fields)
  next
    case (mcp m cred)
    then obtain rc where rc: "rc \<in> set rs" "cred = rc_Spec rc" by blast
    have "cs_Name cred = mcp_CredentialRef (snd m)" using credByName_name [OF mcp(5)] by simp
    with \<open>m \<in> _\<close> rc assms(5) have "cs_Type cred \<noteq> CredentialTypeKubernetes" by force
    with resolved_credential_fit [OF res adm rc(1)] rc(2) have "fields_present (buildCredentialRoute cred)"
      by (intro buildCredentialRoute_fields) auto
    from fields_present_update [OF this] show ?thesis by (subst mcp(6)) (intro fields_present_accepted)
  next
    case (passthrough m)
    then show ?thesis by (intro fields_present_accepted) (simp add: fields_present_def)
  next
    case (credential rc)
    note fit = resolved_credential_fit [OF res adm credential(1)]
    show ?thesis
    proof (cases "cs_Type (rc_Spec rc) = CredentialTypeKubernetes")
      case True
      with fit credential kube show ?thesis by (intro kube_routes_accepted [where rs = rs and rc = rc]) auto
    next
      case False
      with fit credential show ?thesis by (intro fields_present_accepted routes_of_fields [where rc = rc]) auto
    qed
  qed
qed

lemma resolved_headers:
  assumes "resolveCredentials get load instance = Inr rs" "rc \<in> set rs"
    and "\<forall>c \<in> set (sp_Credentials (cl_Spec instance)). distinct (map fst (cs_DefaultHeaders c))"
  shows "distinct (map fst (cs_DefaultHeaders (rc_Spec rc)))"
proof -
  have "rc_Spec rc \<in> set (map rc_Spec rs)" using assms(2) by simp
  also have "map rc_Spec rs = sp_Credentials (cl_Spec instance) @ githubRepoAccessCredentials instance"
    using resolved_prefix [OF assms(1)] by simp
  finally show ?thesis
    using assms(3) by (auto simp: githubRepoAccessCredentials_def empty_CredentialSpec_def Let_def split: option.splits if_splits)
qed

text \<open>
  The proxy, given the document the operator marshals from a table and a CA that parses, builds its
  server: it loads the same routes and makes an injector and, where there is an upstream, a gateway
  for each of them.
\<close>

lemma generated_table_starts_proxy:
  assumes res: "resolveCredentials get load instance = Inr rs"
    and adm: "\<forall>c \<in> set (sp_Credentials (cl_Spec instance)). admitted c \<and> distinct (map fst (cs_DefaultHeaders c))"
    and gen: "generateProxyConfig rs (sp_McpServers (cl_Spec instance)) (sp_WebSearch (cl_Spec instance)) builtins = Inr routes"
    and kube: "same_kubeconfigs w load rs"
    and mcp: "\<forall>rc \<in> set rs. cs_Type (rc_Spec rc) = CredentialTypeKubernetes \<longrightarrow>
      cs_Name (rc_Spec rc) \<notin> (mcp_CredentialRef \<circ> snd) ` set (sp_McpServers (cl_Spec instance))"
    and urls: "\<forall>rc \<in> set rs. UrlParse (pi_Upstream (resolveProviderInfo (rc_Spec rc))) \<noteq> None"
    and ca: "is_ok (parseCA pk cert key)"
  shows "\<exists>srv. proxy_main w pk (Some (Some (marshal_config routes))) (Some cert) (Some key) = Inr srv \<and>
    map (\<lambda>r. r\<lparr>r_injector := None\<rparr>) (Routes (srv_cfg srv)) = map route_of routes"
proof -
  let ?cfg = "\<lparr>Routes = map route_of routes\<rparr>"
  have frame: "pr_Upstream r = [] \<or> UrlParse (pr_Upstream r) \<noteq> None" "distinct (map fst (pr_DefaultHeaders r))" if "r \<in> set routes" for r
    using generated_route_frame [OF gen that] urls resolved_headers [OF res] adm by auto
  have "LoadConfig (Some (Some (marshal_config routes))) = Inr ?cfg" using frame(2) by (intro loaded_marshal) blast
  moreover have "is_ok (NewServer w pk ?cfg cert key)"
    using generated_routes_accepted [OF res _ gen kube mcp] adm frame(1)
    by (intro NewServer_ok ca) (auto simp: route_of_def)
  then obtain srv where srv: "NewServer w pk ?cfg cert key = Inr srv" by (auto simp: is_ok_iff)
  moreover have "map (\<lambda>r. r\<lparr>r_injector := None\<rparr>) (Routes (srv_cfg srv)) = map route_of routes"
    using NewServer_routes [OF srv] by (simp add: route_of_def)
  ultimately show ?thesis by (simp add: proxy_main_def)
qed

subsection \<open>Operations with a postcondition\<close>

text \<open>From a state with \<open>I\<close> the operation ends in a result with \<open>Q\<close> or in an error with \<open>E\<close>.\<close>

locale pass_triple =
  fixes I :: "pass_state \<Rightarrow> bool" and p :: "'a pass" and Q :: "'a \<Rightarrow> pass_state \<Rightarrow> bool" and E :: "pass_state \<Rightarrow> bool"
  assumes result: "I st \<Longrightarrow> p st = (Inr x, st') \<Longrightarrow> Q x st'" and error: "I st \<Longrightarrow> p st = (Inl e, st') \<Longrightarrow> E st'"
begin

lemma either: "I st \<Longrightarrow> (\<And>x st'. Q x st' \<Longrightarrow> E st') \<Longrightarrow> p st = (r, st') \<Longrightarrow> E st'"
  by (cases r) (auto dest: result error)

end

lemma triple_bind: "pass_triple I p Q E \<Longrightarrow> (\<And>x. pass_triple (Q x) (f x) R E) \<Longrightarrow> pass_triple I (pass_bind p f) R E"
  unfolding pass_triple_def pass_bind_def by (fastforce split: prod.splits sum.splits)

lemma triple_invariant: "pass_invariant I p \<Longrightarrow> pass_triple I p (\<lambda>_. I) I"
  by unfold_locales (auto dest: invariant_result)

lemma triple_conseq:
  "pass_triple I' p Q' E' \<Longrightarrow> (\<And>st. I st \<Longrightarrow> I' st) \<Longrightarrow> (\<And>x st. Q' x st \<Longrightarrow> Q x st) \<Longrightarrow> (\<And>st. E' st \<Longrightarrow> E st) \<Longrightarrow> pass_triple I p Q E"
  unfolding pass_triple_def by blast

subsection \<open>What is written under the name of the proxy's ConfigMap\<close>

text \<open>
  Two operations of a pass write what the proxy reads: \<^const>\<open>applyProxyConfigMap\<close> its table and \<^const>\<open>applyProxyCA\<close> its certificate
  authority. The others write nothing under those names, whatever instance they see. A property of the trace that the certificate
  authority keeps is kept by every operation but the first; if that one keeps it too, a whole pass does.
\<close>

lemma config_names_differ [simp]:
  "getKubeConfigMapName a \<noteq> getProxyConfigMapName b" "getVertexADCConfigMapName a \<noteq> getProxyConfigMapName b"
  using arg_cong [of _ _ "\<lambda>s. take 8 (rev s)"]
  by (force simp: getKubeConfigMapName_def getVertexADCConfigMapName_def getProxyConfigMapName_def)+

lemma secret_names_differ [simp]: "getGatewaySecretName a \<noteq> getProxyCAConfigMapName b"
  using arg_cong [of _ _ "\<lambda>s. take 8 (rev s)"] by (force simp: getGatewaySecretName_def getProxyCAConfigMapName_def)

definition table_free :: "api_write \<Rightarrow> bool" where
  "table_free w \<longleftrightarrow> (\<forall>n data. w \<noteq> PatchConfigMap (getProxyConfigMapName n) data \<and> w \<noteq> PatchSecret (getProxyCAConfigMapName n) data)"

lemma table_free_simps [simp]:
  "table_free (UpdateStatus s)" "table_free (ApplyDeployment obj)" "table_free (CreateJob obj)" "table_free (ApplyObject obj)"
  "table_free (ScaleToZero nm)" "table_free (DeleteResource kind nm)" "table_free (PatchSecret (getGatewaySecretName n) data)"
  "table_free (PatchConfigMap (getKubeConfigMapName n) data)" "table_free (PatchConfigMap (getVertexADCConfigMapName n) data)"
  by (simp_all add: table_free_def)

locale trace_property =
  fixes k :: cluster and I :: "pass_state \<Rightarrow> bool"
  assumes edit: "I st \<Longrightarrow> I (st\<lparr>ps_instance := i\<rparr>)"
    and other: "I st \<Longrightarrow> (\<And>w. e = Wrote w \<Longrightarrow> table_free w) \<Longrightarrow> I (st\<lparr>ps_trace := ps_trace st @ [e]\<rparr>)"
    and authority: "pass_invariant I (applyProxyCA k)"
begin

abbreviation kept :: "'a pass \<Rightarrow> bool" where "kept \<equiv> pass_invariant I"

lemma kept_modify: "kept (modify_instance f)" "kept (set_condition k t s r msg)" "kept (remove_condition k t)"
  unfolding set_condition_def remove_condition_def by (rule invariant_modify; simp add: edit)+

lemma kept_metrics: "kept (record_event (RecordedMetrics i))" "kept (record_event (Wrote (ApplyDeployment obj)))"
  by (rule invariant_record, rule other, assumption, auto)+

lemma kept_try: "table_free w \<Longrightarrow> kept (try_write k w)"
  by (rule invariant_try, rule other) simp_all

lemma kept_write: "table_free w \<Longrightarrow> kept (write_or_fail k what w)"
  unfolding write_or_fail_def by (intro invariant_rules kept_try)

lemma kept_status: "kept (write_status_or_fail k what)" "kept (write_status_quietly k)"
  unfolding write_status_or_fail_def write_status_quietly_def write_status_def by (intro invariant_rules kept_try; simp)+

lemmas kept_steps = invariant_rules invariant_secret kept_modify kept_metrics kept_write kept_status

lemma kept_failure: "kept (report_failure k reason ts e)" "kept (rejectValidation k e ts)" "kept (or_reject k wrap ts r)"
  unfolding or_reject_def rejectValidation_def report_failure_def by (intro kept_steps)+

lemma kept_secret: "table_free (PatchSecret nm data) \<Longrightarrow> kept (apply_secret k what nm data)"
  unfolding apply_secret_def by (intro kept_steps)

lemma kept_config: "table_free (PatchConfigMap nm data) \<Longrightarrow> kept (apply_configmap k what nm data)"
  unfolding apply_configmap_def by (intro kept_steps)

lemma kept_deletion: "kept (delete_orphan k nm)" "kept (delete_quietly k what kind nm)"
  unfolding delete_orphan_def delete_quietly_def by (intro kept_steps kept_try; simp)+

lemmas kept_rules = kept_steps kept_failure kept_secret kept_deletion

lemma kept_credentials: "kept (resolveAndApplyCredentials k)"
  unfolding resolveAndApplyCredentials_def apply_credentials_def applySanitizedKubeconfig_def Let_def
  by (intro kept_rules kept_config authority; simp)

lemma kept_validate: "kept (validate_instance k)"
  unfolding validate_instance_def validateWebSearchConfig_def by (intro kept_rules kept_credentials; simp)

lemma kept_first: "kept (clear_idle k)" "kept (cleanupDevicePairingResources k)" "kept (apply_gateway_secret k)"
  unfolding clear_idle_def cleanupDevicePairingResources_def apply_gateway_secret_def by (intro kept_rules; simp)+

lemma kept_vertex: "kept (applyVertexADCConfigMap k creds)"
  unfolding applyVertexADCConfigMap_def Let_def by (intro kept_rules kept_config; simp)

lemma kept_render_rest: "kept (resolvePersonaRef k)" "kept (restrictions_condition k keys)" "kept (configure k r creds json objects keys data)"
  unfolding resolvePersonaRef_def restrictions_condition_def configure_def Let_def by (intro kept_rules; simp)+

lemma kept_resources: "kept (applyResources k objs)"
  by (induction objs) (auto simp: apply_object_def apply_deployment_def intro!: kept_rules kept_try)

lemma kept_route: "kept (await_route k objects)"
  unfolding await_route_def applyRouteByName_def Let_def by (intro kept_rules kept_resources)

lemma kept_end: "kept (check_password k)" "kept (enrich k objects host creds)" "kept (updateStatus k)" "kept (reconcileServiceMonitor k)"
  unfolding check_password_def enrich_def mcp_condition_def setMemoryStackCondition_def updateStatus_def record_metrics_def
    reconcileServiceMonitor_def deleteServiceMonitorIfExists_def
  by (intro kept_rules kept_try; simp)+

lemma kept_doctor: "kept (reconcileDoctorFix k)"
  unfolding reconcileDoctorFix_def continue_doctor_fix_def paused_doctor_fix_def start_doctor_job_def doctor_outcome_def Let_def
  by (intro kept_rules; simp)

lemma kept_finish: "kept (pass_bind (enrich k objects host creds) (finish_pass k act))"
  unfolding finish_pass_def by (intro kept_rules kept_end kept_resources kept_doctor)

lemma kept_idle: "kept (handleIdle k)"
  unfolding handleIdle_def scaleDeploymentToZero_def record_metrics_def by (intro kept_rules; simp)

end

locale pass_property = trace_property +
  assumes table: "pass_invariant I (applyProxyConfigMap k json)"
begin

lemma kept_prepare: "kept (prepare k r)"
proof -
  have "kept (applyProxyResources k creds)" for creds
    unfolding applyProxyResources_def Let_def by (intro kept_rules table kept_vertex)
  then have "kept (render k r creds)" for creds
    unfolding render_def by (intro kept_rules kept_render_rest)
  then show ?thesis unfolding prepare_def by (intro kept_rules kept_first kept_validate kept_route)
qed

lemma kept_Reconcile: "kept (Reconcile k r nm ns)"
proof -
  have "kept (record_event (ClearedMetrics nm ns))" by (rule invariant_record, rule other) simp_all
  moreover have "kept (reconcile_active k r)"
    unfolding reconcile_active_def by (intro kept_rules kept_prepare kept_finish kept_end)
  ultimately show ?thesis unfolding Reconcile_def by (intro kept_rules kept_idle)
qed

end

definition table_write :: "string \<Rightarrow> ((string, string) gomap \<Rightarrow> bool) \<Rightarrow> pass_event \<Rightarrow> bool" where
  "table_write nm P e \<longleftrightarrow> (\<forall>data. e = Wrote (PatchConfigMap (getProxyConfigMapName nm) data) \<longrightarrow> P data)"

lemma authority_only:
  assumes "\<And>n data. ok (Wrote (PatchSecret (getProxyCAConfigMapName n) data))"
  shows "pass_invariant (only_events ok) (applyProxyCA k)"
  unfolding applyProxyCA_def apply_secret_def Let_def by (intro only_rules invariant_secret) (rule assms)+

interpretation table: trace_property k "only_events (table_write nm P)" for k nm P
proof (rule trace_property.intro)
  show "pass_invariant (only_events (table_write nm P)) (applyProxyCA k)" by (rule authority_only) (simp add: table_write_def)
qed (auto simp: only_events_def table_write_def table_free_def)

text \<open>The table of an instance whose credentials have been completed.\<close>

definition table_of :: "Claw \<Rightarrow> resolvedCredential list \<Rightarrow> (proxy_config_error, proxyRoute list) result" where
  "table_of i creds =
     generateProxyConfig creds (sp_McpServers (cl_Spec i)) (sp_WebSearch (cl_Spec i)) (Some (builtin_passthroughs i))"

definition resolved_table :: "cluster \<Rightarrow> Claw \<Rightarrow> (string, string) gomap \<Rightarrow> bool" where
  "resolved_table k i data \<longleftrightarrow>
     (\<exists>creds routes. default_check i = Inr () \<and> resolveCredentials (ck_userSecret k) (ck_kubeconfig k) (defaulted i) = Inr creds \<and>
        table_of (defaulted i) creds = Inr routes \<and> data = [(''proxy-config.json'', ck_printJson k (marshal_config routes))])"

lemma status_table [simp]: "table_of (i\<lparr>cl_Status := s\<rparr>) creds = table_of i creds"
  by (simp add: table_of_def builtin_passthroughs_def)

lemma resolved_credentials_returned:
  assumes "follows u i st" "resolveAndApplyCredentials k st = (Inr creds, st')"
  shows "default_check i = Inr () \<and> resolveCredentials (ck_userSecret k) (ck_kubeconfig k) (defaulted i) = Inr creds"
proof -
  obtain s where "ps_instance st = i\<lparr>cl_Status := s\<rparr>" using follows_instance [OF assms(1)] by blast
  with assms(2) show ?thesis
    by (auto simp: resolveAndApplyCredentials_def apply_credentials_def pass_bind_Inr get_instance_def modify_instance_def pass_return_def)
qed

lemma validated_credentials:
  assumes "follows u i st" "validate_instance k st = (Inr creds, st')"
  shows "default_check i = Inr () \<and> resolveCredentials (ck_userSecret k) (ck_kubeconfig k) (defaulted i) = Inr creds"
proof -
  obtain st1 where "resolveAndApplyCredentials k st = (Inr creds, st1)"
    using assms(2) by (auto simp: validate_instance_def pass_bind_Inr pass_return_def)
  with resolved_credentials_returned [OF assms(1)] show ?thesis .
qed

text \<open>The two facts about a state of a pass over an instance: its spec, and what was written.\<close>

definition on_course :: "cluster \<Rightarrow> Claw \<Rightarrow> Claw \<Rightarrow> pass_state \<Rightarrow> bool" where
  "on_course k i0 i st \<longleftrightarrow> follows (mv_lib (ck_manifests k)) i st \<and> only_events (table_write (cl_Name i0) (resolved_table k i0)) st"

lemma on_course_kept:
  assumes "pass_invariant (calm (mv_lib (ck_manifests k)) (\<lambda>j. \<exists>s. j = i\<lparr>cl_Status := s\<rparr>)) p"
    and "pass_invariant (only_events (table_write (cl_Name i0) (resolved_table k i0))) p"
  shows "pass_triple (on_course k i0 i) p (\<lambda>_. on_course k i0 i) (only_events (table_write (cl_Name i0) (resolved_table k i0)))"
  by unfold_locales (auto simp: on_course_def dest: follows_kept [OF assms(1)] invariant_result [OF assms(2)])

lemma validate_triple:
  "pass_triple (on_course k i i) (validate_instance k)
     (\<lambda>creds st. on_course k i (defaulted i) st \<and> default_check i = Inr () \<and>
        resolveCredentials (ck_userSecret k) (ck_kubeconfig k) (defaulted i) = Inr creds)
     (only_events (table_write (cl_Name i) (resolved_table k i)))"
  using validate_instance_Inr validated_credentials invariant_result [OF table.kept_validate]
  by unfold_locales (unfold on_course_def, blast+)

lemma table_kept:
  assumes "default_check i = Inr ()" "resolveCredentials (ck_userSecret k) (ck_kubeconfig k) (defaulted i) = Inr creds"
    "table_of (defaulted i) creds = Inr routes"
  shows "pass_invariant (only_events (table_write nm (resolved_table k i))) (applyProxyConfigMap k (ck_printJson k (marshal_config routes)))"
  unfolding applyProxyConfigMap_def apply_configmap_def
  by (intro only_rules) (use assms in \<open>simp add: table_write_def resolved_table_def\<close>)

lemma proxy_resources_triple:
  "pass_triple (\<lambda>st. on_course k i (defaulted i) st \<and> default_check i = Inr () \<and>
        resolveCredentials (ck_userSecret k) (ck_kubeconfig k) (defaulted i) = Inr creds)
     (applyProxyResources k creds) (\<lambda>_. only_events (table_write (cl_Name i) (resolved_table k i)))
     (only_events (table_write (cl_Name i) (resolved_table k i)))"
proof -
  let ?E = "only_events (table_write (cl_Name i) (resolved_table k i))"
  have "?E st'" if st: "on_course k i (defaulted i) st" and res: "default_check i = Inr ()"
      "resolveCredentials (ck_userSecret k) (ck_kubeconfig k) (defaulted i) = Inr creds"
      and run: "applyProxyResources k creds st = (x, st')" for st x st'
  proof -
    obtain s where i: "ps_instance st = (defaulted i)\<lparr>cl_Status := s\<rparr>" using st by (auto simp: on_course_def dest: follows_instance)
    have "pass_invariant ?E (case table_of (defaulted i) creds of
        Inl e \<Rightarrow> report_failure k ''ConfigFailed'' [''ProxyConfigured''] (ProxyConfigInvalid e)
      | Inr routes \<Rightarrow>
          let proxyConfigJSON = ck_printJson k (marshal_config routes)
          in pass_bind (pass_catch (applyProxyConfigMap k proxyConfigJSON) (report_failure k ''ConfigFailed'' [''ProxyConfigured''])) (\<lambda>_.
             pass_bind (pass_catch (applyVertexADCConfigMap k creds) (report_failure k ''ConfigFailed'' [''ProxyConfigured''])) (\<lambda>_.
             pass_bind (set_condition k ''ProxyConfigured'' ConditionTrue ''Configured'' ''Proxy config generated successfully'') (\<lambda>_.
               pass_return proxyConfigJSON))))"
      unfolding Let_def by (intro table.kept_rules table.kept_vertex table_kept [OF res])
    moreover have "?E st" using st by (simp add: on_course_def)
    ultimately show "?E st'"
      using run i status_table [of s "defaulted i" creds]
      by (auto simp: applyProxyResources_def pass_bind_def [of get_instance] get_instance_def table_of_def dest: invariant_result)
  qed
  then show ?thesis by unfold_locales blast+
qed

lemma prepare_triple:
  "pass_triple (on_course k i i) (prepare k r) (\<lambda>_. only_events (table_write (cl_Name i) (resolved_table k i)))
     (only_events (table_write (cl_Name i) (resolved_table k i)))"
proof -
  let ?E = "only_events (table_write (cl_Name i) (resolved_table k i))"
  note kept = triple_invariant [where I = ?E]
  have render: "pass_triple (\<lambda>st. on_course k i (defaulted i) st \<and> default_check i = Inr () \<and>
        resolveCredentials (ck_userSecret k) (ck_kubeconfig k) (defaulted i) = Inr creds) (render k r creds) (\<lambda>_. ?E) ?E" for creds
    unfolding render_def by (rule triple_bind [OF proxy_resources_triple], rule kept) (intro table.kept_rules table.kept_render_rest)
  have rest: "pass_triple ?E (case x of (objects, doctorFixActive) \<Rightarrow> pass_bind (await_route k objects) (\<lambda>routeHost.
      pass_return (creds, objects, doctorFixActive, routeHost))) (\<lambda>_. ?E) ?E" for x creds
    by (rule kept) (intro table.kept_rules table.kept_route)
  show ?thesis
    unfolding prepare_def
    by (rule triple_bind triple_bind [OF validate_triple] triple_bind [OF render] rest on_course_kept
      same_spec.calm_clear_idle same_spec.calm_cleanup same_spec.calm_gateway_secret table.kept_first)+
qed

interpretation preparing: pass_triple "on_course k i i" "prepare k r" "\<lambda>_. only_events (table_write (cl_Name i) (resolved_table k i))"
    "only_events (table_write (cl_Name i) (resolved_table k i))" for k i r
  by (rule prepare_triple)

text \<open>What a pass writes under the name of the proxy's ConfigMap is the table of the resolved credentials.\<close>

lemma Reconcile_writes_table:
  assumes stored: "ck_claw k nm = Fetched stored" and run: "Reconcile k r nm ns \<lparr>ps_instance = i0, ps_trace = []\<rparr> = (res, st)"
    and w: "Wrote (PatchConfigMap (getProxyConfigMapName (cl_Name stored)) data) \<in> set (ps_trace st)"
  shows "resolved_table k (default_version stored) data"
proof -
  let ?i = "default_version stored"
  let ?E = "only_events (table_write (cl_Name ?i) (resolved_table k ?i))" and ?st = "\<lparr>ps_instance = ?i, ps_trace = []\<rparr>"
  have start: "?E ?st" "on_course k ?i ?i ?st"
    by (auto simp: on_course_def follows_def calm_def only_events_def intro: exI [of _ "cl_Status ?i"])
  have "pass_invariant ?E (rejectValidation k UserConfigDisabled [] :: requeue pass)"
    "pass_invariant ?E (pass_bind (handleIdle k) (\<lambda>_. pass_return NoRequeue))"
    by (intro table.kept_rules table.kept_idle)+
  note early = this [THEN invariant_result, OF start(1)]
  have active: "?E st" if "reconcile_active k r ?st = (res, st)"
    using that
  proof (cases rule: reconcile_active_cases)
    case (prepare e)
    with start preparing.error show ?thesis by blast
  next
    case (waiting creds objects act)
    with start preparing.result show ?thesis by blast
  next
    case (password creds objects act host st1 e)
    with start preparing.result have "?E st1" by blast
    with password(2) invariant_result [OF table.kept_end(1)] show ?thesis by blast
  next
    case (admitted creds objects act host st1)
    with start preparing.result have "?E st1" by blast
    with admitted(3) invariant_result [OF table.kept_finish] show ?thesis by blast
  qed
  have "?E st"
    using run early active by (simp add: Reconcile_stored [OF stored] Let_def split: if_splits)
  moreover have "cl_Name ?i = cl_Name stored" by (simp add: default_version_def)
  ultimately show ?thesis using w by (auto simp: only_events_def table_write_def)
qed

subsection \<open>The proxy of a stored Claw\<close>

lemma default_credential_headers: "default_credential c = Inr c' \<Longrightarrow> cs_DefaultHeaders c' = cs_DefaultHeaders c"
proof -
  have "completes c1 c' \<Longrightarrow> cs_DefaultHeaders c' = cs_DefaultHeaders c1" for c1
    by (cases c1; cases c') (simp add: completes_def)
  from this [of "c\<lparr>cs_Provider := canonicalProviderID (cs_Provider c)\<rparr>"] show "default_credential c = Inr c' \<Longrightarrow> cs_DefaultHeaders c' = cs_DefaultHeaders c"
    using resolveProviderDefaults_Inr [of c c']
    by (auto simp: default_credential_def resolveChannelDefaults_def split: if_splits option.splits)
qed

lemma default_credentials_headers: "map cs_DefaultHeaders (fst (default_credentials cs)) = map cs_DefaultHeaders cs"
  by (induction cs) (auto simp: default_credential_headers split: sum.split prod.splits)

lemma defaulted_admitted:
  assumes "schema_claw p (cl_Spec i)" "list_all2 channel_named (sk_credentials p) (sp_Credentials (cl_Spec i))" "default_check i = Inr ()"
  shows "\<forall>c \<in> set (sp_Credentials (cl_Spec (defaulted i))). admitted c"
proof -
  have "list_all2 typed_credential (sp_Credentials (cl_Spec i)) (sp_Credentials (cl_Spec (defaulted i)))"
    using schema_credentials_typed [OF _ assms(2)] assms(1,3)
    by (simp add: schema_claw_def default_check_def defaulted_def with_credentials_def split: option.splits)
  then show ?thesis by (auto simp: typed_credential_def dest: list_all2_in_right)
qed

text \<open>
  What the proxy's pod has to give: the JSON library reads back what it printed, the mounted kubeconfigs are
  the ones the operator validated, and upstream addresses parse. And one thing the operator does not
  check: no MCP server refers to a kubernetes credential.
\<close>

definition proxy_environment :: "cluster \<Rightarrow> World \<Rightarrow> (string \<Rightarrow> json option) \<Rightarrow> Claw \<Rightarrow> bool" where
  "proxy_environment k w parse i \<longleftrightarrow>
     (\<forall>creds routes. resolveCredentials (ck_userSecret k) (ck_kubeconfig k) i = Inr creds \<and> table_of i creds = Inr routes \<longrightarrow>
        parse (ck_printJson k (marshal_config routes)) = Some (marshal_config routes) \<and>
        same_kubeconfigs w (ck_kubeconfig k) creds \<and>
        (\<forall>rc \<in> set creds. UrlParse (pi_Upstream (resolveProviderInfo (rc_Spec rc))) \<noteq> None) \<and>
        (\<forall>rc \<in> set creds. cs_Type (rc_Spec rc) = CredentialTypeKubernetes \<longrightarrow>
           cs_Name (rc_Spec rc) \<notin> (mcp_CredentialRef \<circ> snd) ` set (sp_McpServers (cl_Spec i))))"

lemma default_version_credentials [simp]:
  "sp_Credentials (cl_Spec (default_version i)) = sp_Credentials (cl_Spec i)"
  by (simp add: default_version_def)

lemma default_version_name [simp]: "cl_Name (default_version i) = cl_Name i"
  by (simp add: default_version_def)

lemma schema_default_version: "schema_claw p (cl_Spec i) \<Longrightarrow> schema_claw p (cl_Spec (default_version i))"
proof -
  have "schema_version ''2026.6.10''" by code_simp
  then show "schema_claw p (cl_Spec i) \<Longrightarrow> schema_claw p (cl_Spec (default_version i))"
    by (simp add: default_version_def schema_claw_def)
qed


subsection \<open>A valid Claw gets its table\<close>

text \<open>Operations that cannot fail.\<close>

definition unfailing :: "'a pass \<Rightarrow> bool" where
  "unfailing p \<longleftrightarrow> (\<forall>st. is_ok (fst (p st)))"

lemma unfailing_run: "unfailing p \<Longrightarrow> \<exists>x st'. p st = (Inr x, st')"
  by (metis unfailing_def is_ok_iff prod.collapse)

lemma unfailing_basic: "unfailing (pass_return x)" "unfailing get_instance" "unfailing (modify_instance f)" "unfailing (set_condition k t s r msg)" "unfailing (remove_condition k t)"
  by (simp_all add: unfailing_def pass_defs)

lemma unfailing_lift: "is_ok r \<Longrightarrow> unfailing (pass_lift wrap r)"
  by (auto simp: unfailing_def pass_lift_def is_ok_iff)

lemma unfailing_bind: "unfailing p \<Longrightarrow> (\<And>x st st'. p st = (Inr x, st') \<Longrightarrow> unfailing (f x)) \<Longrightarrow> unfailing (pass_bind p f)"
proof -
  assume p: "unfailing p" and f: "\<And>x st st'. p st = (Inr x, st') \<Longrightarrow> unfailing (f x)"
  have "is_ok (fst (pass_bind p f st))" for st
  proof -
    obtain x st' where run: "p st = (Inr x, st')" using unfailing_run [OF p] by blast
    with f [OF run] show ?thesis by (simp add: pass_bind_def unfailing_def)
  qed
  then show "unfailing (pass_bind p f)" by (simp add: unfailing_def)
qed

lemma unfailing_cases:
  "(b \<Longrightarrow> unfailing p) \<Longrightarrow> (\<not> b \<Longrightarrow> unfailing q) \<Longrightarrow> unfailing (if b then p else q)"
  "(x = None \<Longrightarrow> unfailing p) \<Longrightarrow> (\<And>y. x = Some y \<Longrightarrow> unfailing (f y)) \<Longrightarrow> unfailing (case x of None \<Rightarrow> p | Some y \<Rightarrow> f y)"
  "(\<And>a c. z = (a, c) \<Longrightarrow> unfailing (g a c)) \<Longrightarrow> unfailing (case z of (a, c) \<Rightarrow> g a c)"
  by (simp_all split: option.split prod.split)

lemma unfailing_each: "(\<And>x. unfailing (f x)) \<Longrightarrow> unfailing (pass_each f xs)"
  by (induction xs) (auto intro: unfailing_basic unfailing_bind)

lemmas unfailing_rules = unfailing_basic unfailing_bind unfailing_cases unfailing_each

lemma resolved_kubeconfigs_load:
  assumes "resolveCredentials get load i = Inr rs" "first_kubeconfig rs = Some kd"
  shows "load (kd_RawBytes kd) \<noteq> None"
proof -
  obtain errs resolved seen where f: "fold (resolve_one get load) (sp_Credentials (cl_Spec i)) ([], [], []) = (errs, resolved, seen)"
    by (metis prod_cases3)
  with assms(1) have e: "errs = []" and rs: "rs = resolved @ map (\<lambda>c. \<lparr>rc_Spec = c, rc_KubeConfig = None\<rparr>) (githubRepoAccessCredentials i)"
    by (auto simp: resolveCredentials_def Let_def split: if_splits)
  from assms(2) obtain rc where rc: "rc \<in> set rs" "rc_KubeConfig rc = Some kd"
    by (auto simp: first_kubeconfig_def bind_eq_Some_conv find_Some_iff dest: nth_mem)
  with rs have "rc \<in> set resolved" by auto
  with resolve_all_ok [OF f [unfolded e]] have "credential_ok get load rc" by (auto simp: list_all_iff)
  with rc(2) obtain data where "parseAndValidateKubeconfig load data = Inr kd" by (auto simp: credential_ok_def Let_def)
  then show ?thesis by (rule parse_kubeconfig_Inr) auto
qed

text \<open>A cluster that accepts what is written, answers reads of the operator's own Secrets and has randomness.\<close>

locale accepting_cluster =
  fixes k :: cluster
  assumes accepts: "ck_refused k w = None" and owns: "\<exists>obj'. ck_own k i obj = Some obj'" and readable: "ck_secret k nm \<noteq> SecretReadError"
    and random: "ck_random k \<noteq> None" and certificate: "\<exists>cert key. ck_certificate k = Some (cert, key) \<and> cert \<noteq> []"
begin

lemma unfailing_write: "unfailing (write_or_fail k what w)" "unfailing (write_status_or_fail k what)"
  by (simp_all add: unfailing_def pass_defs accepts)

lemma owned [simp]: "ck_own k i obj \<noteq> None"
  using owns [of i obj] by auto

lemma unfailing_apply: "unfailing (apply_secret k what nm data)" "unfailing (apply_configmap k what nm data)"
  unfolding apply_secret_def apply_configmap_def by (intro unfailing_rules unfailing_write; simp)+

lemma unfailing_deletion: "unfailing (delete_orphan k nm)" "unfailing (delete_quietly k what kind nm)"
  unfolding delete_orphan_def
  by (intro unfailing_rules unfailing_write) (simp add: delete_quietly_def unfailing_def pass_defs accepts)

lemma unfailing_first: "unfailing (clear_idle k)" "unfailing (cleanupDevicePairingResources k)" "unfailing (apply_gateway_secret k)"
proof -
  show "unfailing (clear_idle k)" unfolding clear_idle_def by (intro unfailing_rules unfailing_write)
  show "unfailing (cleanupDevicePairingResources k)" unfolding cleanupDevicePairingResources_def by (intro unfailing_rules unfailing_deletion)
  have "is_ok (Credentials.applyGatewaySecret (ck_secret k nm) (ck_random k))" for nm
    using readable [of nm] random by (auto simp: Credentials.applyGatewaySecret_def generateGatewayToken_def Let_def split: secret_read.split option.split)
  then show "unfailing (apply_gateway_secret k)" unfolding apply_gateway_secret_def by (intro unfailing_rules unfailing_lift unfailing_apply)
qed

lemma unfailing_proxy_ca: "unfailing (applyProxyCA k)"
proof -
  obtain cert key where c: "ck_certificate k = Some (cert, key)" using certificate by blast
  show ?thesis
    using readable unfolding applyProxyCA_def Let_def c
    by (auto intro!: unfailing_rules unfailing_apply split: secret_read.split)
qed

lemma proxy_ca_nonempty: "applyProxyCA k st = (Inr cert, st') \<Longrightarrow> cert \<noteq> []"
  using certificate by (auto simp: applyProxyCA_def Let_def pass_bind_Inr get_instance_def pass_return_def pass_fail_def split: secret_read.splits if_splits)

lemma unfailing_apply_credentials:
  assumes "\<And>kd. first_kubeconfig creds = Some kd \<Longrightarrow> ck_kubeconfig k (kd_RawBytes kd) \<noteq> None"
  shows "unfailing (apply_credentials k creds)"
proof -
  have "unfailing (applySanitizedKubeconfig k creds cert)" if "cert \<noteq> []" for cert
    unfolding applySanitizedKubeconfig_def Let_def
    by (intro unfailing_rules unfailing_apply unfailing_deletion unfailing_lift) (use that assms in \<open>auto simp: sanitizeKubeconfig_def\<close>)
  then show ?thesis
    unfolding apply_credentials_def by (intro unfailing_rules unfailing_proxy_ca) (auto dest: proxy_ca_nonempty)
qed

lemma validation_succeeds:
  assumes start: "follows u i st" and valid: "valid_spec k i"
  shows "\<exists>creds st'. validate_instance k st = (Inr creds, st')"
proof -
  obtain s where i: "ps_instance st = i\<lparr>cl_Status := s\<rparr>" using follows_instance [OF start] by blast
  from valid obtain creds where checks: "default_check i = Inr ()" "resolveCredentials (ck_userSecret k) (ck_kubeconfig k) (defaulted i) = Inr creds"
    by (auto simp: valid_spec_def is_ok_iff)
  from unfailing_run [OF unfailing_apply_credentials [OF resolved_kubeconfigs_load [OF checks(2)]]]
  obtain x st1 where "apply_credentials k creds (st\<lparr>ps_instance := defaulted (ps_instance st)\<rparr>) = (Inr x, st1)" by blast
  with checks i have run: "resolveAndApplyCredentials k st = (Inr x, st1)"
    by (simp add: resolveAndApplyCredentials_def pass_bind_def get_instance_def modify_instance_def or_reject_def pass_return_def)
  then obtain s' where i1: "ps_instance st1 = (defaulted i)\<lparr>cl_Status := s'\<rparr>"
    using resolveAndApplyCredentials_Inr [OF start run] follows_instance by blast
  have search: "\<exists>st2. validateWebSearchConfig k st1 = (Inr (), st2)"
    using valid i1 by (auto simp: valid_spec_def is_ok_iff validateWebSearchConfig_def pass_bind_def get_instance_def set_condition_def
      remove_condition_def modify_instance_def split: option.split)
  show ?thesis
    using run i1 search valid
    by (auto simp: validate_instance_def valid_spec_def is_ok_iff pass_bind_def get_instance_def or_reject_def pass_return_def)
qed

end

text \<open>Once an event is in the trace of a pass it stays there.\<close>

interpretation recorded: trace_property k "\<lambda>st. e \<in> set (ps_trace st)" for k e
proof (rule trace_property.intro)
  have "pass_invariant (\<lambda>st. e \<in> set (ps_trace st)) (write_or_fail k what w)" for what w
    unfolding write_or_fail_def by (intro invariant_rules invariant_try) simp
  then show "pass_invariant (\<lambda>st. e \<in> set (ps_trace st)) (applyProxyCA k)"
    unfolding applyProxyCA_def apply_secret_def Let_def by (intro invariant_rules invariant_secret)
qed simp_all

lemma recorded_bind:
  "(\<And>x st'. p st = (x, st') \<Longrightarrow> e \<in> set (ps_trace st')) \<Longrightarrow> (\<And>x. pass_invariant (\<lambda>st. e \<in> set (ps_trace st)) (f x)) \<Longrightarrow>
     pass_bind p f st = (y, st'') \<Longrightarrow> e \<in> set (ps_trace st'')"
  unfolding pass_bind_def by (auto split: prod.splits sum.splits dest: invariant_result)

context accepting_cluster
begin

lemma proxy_resources_write:
  assumes "ps_instance st = i\<lparr>cl_Status := s\<rparr>" "table_of i creds = Inr routes" "applyProxyResources k creds st = (x, st')"
  shows "Wrote (PatchConfigMap (getProxyConfigMapName (cl_Name i)) [(''proxy-config.json'', ck_printJson k (marshal_config routes))]) \<in> set (ps_trace st')"
proof -
  let ?json = "ck_printJson k (marshal_config routes)"
  let ?e = "Wrote (PatchConfigMap (getProxyConfigMapName (cl_Name i)) [(''proxy-config.json'', ?json)])"
  let ?rest = "\<lambda>_. pass_bind (pass_catch (applyVertexADCConfigMap k creds) (report_failure k ''ConfigFailed'' [''ProxyConfigured''])) (\<lambda>_.
     pass_bind (set_condition k ''ProxyConfigured'' ConditionTrue ''Configured'' ''Proxy config generated successfully'') (\<lambda>_. pass_return ?json))"
  obtain obj' where own: "ck_own k (ps_instance st) (labelled k (ps_instance st) ''ConfigMap'' (getProxyConfigMapName (cl_Name i))) = Some obj'"
    using owns by blast
  have "generateProxyConfig creds (sp_McpServers (cl_Spec (ps_instance st))) (sp_WebSearch (cl_Spec (ps_instance st)))
      (Some (builtin_passthroughs (ps_instance st))) = Inr routes"
    using assms(1,2) by (simp add: table_of_def builtin_passthroughs_def)
  moreover have "applyProxyConfigMap k ?json st = (Inr (), st\<lparr>ps_trace := ps_trace st @ [?e]\<rparr>)"
    using assms(1) own by (simp add: applyProxyConfigMap_def apply_configmap_def pass_defs accepts)
  ultimately have run: "?rest () (st\<lparr>ps_trace := ps_trace st @ [?e]\<rparr>) = (x, st')"
    using assms(3) by (simp add: applyProxyResources_def pass_bind_def [of get_instance] get_instance_def Let_def
      pass_bind_def [of "pass_catch (applyProxyConfigMap k ?json) h" for h] pass_catch_def [of "applyProxyConfigMap k ?json"])
  have "pass_invariant (\<lambda>st. ?e \<in> set (ps_trace st)) (?rest ())"
    by (intro recorded.kept_rules recorded.kept_vertex)
  from invariant_result [OF this _ run] show ?thesis by simp
qed

lemma prepare_writes:
  assumes start: "follows (mv_lib (ck_manifests k)) i st" and valid: "valid_spec k i"
    and res: "resolveCredentials (ck_userSecret k) (ck_kubeconfig k) (defaulted i) = Inr creds" and tab: "table_of (defaulted i) creds = Inr routes"
    and run: "prepare k r st = (x, st')"
  shows "Wrote (PatchConfigMap (getProxyConfigMapName (cl_Name i)) [(''proxy-config.json'', ck_printJson k (marshal_config routes))]) \<in> set (ps_trace st')"
proof -
  let ?e = "Wrote (PatchConfigMap (getProxyConfigMapName (cl_Name i)) [(''proxy-config.json'', ck_printJson k (marshal_config routes))])"
  obtain st1 st2 st3 where early: "clear_idle k st = (Inr (), st1)" "cleanupDevicePairingResources k st1 = (Inr (), st2)"
    "apply_gateway_secret k st2 = (Inr (), st3)"
    using unfailing_run [OF unfailing_first(1)] unfailing_run [OF unfailing_first(2)] unfailing_run [OF unfailing_first(3)] by (metis old.unit.exhaust)
  then have st3: "follows (mv_lib (ck_manifests k)) i st3" using start by (meson follows_kept follows_rules)
  obtain creds' st4 where v: "validate_instance k st3 = (Inr creds', st4)" using validation_succeeds [OF st3 valid] by blast
  have creds: "creds' = creds" using validated_credentials [OF st3 v] res by simp
  obtain s where i4: "ps_instance st4 = (defaulted i)\<lparr>cl_Status := s\<rparr>" using validate_instance_Inr [OF st3 v] follows_instance by blast
  have nm: "cl_Name (defaulted i) = cl_Name i" by (simp add: defaulted_def with_credentials_def)
  have render: "?e \<in> set (ps_trace st5)" if "render k r creds st4 = (y, st5)" for y st5
    using that unfolding render_def
    by (rule recorded_bind [rotated 2])
      (use proxy_resources_write [OF i4 tab] nm in \<open>auto intro!: recorded.kept_rules recorded.kept_render_rest\<close>)
  have "pass_bind (render k r creds) (\<lambda>(objects, doctorFixActive). pass_bind (await_route k objects) (\<lambda>routeHost.
      pass_return (creds, objects, doctorFixActive, routeHost))) st4 = (x, st')"
    using run early v creds
    by (simp add: prepare_def pass_bind_def [of "clear_idle k"] pass_bind_def [of "cleanupDevicePairingResources k"]
      pass_bind_def [of "apply_gateway_secret k"] pass_bind_def [of "validate_instance k"])
  then show ?thesis
    by (rule recorded_bind [rotated 2]) (use render in \<open>auto intro!: recorded.kept_rules recorded.kept_route\<close>)
qed

lemma table_written:
  assumes stored: "ck_claw k nm = Fetched stored" "\<not> sp_Idle (cl_Spec stored)"
    and policy: "\<not> (rf_DisableUserConfigManagement r \<and> userManagedConfig (default_version stored))" and valid: "valid_spec k (default_version stored)"
    and res: "resolveCredentials (ck_userSecret k) (ck_kubeconfig k) (defaulted (default_version stored)) = Inr creds"
    and tab: "table_of (defaulted (default_version stored)) creds = Inr routes"
    and run: "Reconcile k r nm ns \<lparr>ps_instance = i0, ps_trace = []\<rparr> = (y, st)"
  shows "Wrote (PatchConfigMap (getProxyConfigMapName (cl_Name stored)) [(''proxy-config.json'', ck_printJson k (marshal_config routes))]) \<in> set (ps_trace st)"
proof -
  let ?i = "default_version stored"
  let ?st = "\<lparr>ps_instance = ?i, ps_trace = []\<rparr>"
  let ?e = "Wrote (PatchConfigMap (getProxyConfigMapName (cl_Name ?i)) [(''proxy-config.json'', ck_printJson k (marshal_config routes))])"
  have start: "follows (mv_lib (ck_manifests k)) ?i ?st"
    by (auto simp: calm_def follows_def only_events_def intro: exI [of _ "cl_Status ?i"])
  note prep = prepare_writes [OF start valid res tab]
  have "reconcile_active k r ?st = (y, st)" using run stored(2) policy by (auto simp: Reconcile_stored [OF stored(1)] Let_def split: if_splits)
  then have "?e \<in> set (ps_trace st)"
  proof (cases rule: reconcile_active_cases)
    case (password creds' objects act host st1 e)
    from invariant_result [OF recorded.kept_end(1) prep [OF password(1)] password(2)] show ?thesis .
  next
    case (admitted creds' objects act host st1)
    from invariant_result [OF recorded.kept_finish prep [OF admitted(1)] admitted(3)] show ?thesis .
  qed (use prep in blast)+
  then show ?thesis by simp
qed

end


text \<open>
  A pass over the Claw with a bearer and a kubernetes credential; rendering fails after the table was
  written.
\<close>

definition sample_kube_world :: World where
  "sample_kube_world = sample_world\<lparr>w_LoadKubeconfig := (\<lambda>_. Some (proxy_view sample_kubeconfig))\<rparr>"

lemma delivered_kubeconfigs:
  assumes "resolveCredentials sample_reader sample_load (defaulted (default_version sample_claw)) = Inr rs"
  shows "same_kubeconfigs sample_kube_world sample_load rs"
proof -
  have "list_all (\<lambda>rc. case rc_KubeConfig rc of Some kd \<Rightarrow> kd_RawBytes kd = ''kc'' | None \<Rightarrow> True)
      (projr (resolveCredentials sample_reader sample_load (defaulted (default_version sample_claw))))" by code_simp
  with assms show ?thesis
    by (auto simp: same_kubeconfigs_def list_all_iff sample_kube_world_def sample_load_def)
qed

definition delivered_routes :: "proxyRoute list" where
  "delivered_routes = projr (table_of (defaulted (default_version sample_claw))
     (projr (resolveCredentials sample_reader sample_load (defaulted (default_version sample_claw)))))"

definition delivery_cluster :: cluster where
  "delivery_cluster = sample_cluster\<lparr>ck_claw := \<lambda>_. Fetched sample_claw, ck_certificate := Some (''crt'', ''key''), ck_random := Some ''seed'',
     ck_userSecret := sample_reader, ck_kubeconfig := sample_load, ck_printJson := \<lambda>_. ''table''\<rparr>"

interpretation delivery: accepting_cluster delivery_cluster
  by unfold_locales (simp_all add: delivery_cluster_def sample_cluster_def)

lemma delivery_valid: "valid_spec delivery_cluster (default_version sample_claw)"
  by code_simp

lemma delivery_resolved:
  obtains creds where "resolveCredentials sample_reader sample_load (defaulted (default_version sample_claw)) = Inr creds"
    "table_of (defaulted (default_version sample_claw)) creds = Inr delivered_routes"
proof -
  let ?i = "defaulted (default_version sample_claw)"
  obtain creds where creds: "resolveCredentials sample_reader sample_load ?i = Inr creds"
    using delivery_valid by (auto simp: valid_spec_def is_ok_iff delivery_cluster_def)
  have "sp_McpServers (cl_Spec ?i) = []" by (simp add: sample_claw_def default_version_def defaulted_def with_credentials_def empty_ClawSpec_def)
  then have "is_ok (table_of ?i creds)" by (simp add: table_of_def generateProxyConfig_no_mcp)
  with creds that [of creds] show thesis by (auto simp: is_ok_iff delivered_routes_def)
qed

lemma delivery_facts:
  "ck_claw delivery_cluster ''c1'' = Fetched sample_claw" "\<not> sp_Idle (cl_Spec sample_claw)" "cl_Name sample_claw = ''c1''"
  "\<not> (rf_DisableUserConfigManagement sample_reconciler \<and> userManagedConfig (default_version sample_claw))"
  "ck_userSecret delivery_cluster = sample_reader" "ck_kubeconfig delivery_cluster = sample_load" "ck_printJson delivery_cluster = (\<lambda>_. ''table'')"
  by (simp_all add: delivery_cluster_def sample_claw_def empty_ClawSpec_def userManagedConfig_def default_version_def)



end
