(* ===== verification/Proxy_CA.thy ===== *)
theory Proxy_CA
  imports Delivery
begin

section \<open>The proxy's certificate authority\<close>

text \<open>
  \<open>generateCACertificate\<close> of \<open>src/internal/controller/claw_proxy.go\<close> over Go's crypto library as a parameter, with
  what its encoders and decoders promise as the locale \<open>crypto_laws\<close>. The pair a pass writes to the proxy's Secret is one the
  proxy's \<open>parseCA\<close> accepts. A pair that is already there is not looked at.
\<close>

subsection \<open>Generating the pair\<close>

record ca_template =
  cat_SerialNumber :: nat
  cat_Organization :: "string list"
  cat_CommonName :: string
  cat_NotBefore :: int
  cat_NotAfter :: int
  cat_KeyUsage :: nat
  cat_BasicConstraintsValid :: bool
  cat_IsCA :: bool
  cat_MaxPathLen :: nat
  cat_MaxPathLenZero :: bool

text \<open>
  The library: keys and numbers from the source of randomness, the clock in nanoseconds at its two readings, certificates, PEM blocks. A
  result is \<^term>\<open>None\<close> when the call failed. A private key determines its public one.
\<close>

record crypto =
  cy_GenerateKey :: "ec_key option"
  cy_Int :: "nat \<Rightarrow> nat option"
  cy_Now :: "int \<times> int"
  cy_CreateCertificate :: "ca_template \<Rightarrow> ec_key \<Rightarrow> string option"
  cy_MarshalECPrivateKey :: "ec_key \<Rightarrow> string option"
  cy_PemEncode :: "string \<Rightarrow> string \<Rightarrow> string option"

abbreviation KeyUsageCertSign :: nat where "KeyUsageCertSign \<equiv> 32"
abbreviation KeyUsageCRLSign :: nat where "KeyUsageCRLSign \<equiv> 64"

definition hour :: int where
  "hour = 3600000000000"

definition ca_certificate_template :: "nat \<Rightarrow> int \<times> int \<Rightarrow> ca_template" where
  "ca_certificate_template serialNumber now =
     \<lparr>cat_SerialNumber = serialNumber, cat_Organization = [''Claw Operator''], cat_CommonName = ''Claw Proxy CA'',
      cat_NotBefore = fst now - hour, cat_NotAfter = snd now + 10 * 365 * 24 * hour,
      cat_KeyUsage = or KeyUsageCertSign KeyUsageCRLSign, cat_BasicConstraintsValid = True, cat_IsCA = True,
      cat_MaxPathLen = 0, cat_MaxPathLenZero = True\<rparr>"

definition generateCACertificate :: "crypto \<Rightarrow> (string \<times> string) option" where
  "generateCACertificate cy =
     Option.bind (cy_GenerateKey cy) (\<lambda>key.
     Option.bind (cy_Int cy (2 ^ 128)) (\<lambda>serialNumber.
     Option.bind (cy_CreateCertificate cy (ca_certificate_template serialNumber (cy_Now cy)) key) (\<lambda>certDER.
     Option.bind (cy_PemEncode cy ''CERTIFICATE'' certDER) (\<lambda>certPEM.
     Option.bind (cy_MarshalECPrivateKey cy key) (\<lambda>keyDER.
     Option.bind (cy_PemEncode cy ''EC PRIVATE KEY'' keyDER) (\<lambda>keyPEM. Some (certPEM, keyPEM)))))))"

subsection \<open>The library's promises\<close>

locale crypto_laws =
  fixes pk :: pki and cy :: crypto
  assumes pem: "cy_PemEncode cy typ der = Some out \<Longrightarrow> pki_PemDecode pk out = Some der \<and> out \<noteq> []"
    and certificate: "cy_GenerateKey cy = Some key \<Longrightarrow> cy_CreateCertificate cy t key = Some der \<Longrightarrow>
      pki_ParseCertificate pk der = Some \<lparr>c_IsCA = cat_IsCA t, c_KeyUsage = cat_KeyUsage t, c_PublicKey = ECDSAKey (ek_Curve key) (ek_X key) (ek_Y key)\<rparr>"
    and private_key: "cy_GenerateKey cy = Some key \<Longrightarrow> cy_MarshalECPrivateKey cy key = Some der \<Longrightarrow> pki_ParseECPrivateKey pk der = Some key"
    and below: "cy_Int cy n = Some m \<Longrightarrow> m < n"
begin

lemma generated_pair:
  assumes "generateCACertificate cy = Some (certPEM, keyPEM)"
  shows "is_ok (parseCA pk certPEM keyPEM) \<and> certPEM \<noteq> [] \<and> keyPEM \<noteq> []"
proof -
  from assms obtain key sn certDER keyDER where g: "cy_GenerateKey cy = Some key"
      "cy_CreateCertificate cy (ca_certificate_template sn (cy_Now cy)) key = Some certDER" "cy_PemEncode cy ''CERTIFICATE'' certDER = Some certPEM"
      "cy_MarshalECPrivateKey cy key = Some keyDER" "cy_PemEncode cy ''EC PRIVATE KEY'' keyDER = Some keyPEM"
    by (auto simp: generateCACertificate_def Option.bind_eq_Some_conv)
  have "(or KeyUsageCertSign KeyUsageCRLSign) div 32 mod 2 \<noteq> (0 :: nat)" by simp
  with pem [OF g(3)] pem [OF g(5)] certificate [OF g(1,2)] private_key [OF g(1,4)] show ?thesis
    by (simp add: parseCA_def ca_certificate_template_def)
qed

end

text \<open>A library in which encodings are readable: the flags of a certificate in unary, blocks behind a dash.\<close>

definition plain_crypto :: crypto where
  "plain_crypto = \<lparr>cy_GenerateKey = Some \<lparr>ek_Curve = 1, ek_X = 2, ek_Y = 3\<rparr>, cy_Int = (\<lambda>n. if n = 0 then None else Some (n - 1)), cy_Now = (0, 5),
     cy_CreateCertificate = (\<lambda>t _. Some ((if cat_IsCA t then CHR ''1'' else CHR ''0'') # replicate (cat_KeyUsage t) (CHR ''u''))),
     cy_MarshalECPrivateKey = (\<lambda>_. Some ''k''), cy_PemEncode = (\<lambda>_ der. Some (CHR ''-'' # der))\<rparr>"

definition plain_pki :: pki where
  "plain_pki = \<lparr>pki_PemDecode = (\<lambda>out. case out of [] \<Rightarrow> None | _ # der \<Rightarrow> Some der),
     pki_ParseCertificate = (\<lambda>der. case der of [] \<Rightarrow> None
       | c # us \<Rightarrow> Some \<lparr>c_IsCA = (c = CHR ''1''), c_KeyUsage = length us, c_PublicKey = ECDSAKey 1 2 3\<rparr>),
     pki_ParseECPrivateKey = (\<lambda>_. Some \<lparr>ek_Curve = 1, ek_X = 2, ek_Y = 3\<rparr>), pki_SystemCertPool = None, pki_CertsFromPEM = (\<lambda>_. [])\<rparr>"

interpretation plain: crypto_laws plain_pki plain_crypto
  by unfold_locales (auto simp: plain_pki_def plain_crypto_def split: if_splits)

subsection \<open>The Secret a pass writes\<close>

definition authority_write :: "pki \<Rightarrow> pass_event \<Rightarrow> bool" where
  "authority_write pk e \<longleftrightarrow> (\<forall>n data. e = Wrote (PatchSecret (getProxyCAConfigMapName n) data) \<longrightarrow>
     is_ok (parseCA pk (lookup_str data ''ca.crt'') (lookup_str data ''ca.key'')))"

lemma authority_property:
  assumes "crypto_laws pk cy" "ck_certificate k = generateCACertificate cy"
  shows "pass_property k (only_events (authority_write pk))"
proof (intro pass_property.intro trace_property.intro pass_property_axioms.intro)
  have "authority_write pk (Wrote (PatchSecret nm [(''ca.crt'', cert), (''ca.key'', key)]))" if "ck_certificate k = Some (cert, key)" for nm cert key
    using crypto_laws.generated_pair [OF assms(1)] that assms(2) by (simp add: authority_write_def lookup_str_def)
  then show "pass_invariant (only_events (authority_write pk)) (applyProxyCA k)"
    unfolding applyProxyCA_def apply_secret_def Let_def by (intro only_rules invariant_secret) auto
  show "pass_invariant (only_events (authority_write pk)) (applyProxyConfigMap k json)" for json
    unfolding applyProxyConfigMap_def apply_configmap_def by (intro only_rules) (simp add: authority_write_def)
qed (auto simp: only_events_def authority_write_def table_free_def)


subsection \<open>A missing authority is made\<close>

context accepting_cluster
begin

lemma authority_recorded:
  assumes none: "ck_secret k (getProxyCAConfigMapName (cl_Name (ps_instance st))) = SecretNotFound" and c: "ck_certificate k = Some (cert, key)"
  shows "applyProxyCA k st = (Inr cert, st\<lparr>ps_trace := ps_trace st @
    [Wrote (PatchSecret (getProxyCAConfigMapName (cl_Name (ps_instance st))) [(''ca.crt'', cert), (''ca.key'', key)])]\<rparr>)"
proof -
  obtain obj' where "ck_own k (ps_instance st) (labelled k (ps_instance st) ''Secret'' (getProxyCAConfigMapName (cl_Name (ps_instance st)))) = Some obj'"
    using owns by blast
  with none c show ?thesis by (simp add: applyProxyCA_def apply_secret_def Let_def pass_defs accepts)
qed

lemma credentials_record:
  assumes start: "follows u i st" and none: "ck_secret k (getProxyCAConfigMapName (cl_Name i)) = SecretNotFound"
    and c: "ck_certificate k = Some (cert, key)" and ok: "default_check i = Inr ()"
    and res: "resolveCredentials (ck_userSecret k) (ck_kubeconfig k) (defaulted i) = Inr creds" and run: "resolveAndApplyCredentials k st = (x, st')"
  shows "Wrote (PatchSecret (getProxyCAConfigMapName (cl_Name i)) [(''ca.crt'', cert), (''ca.key'', key)]) \<in> set (ps_trace st')"
proof -
  let ?e = "Wrote (PatchSecret (getProxyCAConfigMapName (cl_Name i)) [(''ca.crt'', cert), (''ca.key'', key)])"
  obtain s where i: "ps_instance st = i\<lparr>cl_Status := s\<rparr>" using follows_instance [OF start] by blast
  define st1 where "st1 = snd (set_condition k ''CredentialsResolved'' ConditionTrue ''Resolved'' ''All credential Secrets are valid''
    (st\<lparr>ps_instance := defaulted (ps_instance st)\<rparr>))"
  have "cl_Name (ps_instance st1) = cl_Name i"
    by (simp add: st1_def set_condition_def modify_instance_def setCondition_def with_conditions_def i defaulted_def with_credentials_def)
  with authority_recorded [of st1] none c have ca: "applyProxyCA k st1 = (Inr cert, st1\<lparr>ps_trace := ps_trace st1 @ [?e]\<rparr>)" by simp
  have "pass_bind (applyProxyCA k) (\<lambda>proxyCACert. pass_bind (applySanitizedKubeconfig k creds proxyCACert) (\<lambda>_. pass_return creds)) st1 = (x, st')"
    using run ok res i by (simp add: resolveAndApplyCredentials_def apply_credentials_def pass_bind_def [of get_instance] get_instance_def
      pass_bind_def [of "modify_instance f" for f] modify_instance_def or_reject_def pass_bind_def [of "pass_return y" for y] pass_return_def
      pass_bind_def [of "set_condition k t v r msg" for t v r msg] set_condition_def st1_def)
  then show ?thesis
    by (rule recorded_bind [rotated 2]) (use ca in \<open>auto simp: applySanitizedKubeconfig_def Let_def intro!: recorded.kept_rules recorded.kept_config\<close>)
qed

lemma authority_written:
  assumes stored: "ck_claw k nm = Fetched stored" "\<not> sp_Idle (cl_Spec stored)"
    and policy: "\<not> (rf_DisableUserConfigManagement r \<and> userManagedConfig (default_version stored))"
    and none: "ck_secret k (getProxyCAConfigMapName (cl_Name stored)) = SecretNotFound" and c: "ck_certificate k = Some (cert, key)"
    and ok: "default_check (default_version stored) = Inr ()"
    and res: "resolveCredentials (ck_userSecret k) (ck_kubeconfig k) (defaulted (default_version stored)) = Inr creds"
    and run: "Reconcile k r nm ns \<lparr>ps_instance = i0, ps_trace = []\<rparr> = (y, st)"
  shows "Wrote (PatchSecret (getProxyCAConfigMapName (cl_Name stored)) [(''ca.crt'', cert), (''ca.key'', key)]) \<in> set (ps_trace st)"
proof -
  let ?i = "default_version stored" and ?u = "mv_lib (ck_manifests k)"
  let ?st = "\<lparr>ps_instance = ?i, ps_trace = []\<rparr>"
  let ?e = "Wrote (PatchSecret (getProxyCAConfigMapName (cl_Name ?i)) [(''ca.crt'', cert), (''ca.key'', key)])"
  have start: "follows ?u ?i ?st" by (auto simp: calm_def follows_def only_events_def intro: exI [of _ "cl_Status ?i"])
  obtain st1 st2 st3 where early: "clear_idle k ?st = (Inr (), st1)" "cleanupDevicePairingResources k st1 = (Inr (), st2)"
    "apply_gateway_secret k st2 = (Inr (), st3)"
    using unfailing_run [OF unfailing_first(1)] unfailing_run [OF unfailing_first(2)] unfailing_run [OF unfailing_first(3)] by (metis old.unit.exhaust)
  then have st3: "follows ?u ?i st3" using start by (meson follows_kept follows_rules)
  have valid: "?e \<in> set (ps_trace st4)" if "validate_instance k st3 = (z, st4)" for z st4
    using that unfolding validate_instance_def
    by (rule recorded_bind [rotated 2])
      (use credentials_record [OF st3 _ c ok res] none in \<open>auto simp: validateWebSearchConfig_def intro!: recorded.kept_rules\<close>)
  have render_kept: "pass_invariant (\<lambda>st. ?e \<in> set (ps_trace st)) (render k r creds)" for creds
  proof -
    have "pass_invariant (\<lambda>st. ?e \<in> set (ps_trace st)) (applyProxyResources k creds)"
      unfolding applyProxyResources_def applyProxyConfigMap_def apply_configmap_def write_or_fail_def Let_def
      by (intro recorded.kept_rules recorded.kept_vertex invariant_try) simp
    then show ?thesis unfolding render_def by (intro recorded.kept_rules recorded.kept_render_rest)
  qed
  have prep: "?e \<in> set (ps_trace st5)" if "prepare k r ?st = (z, st5)" for z st5
  proof -
    have "pass_bind (validate_instance k) (\<lambda>creds. pass_bind (render k r creds) (\<lambda>(objects, act). pass_bind (await_route k objects) (\<lambda>host.
        pass_return (creds, objects, act, host)))) st3 = (z, st5)"
      using that early by (simp add: prepare_def pass_bind_def [of "clear_idle k"] pass_bind_def [of "cleanupDevicePairingResources k"]
        pass_bind_def [of "apply_gateway_secret k"])
    then show ?thesis by (rule recorded_bind [rotated 2]) (use valid render_kept in \<open>auto intro!: recorded.kept_rules recorded.kept_route\<close>)
  qed
  have "reconcile_active k r ?st = (y, st)" using run stored(2) policy by (auto simp: Reconcile_stored [OF stored(1)] Let_def split: if_splits)
  then have "?e \<in> set (ps_trace st)"
  proof (cases rule: reconcile_active_cases)
    case (password creds' objects act host st6 e)
    from invariant_result [OF recorded.kept_end(1) prep [OF password(1)] password(2)] show ?thesis .
  next
    case (admitted creds' objects act host st6)
    from invariant_result [OF recorded.kept_finish prep [OF admitted(1)] admitted(3)] show ?thesis .
  qed (use prep in blast)+
  then show ?thesis by simp
qed

end

text \<open>A cluster without the Secret, whose certificates come from the readable library.\<close>

definition ca_cluster :: cluster where
  "ca_cluster = delivery_cluster\<lparr>ck_certificate := generateCACertificate plain_crypto, ck_secret := \<lambda>_. SecretNotFound\<rparr>"

interpretation authority: pass_property ca_cluster "only_events (authority_write plain_pki)"
  by (rule authority_property [OF plain.crypto_laws_axioms]) (simp add: ca_cluster_def)

interpretation ca_cluster: accepting_cluster ca_cluster
  by unfold_locales (simp_all add: ca_cluster_def delivery_cluster_def sample_cluster_def generateCACertificate_def plain_crypto_def)


text \<open>A new authority is valid from an hour before it is made until ten years after.\<close>

lemma authority_lifetime:
  "fst now \<le> snd now \<Longrightarrow> cat_NotBefore (ca_certificate_template sn now) < fst now \<and>
     cat_NotAfter (ca_certificate_template sn now) - cat_NotBefore (ca_certificate_template sn now) \<ge> 3650 * 24 * hour"
  by (simp add: ca_certificate_template_def hour_def)

text \<open>An authority that is there is kept whatever it is: two values that are not empty are enough, whether or not they parse, and no pass replaces one that has expired.\<close>

lemma existing_authority_kept:
  assumes "ck_secret k (getProxyCAConfigMapName (cl_Name (ps_instance st))) = SecretData [(''ca.crt'', cert), (''ca.key'', key)]"
    "cert \<noteq> []" "key \<noteq> []"
  shows "applyProxyCA k st = (Inr cert, st)"
  using assms by (simp add: applyProxyCA_def pass_bind_def get_instance_def pass_return_def lookup_str_def)

end
