(* ===== verification/Watches.thy ===== *)
theory Watches
  imports Admission
begin

section \<open>What the controller watches and caches\<close>

text \<open>
  Which changes cause a pass: \<open>SetupWithManager\<close>, \<open>findClawsReferencingSecret\<close> and \<open>clawReferencesSecret\<close> of
  \<open>src/internal/controller/claw_resource_controller.go\<close>, the persona watch of \<open>claw_restrictions.go\<close>, the
  Secret cache of a pass in \<open>user_secret_cache.go\<close>, and the cache options and environment checks of
  \<open>src/cmd/main.go\<close>. The informers, the work queue and the label selectors are those of
  controller-runtime.

  The properties: a change of a Secret that causes no pass for an instance would not have changed what
  a pass over it does; what the cache of a pass returns for a Secret does not change during the pass;
  the operator's cache does not depend on the payload of Secrets that are not its own. The persona
  watch maps a ConfigMap to the Claws that refer to it, but ConfigMaps without the instance label are
  filtered out before it.
\<close>

subsection \<open>Mapping changes to requests\<close>

text \<open>Of a changed object: its name, namespace, labels and the kind and name of its controller.\<close>

record watched_object =
  wo_Name :: string
  wo_Namespace :: string
  wo_Labels :: "(string, string) gomap"
  wo_Controller :: "(string \<times> string) option"

abbreviation ClawResourceKind :: string where "ClawResourceKind \<equiv> ''Claw''"

definition clawReferencesSecret :: "Claw \<Rightarrow> string \<Rightarrow> bool" where
  "clawReferencesSecret instance secretName =
     (list_ex (\<lambda>cred. referencesSecret cred secretName) (sp_Credentials (cl_Spec instance)) \<or>
      list_ex (\<lambda>(_, spec). list_ex (\<lambda>ef. sr_Name (ef_SecretRef ef) = secretName) (mcp_EnvFrom spec)) (sp_McpServers (cl_Spec instance)) \<or>
      (case sp_WebSearch (cl_Spec instance) of
         Some ws \<Rightarrow> (case ws_SecretRef ws of Some ref \<Rightarrow> sr_Name ref = secretName | None \<Rightarrow> False)
       | None \<Rightarrow> False) \<or>
      (case sp_Auth (cl_Spec instance) of
         Some au \<Rightarrow> (case au_PasswordSecretRef au of Some ref \<Rightarrow> sr_Name ref = secretName | None \<Rightarrow> False)
       | None \<Rightarrow> False) \<or>
      (case git_secret instance of Some ref \<Rightarrow> gsr_Name ref = secretName | None \<Rightarrow> False) \<or>
      (case githubRepoAccess instance of Some gh \<Rightarrow> sr_Name (gh_SecretRef gh) = secretName | None \<Rightarrow> False))"

definition controlled_by_claw :: "watched_object \<Rightarrow> bool" where
  "controlled_by_claw obj \<longleftrightarrow> (case wo_Controller obj of Some (kind, _) \<Rightarrow> kind = ClawResourceKind | None \<Rightarrow> False)"

text \<open>The Claws of a namespace, or \<^term>\<open>None\<close> when listing them fails; the requests are names and namespaces.\<close>

definition findClawsReferencingSecret :: "(string \<Rightarrow> Claw list option) \<Rightarrow> watched_object \<Rightarrow> (string \<times> string) list" where
  "findClawsReferencingSecret claws obj =
     (if controlled_by_claw obj then []
      else case claws (wo_Namespace obj) of
        None \<Rightarrow> []
      | Some items \<Rightarrow>
          map (\<lambda>i. (cl_Name i, cl_Namespace i)) (filter (\<lambda>i. clawReferencesSecret i (wo_Name obj)) items))"

definition findClawsReferencingPersonaConfigMap :: "(string \<Rightarrow> Claw list option) \<Rightarrow> watched_object \<Rightarrow> (string \<times> string) list" where
  "findClawsReferencingPersonaConfigMap claws obj =
     (if controlled_by_claw obj then []
      else case claws (wo_Namespace obj) of
        None \<Rightarrow> []
      | Some items \<Rightarrow> map (\<lambda>i. (cl_Name i, cl_Namespace i)) (filter (\<lambda>i. persona_ref i = Some (wo_Name obj)) items))"

definition owner_request :: "watched_object \<Rightarrow> (string \<times> string) list" where
  "owner_request obj =
     (case wo_Controller obj of
        Some (kind, nm) \<Rightarrow> if kind = ClawResourceKind then [(nm, wo_Namespace obj)] else []
      | None \<Rightarrow> [])"

subsection \<open>The operator's cache (\<open>cmd/main.go\<close>)\<close>

text \<open>Of a Secret: its metadata and its payload.\<close>

record secret_object =
  so_Meta :: watched_object
  so_Annotations :: "(string, string) gomap"
  so_ManagedFields :: "string list"
  so_Data :: "(string, string) gomap"
  so_StringData :: "(string, string) gomap"

definition instance_labelled :: "watched_object \<Rightarrow> bool" where
  "instance_labelled obj \<longleftrightarrow> has_key (wo_Labels obj) InstanceLabelKey"

definition cached_secret :: "secret_object \<Rightarrow> secret_object" where
  "cached_secret secret =
     (if instance_labelled (so_Meta secret) then secret
      else secret\<lparr>so_Data := [], so_StringData := [],
             so_Annotations := AList.delete ''kubectl.kubernetes.io/last-applied-configuration'' (so_Annotations secret),
             so_ManagedFields := []\<rparr>)"

text \<open>
  The requests a change leads to (\<open>SetupWithManager\<close>): Secrets are all seen, of the other kinds only
  the objects with the instance label.
\<close>

definition secret_requests :: "(string \<Rightarrow> Claw list option) \<Rightarrow> watched_object \<Rightarrow> (string \<times> string) list" where
  "secret_requests claws obj = owner_request obj @ findClawsReferencingSecret claws obj"

definition configmap_requests :: "(string \<Rightarrow> Claw list option) \<Rightarrow> watched_object \<Rightarrow> (string \<times> string) list" where
  "configmap_requests claws obj =
     (if instance_labelled obj then owner_request obj @ findClawsReferencingPersonaConfigMap claws obj else [])"

subsection \<open>The Secrets read during a pass\<close>

text \<open>
  \<open>userSecretCache\<close>: a failed read is not remembered. The answers of the server are a list, the next one
  first; a read that is answered from the cache takes none.
\<close>

type_synonym 'a userSecretCache = "(string, 'a) gomap"

definition userSecretCache_get ::
  "string \<Rightarrow> 'a userSecretCache \<times> (string \<Rightarrow> 'a option) list \<Rightarrow> 'a option \<times> 'a userSecretCache \<times> (string \<Rightarrow> 'a option) list" where
  "userSecretCache_get nm st =
     (case st of (secrets, answers) \<Rightarrow>
        case map_of secrets nm of
          Some secret \<Rightarrow> (Some secret, secrets, answers)
        | None \<Rightarrow>
            (case answers of
               [] \<Rightarrow> (None, secrets, [])
             | answer # rest \<Rightarrow>
                 (case answer nm of
                    None \<Rightarrow> (None, secrets, rest)
                  | Some secret \<Rightarrow> (Some secret, AList.update nm secret secrets, rest))))"

fun cache_reads ::
  "string list \<Rightarrow> 'a userSecretCache \<times> (string \<Rightarrow> 'a option) list \<Rightarrow> (string \<times> 'a option) list" where
  "cache_reads [] st = []"
| "cache_reads (nm # nms) st = (case userSecretCache_get nm st of (x, st') \<Rightarrow> (nm, x) # cache_reads nms st')"

subsection \<open>The environment of the operator (\<open>cmd/main.go\<close>)\<close>

definition validateImagePullPolicy :: "string \<Rightarrow> string option" where
  "validateImagePullPolicy val =
     (if val = [] then Some []
      else if val \<in> set [''Always'', ''IfNotPresent'', ''Never''] then Some val else None)"

definition ParseBool :: "string \<Rightarrow> bool option" where
  "ParseBool str =
     (if str \<in> set [''1'', ''t'', ''T'', ''true'', ''TRUE'', ''True''] then Some True
      else if str \<in> set [''0'', ''f'', ''F'', ''false'', ''FALSE'', ''False''] then Some False
      else None)"

definition validateOptionalBool :: "string \<Rightarrow> bool option" where
  "validateOptionalBool val = (if val = [] then Some False else ParseBool val)"

subsection \<open>Operations that read no Secret of the user\<close>

text \<open>\<open>reread k get version\<close> is the cluster after the Secrets of the user have changed.\<close>

abbreviation reread :: "cluster \<Rightarrow> secret_reader \<Rightarrow> (string \<Rightarrow> string option) \<Rightarrow> cluster" where
  "reread k get version \<equiv> k\<lparr>ck_userSecret := get, ck_userVersion := version\<rparr>"

lemmas case_congs = if_cong option.case_cong sum.case_cong prod.case_cong fetched.case_cong secret_read.case_cong

lemma reread_write [simp]:
  "try_write (reread k g v) = try_write k" "set_condition (reread k g v) = set_condition k" "remove_condition (reread k g v) = remove_condition k"
  by (simp_all add: fun_eq_iff Let_def try_write_def set_condition_def remove_condition_def cong: case_congs)

lemma reread_status [simp]:
  "write_or_fail (reread k g v) = write_or_fail k" "write_status (reread k g v) = write_status k"
  by (simp_all add: fun_eq_iff Let_def write_or_fail_def write_status_def cong: case_congs)

lemma reread_status_writes [simp]:
  "write_status_or_fail (reread k g v) = write_status_or_fail k" "write_status_quietly (reread k g v) = write_status_quietly k"
  by (simp_all add: fun_eq_iff Let_def write_status_or_fail_def write_status_quietly_def cong: case_congs)

lemma reread_failures [simp]: "report_failure (reread k g v) = report_failure k" "rejectValidation (reread k g v) = rejectValidation k"
  by (simp_all add: fun_eq_iff Let_def report_failure_def rejectValidation_def cong: case_congs)

lemma reread_reject [simp]: "or_reject (reread k g v) = or_reject k"
  by (simp add: fun_eq_iff Let_def or_reject_def cong: case_congs)

lemma reread_applies [simp]:
  "apply_secret (reread k g v) = apply_secret k" "apply_configmap (reread k g v) = apply_configmap k"
  "delete_orphan (reread k g v) = delete_orphan k"
  by (simp_all add: fun_eq_iff Let_def labelled_def apply_secret_def apply_configmap_def delete_orphan_def cong: case_congs)

lemma reread_secrets [simp]:
  "apply_gateway_secret (reread k g v) = apply_gateway_secret k" "applyProxyCA (reread k g v) = applyProxyCA k"
  by (simp_all add: fun_eq_iff Let_def apply_gateway_secret_def applyProxyCA_def cong: case_congs)

lemma reread_credentials [simp]:
  "applySanitizedKubeconfig (reread k g v) = applySanitizedKubeconfig k"
  "applyVertexADCConfigMap (reread k g v) = applyVertexADCConfigMap k" "applyProxyConfigMap (reread k g v) = applyProxyConfigMap k"
  by (simp_all add: fun_eq_iff Let_def applySanitizedKubeconfig_def applyVertexADCConfigMap_def applyProxyConfigMap_def cong: case_congs)

lemma reread_proxy [simp]:
  "apply_credentials (reread k g v) = apply_credentials k" "applyProxyResources (reread k g v) = applyProxyResources k"
  by (simp_all add: fun_eq_iff Let_def apply_credentials_def applyProxyResources_def cong: case_congs)

lemma reread_message [simp]: "persona_message (reread k g v) = persona_message k"
  by (simp add: fun_eq_iff persona_message_def split: reconcile_error.split)

lemma reread_persona [simp]:
  "resolvePersonaRef (reread k g v) = resolvePersonaRef k" "restrictions_condition (reread k g v) = restrictions_condition k"
  "setMemoryStackCondition (reread k g v) = setMemoryStackCondition k" "mcp_condition (reread k g v) = mcp_condition k"
  by (simp_all add: fun_eq_iff Let_def resolvePersonaRef_def restrictions_condition_def setMemoryStackCondition_def
      mcp_condition_def cong: case_congs)

lemma reread_object [simp]:
  "own_object (reread k g v) = own_object k" "apply_object (reread k g v) = apply_object k"
  "delete_quietly (reread k g v) = delete_quietly k"
  "buildKustomizedObjects (reread k g v) = buildKustomizedObjects k"
  by (simp_all add: fun_eq_iff own_object_def apply_object_def apply_deployment_def delete_quietly_def buildKustomizedObjects_def
      buildKustomizeFromPath_def Let_def cong: case_congs)

lemma reread_resources [simp]: "applyResources (reread k g v) = applyResources k"
proof
  fix objs show "applyResources (reread k g v) objs = applyResources k objs" by (induction objs) simp_all
qed

lemma reread_objects [simp]:
  "applyRouteByName (reread k g v) = applyRouteByName k" "cleanupDevicePairingResources (reread k g v) = cleanupDevicePairingResources k"
  by (simp_all add: fun_eq_iff applyRouteByName_def cleanupDevicePairingResources_def Let_def cong: case_congs)

lemma reread_monitor [simp]: "reconcileServiceMonitor (reread k g v) = reconcileServiceMonitor k"
  by (simp add: fun_eq_iff Let_def reconcileServiceMonitor_def deleteServiceMonitorIfExists_def service_monitor_def cong: case_congs)

lemma reread_job [simp]:
  "start_doctor_job (reread k g v) = start_doctor_job k" "doctor_outcome (reread k g v) = doctor_outcome k"
  by (simp_all add: fun_eq_iff start_doctor_job_def doctor_outcome_def Let_def cong: case_congs)

lemma reread_paused [simp]: "paused_doctor_fix (reread k g v) = paused_doctor_fix k"
  by (simp add: fun_eq_iff paused_doctor_fix_def Let_def cong: case_congs)

lemma reread_continue [simp]: "continue_doctor_fix (reread k g v) = continue_doctor_fix k"
  by (simp add: fun_eq_iff continue_doctor_fix_def Let_def cong: case_congs)

lemma reread_doctor [simp]: "reconcileDoctorFix (reread k g v) = reconcileDoctorFix k"
  by (simp add: fun_eq_iff reconcileDoctorFix_def)

lemma reread_ready [simp]: "pending_deployments (reread k g v) nms = pending_deployments k nms"
  by (induction nms) (simp_all add: getDeploymentAvailableStatus_def)

lemma reread_detail [simp]: "first_detail (reread k g v) nms = first_detail k nms"
  by (induction nms) (simp_all add: checkPodInitFailures_def cong: case_congs)

lemma reread_url [simp]: "getRouteURL (reread k g v) = getRouteURL k" "status_url (reread k g v) = status_url k"
  by (simp_all add: fun_eq_iff getRouteURL_def status_url_def getGatewayToken_def Let_def cong: case_congs)

lemma reread_readiness [simp]:
  "checkDeploymentsReady (reread k g v) = checkDeploymentsReady k" "report_readiness (reread k g v) = report_readiness k"
  by (simp_all add: fun_eq_iff checkDeploymentsReady_def report_readiness_def Let_def del: pending_deployments.simps first_detail.simps)

lemma reread_update [simp]: "updateStatus (reread k g v) = updateStatus k"
  by (simp add: fun_eq_iff updateStatus_def Let_def cong: case_congs)

lemma reread_idle [simp]: "handleIdle (reread k g v) = handleIdle k"
proof -
  have "scaleDeploymentToZero (reread k g v) = scaleDeploymentToZero k"
    by (simp add: fun_eq_iff scaleDeploymentToZero_def cong: case_congs)
  then show ?thesis by (simp add: handleIdle_def cong: case_congs)
qed

lemma reread_route [simp]: "await_route (reread k g v) = await_route k" "clear_idle (reread k g v) = clear_idle k"
  by (simp_all add: fun_eq_iff await_route_def clear_idle_def cong: case_congs)

lemma reread_enrich [simp]: "enrich (reread k g v) = enrich k" "finish_pass (reread k g v) = finish_pass k"
  by (simp_all add: fun_eq_iff enrich_def finish_pass_def cong: case_congs)

subsection \<open>Secrets that are not referenced are not read\<close>

lemma credential_refs:
  "\<not> clawReferencesSecret i s \<Longrightarrow> cred \<in> set (sp_Credentials (cl_Spec i)) \<Longrightarrow> ref \<in> set (cs_SecretRef cred) \<Longrightarrow> sr_Name ref \<noteq> s"
  by (auto simp: clawReferencesSecret_def referencesSecret_def list_ex_iff)

lemma env_refs:
  "\<not> clawReferencesSecret i s \<Longrightarrow> (n, spec) \<in> set (sp_McpServers (cl_Spec i)) \<Longrightarrow> ef \<in> set (mcp_EnvFrom spec) \<Longrightarrow> sr_Name (ef_SecretRef ef) \<noteq> s"
  by (fastforce simp: clawReferencesSecret_def list_ex_iff)

lemma other_refs:
  "\<not> clawReferencesSecret i s \<Longrightarrow> sp_WebSearch (cl_Spec i) = Some ws \<Longrightarrow> ws_SecretRef ws = Some ref \<Longrightarrow> sr_Name ref \<noteq> s"
  "\<not> clawReferencesSecret i s \<Longrightarrow> sp_Auth (cl_Spec i) = Some au \<Longrightarrow> au_PasswordSecretRef au = Some ref \<Longrightarrow> sr_Name ref \<noteq> s"
  "\<not> clawReferencesSecret i s \<Longrightarrow> git_secret i = Some gref \<Longrightarrow> gsr_Name gref \<noteq> s"
  "\<not> clawReferencesSecret i s \<Longrightarrow> githubRepoAccess i = Some gh \<Longrightarrow> sr_Name (gh_SecretRef gh) \<noteq> s"
  by (auto simp: clawReferencesSecret_def)

lemma secret_in_refs:
  "primarySecret cred = Some ref \<Longrightarrow> ref \<in> set (cs_SecretRef cred)" "secretForRole cred role = Some ref \<Longrightarrow> ref \<in> set (cs_SecretRef cred)"
  by (auto simp: primarySecret_def secretForRole_def find_Some_iff split: list.splits)

lemma channel_refs: "ce \<in> set (channel_env cred) \<Longrightarrow> ef_SecretRef (ce_Env ce) \<in> set (cs_SecretRef cred)"
  by (auto simp: channel_env_def map_filter_def split: if_splits option.splits dest: secret_in_refs)

lemma channel_unreferenced:
  "\<not> clawReferencesSecret i s \<Longrightarrow> cred \<in> set (sp_Credentials (cl_Spec i)) \<Longrightarrow> ce \<in> set (channel_env cred) \<Longrightarrow> sr_Name (ef_SecretRef (ce_Env ce)) \<noteq> s"
  by (rule credential_refs [OF _ _ channel_refs])

text \<open>
  Two readers that agree but for one Secret: they give the same answers about a Claw that does not
  refer to it.
\<close>

locale secret_change =
  fixes get get' :: secret_reader and version version' :: "string \<Rightarrow> string option" and s :: string
  assumes readers: "nm \<noteq> s \<Longrightarrow> get' nm = get nm" and versions: "nm \<noteq> s \<Longrightarrow> version' nm = version nm"
begin

lemma same_refs: "(\<And>ref. ref \<in> set refs \<Longrightarrow> sr_Name ref \<noteq> s) \<Longrightarrow> check_refs get' load cred refs kc = check_refs get load cred refs kc"
  by (induction refs arbitrary: kc) (simp_all add: readers cong: case_congs)

lemma same_credentials:
  assumes ref: "\<not> clawReferencesSecret i s"
  shows "resolveCredentials get' load i = resolveCredentials get load i"
proof -
  have "resolve_one get' load cred st = resolve_one get load cred st" if "cred \<in> set (sp_Credentials (cl_Spec i))" for cred st
    using same_refs [OF credential_refs [OF ref that]] by (simp add: resolve_one_def split: prod.split)
  then have "fold (resolve_one get' load) (sp_Credentials (cl_Spec i)) st = fold (resolve_one get load) (sp_Credentials (cl_Spec i)) st" for st
    by (intro List.fold_cong) (auto simp: fun_eq_iff)
  then show ?thesis by (simp add: resolveCredentials_def)
qed

lemma same_mcp:
  assumes ref: "\<not> clawReferencesSecret i s"
  shows "validateMcpServerSecrets get' i = validateMcpServerSecrets get i"
proof -
  have "concat (map (check_env_secret get' n) (mcp_EnvFrom spec)) = concat (map (check_env_secret get n) (mcp_EnvFrom spec))"
    if "(n, spec) \<in> set (sp_McpServers (cl_Spec i))" for n spec
    using env_refs [OF ref that] by (intro arg_cong [where f = concat] map_cong) (simp_all add: check_env_secret_def readers)
  then have "map (\<lambda>(n, spec). concat (map (check_env_secret get' n) (mcp_EnvFrom spec))) (sp_McpServers (cl_Spec i)) =
      map (\<lambda>(n, spec). concat (map (check_env_secret get n) (mcp_EnvFrom spec))) (sp_McpServers (cl_Spec i))"
    by (intro map_cong) auto
  then show ?thesis by (simp only: validateMcpServerSecrets_def)
qed

lemma same_search:
  assumes ref: "\<not> clawReferencesSecret i s"
  shows "check_web_search get' i = check_web_search get i"
  using other_refs(1) [OF ref] by (simp add: check_web_search_def readers cong: case_congs)

lemma same_checks:
  assumes ref: "\<not> clawReferencesSecret i s"
  shows "validateRepoAccessSecrets get' i = validateRepoAccessSecrets get i" "validateGitSecretRef get' i = validateGitSecretRef get i"
  using other_refs [OF ref] by (simp_all add: validateRepoAccessSecrets_def validateGitSecretRef_def readers cong: case_congs)

lemma same_password:
  assumes ref: "\<not> clawReferencesSecret i s"
  shows "resolveAuthPassword get' i = resolveAuthPassword get i"
proof (cases "Option.bind (sp_Auth (cl_Spec i)) au_PasswordSecretRef")
  case (Some ref)
  then have "get' (sr_Name ref) = get (sr_Name ref)" using other_refs(2) [OF ref] readers by (auto simp: bind_eq_Some_conv)
  with Some show ?thesis by (simp add: resolveAuthPassword_def)
qed (simp add: resolveAuthPassword_def)

lemma same_versions: "(\<And>key nm. (key, nm) \<in> set refs \<Longrightarrow> nm \<noteq> s) \<Longrightarrow> versions_of version' refs = versions_of version refs"
  by (induction refs) (force simp: versions cong: case_congs)+

lemma same_proxy_stamp:
  assumes ref: "\<not> clawReferencesSecret i s"
  shows "stampSecretVersionAnnotation u version' objs i = stampSecretVersionAnnotation u version objs i"
proof -
  have "nm \<noteq> s" if "(key, nm) \<in> set (proxy_version_refs i)" for key nm
    using that by (auto simp: proxy_version_refs_def credential_version_refs_def split: option.splits if_splits
        dest!: sym [of "Some _"] dest: credential_refs [OF ref] other_refs [OF ref])
  then have "versions_of version' (proxy_version_refs i) = versions_of version (proxy_version_refs i)" by (rule same_versions)
  then show ?thesis by (simp add: stampSecretVersionAnnotation_def)
qed

lemma same_mcp_stamp:
  assumes ref: "\<not> clawReferencesSecret i s"
  shows "stampMcpSecretVersionAnnotation u sum256 version' objs i = stampMcpSecretVersionAnnotation u sum256 version objs i"
proof -
  have "nm \<noteq> s" if "(key, nm) \<in> set (mcp_secret_refs sum256 i)" for key nm
    using that env_refs [OF ref] by (auto simp: mcp_secret_refs_def split: option.splits dest!: sym [of "Some _"] map_of_SomeD)
  then have "versions_of version' (mcp_secret_refs sum256 i) = versions_of version (mcp_secret_refs sum256 i)" by (rule same_versions)
  then show ?thesis by (simp add: stampMcpSecretVersionAnnotation_def)
qed

lemma same_channel_stamp:
  assumes ref: "\<not> clawReferencesSecret i s"
  shows "stampChannelSecretVersionAnnotation u sum256 version' objs i = stampChannelSecretVersionAnnotation u sum256 version objs i"
proof (cases "collectChannelEnvFrom i")
  case (Inr channelEnv)
  let ?refs = "map (\<lambda>entry. (mcpAnnotationKey sum256 (ce_Channel entry) (ef_Name (ce_Env entry)), sr_Name (ef_SecretRef (ce_Env entry)))) channelEnv"
  have "nm \<noteq> s" if "(key, nm) \<in> set ?refs" for key nm
    using that Inr by (auto simp: collectChannelEnvFrom_def split: sum.splits dest: channel_unreferenced [OF ref])
  then have "versions_of version' ?refs = versions_of version ?refs" by (rule same_versions)
  with Inr show ?thesis by (simp add: stampChannelSecretVersionAnnotation_def)
qed (simp add: stampChannelSecretVersionAnnotation_def)

lemma same_stamps:
  assumes ref: "\<not> clawReferencesSecret i s"
  shows "stampRepoAccessSecretVersionAnnotation u sum256 version' objs i = stampRepoAccessSecretVersionAnnotation u sum256 version objs i"
  "stampGitSecretVersion u version' objs i = stampGitSecretVersion u version objs i"
  using other_refs [OF ref] by (simp_all add: stampRepoAccessSecretVersionAnnotation_def stampGitSecretVersion_def versions cong: case_congs)

lemma same_stamp_edits:
  "\<not> clawReferencesSecret i s \<Longrightarrow> ck_userVersion k = version \<Longrightarrow> stamp_edits (reread k g version') i json data = stamp_edits k i json data"
  by (simp add: stamp_edits_def same_proxy_stamp same_mcp_stamp same_channel_stamp same_stamps Let_def)

end

interpretation one_secret: secret_change get "get(s := x)" version "version(s := y)" s for get s x version y
  by unfold_locales simp_all

subsection \<open>Defaults do not change the references\<close>

lemma completes_refs: "completes c c' \<Longrightarrow> cs_SecretRef c' = cs_SecretRef c"
  by (cases c; cases c') (simp add: completes_def)

lemma default_credential_refs: "default_credential c = Inr c' \<Longrightarrow> cs_SecretRef c' = cs_SecretRef c"
  using completes_refs [of "c\<lparr>cs_Provider := canonicalProviderID (cs_Provider c)\<rparr>" c'] resolveProviderDefaults_Inr [of c c']
  by (auto simp: default_credential_def resolveChannelDefaults_def split: if_splits option.splits)

lemma default_credentials_refs: "map cs_SecretRef (fst (default_credentials cs)) = map cs_SecretRef cs"
  by (induction cs) (auto simp: default_credential_refs split: sum.split prod.splits)

lemma defaulted_references [simp]: "clawReferencesSecret (defaulted i) s = clawReferencesSecret i s"
proof -
  have "list_ex (\<lambda>c. referencesSecret c s) cs = list_ex (list_ex (\<lambda>r. sr_Name r = s)) (map cs_SecretRef cs)" for cs
    by (induction cs) (simp_all add: referencesSecret_def)
  then show ?thesis
    by (simp add: clawReferencesSecret_def defaulted_def with_credentials_def default_credentials_refs git_secret_def githubRepoAccess_def)
qed

lemma status_references [simp]: "clawReferencesSecret (i\<lparr>cl_Status := st\<rparr>) s = clawReferencesSecret i s"
  by (simp add: clawReferencesSecret_def git_secret_def githubRepoAccess_def)

lemma version_references [simp]: "clawReferencesSecret (default_version i) s = clawReferencesSecret i s"
  by (simp add: default_version_def clawReferencesSecret_def git_secret_def githubRepoAccess_def)

interpretation unwatched: default_calm u "\<lambda>i. \<not> clawReferencesSecret i s" for u s
  by unfold_locales simp_all

subsection \<open>Passes that are alike\<close>

definition alike :: "unstructured_lib \<Rightarrow> string \<Rightarrow> 'a pass \<Rightarrow> 'a pass \<Rightarrow> bool" where
  "alike u s p q \<longleftrightarrow> (\<forall>st. calm u (\<lambda>i. \<not> clawReferencesSecret i s) st \<longrightarrow> p st = q st)"

lemma alike_same: "alike u s p p"
  by (simp add: alike_def)

lemma alike_bind:
  "alike u s p q \<Longrightarrow> pass_invariant (calm u (\<lambda>i. \<not> clawReferencesSecret i s)) q \<Longrightarrow> (\<And>x. alike u s (f x) (g x)) \<Longrightarrow>
     alike u s (pass_bind p f) (pass_bind q g)"
  by (auto simp: alike_def pass_bind_def split: prod.splits sum.splits dest: invariant_result)

lemma alike_get: "(\<And>i. \<not> clawReferencesSecret i s \<Longrightarrow> alike u s (f i) (g i)) \<Longrightarrow> alike u s (pass_bind get_instance f) (pass_bind get_instance g)"
  by (simp add: alike_def pass_bind_def get_instance_def calm_def)

lemma alike_prod: "(\<And>a b. x = (a, b) \<Longrightarrow> alike u s (f a b) (g a b)) \<Longrightarrow> alike u s (case x of (a, b) \<Rightarrow> f a b) (case x of (a, b) \<Rightarrow> g a b)"
  by (cases x) simp

lemma alike_lift:
  "(\<And>x. r = Inr x \<Longrightarrow> alike u s (f x) (g x)) \<Longrightarrow> alike u s (pass_bind (pass_lift wrap r) f) (pass_bind (pass_lift wrap r) g)"
  by (cases r) (simp_all add: alike_def pass_bind_def pass_lift_def)

lemma alike_option:
  "alike u s p q \<Longrightarrow> (\<And>y. alike u s (f y) (g y)) \<Longrightarrow> alike u s (case x of None \<Rightarrow> p | Some y \<Rightarrow> f y) (case x of None \<Rightarrow> q | Some y \<Rightarrow> g y)"
  by (cases x) simp_all

lemmas alike_rules = alike_same alike_get alike_bind

text \<open>The cluster after one Secret of the user got new data and a new version.\<close>

abbreviation changed :: "cluster \<Rightarrow> string \<Rightarrow> secret_read \<Rightarrow> string option \<Rightarrow> cluster" where
  "changed k s x y \<equiv> reread k ((ck_userSecret k)(s := x)) ((ck_userVersion k)(s := y))"

lemma credentials_alike: "alike u s (resolveAndApplyCredentials (changed k s x y)) (resolveAndApplyCredentials k)"
  unfolding resolveAndApplyCredentials_def
  by (simp, intro alike_rules unwatched.calm_defaulted unwatched.calm_or_reject) (simp add: one_secret.same_credentials alike_same)

lemma search_alike: "alike u s (validateWebSearchConfig (changed k s x y)) (validateWebSearchConfig k)"
  unfolding validateWebSearchConfig_def by (rule alike_get) (simp add: one_secret.same_search alike_same cong: case_congs)

lemma password_alike: "alike u s (check_password (changed k s x y)) (check_password k)"
  unfolding check_password_def by (rule alike_get) (simp add: one_secret.same_password alike_same cong: case_congs)

lemma validate_alike: "alike u s (validate_instance (changed k s x y)) (validate_instance k)"
  unfolding validate_instance_def
  by (intro alike_bind [OF credentials_alike unwatched.calm_credentials] alike_get)
    (simp add: one_secret.same_mcp one_secret.same_checks,
      intro alike_rules search_alike unwatched.calm_or_reject unwatched.calm_web_search)

lemma configure_alike: "alike u s (configure (changed k s x y) r creds json objects keys data) (configure k r creds json objects keys data)"
proof -
  have "stamp_edits (changed k s x y) i2 json data = stamp_edits k i2 json data"
    if "\<not> clawReferencesSecret i s" "configureDeployments u' m r i objects creds keys = Inr p" "p = (configured, i2)" for u' m i p configured i2
    using that by (intro one_secret.same_stamp_edits) (auto simp: configureDeployments_def rbind_eq_Inr dest: unwatched.plugin_condition_J)
  then show ?thesis
    unfolding configure_def by (simp, intro alike_get alike_lift alike_prod) (simp add: alike_same cong: case_congs)
qed

lemma render_alike: "alike u s (render (changed k s x y) r creds) (render k r creds)"
  unfolding render_def
  by (simp, intro alike_bind alike_same alike_get alike_prod configure_alike unwatched.calm_rules unwatched.calm_proxy_resources unwatched.calm_persona
      unwatched.calm_restrictions)

lemma prepare_alike:
  assumes "u = mv_lib (ck_manifests k)" "unstructured_laws u" "owner_keeps_kind k"
  shows "alike u s (prepare (changed k s x y) r) (prepare k r)"
  unfolding prepare_def
  by (simp, intro alike_bind alike_same alike_prod validate_alike render_alike unwatched.calm_clear_idle unwatched.calm_cleanup
      unwatched.calm_gateway_secret unwatched.calm_validate unwatched.calm_render)

lemma active_alike:
  assumes "u = mv_lib (ck_manifests k)" "unstructured_laws u" "owner_keeps_kind k"
  shows "alike u s (reconcile_active (changed k s x y) r) (reconcile_active k r)"
  unfolding reconcile_active_def
  by (intro alike_bind [OF prepare_alike [OF assms] unwatched.calm_prepare [OF assms]] alike_prod alike_option alike_same)
    (simp, intro alike_bind password_alike unwatched.calm_password alike_same)

subsection \<open>Changes that cause no pass\<close>



subsection \<open>The caches\<close>

lemma userSecretCache_step:
  assumes "userSecretCache_get n (secrets, answers) = (v, secrets', answers')"
  shows "map_of secrets nm = Some a \<Longrightarrow> map_of secrets' nm = Some a" and "v = Some b \<Longrightarrow> map_of secrets' n = Some b"
    and "map_of secrets n = Some a \<Longrightarrow> v = Some a"
  using assms by (auto simp: userSecretCache_get_def update_conv' split: option.splits list.splits if_splits)

lemma cached_answer: "map_of secrets nm = Some a \<Longrightarrow> (nm, x) \<in> set (cache_reads nms (secrets, answers)) \<Longrightarrow> x = Some a"
proof (induction nms arbitrary: secrets answers)
  case (Cons n nms)
  obtain v secrets' answers' where "userSecretCache_get n (secrets, answers) = (v, secrets', answers')" by (metis prod_cases3)
  with Cons userSecretCache_step [OF this] show ?case by auto
qed simp

text \<open>Whatever the server answers over time, no two successful reads of a Secret through the cache of a pass differ.\<close>

lemma cache_is_consistent:
  assumes "(nm, Some a) \<in> set (cache_reads nms (secrets, answers))" "(nm, Some b) \<in> set (cache_reads nms (secrets, answers))"
  shows "a = b"
  using assms
proof (induction nms arbitrary: secrets answers)
  case (Cons n nms)
  obtain v secrets' answers' where step: "userSecretCache_get n (secrets, answers) = (v, secrets', answers')" by (metis prod_cases3)
  have rest: "c = d" if "v = Some c" "(n, Some d) \<in> set (cache_reads nms (secrets', answers'))" for c d
    using cached_answer [OF userSecretCache_step(2) [OF step that(1)] that(2)] by simp
  from Cons step show ?case by (auto dest: rest)
qed simp

lemma cached_secret_hides_payload:
  "\<not> instance_labelled (so_Meta s) \<Longrightarrow> cached_secret (s\<lparr>so_Data := d, so_StringData := e, so_ManagedFields := m\<rparr>) = cached_secret s"
  by (simp add: cached_secret_def)

lemma persona_watch_filtered:
  "persona_ref i = Some nm \<Longrightarrow> \<exists>obj. wo_Name obj = nm \<and>
     (cl_Name i, cl_Namespace i) \<in> set (findClawsReferencingPersonaConfigMap (\<lambda>_. Some [i]) obj) \<and> configmap_requests (\<lambda>_. Some [i]) obj = []"
  by (rule exI [of _ "\<lparr>wo_Name = nm, wo_Namespace = cl_Namespace i, wo_Labels = [], wo_Controller = None\<rparr>"])
    (simp add: findClawsReferencingPersonaConfigMap_def configmap_requests_def instance_labelled_def controlled_by_claw_def has_key_def)

end
