(* ===== verification/Binaries.thy ===== *)
theory Binaries
  imports Watches Proxy_Main
begin

section \<open>The two programs\<close>

text \<open>
  The \<open>main\<close> functions: \<open>src/cmd/main.go\<close>, which sets up the operator, and the life of the proxy process in
  \<open>src/cmd/proxy/main.go\<close> from its flags to its exit code. Command line parsing is that of the flag package, so the flags are given as
  records with the defaults of the source. The controller runtime is a parameter: which of its calls succeed.

  The operator's two servers share the slice of TLS options, and each appends its certificate to it. Go's \<open>append\<close> writes
  into the shared array when the slice has room, so slices are modelled with their arrays: the options of
  a server are read from the heap after everything is set up, as the servers do when they start.
\<close>

subsection \<open>Slices\<close>

record slice =
  sl_array :: nat
  sl_len :: nat
  sl_cap :: nat

definition nil_slice :: slice where
  "nil_slice = \<lparr>sl_array = 0, sl_len = 0, sl_cap = 0\<rparr>"

text \<open>\<open>append\<close> of one element; \<open>grow n\<close> is the capacity the runtime chooses for \<open>n\<close> elements.\<close>

definition slice_append :: "(nat \<Rightarrow> nat) \<Rightarrow> 'a \<Rightarrow> slice \<times> 'a option list list \<Rightarrow> slice \<times> 'a option list list" where
  "slice_append grow x sh =
     (case sh of (s, heap) \<Rightarrow>
        if sl_len s < sl_cap s
        then (s\<lparr>sl_len := Suc (sl_len s)\<rparr>, heap[sl_array s := (heap ! sl_array s)[sl_len s := Some x]])
        else (\<lparr>sl_array = length heap, sl_len = Suc (sl_len s), sl_cap = grow (Suc (sl_len s))\<rparr>,
              heap @ [(if sl_len s = 0 then [] else take (sl_len s) (heap ! sl_array s)) @ Some x # replicate (grow (Suc (sl_len s)) - Suc (sl_len s)) None]))"

definition read_slice :: "slice \<Rightarrow> 'a option list list \<Rightarrow> 'a list" where
  "read_slice s heap = (if sl_len s = 0 then [] else map the (take (sl_len s) (heap ! sl_array s)))"

subsection \<open>The operator\<close>

record operator_flags =
  fl_metricsAddr :: string
  fl_probeAddr :: string
  fl_enableLeaderElection :: bool
  fl_secureMetrics :: bool
  fl_webhookCertPath :: string
  fl_webhookCertName :: string
  fl_webhookCertKey :: string
  fl_metricsCertPath :: string
  fl_metricsCertName :: string
  fl_metricsCertKey :: string
  fl_enableHTTP2 :: bool

definition default_flags :: operator_flags where
  "default_flags =
     \<lparr>fl_metricsAddr = ''0'', fl_probeAddr = '':8081'', fl_enableLeaderElection = False, fl_secureMetrics = True,
      fl_webhookCertPath = [], fl_webhookCertName = ''tls.crt'', fl_webhookCertKey = ''tls.key'',
      fl_metricsCertPath = [], fl_metricsCertName = ''tls.crt'', fl_metricsCertKey = ''tls.key'', fl_enableHTTP2 = False\<rparr>"

text \<open>A certificate watcher is known by the two files it reads.\<close>

type_synonym cert_watcher = "string \<times> string"

datatype tls_opt = DisableHTTP2 | CertificateFrom cert_watcher

record tls_config =
  tc_NextProtos :: "string list"
  tc_GetCertificate :: "cert_watcher option"

fun apply_tls_opt :: "tls_opt \<Rightarrow> tls_config \<Rightarrow> tls_config" where
  "apply_tls_opt DisableHTTP2 c = c\<lparr>tc_NextProtos := [''http/1.1'']\<rparr>"
| "apply_tls_opt (CertificateFrom w) c = c\<lparr>tc_GetCertificate := Some w\<rparr>"

datatype runnable = MetricsRefresh | WatchCertificate cert_watcher

datatype operator_exit =
    WebhookWatcherFailed | MetricsWatcherFailed | RequirementFailed | NoClusterConfig | ManagerFailed
  | InvalidPullPolicy | InvalidConfigManagement | SetupFailed string | RunnableNotAdded runnable | ClientsetFailed
  | CheckNotAdded string

text \<open>Which calls of the controller runtime succeed.\<close>

record operator_runtime =
  rt_grow :: "nat \<Rightarrow> nat"
  rt_certwatcher :: "cert_watcher \<Rightarrow> bool"
  rt_requirement :: bool
  rt_config :: bool
  rt_manager :: bool
  rt_setup :: "string \<Rightarrow> bool"
  rt_add :: "runnable \<Rightarrow> bool"
  rt_clientset :: bool
  rt_check :: "string \<Rightarrow> bool"

record operator =
  op_webhookTLS :: "tls_opt list"
  op_metricsAddr :: string
  op_metricsSecure :: bool
  op_metricsFilter :: bool
  op_metricsTLS :: "tls_opt list"
  op_probeAddr :: string
  op_leaderElection :: bool
  op_reconciler :: reconciler_config
  op_controllers :: "string list"
  op_runnables :: "runnable list"
  op_checks :: "string list"

text \<open>\<open>filepath.Join\<close>: empty elements are dropped, the rest is cleaned.\<close>

definition FilepathJoin :: "string list \<Rightarrow> string" where
  "FilepathJoin elems = (let es = filter (\<lambda>e. e \<noteq> []) elems in if es = [] then [] else Clean (Join ''/'' es))"

definition require :: "bool \<Rightarrow> 'e \<Rightarrow> ('e, unit) result" where
  "require ok e = (if ok then Inr () else Inl e)"

definition watcher_for :: "string \<Rightarrow> string \<Rightarrow> string \<Rightarrow> cert_watcher option" where
  "watcher_for path name key = (if path \<noteq> [] then Some (FilepathJoin [path, name], FilepathJoin [path, key]) else None)"

definition webhook_watcher :: "operator_flags \<Rightarrow> cert_watcher option" where
  "webhook_watcher fl = watcher_for (fl_webhookCertPath fl) (fl_webhookCertName fl) (fl_webhookCertKey fl)"

definition metrics_watcher :: "operator_flags \<Rightarrow> cert_watcher option" where
  "metrics_watcher fl = watcher_for (fl_metricsCertPath fl) (fl_metricsCertName fl) (fl_metricsCertKey fl)"

text \<open>The options of the two servers, as slices over one heap, in the order of the code.\<close>

definition shared_tls :: "operator_runtime \<Rightarrow> operator_flags \<Rightarrow> slice \<times> tls_opt option list list" where
  "shared_tls rt fl = (if \<not> fl_enableHTTP2 fl then slice_append (rt_grow rt) DisableHTTP2 (nil_slice, []) else (nil_slice, []))"

definition with_certificate ::
  "operator_runtime \<Rightarrow> operator_exit \<Rightarrow> cert_watcher option \<Rightarrow> slice \<times> tls_opt option list list \<Rightarrow>
     (operator_exit, slice \<times> tls_opt option list list) result" where
  "with_certificate rt failed watcher sh =
     (case watcher of
        None \<Rightarrow> Inr sh
      | Some w \<Rightarrow> if rt_certwatcher rt w then Inr (slice_append (rt_grow rt) (CertificateFrom w) sh) else Inl failed)"

definition tls_servers :: "operator_runtime \<Rightarrow> operator_flags \<Rightarrow> (operator_exit, tls_opt list \<times> tls_opt list) result" where
  "tls_servers rt fl =
     (case shared_tls rt fl of (tlsOpts, heap0) \<Rightarrow>
        rbind (with_certificate rt WebhookWatcherFailed (webhook_watcher fl) (tlsOpts, heap0)) (\<lambda>(webhookTLSOpts, heap1).
        rbind (with_certificate rt MetricsWatcherFailed (metrics_watcher fl) (tlsOpts, heap1)) (\<lambda>(metricsTLSOpts, heap2).
          Inr (read_slice webhookTLSOpts heap2, read_slice metricsTLSOpts heap2))))"

text \<open>The settings of the controller from the environment.\<close>

definition reconciler_settings :: "(string \<Rightarrow> string) \<Rightarrow> (operator_exit, reconciler_config) result" where
  "reconciler_settings getenv =
     (case validateImagePullPolicy (getenv ''IMAGE_PULL_POLICY'') of
        None \<Rightarrow> Inl InvalidPullPolicy
      | Some imagePullPolicy \<Rightarrow>
          (case validateOptionalBool (getenv ''DISABLE_USER_CONFIG_MANAGEMENT'') of
             None \<Rightarrow> Inl InvalidConfigManagement
           | Some disabled \<Rightarrow>
               Inr \<lparr>rf_ProxyImage = getenv ''PROXY_IMAGE'', rf_KubectlImage = getenv ''KUBECTL_IMAGE'',
                    rf_ImagePullPolicy = imagePullPolicy, rf_DisableUserConfigManagement = disabled\<rparr>))"

definition add_watcher :: "operator_runtime \<Rightarrow> cert_watcher option \<Rightarrow> (operator_exit, runnable list) result" where
  "add_watcher rt watcher =
     (case watcher of
        None \<Rightarrow> Inr []
      | Some w \<Rightarrow> rbind (require (rt_add rt (WatchCertificate w)) (RunnableNotAdded (WatchCertificate w))) (\<lambda>_. Inr [WatchCertificate w]))"

text \<open>What is set up when the manager is started, or the reason of the exit before.\<close>

definition operator_main :: "operator_runtime \<Rightarrow> operator_flags \<Rightarrow> (string \<Rightarrow> string) \<Rightarrow> (operator_exit, operator) result" where
  "operator_main rt fl getenv =
     rbind (tls_servers rt fl) (\<lambda>(webhookTLS, metricsTLS).
     rbind (require (rt_requirement rt) RequirementFailed) (\<lambda>_.
     rbind (require (rt_config rt) NoClusterConfig) (\<lambda>_.
     rbind (require (rt_manager rt) ManagerFailed) (\<lambda>_.
     rbind (reconciler_settings getenv) (\<lambda>reconciler.
     rbind (require (rt_setup rt ''Claw'') (SetupFailed ''Claw'')) (\<lambda>_.
     rbind (require (rt_add rt MetricsRefresh) (RunnableNotAdded MetricsRefresh)) (\<lambda>_.
     rbind (require (rt_clientset rt) ClientsetFailed) (\<lambda>_.
     rbind (require (rt_setup rt ''ClawDevicePairingRequest'') (SetupFailed ''ClawDevicePairingRequest'')) (\<lambda>_.
     rbind (add_watcher rt (metrics_watcher fl)) (\<lambda>metricsWatchers.
     rbind (add_watcher rt (webhook_watcher fl)) (\<lambda>webhookWatchers.
     rbind (require (rt_check rt ''healthz'') (CheckNotAdded ''healthz'')) (\<lambda>_.
     rbind (require (rt_check rt ''readyz'') (CheckNotAdded ''readyz'')) (\<lambda>_.
       Inr \<lparr>op_webhookTLS = webhookTLS, op_metricsAddr = fl_metricsAddr fl, op_metricsSecure = fl_secureMetrics fl,
            op_metricsFilter = fl_secureMetrics fl, op_metricsTLS = metricsTLS, op_probeAddr = fl_probeAddr fl,
            op_leaderElection = fl_enableLeaderElection fl, op_reconciler = reconciler,
            op_controllers = [''Claw'', ''ClawDevicePairingRequest''],
            op_runnables = MetricsRefresh # metricsWatchers @ webhookWatchers,
            op_checks = [''healthz'', ''readyz'']\<rparr>)))))))))))))"

text \<open>The exit code; \<open>started\<close> is what the manager returns when it ends.\<close>

definition operator_process :: "operator_runtime \<Rightarrow> (operator \<Rightarrow> bool) \<Rightarrow> operator_flags \<Rightarrow> (string \<Rightarrow> string) \<Rightarrow> nat" where
  "operator_process rt started fl getenv =
     (case operator_main rt fl getenv of Inl _ \<Rightarrow> 1 | Inr op \<Rightarrow> if started op then 0 else 1)"

text \<open>
  \<open>Start\<close>: the refresh of the gauges at start. The channel passes wait for is closed whatever the listing gave.
  The result is the gauges and whether the channel is closed.
\<close>

definition Start :: "conditions_lib \<Rightarrow> Claw list option \<Rightarrow> gauges \<Rightarrow> gauges \<times> bool" where
  "Start m listed g = (case listed of None \<Rightarrow> (g, True) | Some items \<Rightarrow> (refreshClawMetrics m items g, True))"

subsection \<open>What is set up\<close>

lemma require_Inr [simp]: "require ok e = Inr x \<longleftrightarrow> ok"
  by (simp add: require_def)

lemma append_full:
  "\<not> sl_len s < sl_cap s \<Longrightarrow> slice_append grow x (s, heap) =
     (\<lparr>sl_array = length heap, sl_len = Suc (sl_len s), sl_cap = grow (Suc (sl_len s))\<rparr>,
      heap @ [(if sl_len s = 0 then [] else take (sl_len s) (heap ! sl_array s)) @ Some x # replicate (grow (Suc (sl_len s)) - Suc (sl_len s)) None])"
  by (simp add: slice_append_def)

text \<open>A slice without room: appending leaves what it and every other slice over the old arrays read.\<close>

definition in_heap :: "slice \<Rightarrow> 'a option list list \<Rightarrow> bool" where
  "in_heap s heap \<longleftrightarrow> sl_len s = 0 \<or> sl_array s < length heap \<and> sl_len s \<le> length (heap ! sl_array s)"

lemma append_full_reads:
  assumes "\<not> sl_len s < sl_cap s" "in_heap s heap" "slice_append grow x (s, heap) = (s', heap')"
  shows "read_slice s' heap' = read_slice s heap @ [x] \<and> in_heap s' heap' \<and>
    (\<forall>t. in_heap t heap \<longrightarrow> in_heap t heap' \<and> read_slice t heap' = read_slice t heap)"
  using assms by (auto simp: append_full read_slice_def in_heap_def nth_append min_def)

lemma shared_tls_full:
  assumes "rt_grow rt 1 = 1" "shared_tls rt fl = (s, heap)"
  shows "\<not> sl_len s < sl_cap s \<and> in_heap s heap \<and> read_slice s heap = (if fl_enableHTTP2 fl then [] else [DisableHTTP2])"
  using assms by (auto simp: shared_tls_def slice_append_def nil_slice_def in_heap_def read_slice_def split: if_splits)

lemma with_certificate_reads:
  assumes "\<not> sl_len s < sl_cap s" "in_heap s heap" "with_certificate rt e w (s, heap) = Inr (s', heap')"
  shows "read_slice s' heap' = read_slice s heap @ (case w of None \<Rightarrow> [] | Some c \<Rightarrow> [CertificateFrom c]) \<and> in_heap s' heap' \<and>
    (\<forall>t. in_heap t heap \<longrightarrow> in_heap t heap' \<and> read_slice t heap' = read_slice t heap)"
proof (cases w)
  case (Some c)
  with assms(3) have "slice_append (rt_grow rt) (CertificateFrom c) (s, heap) = (s', heap')"
    by (simp add: with_certificate_def split: if_splits)
  from append_full_reads [OF assms(1,2) this] Some show ?thesis by simp
qed (use assms in \<open>simp add: with_certificate_def\<close>)

lemma tls_servers_options:
  assumes "rt_grow rt 1 = 1" "tls_servers rt fl = Inr (webhook, metrics)"
  shows "webhook = (if fl_enableHTTP2 fl then [] else [DisableHTTP2]) @ (case webhook_watcher fl of None \<Rightarrow> [] | Some w \<Rightarrow> [CertificateFrom w]) \<and>
    metrics = (if fl_enableHTTP2 fl then [] else [DisableHTTP2]) @ (case metrics_watcher fl of None \<Rightarrow> [] | Some w \<Rightarrow> [CertificateFrom w])"
proof -
  obtain s heap0 where sh: "shared_tls rt fl = (s, heap0)" by fastforce
  note full = shared_tls_full [OF assms(1) sh]
  from assms(2) sh obtain s1 heap1 s2 heap2 where w1: "with_certificate rt WebhookWatcherFailed (webhook_watcher fl) (s, heap0) = Inr (s1, heap1)"
    and w2: "with_certificate rt MetricsWatcherFailed (metrics_watcher fl) (s, heap1) = Inr (s2, heap2)"
    and r: "webhook = read_slice s1 heap2" "metrics = read_slice s2 heap2"
    by (auto simp: tls_servers_def rbind_eq_Inr)
  note a = with_certificate_reads [OF _ _ w1]
  have "in_heap s heap1" using a full by blast
  with with_certificate_reads [OF _ _ w2] a full r show ?thesis by simp
qed

lemma operator_main_Inr:
  assumes "operator_main rt fl getenv = Inr op"
  obtains webhook metrics r where "tls_servers rt fl = Inr (webhook, metrics)" "reconciler_settings getenv = Inr r"
    "op_webhookTLS op = webhook" "op_metricsTLS op = metrics" "op_reconciler op = r" "op_metricsFilter op = op_metricsSecure op"
    "set (op_runnables op) = {MetricsRefresh} \<union> WatchCertificate ` (set_option (metrics_watcher fl) \<union> set_option (webhook_watcher fl))"
proof -
  have add: "add_watcher rt w = Inr rs \<Longrightarrow> set rs = WatchCertificate ` set_option w" for w rs
    by (auto simp: add_watcher_def rbind_eq_Inr split: option.splits)
  from assms obtain webhook metrics r ms ws where a: "tls_servers rt fl = Inr (webhook, metrics)" "reconciler_settings getenv = Inr r"
      "add_watcher rt (metrics_watcher fl) = Inr ms" "add_watcher rt (webhook_watcher fl) = Inr ws"
    and op: "op_webhookTLS op = webhook" "op_metricsTLS op = metrics" "op_reconciler op = r" "op_metricsFilter op = op_metricsSecure op"
      "op_runnables op = MetricsRefresh # ms @ ws"
    by (auto simp: operator_main_def rbind_eq_Inr)
  have "set (op_runnables op) = {MetricsRefresh} \<union> WatchCertificate ` (set_option (metrics_watcher fl) \<union> set_option (webhook_watcher fl))"
    using op(5) add [OF a(3)] add [OF a(4)] by (simp add: image_Un)
  with a op that show thesis by blast
qed

lemma applied_options:
  "fold apply_tls_opt ((if b then [] else [DisableHTTP2]) @ (case w of None \<Rightarrow> [] | Some c \<Rightarrow> [CertificateFrom c])) cfg =
     \<lparr>tc_NextProtos = (if b then tc_NextProtos cfg else [''http/1.1'']),
      tc_GetCertificate = (case w of None \<Rightarrow> tc_GetCertificate cfg | Some c \<Rightarrow> Some c)\<rparr>"
  by (cases cfg) (simp split: option.split)

lemma reconciler_settings_Inr:
  assumes "reconciler_settings getenv = Inr r"
  shows "rf_ImagePullPolicy r \<in> {[], ''Always'', ''IfNotPresent'', ''Never''} \<and> rf_ImagePullPolicy r = getenv ''IMAGE_PULL_POLICY'' \<and>
    validateOptionalBool (getenv ''DISABLE_USER_CONFIG_MANAGEMENT'') = Some (rf_DisableUserConfigManagement r)"
  using assms by (auto simp: reconciler_settings_def validateImagePullPolicy_def split: option.splits if_splits)


definition sample_runtime :: "(nat \<Rightarrow> nat) \<Rightarrow> operator_runtime" where
  "sample_runtime grow = \<lparr>rt_grow = grow, rt_certwatcher = (\<lambda>_. True), rt_requirement = True, rt_config = True, rt_manager = True,
     rt_setup = (\<lambda>_. True), rt_add = (\<lambda>_. True), rt_clientset = True, rt_check = (\<lambda>_. True)\<rparr>"

definition tls_flags :: operator_flags where
  "tls_flags = default_flags\<lparr>fl_webhookCertPath := ''/certs/webhook'', fl_metricsCertPath := ''/certs/metrics''\<rparr>"


text \<open>
  The condition on the runtime is needed: with room for a second option, both servers write their certificate to the
  same place and the webhook server serves that of the metrics server.
\<close>

lemma shared_room_mixes_certificates:
  "tls_servers (sample_runtime (\<lambda>n. 2 * n)) tls_flags =
     Inr ([DisableHTTP2, CertificateFrom (''/certs/metrics/tls.crt'', ''/certs/metrics/tls.key'')],
          [DisableHTTP2, CertificateFrom (''/certs/metrics/tls.crt'', ''/certs/metrics/tls.key'')])"
  by code_simp

lemma invalid_environment_exits:
  "validateImagePullPolicy (getenv ''IMAGE_PULL_POLICY'') = None \<or> validateOptionalBool (getenv ''DISABLE_USER_CONFIG_MANAGEMENT'') = None \<Longrightarrow>
     operator_process rt started fl getenv = 1"
  by (auto simp: operator_process_def operator_main_def reconciler_settings_def rbind_eq_Inr split: sum.split option.splits)

subsection \<open>The proxy process\<close>

record proxy_flags =
  pf_config :: string
  pf_cacert :: string
  pf_cakey :: string
  pf_listen :: string

definition default_proxy_flags :: proxy_flags where
  "default_proxy_flags = \<lparr>pf_config = ''/etc/proxy/proxy-config.json'', pf_cacert = ''/etc/proxy/ca/ca.crt'',
     pf_cakey = ''/etc/proxy/ca/ca.key'', pf_listen = '':8080''\<rparr>"

text \<open>Up to the start of the server, with the files the process sees.\<close>

definition proxy_start ::
  "World \<Rightarrow> pki \<Rightarrow> (string \<Rightarrow> json option) \<Rightarrow> (string \<Rightarrow> string option) \<Rightarrow> proxy_flags \<Rightarrow> (proxy_exit, Server) result" where
  "proxy_start w pk parse files fl =
     proxy_main w pk (map_option parse (files (pf_config fl))) (files (pf_cacert fl)) (files (pf_cakey fl))"

text \<open>
  After that two goroutines run: one serves and reports an error, closing the channel in any case; the main one waits for a signal or for
  that channel, then closes the server within fifteen seconds. \<open>ErrServerClosed\<close> is what serving returns once a shutdown has begun.
\<close>

datatype serving = Listening | ServeFailed | ServeClosed

datatype main_routine = Selecting | ShuttingDown | Exited nat

record process =
  pc_serving :: serving
  pc_signal :: bool
  pc_main :: main_routine

definition process_start :: process where
  "process_start = \<lparr>pc_serving = Listening, pc_signal = False, pc_main = Selecting\<rparr>"

definition exited :: "process \<Rightarrow> bool" where
  "exited p = (case pc_main p of Exited n \<Rightarrow> True | _ \<Rightarrow> False)"

inductive process_step :: "process \<Rightarrow> process \<Rightarrow> bool" where
  arrives: "\<not> exited p \<Longrightarrow> process_step p (p\<lparr>pc_signal := True\<rparr>)"
| fails: "pc_serving p = Listening \<Longrightarrow> \<not> exited p \<Longrightarrow> process_step p (p\<lparr>pc_serving := ServeFailed\<rparr>)"
| signalled: "pc_main p = Selecting \<Longrightarrow> pc_signal p \<Longrightarrow> process_step p (p\<lparr>pc_main := ShuttingDown\<rparr>)"
| failed: "pc_main p = Selecting \<Longrightarrow> pc_serving p = ServeFailed \<Longrightarrow> process_step p (p\<lparr>pc_main := Exited 1\<rparr>)"
| closed: "pc_main p = Selecting \<Longrightarrow> pc_serving p = ServeClosed \<Longrightarrow> process_step p (p\<lparr>pc_main := ShuttingDown\<rparr>)"
| stops: "pc_main p = ShuttingDown \<Longrightarrow> process_step p (p\<lparr>pc_serving := (if pc_serving p = Listening then ServeClosed else pc_serving p), pc_main := Exited 0\<rparr>)"
| hangs: "pc_main p = ShuttingDown \<Longrightarrow> process_step p (p\<lparr>pc_main := Exited 1\<rparr>)"

inductive_cases process_step_cases: "process_step p q"

text \<open>
  A process exits with 0 only after a signal and a shutdown that ended in time.
\<close>

lemma process_invariant:
  assumes "process_step\<^sup>*\<^sup>* process_start p"
  shows "(pc_main p = ShuttingDown \<or> pc_main p = Exited 0 \<longrightarrow> pc_signal p) \<and> (pc_serving p = ServeClosed \<longrightarrow> pc_main p = Exited 0) \<and>
    (exited p \<longrightarrow> pc_main p = Exited 0 \<or> pc_main p = Exited 1)"
  using assms
proof (induction rule: rtranclp_induct)
  case (step p q)
  from step(2,3) show ?case by (cases rule: process_step.cases) (auto simp: exited_def split: if_splits main_routine.splits)
qed (simp add: process_start_def exited_def)

text \<open>
  The proxy ends cleanly only on request. In every run of the process an exit code of 0 means that a signal had arrived and
  the shutdown finished in time; a process that waits, with a signal pending or with a server that failed, always has a next step that ends the
  wait; and after its exit nothing happens any more.
\<close>

theorem proxy_process_exit:
  assumes "process_step\<^sup>*\<^sup>* process_start p"
  shows "(pc_main p = Exited 0 \<longrightarrow> pc_signal p) \<and>
    (pc_main p = Selecting \<and> (pc_signal p \<or> pc_serving p \<noteq> Listening) \<longrightarrow> (\<exists>q. process_step p q \<and> pc_main q \<noteq> Selecting)) \<and>
    (exited p \<longrightarrow> (\<forall>q. \<not> process_step p q)) \<and> (exited p \<longrightarrow> pc_main p = Exited 0 \<or> pc_main p = Exited 1)"
proof (intro conjI impI allI)
  show "pc_main p = Exited 0 \<Longrightarrow> pc_signal p" "exited p \<Longrightarrow> pc_main p = Exited 0 \<or> pc_main p = Exited 1"
    using process_invariant [OF assms] by blast+
  assume "pc_main p = Selecting \<and> (pc_signal p \<or> pc_serving p \<noteq> Listening)"
  then consider "pc_main p = Selecting" "pc_signal p" | "pc_main p = Selecting" "pc_serving p = ServeFailed" | "pc_main p = Selecting" "pc_serving p = ServeClosed"
    by (cases "pc_serving p") auto
  then show "\<exists>q. process_step p q \<and> pc_main q \<noteq> Selecting"
  proof cases
    case 1
    then have "process_step p (p\<lparr>pc_main := ShuttingDown\<rparr>)" by (rule process_step.signalled)
    then show ?thesis by (auto intro!: exI [of _ "p\<lparr>pc_main := ShuttingDown\<rparr>"])
  next
    case 2
    then have "process_step p (p\<lparr>pc_main := Exited 1\<rparr>)" by (rule process_step.failed)
    then show ?thesis by (auto intro!: exI [of _ "p\<lparr>pc_main := Exited 1\<rparr>"])
  next
    case 3
    then have "process_step p (p\<lparr>pc_main := ShuttingDown\<rparr>)" by (rule process_step.closed)
    then show ?thesis by (auto intro!: exI [of _ "p\<lparr>pc_main := ShuttingDown\<rparr>"])
  qed
next
  show "\<not> process_step p q" if "exited p" for q
    using that by (auto simp: exited_def elim!: process_step_cases split: main_routine.splits)
qed

theorem proxy_process_exit_witness:
  "\<exists>p. process_step\<^sup>*\<^sup>* process_start p \<and> pc_main p = Exited 0 \<and> pc_signal p"
proof -
  let ?p1 = "process_start\<lparr>pc_signal := True\<rparr>" and ?p2 = "process_start\<lparr>pc_signal := True, pc_main := ShuttingDown\<rparr>"
  let ?p3 = "\<lparr>pc_serving = ServeClosed, pc_signal = True, pc_main = Exited 0\<rparr>"
  have "process_step process_start ?p1" using process_step.arrives [of process_start] by (simp add: process_start_def exited_def)
  moreover have "process_step ?p1 ?p2" using process_step.signalled [of ?p1] by (simp add: process_start_def)
  moreover have "process_step ?p2 ?p3" using process_step.stops [of ?p2] by (simp add: process_start_def)
  ultimately have "process_step\<^sup>*\<^sup>* process_start ?p3" by (meson rtranclp.rtrancl_into_rtrancl rtranclp.rtrancl_refl)
  with proxy_process_exit [OF this] show ?thesis by (intro exI [of _ ?p3]) simp
qed

end
