(* ===== verification/Remainder.thy ===== *)
theory Remainder
  imports Proxy_CA Binaries
begin

section \<open>What is left\<close>

text \<open>
  Code that has no effect on what a pass does: the labels of an object under construction, the reader that logs, the list of fields
  that is only logged, and \<open>injectMetricsConfig\<close>, which nothing calls. And lemmas about what
  the program does not do, where the code or its comments suggest otherwise.
\<close>

subsection \<open>Code without effect on a pass\<close>

definition setInstanceLabel :: "(string \<Rightarrow> string) \<Rightarrow> (string, string) gomap \<Rightarrow> string \<Rightarrow> (string, string) gomap" where
  "setInstanceLabel sum256 labels instanceName = AList.update InstanceLabelKey (sanitizeLabelValue sum256 instanceName) labels"

text \<open>The objects of the controller have exactly this label.\<close>

lemma labelled_labels:
  "lookup_path (JObj (labelled k i kind nm)) [''metadata'', ''labels''] =
     Some (JObj (map (apsnd JStr) (setInstanceLabel (mv_sum256 (ck_manifests k)) [] (cl_Name i))))"
  by (simp add: labelled_def setInstanceLabel_def)

text \<open>A reader of Secrets that logs: the log line and the answer of the reader behind it.\<close>

definition NewLoggingUserSecretReader :: "(string \<Rightarrow> string \<Rightarrow> 'a) option \<Rightarrow> (string \<Rightarrow> string \<Rightarrow> (string \<times> string \<times> string) list \<Rightarrow> 'a \<times> (string \<times> string \<times> string) list) option" where
  "NewLoggingUserSecretReader reader =
     (case reader of None \<Rightarrow> None | Some r \<Rightarrow> Some (\<lambda>ns nm logged. (r ns nm, logged @ [(''Get'', ns, nm)])))"

lemma logging_reader_answers:
  "NewLoggingUserSecretReader (Some r) = Some lr \<Longrightarrow> fst (lr ns nm logged) = r ns nm \<and> snd (lr ns nm logged) = logged @ [(''Get'', ns, nm)]"
  by (auto simp: NewLoggingUserSecretReader_def)

definition userManagedRuntimeConfigFields :: "Claw \<Rightarrow> string list" where
  "userManagedRuntimeConfigFields instance =
     (let sp = cl_Spec instance
      in if \<not> userManagedConfig instance then []
         else
           (case sp_Config sp of
              None \<Rightarrow> []
            | Some cf \<Rightarrow> (if cfs_Raw cf \<noteq> None then [''spec.config.raw''] else []) @
                        (if cfs_MergeMode cf \<noteq> [] then [''spec.config.mergeMode''] else [])) @
           (if list_ex (\<lambda>c. cs_Provider c \<noteq> []) (sp_Credentials sp) then [''spec.credentials[].provider''] else []) @
           (if list_ex (\<lambda>c. cs_Channel c \<noteq> []) (sp_Credentials sp) then [''spec.credentials[].channel''] else []) @
           (if sp_CustomProviders sp \<noteq> [] then [''spec.customProviders''] else []) @
           (if sp_McpServers sp \<noteq> [] then [''spec.mcpServers''] else []) @
           (if sp_WebSearch sp \<noteq> None then [''spec.webSearch''] else []) @
           (if sp_WebFetch sp \<noteq> None then [''spec.webFetch''] else []) @
           (if sp_Plugins sp \<noteq> [] then [''spec.plugins''] else []) @
           (if sp_Workspace sp \<noteq> None then [''spec.workspace''] else []) @
           (case sp_Skills sp of
              None \<Rightarrow> []
            | Some sk \<Rightarrow> (if sk_Content sk \<noteq> [] then [''spec.skills.content''] else []) @
                        (if sk_ConfigMaps sk \<noteq> [] then [''spec.skills.configMaps''] else []) @
                        (if sk_Images sk \<noteq> [] then [''spec.skills.images''] else [])))"

text \<open>
  The schema fills in the merge mode, so a Claw under user management is always said to use a field: the merge mode is listed
  whether or not the user wrote it.
\<close>

lemma managed_fields_never_empty:
  "userManagedConfig i \<Longrightarrow> sp_Config (cl_Spec i) = Some cf \<Longrightarrow> cfs_MergeMode cf \<noteq> [] \<Longrightarrow>
     ''spec.config.mergeMode'' \<in> set (userManagedRuntimeConfigFields i)"
  by (simp add: userManagedRuntimeConfigFields_def Let_def)

definition injectMetricsConfig :: "Claw \<Rightarrow> jobj \<Rightarrow> jobj" where
  "injectMetricsConfig instance config =
     (if \<not> metricsEnabled instance then config
      else in_nested ''diagnostics'' (in_nested ''otel''
             (\<lambda>otel. if has_key otel ''metrics'' then otel else AList.update ''metrics'' (JBool True) otel)) config)"

text \<open>It is not needed: the injection of the diagnostics settings does its work.\<close>

lemma update_known: "map_of m k = Some v \<Longrightarrow> AList.update k v m = m"
  by (induction m) auto

lemma in_nested_same: "obj_at m k = Some child \<Longrightarrow> f child = child \<Longrightarrow> in_nested k f m = m"
proof -
  assume o: "obj_at m k = Some child" and f: "f child = child"
  then have "map_of m k = Some (JObj child)" by (auto simp: obj_at_def Option.bind_eq_Some_conv elim: as_obj.elims)
  with o f show "in_nested k f m = m" by (simp add: in_nested_def ensureNestedMap_def update_known)
qed

lemma obj_at_in_nested: "obj_at (in_nested k f m) k = Some (f (nested_or_empty m k))"
  by (simp add: obj_at_def map_of_in_nested)

lemma metrics_config_redundant: "injectMetricsConfig i (injectDiagnosticsConfig i c) = injectDiagnosticsConfig i c"
proof (cases "metricsEnabled i")
  case True
  have upd: "has_key (AList.update a v m) b \<longleftrightarrow> a = b \<or> has_key m b" for a b and v :: json and m
    by (simp add: has_key_map_of update_conv')
  have "has_key (otel_settings i o1) ''metrics''" for o1
    using True by (simp add: otel_settings_def Let_def upd)
  then show ?thesis
    using True by (simp add: injectMetricsConfig_def injectDiagnosticsConfig_def in_nested_same [OF obj_at_in_nested])
qed (simp add: injectMetricsConfig_def)

subsection \<open>What the program does not do\<close>

text \<open>
  With metrics enabled and neither traces nor logs, the gateway is configured to export to the endpoint, and its policy gets no rule for it.
\<close>

lemma metrics_alone_get_no_egress:
  assumes "unstructured_laws u" "metricsEnabled i" "\<not> tracesEnabled i" "\<not> logsEnabled i" "injectObservabilityResources u objs i = Inr objs'"
  shows "policy_rules u objs' (getEgressNetworkPolicyName (cl_Name i)) = policy_rules u objs (getEgressNetworkPolicyName (cl_Name i)) \<and>
    otlpEndpoint i \<noteq> []"
  using unstructured_laws.observability_rules(1) [OF assms(1,5)] assms(2-) by (auto simp: telemetry_rules_def injectObservabilityResources_def split: if_splits)

text \<open>The version of the password's Secret is in no annotation: a new password does not roll the gateway out.\<close>

lemma password_rotation_not_stamped:
  assumes "\<not> clawReferencesSecret (i\<lparr>cl_Spec := (cl_Spec i)\<lparr>sp_Auth := None\<rparr>\<rparr>) s"
  shows "stamp_edits (reread k (get(s := x)) ((ck_userVersion k)(s := y))) i json data = stamp_edits k i json data"
proof -
  let ?j = "i\<lparr>cl_Spec := (cl_Spec i)\<lparr>sp_Auth := None\<rparr>\<rparr>"
  have "collectChannelEnvFrom ?j = collectChannelEnvFrom i" "proxy_version_refs ?j = proxy_version_refs i" "mcp_secret_refs sum256 ?j = mcp_secret_refs sum256 i" for sum256
    by (simp_all add: collectChannelEnvFrom_def proxy_version_refs_def mcp_secret_refs_def validateUniqueChannels_def githubRepoAccess_def cong: case_congs)
  then have "stamp_edits k' ?j json data = stamp_edits k' i json data" for k'
    by (simp add: stamp_edits_def stampProxyConfigHash_def stampSecretVersionAnnotation_def stampMcpSecretVersionAnnotation_def
      stampRepoAccessSecretVersionAnnotation_def stampChannelSecretVersionAnnotation_def stampPersonaConfigHash_def stampGitSecretVersion_def
      githubRepoAccess_def git_secret_def Let_def cong: case_congs)
  with one_secret.same_stamp_edits [OF assms refl] show ?thesis by metis
qed

text \<open>The gateway of one instance can have the name of another's proxy.\<close>

lemma deployment_names_collide: "getClawDeploymentName (getProxyDeploymentName n) = getProxyDeploymentName n"
  by (simp add: getClawDeploymentName_def)

text \<open>A failure of the enrichment ends the pass without a write, so the condition set for it is never stored.\<close>

lemma enrichment_failure_not_stored:
  assumes "enrichConfigAndNetworkPolicy (ck_manifests k) objects host (ps_instance st) creds = Inl e"
  shows "enrich k objects host creds st = (Inl (EditFailed e), st)"
  using assms by (simp add: enrich_def pass_bind_def get_instance_def pass_lift_def)

end
