(* ===== verification/Device_Pairing.thy ===== *)
theory Device_Pairing
  imports Conditions GoStd
begin

section \<open>Device pairing requests\<close>

text \<open>
  \<open>src/internal/controller/claw_device_pairing_request_controller.go\<close>: the second controller of the
  operator. A request names a pairing request ID and selects a gateway pod; the controller runs
  \<open>openclaw devices approve\<close> in that pod and reports in the condition \<open>Ready\<close>.

  The object lives in the API server, where others edit it while a pass of the controller runs. The
  server side is explicit: every stored version has a resource version, a status update with a stale
  one is refused as a conflict, and an update that changes nothing keeps it. The parameter
  \<open>pairing_env\<close> has what one pass sees from outside: the selector library (the error text, or the
  selector as printed), the pods, the outcome of
  the command, and what others do to the stored object at the three points where the pass waits for
  the API server or for the command.
\<close>

subsection \<open>The request and the API server\<close>

record ClawDevicePairingRequest =
  dp_Generation :: int
  dp_ResourceVersion :: nat
  dp_RequestID :: string
  dp_Selector :: json
  dp_Conditions :: "Condition list"

datatype pairing_error = PairingConflict | PairingNotFound | PodListFailed | ExecTransport

text \<open>\<open>ExecCommandError\<close> against the errors that the controller returns to be retried.\<close>

datatype exec_outcome = ExecOk | ExecCommandError string | ExecError string

record pairing_env =
  pe_conditions :: conditions_lib
  pe_selector :: "json \<Rightarrow> (string, string) result"
  pe_pods :: "json \<Rightarrow> string list option"
  pe_exec :: "string \<Rightarrow> string \<Rightarrow> exec_outcome"
  pe_before_update :: "ClawDevicePairingRequest option \<Rightarrow> ClawDevicePairingRequest option"
  pe_during_exec :: "ClawDevicePairingRequest option \<Rightarrow> ClawDevicePairingRequest option"
  pe_after_fetch :: "ClawDevicePairingRequest option \<Rightarrow> ClawDevicePairingRequest option"

text \<open>The commands run by a pass, the object it leaves in the server, and what it returns.\<close>

record pairing_pass =
  pp_execs :: "(string \<times> string) list"
  pp_server :: "ClawDevicePairingRequest option"
  pp_result :: "(pairing_error, unit) result"

definition setDevicePairingCondition ::
  "conditions_lib \<Rightarrow> string \<Rightarrow> string \<Rightarrow> string \<Rightarrow> string \<Rightarrow> ClawDevicePairingRequest \<Rightarrow> ClawDevicePairingRequest" where
  "setDevicePairingCondition m condType status reason message instance =
     instance\<lparr>dp_Conditions := meta_SetStatusCondition m (dp_Conditions instance)
       \<lparr>co_Type = condType, co_Status = status, co_ObservedGeneration = dp_Generation instance,
        co_LastTransitionTime = 0, co_Reason = reason, co_Message = message\<rparr>\<rparr>"

text \<open>\<open>r.Status().Update\<close>: only the status of the stored object is replaced.\<close>

definition status_update ::
  "ClawDevicePairingRequest option \<Rightarrow> ClawDevicePairingRequest \<Rightarrow> (pairing_error, ClawDevicePairingRequest) result" where
  "status_update server instance =
     (case server of
        None \<Rightarrow> Inl PairingNotFound
      | Some stored \<Rightarrow>
          if dp_ResourceVersion stored \<noteq> dp_ResourceVersion instance then Inl PairingConflict
          else if dp_Conditions stored = dp_Conditions instance then Inr stored
          else Inr (stored\<lparr>dp_Conditions := dp_Conditions instance, dp_ResourceVersion := Suc (dp_ResourceVersion stored)\<rparr>))"

text \<open>
  How the outcome of the stream is classified: the executor could not be made, or the stream failed
  with or without the timeout having passed.
\<close>

definition execInPod :: "string option \<Rightarrow> string option \<Rightarrow> string option \<Rightarrow> exec_outcome" where
  "execInPod executorError streamError contextError =
     (case executorError of
        Some err \<Rightarrow> ExecError (''creating SPDY executor: '' @ err)
      | None \<Rightarrow>
          (case streamError of
             None \<Rightarrow> ExecOk
           | Some err \<Rightarrow>
               (case contextError of
                  Some ctxErr \<Rightarrow> ExecError (''exec stream: '' @ ctxErr)
                | None \<Rightarrow> ExecCommandError (''exec stream: '' @ err))))"

subsection \<open>A pass of the controller\<close>

definition already_paired :: "conditions_lib \<Rightarrow> ClawDevicePairingRequest \<Rightarrow> bool" where
  "already_paired m instance =
     (case meta_FindStatusCondition m (dp_Conditions instance) ''Ready'' of
        Some c \<Rightarrow> co_Status c = ConditionTrue \<and> co_Reason c = ''DevicePaired'' \<and> co_ObservedGeneration c = dp_Generation instance
      | None \<Rightarrow> False)"

text \<open>Set the condition, write the status, and end the pass.\<close>

definition finish ::
  "conditions_lib \<Rightarrow> (string \<times> string) list \<Rightarrow> ClawDevicePairingRequest option \<Rightarrow> string \<Rightarrow> string \<Rightarrow> string \<Rightarrow>
     ClawDevicePairingRequest \<Rightarrow> pairing_pass" where
  "finish m execs server status reason message instance =
     (case status_update server (setDevicePairingCondition m ''Ready'' status reason message instance) of
        Inl e \<Rightarrow> \<lparr>pp_execs = execs, pp_server = server, pp_result = Inl e\<rparr>
      | Inr stored \<Rightarrow> \<lparr>pp_execs = execs, pp_server = Some stored, pp_result = Inr ()\<rparr>)"

text \<open>Run the command, fetch the object again, and report.\<close>

definition exec_and_report :: "pairing_env \<Rightarrow> string \<Rightarrow> ClawDevicePairingRequest \<Rightarrow> ClawDevicePairingRequest \<Rightarrow> pairing_pass" where
  "exec_and_report env pod instance processing =
     (let execs = [(pod, dp_RequestID instance)];
          server = pe_during_exec env (Some processing);
          report = (\<lambda>status reason message.
            case server of
              None \<Rightarrow> \<lparr>pp_execs = execs, pp_server = server, pp_result = Inl PairingNotFound\<rparr>
            | Some refetched \<Rightarrow> finish (pe_conditions env) execs (pe_after_fetch env server) status reason message refetched)
      in case pe_exec env pod (dp_RequestID instance) of
           ExecError _ \<Rightarrow> \<lparr>pp_execs = execs, pp_server = server, pp_result = Inl ExecTransport\<rparr>
         | ExecCommandError err \<Rightarrow> report ConditionFalse ''PairingFailed'' (''Exec failed on pod '' @ pod @ '': '' @ err)
         | ExecOk \<Rightarrow> report ConditionTrue ''DevicePaired'' (''Device paired via pod: '' @ pod))"

definition DevicePairing_Reconcile :: "pairing_env \<Rightarrow> ClawDevicePairingRequest option \<Rightarrow> pairing_pass" where
  "DevicePairing_Reconcile env stored =
     (let m = pe_conditions env; done = (\<lambda>srv r. \<lparr>pp_execs = [], pp_server = srv, pp_result = r\<rparr>)
      in case stored of
           None \<Rightarrow> done None (Inr ())
         | Some instance \<Rightarrow>
             if already_paired m instance then done stored (Inr ())
             else
               let server = pe_before_update env stored
               in case pe_selector env (dp_Selector instance) of
                    Inl err \<Rightarrow> finish m [] server ConditionFalse ''InvalidSelector'' (''Invalid selector: '' @ err) instance
                  | Inr selector \<Rightarrow>
                      (case pe_pods env (dp_Selector instance) of
                         None \<Rightarrow> done server (Inl PodListFailed)
                       | Some [] \<Rightarrow>
                           finish m [] server ConditionFalse ''NoMatchingPod'' (''No pods match selector: '' @ selector) instance
                       | Some [pod] \<Rightarrow>
                           (case status_update server
                                   (setDevicePairingCondition m ''Ready'' ConditionFalse ''Processing''
                                      (''Processing device pairing on pod: '' @ pod) instance) of
                              Inl e \<Rightarrow> done server (Inl e)
                            | Inr processing \<Rightarrow> exec_and_report env pod instance processing)
                       | Some pods \<Rightarrow>
                           finish m [] server ConditionFalse ''MultipleMatchingPods''
                             (Itoa (int (length pods)) @ '' pods match selector: '' @ selector) instance))"

text \<open>
  The work queue: a pass that changes the stored object causes a watch event, and with it another
  pass. The commands that are run until the queue is empty, or until the fuel is used up.
\<close>

fun worker :: "pairing_env \<Rightarrow> nat \<Rightarrow> ClawDevicePairingRequest option \<Rightarrow> (string \<times> string) list" where
  "worker env 0 stored = []"
| "worker env (Suc fuel) stored =
     (let pass = DevicePairing_Reconcile env stored
      in pp_execs pass @ (if pp_server pass = stored then [] else worker env fuel (pp_server pass)))"

subsection \<open>What a pass does\<close>

definition ready_report :: "conditions_lib \<Rightarrow> ClawDevicePairingRequest \<Rightarrow> (string \<times> string \<times> int) option" where
  "ready_report m instance =
     map_option (\<lambda>c. (co_Status c, co_Reason c, co_ObservedGeneration c)) (meta_FindStatusCondition m (dp_Conditions instance) ''Ready'')"

lemma already_paired_report: "already_paired m i \<longleftrightarrow> ready_report m i = Some (ConditionTrue, ''DevicePaired'', dp_Generation i)"
  by (auto simp: already_paired_def ready_report_def split: option.splits)

lemma setDevicePairingCondition_fields [simp]:
  "dp_Generation (setDevicePairingCondition m t s r msg i) = dp_Generation i"
  "dp_ResourceVersion (setDevicePairingCondition m t s r msg i) = dp_ResourceVersion i"
  "dp_RequestID (setDevicePairingCondition m t s r msg i) = dp_RequestID i"
  "dp_Selector (setDevicePairingCondition m t s r msg i) = dp_Selector i"
  by (simp_all add: setDevicePairingCondition_def)

lemma status_update_Inr:
  assumes "status_update server i = Inr stored'"
  obtains stored where "server = Some stored" "dp_ResourceVersion stored = dp_ResourceVersion i" "dp_Conditions stored' = dp_Conditions i"
    "dp_Generation stored' = dp_Generation stored" "dp_RequestID stored' = dp_RequestID stored" "dp_Selector stored' = dp_Selector stored"
  using assms by (auto simp: status_update_def split: option.splits if_splits)

context condition_laws
begin

lemma ready_report_set [simp]:
  "ready_report m (setDevicePairingCondition m ''Ready'' s r msg i) = Some (s, r, dp_Generation i)"
proof -
  let ?c = "\<lparr>co_Type = ''Ready'', co_Status = s, co_ObservedGeneration = dp_Generation i, co_LastTransitionTime = 0, co_Reason = r, co_Message = msg\<rparr>"
  obtain c' where c': "meta_FindStatusCondition m (meta_SetStatusCondition m (dp_Conditions i) ?c) (co_Type ?c) = Some c'"
    and "same_report ?c c'" using find_set by blast
  then have "(co_Status c', co_Reason c', co_ObservedGeneration c') = (s, r, dp_Generation i)"
    by (cases c') (simp add: same_report_def)
  with c' show ?thesis by (simp add: ready_report_def setDevicePairingCondition_def)
qed

lemma updated_report:
  assumes "status_update server (setDevicePairingCondition m ''Ready'' s r msg i) = Inr stored'"
  shows "ready_report m stored' = Some (s, r, dp_Generation i)"
  using assms by (rule status_update_Inr) (use ready_report_set in \<open>simp add: ready_report_def\<close>)

end

text \<open>
  The approval command runs at most once in a pass: for the request ID that was fetched, in
  the only pod the selector matches, and never for a request already reported as paired.
\<close>

theorem pairing_command_is_for_the_request:
  assumes "pp_execs (DevicePairing_Reconcile env stored) \<noteq> []"
  shows "\<exists>instance pod. stored = Some instance \<and> \<not> already_paired (pe_conditions env) instance \<and>
    pe_pods env (dp_Selector instance) = Some [pod] \<and>
    pp_execs (DevicePairing_Reconcile env stored) = [(pod, dp_RequestID instance)]"
proof -
  have finish: "pp_execs (finish m execs server s r msg i) = execs" for m execs server s r msg i
    by (simp add: finish_def split: sum.split)
  have report: "pp_execs (exec_and_report env pod i p) = [(pod, dp_RequestID i)]" for pod i p
    by (simp add: exec_and_report_def finish Let_def split: exec_outcome.split option.split)
  from assms show ?thesis
    by (auto simp: DevicePairing_Reconcile_def Let_def finish report split: option.splits if_splits sum.splits list.splits)
qed

definition quiet_env :: "(string \<Rightarrow> string \<Rightarrow> exec_outcome) \<Rightarrow> string list \<Rightarrow> pairing_env" where
  "quiet_env exec pods =
     \<lparr>pe_conditions = list_conditions, pe_selector = (\<lambda>_. Inr ''app=claw''), pe_pods = (\<lambda>_. Some pods), pe_exec = exec,
      pe_before_update = id, pe_during_exec = id, pe_after_fetch = id\<rparr>"

definition sample_request :: ClawDevicePairingRequest where
  "sample_request = \<lparr>dp_Generation = 1, dp_ResourceVersion = 7, dp_RequestID = ''a'', dp_Selector = JNull, dp_Conditions = []\<rparr>"

theorem pairing_command_is_for_the_request_witness:
  "pp_execs (DevicePairing_Reconcile (quiet_env (\<lambda>_ _. ExecOk) [''pod'']) (Some sample_request)) = [(''pod'', ''a'')]"
proof -
  have "pp_execs (DevicePairing_Reconcile (quiet_env (\<lambda>_ _. ExecOk) [''pod'']) (Some sample_request)) \<noteq> []" by code_simp
  from pairing_command_is_for_the_request [OF this] show ?thesis by (auto simp: sample_request_def quiet_env_def)
qed

subsection \<open>What a report says\<close>

text \<open>
  Others may edit the specification or delete the object, but leave the status alone. An edit of the
  specification bumps the generation and every edit the resource version.
\<close>

definition spec_edits :: "(ClawDevicePairingRequest option \<Rightarrow> ClawDevicePairingRequest option) \<Rightarrow> bool" where
  "spec_edits f \<longleftrightarrow> f None = None \<and>
     (\<forall>x y. f (Some x) = Some y \<longrightarrow> y = x \<or>
        dp_ResourceVersion x < dp_ResourceVersion y \<and> dp_Conditions y = dp_Conditions x \<and> dp_Generation x \<le> dp_Generation y \<and>
        (dp_Generation y = dp_Generation x \<longrightarrow> dp_RequestID y = dp_RequestID x \<and> dp_Selector y = dp_Selector x))"

definition keeps_generation :: "(ClawDevicePairingRequest option \<Rightarrow> ClawDevicePairingRequest option) \<Rightarrow> bool" where
  "keeps_generation f \<longleftrightarrow> (\<forall>x y. f (Some x) = Some y \<longrightarrow> dp_Generation y = dp_Generation x)"

lemma spec_edits_conditions: "spec_edits f \<Longrightarrow> f (Some x) = Some y \<Longrightarrow> dp_Conditions y = dp_Conditions x"
  by (auto simp: spec_edits_def)

lemma spec_edits_same_version:
  assumes "spec_edits f" "f (Some x) = Some y" "dp_ResourceVersion y = dp_ResourceVersion x"
  shows "y = x"
proof -
  from assms have "y = x \<or> dp_ResourceVersion x < dp_ResourceVersion y" unfolding spec_edits_def by blast
  with assms(3) show ?thesis by simp
qed

context condition_laws
begin

lemma finish_server:
  assumes "pp_server (finish m execs server s r msg i) = Some stored'"
  shows "server = Some stored' \<or> ready_report m stored' = Some (s, r, dp_Generation i)"
  using assms by (auto simp: finish_def split: sum.splits dest: updated_report)

lemma exec_and_report_paired:
  assumes env: "pe_conditions env = m" "spec_edits (pe_during_exec env)" "spec_edits (pe_after_fetch env)" "keeps_generation (pe_during_exec env)"
    and not: "ready_report m processing = Some (ConditionFalse, ''Processing'', g)" "dp_RequestID processing = dp_RequestID i"
    and pass: "pp_server (exec_and_report env pod i processing) = Some stored'" "already_paired m stored'"
  shows "pe_exec env pod (dp_RequestID i) = ExecOk \<and> dp_RequestID stored' = dp_RequestID i"
proof -
  let ?srv = "pe_during_exec env (Some processing)"
  have still: "\<not> already_paired m x" if "dp_Conditions x = dp_Conditions processing" for x
    using not(1) that by (auto simp: already_paired_report ready_report_def)
  have "?srv \<noteq> None"
    using pass(1) by (auto simp: exec_and_report_def Let_def split: exec_outcome.splits option.splits)
  then obtain refetched where srv: "?srv = Some refetched" by blast
  from env(2,4) srv have same: "dp_Conditions refetched = dp_Conditions processing" "dp_RequestID refetched = dp_RequestID i"
    unfolding keeps_generation_def spec_edits_def using not(2) by (metis, metis)
  have after: "pe_after_fetch env ?srv \<noteq> Some stored'"
    using spec_edits_conditions [OF env(3), of refetched stored'] still same(1) pass(2) srv by auto
  show ?thesis
  proof (cases "pe_exec env pod (dp_RequestID i)")
    case ExecOk
    with pass(1) srv env(1) obtain msg where
      "pp_server (finish m [(pod, dp_RequestID i)] (pe_after_fetch env ?srv) ConditionTrue ''DevicePaired'' msg refetched) = Some stored'"
      by (simp add: exec_and_report_def)
    with after obtain st where st: "pe_after_fetch env ?srv = Some st" "dp_ResourceVersion st = dp_ResourceVersion refetched"
      "dp_RequestID stored' = dp_RequestID st"
      by (auto simp: finish_def split: sum.splits elim!: status_update_Inr)
    with spec_edits_same_version [OF env(3)] srv have "st = refetched" by auto
    with st same ExecOk show ?thesis by simp
  next
    case (ExecCommandError err)
    with pass(1) srv env(1) obtain msg where
      "pp_server (finish m [(pod, dp_RequestID i)] (pe_after_fetch env ?srv) ConditionFalse ''PairingFailed'' msg refetched) = Some stored'"
      by (simp add: exec_and_report_def)
    from finish_server [OF this] after pass(2) show ?thesis by (simp add: already_paired_report)
  next
    case (ExecError err)
    with pass(1) srv have "stored' = refetched" by (simp add: exec_and_report_def Let_def)
    with still same pass(2) show ?thesis by simp
  qed
qed

end

text \<open>
  Unless its specification changes while the command runs, a request that a pass reports as
  paired is one whose own request ID was approved in the pod.
\<close>

theorem pairing_report_is_true:
  assumes laws: "condition_laws (pe_conditions env)"
    and env: "spec_edits (pe_before_update env)" "spec_edits (pe_during_exec env)" "spec_edits (pe_after_fetch env)"
      "keeps_generation (pe_during_exec env)"
    and before: "\<not> already_paired (pe_conditions env) instance"
      "\<forall>stored. pe_before_update env (Some instance) = Some stored \<longrightarrow> \<not> already_paired (pe_conditions env) stored"
    and pass: "pp_server (DevicePairing_Reconcile env (Some instance)) = Some stored'" "already_paired (pe_conditions env) stored'"
  shows "\<exists>pod. pe_pods env (dp_Selector instance) = Some [pod] \<and> pe_exec env pod (dp_RequestID stored') = ExecOk \<and>
    pp_execs (DevicePairing_Reconcile env (Some instance)) = [(pod, dp_RequestID stored')]"
proof -
  let ?m = "pe_conditions env" and ?srv = "pe_before_update env (Some instance)"
  have "?srv \<noteq> Some stored'" using before(2) pass(2) by blast
  moreover have "pp_server (finish ?m [] ?srv ConditionFalse r msg instance) \<noteq> Some stored'" for r msg
    using condition_laws.finish_server [OF laws] pass(2) \<open>?srv \<noteq> Some stored'\<close> by (fastforce simp: already_paired_report)
  ultimately obtain pod processing where pod: "pe_pods env (dp_Selector instance) = Some [pod]"
    and upd: "status_update ?srv (setDevicePairingCondition ?m ''Ready'' ConditionFalse ''Processing''
         (''Processing device pairing on pod: '' @ pod) instance) = Inr processing"
    and rest: "DevicePairing_Reconcile env (Some instance) = exec_and_report env pod instance processing"
    using pass(1) before(1) by (auto simp: DevicePairing_Reconcile_def Let_def split: option.splits sum.splits list.splits if_splits)
  from upd have "dp_RequestID processing = dp_RequestID instance"
    by (rule status_update_Inr) (use spec_edits_same_version [OF env(1)] in auto)
  from condition_laws.exec_and_report_paired [OF laws refl env(2-4) condition_laws.updated_report [OF laws upd] this]
    pass [unfolded rest] have "pe_exec env pod (dp_RequestID instance) = ExecOk" "dp_RequestID stored' = dp_RequestID instance" by blast+
  moreover have "pp_execs (exec_and_report env pod instance processing) = [(pod, dp_RequestID instance)]"
    by (simp add: exec_and_report_def finish_def Let_def split: exec_outcome.split option.split sum.split)
  ultimately show ?thesis using pod rest by simp
qed

theorem pairing_report_is_true_witness:
  "\<exists>pod. pe_pods (quiet_env (\<lambda>_ _. ExecOk) [''pod'']) JNull = Some [pod] \<and>
     pp_execs (DevicePairing_Reconcile (quiet_env (\<lambda>_ _. ExecOk) [''pod'']) (Some sample_request)) = [(pod, ''a'')]"
proof -
  let ?env = "quiet_env (\<lambda>_ _. ExecOk) [''pod'']"
  have env: "pe_conditions ?env = list_conditions" "pe_before_update ?env = id" "pe_during_exec ?env = id" "pe_after_fetch ?env = id"
    by (simp_all add: quiet_env_def)
  have quiet: "spec_edits id" "keeps_generation id" by (auto simp: spec_edits_def keeps_generation_def)
  have new: "\<not> already_paired list_conditions sample_request" by code_simp
  have "case pp_server (DevicePairing_Reconcile ?env (Some sample_request)) of None \<Rightarrow> False
      | Some s \<Rightarrow> already_paired list_conditions s \<and> dp_RequestID s = ''a''" by code_simp
  then obtain s where s: "pp_server (DevicePairing_Reconcile ?env (Some sample_request)) = Some s" "already_paired list_conditions s"
    "dp_RequestID s = ''a''" by (auto split: option.splits)
  from pairing_report_is_true [of ?env sample_request s, unfolded env, OF list_conditions.condition_laws_axioms quiet(1) quiet(1) quiet(1) quiet(2) new] s new
  show ?thesis by (auto simp: sample_request_def)
qed

text \<open>
  When the specification changes while the command runs, the report is about a request that
  was never approved: the pass approves the old request ID, fetches the edited object and records
  success for its new generation, which every later pass then takes as done.
\<close>

definition racing_env :: pairing_env where
  "racing_env = (quiet_env (\<lambda>_ _. ExecOk) [''pod''])\<lparr>pe_during_exec :=
     map_option (\<lambda>x. x\<lparr>dp_RequestID := ''b'', dp_Generation := dp_Generation x + 1, dp_ResourceVersion := Suc (dp_ResourceVersion x)\<rparr>)\<rparr>"

theorem pairing_race_loses_request:
  "spec_edits (pe_during_exec racing_env) \<and>
   (\<exists>stored'. pp_server (DevicePairing_Reconcile racing_env (Some sample_request)) = Some stored' \<and>
      pp_execs (DevicePairing_Reconcile racing_env (Some sample_request)) = [(''pod'', ''a'')] \<and>
      dp_RequestID stored' = ''b'' \<and> already_paired list_conditions stored' \<and>
      DevicePairing_Reconcile racing_env (Some stored') = \<lparr>pp_execs = [], pp_server = Some stored', pp_result = Inr ()\<rparr>)"
proof
  show "spec_edits (pe_during_exec racing_env)" by (auto simp: spec_edits_def racing_env_def)
  have "pp_execs (DevicePairing_Reconcile racing_env (Some sample_request)) = [(''pod'', ''a'')]"
    "case pp_server (DevicePairing_Reconcile racing_env (Some sample_request)) of None \<Rightarrow> False
       | Some s \<Rightarrow> dp_RequestID s = ''b'' \<and> already_paired list_conditions s" by code_simp+
  moreover have "pe_conditions racing_env = list_conditions" by (simp add: racing_env_def quiet_env_def)
  ultimately show "\<exists>stored'. pp_server (DevicePairing_Reconcile racing_env (Some sample_request)) = Some stored' \<and>
      pp_execs (DevicePairing_Reconcile racing_env (Some sample_request)) = [(''pod'', ''a'')] \<and>
      dp_RequestID stored' = ''b'' \<and> already_paired list_conditions stored' \<and>
      DevicePairing_Reconcile racing_env (Some stored') = \<lparr>pp_execs = [], pp_server = Some stored', pp_result = Inr ()\<rparr>"
    by (auto simp: DevicePairing_Reconcile_def [of _ "Some s" for s] Let_def split: option.splits)
qed

subsection \<open>When the passes end\<close>

lemma fresh_update:
  assumes "dp_ResourceVersion j = dp_ResourceVersion s"
  obtains p where "status_update (Some s) j = Inr p" "dp_ResourceVersion s \<le> dp_ResourceVersion p"
    "dp_RequestID p = dp_RequestID s" "dp_Selector p = dp_Selector s" "dp_Generation p = dp_Generation s"
    "dp_Conditions s \<noteq> dp_Conditions j \<longrightarrow> dp_ResourceVersion p = Suc (dp_ResourceVersion s)"
  using assms by (cases "dp_Conditions s = dp_Conditions j") (auto simp: status_update_def)

context condition_laws
begin

text \<open>One undisturbed pass over a failing command leaves a newer object that still asks for pairing.\<close>

lemma failing_pass:
  assumes env: "pe_conditions env = m" "pe_before_update env = id" "pe_during_exec env = id" "pe_after_fetch env = id"
    and selector: "pe_selector env (dp_Selector i) = Inr sel" "pe_pods env (dp_Selector i) = Some [pod]"
    and exec: "pe_exec env pod (dp_RequestID i) = ExecCommandError err"
    and new: "\<not> already_paired m i"
  obtains stored' where "DevicePairing_Reconcile env (Some i) = \<lparr>pp_execs = [(pod, dp_RequestID i)], pp_server = Some stored', pp_result = Inr ()\<rparr>"
    and "dp_ResourceVersion i < dp_ResourceVersion stored'" and "\<not> already_paired m stored'"
    and "dp_RequestID stored' = dp_RequestID i" and "dp_Selector stored' = dp_Selector i"
proof -
  let ?set = "\<lambda>r msg x. setDevicePairingCondition m ''Ready'' ConditionFalse r msg x"
  obtain p where p: "status_update (Some i) (?set ''Processing'' (''Processing device pairing on pod: '' @ pod) i) = Inr p"
    "dp_ResourceVersion i \<le> dp_ResourceVersion p" "dp_RequestID p = dp_RequestID i" "dp_Selector p = dp_Selector i"
    using fresh_update [of "?set ''Processing'' (''Processing device pairing on pod: '' @ pod) i" i] by auto
  note rp = updated_report [OF p(1)]
  let ?f = "?set ''PairingFailed'' (''Exec failed on pod '' @ pod @ '': '' @ err) p"
  have "ready_report m ?f \<noteq> ready_report m p" using rp by simp
  then have "dp_Conditions p \<noteq> dp_Conditions ?f" by (auto simp: ready_report_def)
  then obtain q where q: "status_update (Some p) ?f = Inr q" "dp_ResourceVersion q = Suc (dp_ResourceVersion p)"
    "dp_RequestID q = dp_RequestID p" "dp_Selector q = dp_Selector p"
    using fresh_update [of ?f p] by auto
  have "DevicePairing_Reconcile env (Some i) = \<lparr>pp_execs = [(pod, dp_RequestID i)], pp_server = Some q, pp_result = Inr ()\<rparr>"
    using new selector exec p(1) q(1) by (simp add: DevicePairing_Reconcile_def exec_and_report_def finish_def env Let_def)
  moreover have "\<not> already_paired m q" using updated_report [OF q(1)] by (simp add: already_paired_report)
  ultimately show thesis using that p q by simp
qed

lemma failing_worker:
  assumes env: "pe_conditions env = m" "pe_before_update env = id" "pe_during_exec env = id" "pe_after_fetch env = id"
    and selector: "pe_selector env (dp_Selector i) = Inr sel" "pe_pods env (dp_Selector i) = Some [pod]"
    and exec: "pe_exec env pod (dp_RequestID i) = ExecCommandError err"
    and new: "\<not> already_paired m i"
  shows "worker env fuel (Some i) = replicate fuel (pod, dp_RequestID i)"
  using selector exec new
proof (induction fuel arbitrary: i)
  case (Suc fuel)
  from failing_pass [OF env Suc.prems] obtain s where
    s: "DevicePairing_Reconcile env (Some i) = \<lparr>pp_execs = [(pod, dp_RequestID i)], pp_server = Some s, pp_result = Inr ()\<rparr>"
      "dp_ResourceVersion i < dp_ResourceVersion s" "\<not> already_paired m s" "dp_RequestID s = dp_RequestID i" "dp_Selector s = dp_Selector i" .
  from Suc.IH [of s] Suc.prems s have "worker env fuel (Some s) = replicate fuel (pod, dp_RequestID i)" by simp
  moreover have "s \<noteq> i" using s(2) by auto
  ultimately show ?case using s(1) by simp
qed simp

end





end
