(* ===== verification/Spec2Isabelle.thy ===== *)
theory Spec2Isabelle
  imports Remainder Plugins Egress Workspace Device_Pairing "HOL-Library.Multiset"
begin

text \<open>
  Verification of the claw operator (\<open>src/internal/controller\<close>, \<open>src/cmd/main.go\<close>) and of its credential
  proxy (\<open>src/internal/proxy\<close>, \<open>src/cmd/proxy/main.go\<close>).

  \<^bold>\<open>The program.\<close> A Claw resource describes an assistant: credentials, MCP servers, channels,
  plugins, workspace files. For each Claw the operator runs a gateway pod, which gets no secret
  of the user's providers, and a proxy pod, which does. The gateway reaches the network through the
  proxy only; the proxy looks up the route of a request by host and path, strips the credentials the
  client sent and injects the configured ones. A pass of the operator (\<open>Reconcile\<close>) checks the Claw
  against the Secrets it names, writes the proxy's route table, renders manifests, edits them, applies them and
  reports in the status. A second controller approves device pairing requests. A user-approved
  migration (the doctor Job) runs while the gateway is stopped.

  \<^bold>\<open>Conventions.\<close> A Go string is a byte string, a map an association list whose order is the
  iteration order, a pointer an option, a struct a record with the source's field names behind a
  prefix, an error a constructor of a datatype and a fallible function one that returns a sum. Loops are
  structural recursions or folds, so that every definition terminates. Code outside the repository is a parameter:
  the environment, files and token endpoints of the proxy (\<open>World\<close>), certificates (\<open>pki\<close>), the accessors of trees
  (\<open>unstructured_lib\<close> with the laws of the locale \<open>unstructured_laws\<close>), conditions (\<open>conditions_lib\<close> with \<open>condition_laws\<close>),
  and the API server with kustomize and the YAML library (\<open>cluster\<close>). Each set of laws has an instance
  in the development.

  \<^bold>\<open>The theories.\<close>

  \<^item> \<open>Prelude\<close>, \<open>GoStd\<close>, \<open>GoUrl\<close>, \<open>GoBase64\<close>, \<open>Json\<close>: the parts of Go's library the code uses (case, paths, host
    and port, header keys, URL parsing, base64, stable sorting over a strict weak order, JSON).
  \<^item> \<open>Api_Types\<close> (\<open>claw_types.go\<close>), \<open>Providers\<close> (\<open>claw_providers.go\<close>, \<open>claw_models.go\<close>), \<open>Channels\<close> (\<open>claw_channels.go\<close>), \<open>Credentials\<close>
    (\<open>claw_credentials.go\<close>, \<open>claw_repo_access.go\<close>): what a Claw says, how it is completed and resolved;
    kubeconfigs are validated, and sanitised for the gateway.
  \<^item> \<open>Proxy_Routes\<close> (\<open>config.go\<close>), \<open>Proxy_Injectors\<close> (\<open>injector*.go\<close>), \<open>Proxy_Server\<close> (\<open>server.go\<close>), \<open>Proxy_Main\<close>: route lookup, the
    eight injectors behind one locale, and the server as a state machine whose runs are an inductive
    predicate. No credential of a client passes, only allowed paths do, no handler dies on a missing
    injector.
  \<^item> \<open>Proxy_Config\<close> (\<open>claw_proxy.go\<close>, \<open>claw_web_search.go\<close>), \<open>Route_Json\<close>, \<open>Operator_Proxy\<close>: the route table, its wire format, and that the
    proxy accepts what the operator generates.
  \<^item> \<open>Json_Config\<close> (\<open>claw_config.go\<close>), \<open>Config_Injection\<close> (\<open>claw_auth.go\<close>, \<open>claw_mcp.go\<close>, \<open>claw_memory_*.go\<close>, \<open>claw_config_generation.go\<close>, \<open>claw_diagnostics.go\<close>),
    \<open>Plugins\<close>, \<open>Egress\<close>, \<open>Workspace\<close>: the gateway's configuration document, which keys win, the plugins, the
    egress targets and the checks of file names.
  \<^item> \<open>Unstructured\<close>, \<open>Gateway_Deployment\<close> (\<open>claw_deployment.go\<close>), \<open>Proxy_Deployment\<close>, \<open>Manifests\<close>, \<open>Normalize\<close> (\<open>claw_normalize.go\<close>): edits of
    manifests as trees. The locale \<open>manifest_edit\<close> says which objects an edit may touch, and every edit of the
    code is an instance of it.
  \<^item> \<open>Conditions\<close>, \<open>Cluster\<close>, \<open>Status\<close> (\<open>claw_status.go\<close>, \<open>claw_idle.go\<close>, \<open>claw_operator_metrics.go\<close>), \<open>Migration\<close> (\<open>claw_migration.go\<close>), \<open>Validation\<close>,
    \<open>Reconciler\<close> (\<open>claw_resource_controller.go\<close>): a pass as an operation on the instance in memory and the trace of what
    was done, with its errors; the migration as a step relation of passes, controllers and users.
  \<^item> \<open>Admission\<close>, \<open>Watches\<close> (\<open>claw_resource_controller.go\<close>, \<open>user_secret_cache.go\<close>, \<open>cmd/main.go\<close>): properties of whole passes. Locales
    collect what the operations before admission keep; a second argument compares two passes over
    clusters that differ in one Secret.
  \<^item> \<open>Device_Pairing\<close> (\<open>claw_device_pairing_request_controller.go\<close>): a pass over a request, with other writers between its
    reads and writes, and the work queue.
  \<^item> \<open>Schema\<close> (the markers of \<open>claw_types.go\<close>): what the API server admits, and that a Claw it admits is well typed for the
    operator: which checks can still fail, and what the completed credentials have.
  \<^item> \<open>Delivery\<close>: the way from a stored Claw to the proxy's server, through schema, pass and document. Locales state what operations keep
    of the trace, operations with a postcondition, and clusters that accept writes.
  \<^item> \<open>Proxy_CA\<close> (\<open>claw_proxy.go\<close>): the certificate authority of the proxy, made by the operator and accepted by the proxy.
  \<^item> \<open>Binaries\<close> (\<open>cmd/main.go\<close>, \<open>cmd/proxy/main.go\<close>): the set-up of the operator, with the slice of TLS options its two servers share,
    and the proxy process up to its exit.
  \<^item> \<open>Remainder\<close>: code without effect on a pass, and what the program does not do.

  This theory has the properties that span operator and proxy.

  \<^bold>\<open>Bounds and fuel.\<close> The only fuel is that of the work queue of device pairing (\<open>worker\<close>), which need not
  become empty: two passes are enough for a request that settles, and a failing command is shown to
  use up any amount. Numbers of JSON documents and of the API are integers; ports and counts stay far
  below the width of Go's \<open>int\<close>.

  \<^bold>\<open>Not modelled.\<close> Generated deep copies, which copy a value that HOL shares, and scheme registration; parsing of command lines, which is the flag
  package's, listeners, leader election and the manager's own loop; the text of log lines; the contents of error messages where nothing reads
  them; the crypto library, which is a parameter with the laws of the locale \<open>crypto_laws\<close>. Passes see the cluster at one moment, except where a
  second read in the same pass may differ (the list of Jobs, the pairing request). The wait for the
  first refresh of the metrics has no effect on a pass and is left out; \<open>Binaries\<close> shows that it ends.
\<close>

subsection \<open>Which route a credential's domain gets\<close>

lemma builtin_domains_lower:
  assumes "d \<in> bp_Domain ` set (fst (filterBuiltinPassthroughs al))"
  shows "ToLower d = d"
proof -
  have "list_all (\<lambda>bp. ToLower (bp_Domain bp) = bp_Domain bp) builtinPassthroughDomains" by code_simp
  with assms show ?thesis by (auto simp: filterBuiltinPassthroughs_def list_all_iff split: option.splits)
qed

lemma mcp_domain_lower: "mcp_domain m = Some d \<Longrightarrow> ToLower d = d"
  by (auto simp: mcp_domain_def split: option.splits if_splits)

text \<open>
  (C15) An exact credential domain is never shadowed. For a host that is the domain of a resolved
  credential, every route of the generated table that the proxy matches exactly by host name is a
  credential's own route: no builtin passthrough, web search or MCP route competes with it.
\<close>

theorem exact_credential_domain_not_shadowed:
  assumes gen: "generateProxyConfig creds mcps ws (Some (fst (filterBuiltinPassthroughs al))) = Inr routes"
    and rc: "rc \<in> set creds" and host: "snd (parseHost host) = ToLower (cs_Domain (rc_Spec rc))"
    and r: "r \<in> set routes" and m: "route_matches host (route_of r)"
    and tier: "domain_tier_of (ToLower (pr_Domain r)) = ExactTier"
  shows "\<exists>rc' \<in> set creds. r \<in> set (routes_of rc')"
proof -
  let ?c0 = "map (\<lambda>rc. ToLower (cs_Domain (rc_Spec rc))) creds"
  have "ToLower (pr_Domain r) = ToLower (cs_Domain (rc_Spec rc))"
    using m tier host
    by (auto simp: route_matches_def domainMatches_def domain_tier_of_def route_of_def split: if_splits)
  then have c: "ToLower (pr_Domain r) \<in> set ?c0" using rc by auto
  then have cov: "domainCovered (ToLower (pr_Domain r)) ?c0" by (simp add: domainCovered_def)
  from gen r show ?thesis
  proof (cases rule: generated_route_cases)
    case builtin
    then have "pr_Domain r \<in> bp_Domain ` set (fst (filterBuiltinPassthroughs al))" by simp
    with builtin(2) c show ?thesis using builtin_domains_lower by metis
  next
    case search
    with cov show ?thesis by blast
  next
    case (mcp m cred)
    with cov show ?thesis using mcp_domain_lower by metis
  next
    case (passthrough m)
    with cov show ?thesis using mcp_domain_lower by metis
  next
    case (credential rc')
    then show ?thesis by blast
  qed
qed

definition exact_cred :: resolvedCredential where
  "exact_cred = \<lparr>rc_Spec = empty_CredentialSpec\<lparr>cs_Name := ''gh'', cs_Type := CredentialTypeBearer,
     cs_Domain := ''GitHub.com''\<rparr>, rc_KubeConfig = None\<rparr>"

theorem exact_credential_domain_not_shadowed_witness:
  "\<exists>routes. generateProxyConfig [exact_cred] [] None (Some (fst (filterBuiltinPassthroughs (Some [''github.com''])))) = Inr routes \<and>
     route_of (credential_route (rc_Spec exact_cred)) \<in> route_of ` set routes \<and>
     (\<exists>rc' \<in> set [exact_cred]. credential_route (rc_Spec exact_cred) \<in> set (routes_of rc'))"
proof -
  let ?r = "credential_route (rc_Spec exact_cred)"
  have g: "generateProxyConfig [exact_cred] [] None (Some (fst (filterBuiltinPassthroughs (Some [''github.com''])))) = Inr [?r]"
    by code_simp
  have f: "snd (parseHost ''github.com:443'') = ToLower (cs_Domain (rc_Spec exact_cred))"
    "route_matches ''github.com:443'' (route_of ?r)" "domain_tier_of (ToLower (pr_Domain ?r)) = ExactTier" by code_simp+
  show ?thesis
    using exact_credential_domain_not_shadowed [OF g, of exact_cred "''github.com:443''" ?r] f g by simp
qed

text \<open>
  (C16) A suffix credential (a domain with a leading dot) is not shadowed on its subdomains by web
  search or MCP routes: any other route of the table whose domain lies below the suffix is a
  credential's own route or one of the builtin passthroughs.
\<close>

theorem suffix_credential_not_shadowed_by_mcp:
  assumes gen: "generateProxyConfig creds mcps ws builtins = Inr routes"
    and rc: "rc \<in> set creds" and dot: "HasPrefix (ToLower (cs_Domain (rc_Spec rc))) ''.''"
    and r: "r \<in> set routes" and below: "HasSuffix (ToLower (pr_Domain r)) (ToLower (cs_Domain (rc_Spec rc)))"
  shows "(\<exists>rc' \<in> set creds. r \<in> set (routes_of rc')) \<or>
    pr_Injector r = ''none'' \<and>
    pr_Domain r \<in> bp_Domain ` set (case builtins of None \<Rightarrow> builtinPassthroughDomains | Some bs \<Rightarrow> bs)"
proof -
  let ?c0 = "map (\<lambda>rc. ToLower (cs_Domain (rc_Spec rc))) creds"
  have cov: "domainCovered (ToLower (pr_Domain r)) ?c0"
    using rc dot below by (auto simp: domainCovered_def list_ex_iff)
  from gen r show ?thesis
  proof (cases rule: generated_route_cases)
    case search
    with cov show ?thesis by blast
  next
    case (mcp m cred)
    with cov show ?thesis using mcp_domain_lower by metis
  next
    case (passthrough m)
    with cov show ?thesis using mcp_domain_lower by metis
  qed blast+
qed

definition suffix_cred :: resolvedCredential where
  "suffix_cred = \<lparr>rc_Spec = empty_CredentialSpec\<lparr>cs_Name := ''ex'', cs_Type := CredentialTypeBearer,
     cs_Domain := ''.example.com''\<rparr>, rc_KubeConfig = None\<rparr>"

definition mcp_at :: "string \<Rightarrow> string \<Rightarrow> McpServerSpec" where
  "mcp_at u ref = empty_McpServerSpec\<lparr>mcp_URL := u, mcp_CredentialRef := ref\<rparr>"

theorem suffix_credential_not_shadowed_by_mcp_witness:
  "\<exists>r. generateProxyConfig [suffix_cred] [(''m'', mcp_at ''https://a.example.com/mcp'' [])] None (Some []) = Inr [r] \<and>
     (\<exists>rc' \<in> set [suffix_cred]. r \<in> set (routes_of rc'))"
proof -
  let ?r = "credential_route (rc_Spec suffix_cred)"
  have g: "generateProxyConfig [suffix_cred] [(''m'', mcp_at ''https://a.example.com/mcp'' [])] None (Some []) = Inr [?r]"
    by code_simp
  have f: "HasPrefix (ToLower (cs_Domain (rc_Spec suffix_cred))) ''.''"
    "HasSuffix (ToLower (pr_Domain ?r)) (ToLower (cs_Domain (rc_Spec suffix_cred)))" by code_simp+
  show ?thesis
    using suffix_credential_not_shadowed_by_mcp [OF g, of suffix_cred ?r] f g by auto
qed

text \<open>
  The apex of a suffix domain is the exception. The proxy serves the apex from a suffix route,
  but the operator does not count it as covered; so an MCP server at the apex gets a passthrough
  route of its own, which the proxy prefers, and the credential of the suffix route is not injected.
\<close>

theorem apex_of_suffix_is_shadowed:
  "(\<forall>c. HasPrefix c ''.'' \<longrightarrow> domainMatches c (drop 1 c) (drop 1 c) \<and> \<not> domainCovered (drop 1 c) [c]) \<and>
   (\<exists>routes q. generateProxyConfig [suffix_cred] [(''m'', mcp_at ''https://example.com/mcp'' [])] None (Some []) = Inr routes \<and>
      route_of (credential_route (rc_Spec suffix_cred)) \<in> route_of ` set routes \<and>
      MatchRoute \<lparr>Routes = map route_of routes\<rparr> ''example.com:443'' ''/mcp'' = Some q \<and> r_Injector q = ''none'' \<and>
      MatchRoute \<lparr>Routes = [route_of (credential_route (rc_Spec suffix_cred))]\<rparr> ''example.com:443'' ''/mcp'' =
        Some (route_of (credential_route (rc_Spec suffix_cred))))"
proof (intro conjI allI impI)
  fix c :: string assume "HasPrefix c ''.''"
  then obtain t where c: "c = CHR ''.'' # t" by (auto simp: prefix_def)
  show "domainMatches c (drop 1 c) (drop 1 c)" by (simp add: c domainMatches_def)
  have "\<not> suffix c t" using suffix_length_le [of c t] by (auto simp: c)
  then show "\<not> domainCovered (drop 1 c) [c]" by (auto simp: domainCovered_def c)
next
  let ?p = "empty_proxyRoute\<lparr>pr_Domain := ''example.com'', pr_Injector := ''none''\<rparr>"
  let ?s = "credential_route (rc_Spec suffix_cred)"
  have "generateProxyConfig [suffix_cred] [(''m'', mcp_at ''https://example.com/mcp'' [])] None (Some []) = Inr [?p, ?s]"
    "MatchRoute \<lparr>Routes = map route_of [?p, ?s]\<rparr> ''example.com:443'' ''/mcp'' = Some (route_of ?p)"
    "r_Injector (route_of ?p) = ''none''"
    "MatchRoute \<lparr>Routes = [route_of ?s]\<rparr> ''example.com:443'' ''/mcp'' = Some (route_of ?s)"
    by code_simp+
  then show "\<exists>routes q. generateProxyConfig [suffix_cred] [(''m'', mcp_at ''https://example.com/mcp'' [])] None (Some []) = Inr routes \<and>
      route_of ?s \<in> route_of ` set routes \<and>
      MatchRoute \<lparr>Routes = map route_of routes\<rparr> ''example.com:443'' ''/mcp'' = Some q \<and> r_Injector q = ''none'' \<and>
      MatchRoute \<lparr>Routes = [route_of ?s]\<rparr> ''example.com:443'' ''/mcp'' = Some (route_of ?s)"
    by (intro exI [of _ "[?p, ?s]"] exI [of _ "route_of ?p"]) simp
qed

theorem apex_of_suffix_is_shadowed_witness:
  "domainMatches ''.a.io'' ''a.io'' ''a.io'' \<and> \<not> domainCovered ''a.io'' [''.a.io'']"
  using spec [OF conjunct1 [OF apex_of_suffix_is_shadowed], of "''.a.io''"] by simp

definition named_bearer :: "string \<Rightarrow> string \<Rightarrow> resolvedCredential" where
  "named_bearer n d = \<lparr>rc_Spec = empty_CredentialSpec\<lparr>cs_Name := n, cs_Type := CredentialTypeBearer, cs_Domain := d\<rparr>,
     rc_KubeConfig = None\<rparr>"

text \<open>
  The table is not a function of the resource alone. Go ranges over the MCP server map in an
  unspecified order, and when two servers on one host refer to different credentials the first one
  visited claims the host: the two orders of the same map give tables that inject different
  credentials for it.
\<close>

theorem table_depends_on_map_order:
  "\<exists>creds mcps mcps' t t' q q'.
     mset mcps = mset mcps' \<and> distinct (map fst mcps) \<and>
     generateProxyConfig creds mcps None (Some []) = Inr t \<and> generateProxyConfig creds mcps' None (Some []) = Inr t' \<and>
     MatchRoute \<lparr>Routes = map route_of t\<rparr> ''mcp.io:443'' ''/'' = Some q \<and>
     MatchRoute \<lparr>Routes = map route_of t'\<rparr> ''mcp.io:443'' ''/'' = Some q' \<and>
     r_EnvVar q = ''CRED_A'' \<and> r_EnvVar q' = ''CRED_B''"
proof -
  let ?creds = "[named_bearer ''a'' ''a.io'', named_bearer ''b'' ''b.io'']"
  let ?m = "(''m'', mcp_at ''https://mcp.io/1'' ''a'')" and ?n = "(''n'', mcp_at ''https://mcp.io/2'' ''b'')"
  let ?t = "projr (generateProxyConfig ?creds [?m, ?n] None (Some []))"
  let ?t' = "projr (generateProxyConfig ?creds [?n, ?m] None (Some []))"
  let ?q = "the (MatchRoute \<lparr>Routes = map route_of ?t\<rparr> ''mcp.io:443'' ''/'')"
  let ?q' = "the (MatchRoute \<lparr>Routes = map route_of ?t'\<rparr> ''mcp.io:443'' ''/'')"
  have "generateProxyConfig ?creds [?m, ?n] None (Some []) = Inr ?t"
    "generateProxyConfig ?creds [?n, ?m] None (Some []) = Inr ?t'"
    "MatchRoute \<lparr>Routes = map route_of ?t\<rparr> ''mcp.io:443'' ''/'' = Some ?q"
    "MatchRoute \<lparr>Routes = map route_of ?t'\<rparr> ''mcp.io:443'' ''/'' = Some ?q'"
    "r_EnvVar ?q = ''CRED_A''" "r_EnvVar ?q' = ''CRED_B''"
    by code_simp+
  moreover have "mset [?m, ?n] = mset [?n, ?m]" "distinct (map fst [?m, ?n])" by simp_all
  ultimately show ?thesis by blast
qed

text \<open>
  The hypothesis on MCP servers above is needed: a kubernetes credential referred to by an MCP
  server yields a route without an injector name, which the proxy refuses, so that no server is
  built from that table at all.
\<close>

theorem mcp_reference_to_kubernetes_credential_breaks_proxy:
  assumes "cs_Type (rc_Spec rc) = CredentialTypeKubernetes" and "rc_KubeConfig rc = Some kd" and "kd_Clusters kd = []"
    and "cs_Name (rc_Spec rc) = ''k''" and "cs_Domain (rc_Spec rc) = []"
  shows "\<exists>r. generateProxyConfig [rc] [(''m'', mcp_at ''https://mcp.io/1'' ''k'')] None (Some []) = Inr [r] \<and>
    NewInjector w (route_of r) = Inl (UnknownInjector []) \<and>
    \<not> is_ok (NewServer w pk \<lparr>Routes = [route_of r]\<rparr> cert key)"
proof -
  let ?r = "(buildCredentialRoute (rc_Spec rc))\<lparr>pr_Domain := ''mcp.io'', pr_AllowedPaths := [], pr_DefaultHeaders := []\<rparr>"
  have u: "mcp_domain (mcp_at ''https://mcp.io/1'' ''k'') = Some ''mcp.io''"
    "mcp_URL (mcp_at ''https://mcp.io/1'' ''k'') \<noteq> []" "mcp_CredentialRef (mcp_at ''https://mcp.io/1'' ''k'') = ''k''"
    "\<not> domainCovered ''mcp.io'' [[]]" by code_simp+
  have g: "generateProxyConfig [rc] [(''m'', mcp_at ''https://mcp.io/1'' ''k'')] None (Some []) = Inr [?r]"
    using assms u
    by (simp add: generateProxyConfig_def web_search_routes_def webSearchRoute_def credentialRoutes_def routes_of_def Let_def)
  have n: "NewInjector w (route_of ?r) = Inl (UnknownInjector [])"
    using assms(1) by (simp add: buildCredentialRoute_def route_of_def NewInjector_def empty_proxyRoute_def Let_def)
  then have "\<not> is_ok (NewServer w pk \<lparr>Routes = [route_of ?r]\<rparr> cert key)"
    by (auto simp: NewServer_def is_ok_iff rbind_eq_Inr)
  with g n show ?thesis by blast
qed

definition kube_cred :: resolvedCredential where
  "kube_cred = \<lparr>rc_Spec = empty_CredentialSpec\<lparr>cs_Name := ''k'', cs_Type := CredentialTypeKubernetes\<rparr>,
     rc_KubeConfig = Some \<lparr>kd_Clusters = [], kd_Contexts = [], kd_RawBytes = []\<rparr>\<rparr>"

theorem mcp_reference_to_kubernetes_credential_breaks_proxy_witness:
  "\<exists>r. generateProxyConfig [kube_cred] [(''m'', mcp_at ''https://mcp.io/1'' ''k'')] None (Some []) = Inr [r] \<and>
     NewInjector sample_world (route_of r) = Inl (UnknownInjector [])"
proof -
  have "cs_Type (rc_Spec kube_cred) = CredentialTypeKubernetes" "cs_Name (rc_Spec kube_cred) = ''k''"
    "rc_KubeConfig kube_cred = Some \<lparr>kd_Clusters = [], kd_Contexts = [], kd_RawBytes = []\<rparr>" "cs_Domain (rc_Spec kube_cred) = []"
    by (simp_all add: kube_cred_def empty_CredentialSpec_def)
  then show ?thesis
    using mcp_reference_to_kubernetes_credential_breaks_proxy [of kube_cred _ sample_world] by fastforce
qed

end
